(* ===== verification/Prelude.thy ===== *)
theory Prelude
  imports Complex_Main "HOL-Library.Word" "HOL-Library.Sublist"
begin

text \<open>
  Shared vocabulary of the development: the collections of rewrite rules the component
  theories fill, the result type for code that can raise, a state-and-exception monad for
  code that mutates a store, and generic lemmas on lists used by several components.

  A Python call that can raise is a value of type \<open>'e + 'a\<close> (\<open>Inl\<close> the exception). A
  method that reads and writes a store is a function of the store that returns both its
  result and the store left behind, also when it raises: Python keeps the mutations made
  before the \<open>raise\<close>.
\<close>

named_theorems op_simps \<open>unfolding equations of the operations of a component\<close>
named_theorems inv_intros \<open>preservation of a component's invariant by its operations\<close>

section \<open>Model types of the Python data\<close>

type_synonym uuid = "128 word"
type_synonym datetime = int

text \<open>
  A UUID is its 128-bit value; a timezone-aware UTC datetime is its number of microseconds
  since the epoch, so that the comparisons of the code are those of \<^typ>\<open>int\<close>.
\<close>

section \<open>Results\<close>

definition res_bind :: "'e + 'a \<Rightarrow> ('a \<Rightarrow> 'e + 'b) \<Rightarrow> 'e + 'b" where
  "res_bind m f = (case m of Inl e \<Rightarrow> Inl e | Inr x \<Rightarrow> f x)"

definition is_ok :: "'e + 'a \<Rightarrow> bool" where
  "is_ok m = (case m of Inl _ \<Rightarrow> False | Inr _ \<Rightarrow> True)"

lemma res_bind_simps [simp]:
  "res_bind (Inl e) f = Inl e"
  "res_bind (Inr x) f = f x"
  by (simp_all add: res_bind_def)

lemma is_ok_simps [simp]: "\<not> is_ok (Inl e)" "is_ok (Inr x)"
  by (simp_all add: is_ok_def)

lemma res_bind_Inr_iff: "res_bind m f = Inr y \<longleftrightarrow> (\<exists>x. m = Inr x \<and> f x = Inr y)"
  by (cases m) auto

lemma res_bind_Inl_iff:
  "res_bind m f = Inl e \<longleftrightarrow> m = Inl e \<or> (\<exists>x. m = Inr x \<and> f x = Inl e)"
  by (cases m) auto

lemma is_ok_iff: "is_ok m \<longleftrightarrow> (\<exists>x. m = Inr x)"
  by (cases m) auto

text \<open>A comprehension over a call that can raise stops at the first exception.\<close>

fun map_result :: "('a \<Rightarrow> 'e + 'b) \<Rightarrow> 'a list \<Rightarrow> 'e + 'b list" where
  "map_result f [] = Inr []"
| "map_result f (x # xs) = res_bind (f x) (\<lambda>y. res_bind (map_result f xs) (\<lambda>ys. Inr (y # ys)))"

lemma map_result_total:
  "(\<And>x. x \<in> set xs \<Longrightarrow> f x = Inr (g x)) \<Longrightarrow> map_result f xs = Inr (map g xs)"
  by (induction xs) simp_all

lemma map_result_ok:
  "(\<And>x. x \<in> set xs \<Longrightarrow> \<exists>y. f x = Inr y \<and> P x y) \<Longrightarrow> \<exists>ys. map_result f xs = Inr ys \<and> list_all2 P xs ys"
proof (induction xs)
  case (Cons x xs)
  then obtain y ys where "f x = Inr y" "P x y" "map_result f xs = Inr ys" "list_all2 P xs ys"
    by (metis list.set_intros(1,2))
  then show ?case by auto
qed simp

lemma length_map_result: "map_result f xs = Inr ys \<Longrightarrow> length ys = length xs"
  by (induction xs arbitrary: ys) (auto simp: res_bind_Inr_iff)

section \<open>Code that mutates a store and can raise\<close>

type_synonym ('s, 'e, 'a) action = "'s \<Rightarrow> ('e + 'a) \<times> 's"

definition return :: "'a \<Rightarrow> ('s, 'e, 'a) action" where
  "return x s = (Inr x, s)"

definition throw :: "'e \<Rightarrow> ('s, 'e, 'a) action" where
  "throw e s = (Inl e, s)"

definition lift :: "'e + 'a \<Rightarrow> ('s, 'e, 'a) action" where
  "lift r s = (r, s)"

definition bind :: "('s, 'e, 'a) action \<Rightarrow> ('a \<Rightarrow> ('s, 'e, 'b) action) \<Rightarrow> ('s, 'e, 'b) action" where
  "bind m f s = (case m s of (Inl e, s') \<Rightarrow> (Inl e, s') | (Inr x, s') \<Rightarrow> f x s')"

lemma action_simps [simp]:
  "return x s = (Inr x, s)"
  "throw e s = (Inl e, s)"
  "lift r s = (r, s)"
  by (simp_all add: return_def throw_def lift_def)

lemma bind_eqs:
  "m s = (Inl e, s') \<Longrightarrow> bind m f s = (Inl e, s')"
  "m s = (Inr x, s') \<Longrightarrow> bind m f s = f x s'"
  by (simp_all add: bind_def)

lemma bind_lift [simp]: "bind (lift r) f s = (case r of Inl e \<Rightarrow> (Inl e, s) | Inr x \<Rightarrow> f x s)"
  by (simp add: bind_def split: sum.split)

lemma bind_return [simp]: "bind (return x) f s = f x s"
  by (simp add: bind_def)

lemma bind_throw [simp]: "bind (throw e) f s = (Inl e, s)"
  by (simp add: bind_def)

lemma action_bind_assoc: "bind (bind m f) g s = bind m (\<lambda>x. bind (f x) g) s"
  by (auto simp: bind_def split: sum.split prod.split)

lemma bind_ok_iff:
  "bind m f s = (Inr y, t) \<longleftrightarrow> (\<exists>x s'. m s = (Inr x, s') \<and> f x s' = (Inr y, t))"
  by (auto simp: bind_def split: sum.split prod.split)

text \<open>An action keeps a predicate of the store, whatever it returns.\<close>

definition keeps :: "('s \<Rightarrow> bool) \<Rightarrow> ('s, 'e, 'a) action \<Rightarrow> bool" where
  "keeps P m \<longleftrightarrow> (\<forall>s. P s \<longrightarrow> P (snd (m s)))"

lemma keepsI: "(\<And>s. P s \<Longrightarrow> P (snd (m s))) \<Longrightarrow> keeps P m"
  by (simp add: keeps_def)

lemma keepsD: "keeps P m \<Longrightarrow> P s \<Longrightarrow> P (snd (m s))"
  by (simp add: keeps_def)

lemma keeps_return [inv_intros]: "keeps P (return x)"
  and keeps_throw [inv_intros]: "keeps P (throw e)"
  and keeps_lift [inv_intros]: "keeps P (lift r)"
  by (simp_all add: keeps_def)

lemma keeps_bind [inv_intros]:
  assumes "keeps P m" and "\<And>x. keeps P (f x)"
  shows "keeps P (bind m f)"
proof (rule keepsI)
  fix s assume "P s"
  with assms(1) have P': "P (snd (m s))" by (rule keepsD)
  show "P (snd (bind m f s))"
    using P' assms(2) by (cases "m s") (auto simp: bind_def keeps_def split: sum.split)
qed

lemma keeps_if [inv_intros]: "keeps P m \<Longrightarrow> keeps P n \<Longrightarrow> keeps P (if b then m else n)"
  by simp

lemma keeps_case_option [inv_intros]:
  "keeps P m \<Longrightarrow> (\<And>x. keeps P (f x)) \<Longrightarrow> keeps P (case opt of None \<Rightarrow> m | Some x \<Rightarrow> f x)"
  by (cases opt) simp_all

section \<open>Rows of a table\<close>

text \<open>
  A table is the list of its rows. A \<open>SELECT ... WHERE\<close> is a filter, an \<open>UPDATE ... WHERE\<close>
  maps the rows that satisfy the condition, an \<open>INSERT\<close> appends one row.
\<close>

definition update_where :: "('r \<Rightarrow> bool) \<Rightarrow> ('r \<Rightarrow> 'r) \<Rightarrow> 'r list \<Rightarrow> 'r list" where
  "update_where P f rs = map (\<lambda>r. if P r then f r else r) rs"

definition row_count :: "('r \<Rightarrow> bool) \<Rightarrow> 'r list \<Rightarrow> nat" where
  "row_count P rs = length (filter P rs)"

definition by_key :: "('r \<Rightarrow> 'k) \<Rightarrow> 'k \<Rightarrow> 'r list \<Rightarrow> 'r option" where
  "by_key key k rs = find (\<lambda>r. key r = k) rs"

lemma update_where_simps [simp]:
  "update_where P f [] = []"
  "update_where P f (r # rs) = (if P r then f r else r) # update_where P f rs"
  by (simp_all add: update_where_def)

lemma length_update_where [simp]: "length (update_where P f rs) = length rs"
  by (simp add: update_where_def)

lemma set_update_where: "set (update_where P f rs) = (\<lambda>r. if P r then f r else r) ` set rs"
  by (simp add: update_where_def)

lemma map_update_where:
  "(\<And>r. P r \<Longrightarrow> key (f r) = key r) \<Longrightarrow> map key (update_where P f rs) = map key rs"
  by (induction rs) auto

lemma image_update_where:
  "(\<And>r. P r \<Longrightarrow> key (f r) = key r) \<Longrightarrow> key ` set (update_where P f rs) = key ` set rs"
  by (metis map_update_where set_map)

lemma ball_update_where:
  "(\<forall>r \<in> set (update_where P f rs). Q r) \<longleftrightarrow> (\<forall>r \<in> set rs. Q (if P r then f r else r))"
  by (auto simp: set_update_where)

lemma update_where_none: "\<forall>r \<in> set rs. \<not> P r \<Longrightarrow> update_where P f rs = rs"
  by (induction rs) auto

lemma row_count_simps [simp]:
  "row_count P [] = 0"
  "row_count P (r # rs) = (if P r then Suc (row_count P rs) else row_count P rs)"
  by (simp_all add: row_count_def)

lemma row_count_pos: "0 < row_count P rs \<longleftrightarrow> (\<exists>r \<in> set rs. P r)"
  by (induction rs) auto

lemma by_key_simps [simp]:
  "by_key key k [] = None"
  "by_key key k (r # rs) = (if key r = k then Some r else by_key key k rs)"
  by (simp_all add: by_key_def)

lemma by_key_None_iff: "by_key key k rs = None \<longleftrightarrow> k \<notin> key ` set rs"
  by (induction rs) auto

lemma by_key_SomeD: "by_key key k rs = Some r \<Longrightarrow> r \<in> set rs \<and> key r = k"
  by (induction rs) (auto split: if_splits)

lemma by_key_mem: "distinct (map key rs) \<Longrightarrow> r \<in> set rs \<Longrightarrow> by_key key (key r) rs = Some r"
  by (induction rs) (auto simp: image_iff)

lemma by_key_append:
  "by_key key k (rs @ ss) = (case by_key key k rs of None \<Rightarrow> by_key key k ss | Some r \<Rightarrow> Some r)"
  by (induction rs) auto

lemma by_key_update_where:
  assumes "\<And>r. P r \<Longrightarrow> key (f r) = key r"
  shows "by_key key k (update_where P f rs)
    = map_option (\<lambda>r. if P r then f r else r) (by_key key k rs)"
  using assms by (induction rs) auto

lemma filter_key_distinct:
  "distinct (map key rs) \<Longrightarrow>
    filter (\<lambda>r. key r = k) rs = (case by_key key k rs of None \<Rightarrow> [] | Some r \<Rightarrow> [r])"
proof (induction rs)
  case Nil
  then show ?case by simp
next
  case (Cons r rs)
  show ?case
  proof (cases "key r = k")
    case True
    with Cons.prems have "k \<notin> key ` set rs" by auto
    then have "filter (\<lambda>r. key r = k) rs = []" by (auto simp: filter_empty_conv)
    with True show ?thesis by simp
  next
    case False
    with Cons show ?thesis by simp
  qed
qed

end
