(* ===== verification/PyDecimal.thy ===== *)
theory PyDecimal
  imports Prelude
begin

text \<open>
  The part of Python's \<^verbatim>\<open>decimal\<close> module the code uses. A finite \<open>Decimal\<close> is an integer
  coefficient and an exponent; every arithmetic operation rounds its exact result to the 28
  significant digits of the default context, ties to even. Signed zeros, infinities, NaNs and
  the exponent limits (one million) are left out: no value of the program reaches them.
\<close>

section \<open>Values\<close>

datatype decimal = Dec (coeff: int) (expo: int)

definition dec_val :: "decimal \<Rightarrow> rat" where
  "dec_val d = of_int (coeff d) * 10 powi (expo d)"

lemma dec_val_Dec: "dec_val (Dec c e) = of_int c * 10 powi e"
  by (simp add: dec_val_def)

lemma dec_val_Dec_0 [simp]: "dec_val (Dec c 0) = of_int c"
  by (simp add: dec_val_def)

text \<open>Python compares decimals by value.\<close>

instantiation decimal :: preorder
begin

definition less_eq_decimal :: "decimal \<Rightarrow> decimal \<Rightarrow> bool" where
  "less_eq_decimal a b \<longleftrightarrow> dec_val a \<le> dec_val b"

definition less_decimal :: "decimal \<Rightarrow> decimal \<Rightarrow> bool" where
  "less_decimal a b \<longleftrightarrow> dec_val a < dec_val b"

instance
  by standard (auto simp: less_eq_decimal_def less_decimal_def)

end

lemmas dec_order = less_eq_decimal_def less_decimal_def

lemma dec_not_le: "\<not> (a :: decimal) \<le> b \<longleftrightarrow> b < a"
  by (auto simp: dec_order)

lemma dec_not_less: "\<not> (a :: decimal) < b \<longleftrightarrow> b \<le> a"
  by (auto simp: dec_order)

definition dec_of_int :: "int \<Rightarrow> decimal" where
  "dec_of_int n = Dec n 0"

definition dec_zero :: decimal where
  "dec_zero = Dec 0 0"

lemma dec_val_of_int [simp]: "dec_val (dec_of_int n) = of_int n"
  by (simp add: dec_of_int_def)

lemma dec_val_zero [simp]: "dec_val dec_zero = 0"
  by (simp add: dec_zero_def)

section \<open>Rounding to 28 digits\<close>

fun ndigits :: "nat \<Rightarrow> nat" where
  "ndigits n = (if n < 10 then 1 else Suc (ndigits (n div 10)))"

declare ndigits.simps [simp del]

definition half_even :: "int \<Rightarrow> int \<Rightarrow> int" where
  "half_even n d =
     (let q = n div d; r = n mod d
      in if 2 * r < d then q else if d < 2 * r then q + 1 else if even q then q else q + 1)"

abbreviation dec_prec :: nat where
  "dec_prec \<equiv> 28"

definition dec_fix :: "decimal \<Rightarrow> decimal" where
  "dec_fix d =
     (let nd = ndigits (nat \<bar>coeff d\<bar>) in
      if nd \<le> dec_prec then d
      else let k = nd - dec_prec; c = half_even (coeff d) (10 ^ k) in
        if ndigits (nat \<bar>c\<bar>) \<le> dec_prec then Dec c (expo d + int k)
        else Dec (c div 10) (expo d + int k + 1))"

text \<open>Numbers that 28 digits can hold.\<close>

definition dec_repr :: "rat \<Rightarrow> bool" where
  "dec_repr x \<longleftrightarrow> (\<exists>m k. x = of_int m * 10 powi k \<and> \<bar>m\<bar> < 10 ^ dec_prec)"

lemma dec_reprI: "x = of_int m * 10 powi k \<Longrightarrow> \<bar>m\<bar> < 10 ^ dec_prec \<Longrightarrow> dec_repr x"
  by (auto simp: dec_repr_def)

lemma ndigits_le_iff: "0 < p \<Longrightarrow> ndigits n \<le> p \<longleftrightarrow> n < 10 ^ p"
proof (induction n arbitrary: p rule: ndigits.induct)
  case (1 n)
  show ?case
  proof (cases "n < 10")
    case True
    have "(10::nat) ^ 1 \<le> 10 ^ p" using "1.prems" by (intro power_increasing) auto
    with True "1.prems" show ?thesis by (simp add: ndigits.simps [of n])
  next
    case False
    show ?thesis
    proof (cases "p = 1")
      case True
      have "0 < ndigits (n div 10)" by (subst ndigits.simps) simp
      with True False show ?thesis by (simp add: ndigits.simps [of n])
    next
      case p1: False
      then obtain q where q: "p = Suc q" "0 < q" using "1.prems" by (cases p) auto
      have "ndigits n \<le> p \<longleftrightarrow> ndigits (n div 10) \<le> q"
        using False q by (simp add: ndigits.simps [of n])
      also have "\<dots> \<longleftrightarrow> n div 10 < 10 ^ q" using "1.IH" False q by simp
      also have "\<dots> \<longleftrightarrow> n < 10 ^ p" using q by (simp add: div_less_iff_less_mult mult.commute)
      finally show ?thesis .
    qed
  qed
qed

lemma half_even_dvd: "d dvd n \<Longrightarrow> 0 < d \<Longrightarrow> half_even n d = n div d"
  by (auto simp: half_even_def Let_def)

lemma half_even_nonneg: "0 \<le> n \<Longrightarrow> 0 < d \<Longrightarrow> 0 \<le> half_even n d"
  by (auto simp: half_even_def Let_def pos_imp_zdiv_nonneg_iff intro: add_nonneg_nonneg)

lemma half_even_error:
  assumes "0 < d"
  shows "2 * \<bar>half_even n d * d - n\<bar> \<le> d"
proof -
  have n: "n = n div d * d + n mod d" by simp
  have r: "0 \<le> n mod d" "n mod d < d" using assms by simp_all
  show ?thesis
  proof (cases "half_even n d = n div d")
    case True
    then have "2 * (n mod d) \<le> d"
      by (auto simp: half_even_def Let_def split: if_splits)
    moreover have "half_even n d * d - n = - (n mod d)"
      using True minus_div_mult_eq_mod [of n d] by simp
    ultimately show ?thesis using r by simp
  next
    case False
    then have *: "half_even n d = n div d + 1" and "d \<le> 2 * (n mod d)"
      by (auto simp: half_even_def Let_def split: if_splits)
    moreover have "half_even n d * d - n = d - n mod d"
      using * minus_div_mult_eq_mod [of n d] by (simp add: algebra_simps)
    ultimately show ?thesis using r by simp
  qed
qed

lemma int_powi_less:
  fixes c m e k :: int
  assumes eq: "of_int c * 10 powi e = (of_int m * 10 powi k :: rat)"
    and lt: "\<bar>m\<bar> < \<bar>c\<bar>"
  shows "\<exists>t. k = e + int t \<and> c = m * 10 ^ t"
proof -
  have "e < k"
  proof (rule ccontr)
    assume "\<not> e < k"
    then have "(10::rat) powi k \<le> 10 powi e" by (simp add: power_int_increasing)
    moreover have "(of_int \<bar>m\<bar> :: rat) < of_int \<bar>c\<bar>" using lt by (simp only: of_int_less_iff)
    ultimately have "of_int \<bar>m\<bar> * (10::rat) powi k < of_int \<bar>c\<bar> * 10 powi e"
      by (intro mult_less_le_imp_less) auto
    moreover have "\<bar>of_int c * (10::rat) powi e\<bar> = of_int \<bar>c\<bar> * 10 powi e"
      and "\<bar>of_int m * (10::rat) powi k\<bar> = of_int \<bar>m\<bar> * 10 powi k"
      by (simp_all add: abs_mult)
    ultimately show False using eq by simp
  qed
  then obtain t where t: "k = e + int t" by (metis zless_iff_Suc_zadd add.assoc)
  have "(of_int c :: rat) = of_int (m * 10 ^ t)"
    using eq by (simp add: t power_int_add)
  then show ?thesis using t by (auto simp only: of_int_eq_iff)
qed

lemma dec_fix_exact:
  assumes "dec_repr (dec_val d)"
  shows "dec_val (dec_fix d) = dec_val d"
proof (cases "ndigits (nat \<bar>coeff d\<bar>) \<le> dec_prec")
  case True
  then show ?thesis by (simp add: dec_fix_def)
next
  case False
  let ?c = "coeff d" and ?e = "expo d"
  define j where "j = ndigits (nat \<bar>?c\<bar>) - dec_prec"
  have nd: "ndigits (nat \<bar>?c\<bar>) = dec_prec + j" using False by (simp add: j_def)
  obtain m k where m: "dec_val d = of_int m * 10 powi k" "\<bar>m\<bar> < 10 ^ dec_prec"
    using assms by (auto simp: dec_repr_def)
  have big: "10 ^ dec_prec \<le> \<bar>?c\<bar>"
    using False by (simp add: ndigits_le_iff nat_less_iff not_less)
  have "of_int ?c * 10 powi ?e = (of_int m * 10 powi k :: rat)"
    using m(1) by (simp add: dec_val_def)
  moreover have "\<bar>m\<bar> < \<bar>?c\<bar>" using m(2) big by simp
  ultimately obtain t where t: "k = ?e + int t" "?c = m * 10 ^ t"
    using int_powi_less by blast
  have "\<bar>?c\<bar> < 10 ^ (dec_prec + t)"
    using m(2) by (simp add: t(2) abs_mult power_add)
  then have "ndigits (nat \<bar>?c\<bar>) \<le> dec_prec + t"
    by (subst ndigits_le_iff) (auto simp: nat_less_iff)
  with nd have jt: "j \<le> t" by simp
  then have dvd: "10 ^ j dvd ?c" by (simp add: t(2) le_imp_power_dvd)
  then obtain q where q: "?c = q * 10 ^ j" by (metis dvdE mult.commute)
  have "\<bar>?c\<bar> < 10 ^ (dec_prec + j)"
    using ndigits_le_iff [of "dec_prec + j" "nat \<bar>?c\<bar>"] nd by (simp add: nat_less_iff)
  then have "\<bar>q\<bar> < 10 ^ dec_prec" by (simp add: q abs_mult power_add)
  then have small: "ndigits (nat \<bar>q\<bar>) \<le> dec_prec"
    by (subst ndigits_le_iff) (auto simp: nat_less_iff)
  have he: "half_even ?c (10 ^ j) = q" using dvd q by (simp add: half_even_dvd)
  have "dec_fix d = Dec q (?e + int j)"
    using False he small by (simp add: dec_fix_def Let_def j_def)
  moreover have "dec_val (Dec q (?e + int j)) = dec_val d"
    by (simp add: dec_val_def q power_int_add)
  ultimately show ?thesis by simp
qed

lemma dec_fix_nonneg: "0 \<le> coeff d \<Longrightarrow> 0 \<le> coeff (dec_fix d)"
  by (auto simp: dec_fix_def Let_def half_even_nonneg pos_imp_zdiv_nonneg_iff)

lemma dec_val_nonneg_iff: "0 \<le> dec_val d \<longleftrightarrow> 0 \<le> coeff d"
proof -
  have "\<not> (10::rat) powi expo d \<le> 0" by (simp add: not_le)
  then show ?thesis by (simp add: dec_val_def zero_le_mult_iff)
qed

lemma dec_val_pos_iff: "0 < dec_val d \<longleftrightarrow> 0 < coeff d"
proof -
  have "\<not> (10::rat) powi expo d < 0" by (simp add: not_less)
  then show ?thesis by (simp add: dec_val_def zero_less_mult_iff)
qed

lemma dec_val_0_iff: "dec_val d = 0 \<longleftrightarrow> coeff d = 0"
  by (simp add: dec_val_def)

section \<open>Arithmetic\<close>

definition dec_add :: "decimal \<Rightarrow> decimal \<Rightarrow> decimal" where
  "dec_add a b =
     (let e = min (expo a) (expo b)
      in dec_fix (Dec (coeff a * 10 ^ nat (expo a - e) + coeff b * 10 ^ nat (expo b - e)) e))"

definition dec_neg :: "decimal \<Rightarrow> decimal" where
  "dec_neg a = Dec (- coeff a) (expo a)"

definition dec_sub :: "decimal \<Rightarrow> decimal \<Rightarrow> decimal" where
  "dec_sub a b = dec_add a (dec_neg b)"

definition dec_mul :: "decimal \<Rightarrow> decimal \<Rightarrow> decimal" where
  "dec_mul a b = dec_fix (Dec (coeff a * coeff b) (expo a + expo b))"

text \<open>
  Division computes one digit more than the precision, marks a remainder in the last digit
  (so that the final rounding cannot see a false tie), and strips trailing zeros of an exact
  quotient towards the ideal exponent. A zero divisor raises, which is \<open>None\<close> here.
\<close>

fun strip_zeros :: "nat \<Rightarrow> int \<Rightarrow> int \<Rightarrow> decimal" where
  "strip_zeros 0 c e = Dec c e"
| "strip_zeros (Suc n) c e = (if 10 dvd c then strip_zeros n (c div 10) (e + 1) else Dec c e)"

definition div_shift :: "decimal \<Rightarrow> decimal \<Rightarrow> int" where
  "div_shift a b =
     int (ndigits (nat \<bar>coeff b\<bar>)) - int (ndigits (nat \<bar>coeff a\<bar>)) + int dec_prec + 1"

definition div_num :: "decimal \<Rightarrow> decimal \<Rightarrow> int" where
  "div_num a b = (if 0 \<le> div_shift a b then \<bar>coeff a\<bar> * 10 ^ nat (div_shift a b) else \<bar>coeff a\<bar>)"

definition div_den :: "decimal \<Rightarrow> decimal \<Rightarrow> int" where
  "div_den a b = (if 0 \<le> div_shift a b then \<bar>coeff b\<bar> else \<bar>coeff b\<bar> * 10 ^ nat (- div_shift a b))"

definition dec_div :: "decimal \<Rightarrow> decimal \<Rightarrow> decimal option" where
  "dec_div a b =
     (if coeff b = 0 then None
      else if coeff a = 0 then Some (Dec 0 (expo a - expo b))
      else
        let s = sgn (coeff a) * sgn (coeff b);
            e = expo a - expo b - div_shift a b;
            q = div_num a b div div_den a b
        in if div_num a b mod div_den a b \<noteq> 0
           then Some (dec_fix (Dec (s * (if 5 dvd q then q + 1 else q)) e))
           else Some (dec_fix (strip_zeros (nat (div_shift a b)) (s * q) e)))"

lemma dec_val_add_raw:
  "of_int (coeff a * 10 ^ nat (expo a - e) + coeff b * 10 ^ nat (expo b - e)) * 10 powi e
    = dec_val a + dec_val b"
  if "e \<le> expo a" "e \<le> expo b"
proof -
  have "(10::rat) ^ nat (x - e) * 10 powi e = 10 powi x" if "e \<le> x" for x
    using that by (simp flip: power_int_of_nat power_int_add)
  with that show ?thesis
    by (simp add: dec_val_def distrib_right mult.assoc)
qed

lemma dec_add_exact:
  assumes "dec_repr (dec_val a + dec_val b)"
  shows "dec_val (dec_add a b) = dec_val a + dec_val b"
proof -
  let ?e = "min (expo a) (expo b)"
  let ?s = "Dec (coeff a * 10 ^ nat (expo a - ?e) + coeff b * 10 ^ nat (expo b - ?e)) ?e"
  have s: "dec_val ?s = dec_val a + dec_val b"
    unfolding dec_val_Dec by (rule dec_val_add_raw) simp_all
  have "dec_val (dec_fix ?s) = dec_val ?s" by (rule dec_fix_exact) (simp only: s assms)
  then show ?thesis by (simp only: dec_add_def Let_def s)
qed

lemma dec_val_neg [simp]: "dec_val (dec_neg a) = - dec_val a"
  by (simp add: dec_neg_def dec_val_def)

lemma dec_sub_exact: "dec_repr (dec_val a - dec_val b) \<Longrightarrow> dec_val (dec_sub a b) = dec_val a - dec_val b"
  by (simp add: dec_sub_def dec_add_exact)

lemma dec_mul_raw: "dec_val (Dec (coeff a * coeff b) (expo a + expo b)) = dec_val a * dec_val b"
  by (simp add: dec_val_def power_int_add)

lemma dec_mul_exact: "dec_repr (dec_val a * dec_val b) \<Longrightarrow> dec_val (dec_mul a b) = dec_val a * dec_val b"
  by (simp add: dec_mul_def dec_fix_exact dec_mul_raw)

lemma dec_add_nonneg: "dec_zero \<le> a \<Longrightarrow> dec_zero \<le> b \<Longrightarrow> dec_zero \<le> dec_add a b"
  by (simp add: dec_order dec_val_nonneg_iff dec_add_def Let_def dec_fix_nonneg)

lemma dec_mul_nonneg: "dec_zero \<le> a \<Longrightarrow> dec_zero \<le> b \<Longrightarrow> dec_zero \<le> dec_mul a b"
  by (simp add: dec_order dec_val_nonneg_iff dec_mul_def dec_fix_nonneg)

lemma strip_zeros_val: "dec_val (strip_zeros n c e) = dec_val (Dec c e)"
proof (induction n c e rule: strip_zeros.induct)
  case (2 n c e)
  show ?case
  proof (cases "10 dvd c")
    case True
    then obtain k where "c = 10 * k" by (auto elim: dvdE)
    with 2 show ?thesis by (simp add: dec_val_def power_int_add)
  qed simp
qed simp

lemma strip_zeros_nonneg: "0 \<le> c \<Longrightarrow> 0 \<le> coeff (strip_zeros n c e)"
  by (induction n c e rule: strip_zeros.induct) (auto simp: pos_imp_zdiv_nonneg_iff)

lemma div_quot_nonneg: "coeff b \<noteq> 0 \<Longrightarrow> 0 \<le> div_num a b div div_den a b"
  by (auto simp: div_num_def div_den_def intro!: div_int_pos_iff [THEN iffD2])

lemma dec_div_nonneg:
  assumes "dec_zero \<le> a" "dec_zero < b"
  shows "\<exists>q. dec_div a b = Some q \<and> dec_zero \<le> q"
proof -
  have a: "0 \<le> coeff a" and b: "0 < coeff b"
    using assms by (simp_all add: dec_order dec_val_nonneg_iff dec_val_pos_iff)
  have q: "0 \<le> div_num a b div div_den a b" using b by (intro div_quot_nonneg) simp
  have s: "0 \<le> sgn (coeff a) * sgn (coeff b)" using a b by (simp add: sgn_if)
  show ?thesis
  proof (cases "coeff a = 0")
    case True
    with b show ?thesis by (simp add: dec_div_def dec_order dec_val_nonneg_iff)
  next
    case False
    have "0 \<le> coeff (dec_fix (Dec (sgn (coeff a) * sgn (coeff b) * x) e))" if "0 \<le> x" for x e
      using s that by (intro dec_fix_nonneg) (simp only: decimal.sel mult_nonneg_nonneg)
    moreover have "0 \<le> coeff (dec_fix (strip_zeros n (sgn (coeff a) * sgn (coeff b) * x) e))"
      if "0 \<le> x" for x e n
      using s that by (intro dec_fix_nonneg strip_zeros_nonneg) (simp only: mult_nonneg_nonneg)
    ultimately show ?thesis
      using False b q by (simp add: dec_div_def Let_def dec_order dec_val_nonneg_iff)
  qed
qed

lemma ndigits_pos: "0 < ndigits n"
  by (subst ndigits.simps) simp

lemma ndigits_bounds:
  assumes "0 < n"
  shows "n < 10 ^ ndigits n" and "10 ^ (ndigits n - 1) \<le> n"
proof -
  show "n < 10 ^ ndigits n" using ndigits_le_iff [of "ndigits n" n] ndigits_pos by simp
  show "10 ^ (ndigits n - 1) \<le> n"
  proof (cases "ndigits n = 1")
    case False
    then have "0 < ndigits n - 1" "\<not> ndigits n \<le> ndigits n - 1" using ndigits_pos [of n] by auto
    then show ?thesis by (simp add: ndigits_le_iff)
  qed (use assms in simp)
qed

text \<open>The scaled quotient has more digits than the precision.\<close>

lemma scaled_quotient_big:
  fixes n d :: int
  assumes n: "0 < n" and d: "0 < d"
    and sh: "shift = int (ndigits (nat d)) - int (ndigits (nat n)) + int p + 1"
  shows "10 ^ p < (of_int n / of_int d) * (10::rat) powi shift"
proof -
  let ?ln = "ndigits (nat n)" and ?ld = "ndigits (nat d)"
  have "10 ^ (?ln - 1) \<le> nat n" "nat d < 10 ^ ?ld"
    using ndigits_bounds [of "nat n"] ndigits_bounds [of "nat d"] n d by simp_all
  then have "(10::int) ^ (?ln - 1) \<le> n" "d < 10 ^ ?ld"
    using n d by (simp_all add: le_nat_iff nat_less_iff)
  then have bn: "(10::rat) ^ (?ln - 1) \<le> of_int n" and bd: "(of_int d :: rat) < 10 ^ ?ld"
    by (metis of_int_le_iff of_int_numeral of_int_power, metis of_int_less_iff of_int_numeral of_int_power)
  have "(10::rat) ^ (?ln - 1) / 10 ^ ?ld < of_int n / of_int d"
    using bn bd d by (intro frac_less2) simp_all
  then have "(10::rat) ^ (?ln - 1) / 10 ^ ?ld * 10 powi shift < of_int n / of_int d * 10 powi shift"
    by (rule mult_strict_right_mono) simp
  moreover have "(10::rat) ^ (?ln - 1) / 10 ^ ?ld * 10 powi shift = 10 ^ p"
  proof -
    have "(10::rat) ^ (?ln - 1) / 10 ^ ?ld * 10 powi shift
      = 10 powi (int (?ln - 1) - int ?ld + shift)"
      by (simp add: power_int_add power_int_diff)
    also have "int (?ln - 1) - int ?ld + shift = int p"
      using ndigits_pos [of "nat n"] by (simp add: sh of_nat_diff)
    finally show ?thesis by simp
  qed
  ultimately show ?thesis by simp
qed

lemma div_ratio:
  assumes "coeff b \<noteq> 0"
  shows "of_int (div_num a b) / of_int (div_den a b)
    = of_int \<bar>coeff a\<bar> / of_int \<bar>coeff b\<bar> * (10::rat) powi div_shift a b"
proof (cases "0 \<le> div_shift a b")
  case True
  then have "(10::rat) powi div_shift a b = 10 ^ nat (div_shift a b)"
    by (simp add: power_int_def)
  with True show ?thesis by (simp add: div_num_def div_den_def)
next
  case False
  then have "(10::rat) powi div_shift a b = 1 / 10 ^ nat (- div_shift a b)"
    by (simp add: power_int_def field_simps)
  with False show ?thesis by (simp add: div_num_def div_den_def)
qed

lemma dec_div_exact:
  assumes b: "coeff b \<noteq> 0" and r: "dec_repr (dec_val a / dec_val b)"
  shows "\<exists>q. dec_div a b = Some q \<and> dec_val q = dec_val a / dec_val b"
proof (cases "coeff a = 0")
  case True
  with b show ?thesis by (simp add: dec_div_def dec_val_def)
next
  case a: False
  define e where "e = expo a - expo b - div_shift a b"
  define s where "s = sgn (coeff a) * sgn (coeff b)"
  let ?R = "of_int (div_num a b) / (of_int (div_den a b) :: rat)"
  have den: "0 < div_den a b" using b by (auto simp: div_den_def)
  have s2: "of_int s * of_int \<bar>coeff a\<bar> / (of_int \<bar>coeff b\<bar> :: rat) = of_int (coeff a) / of_int (coeff b)"
    using a b by (auto simp: s_def sgn_if abs_if)
  have val: "dec_val a / dec_val b = of_int s * (?R * 10 powi e)"
  proof -
    have "of_int s * (?R * 10 powi e)
      = of_int s * of_int \<bar>coeff a\<bar> / of_int \<bar>coeff b\<bar> * 10 powi (expo a - expo b)"
      by (simp add: div_ratio [OF b] e_def power_int_diff)
    then show ?thesis unfolding s2 by (simp add: dec_val_def power_int_diff)
  qed
  obtain m k where mk: "dec_val a / dec_val b = of_int m * 10 powi k" "\<bar>m\<bar> < 10 ^ dec_prec"
    using r by (auto simp: dec_repr_def)
  have s1: "\<bar>of_int s :: rat\<bar> = 1" using a b by (simp add: s_def sgn_if)
  have R0: "0 < ?R" and big: "10 ^ dec_prec < ?R"
    using scaled_quotient_big [of "\<bar>coeff a\<bar>" "\<bar>coeff b\<bar>" "div_shift a b" dec_prec] a b
    by (simp_all add: div_ratio div_shift_def)
  have abs_eq: "?R * 10 powi e = of_int \<bar>m\<bar> * 10 powi k"
  proof -
    have "\<bar>of_int m * 10 powi k\<bar> = \<bar>of_int s :: rat\<bar> * \<bar>?R * 10 powi e\<bar>"
      using val mk(1) by (simp only: abs_mult)
    also have "\<dots> = ?R * 10 powi e" using R0 by (simp only: s1 abs_of_pos mult_pos_pos zero_less_power_int zero_less_numeral mult_1)
    finally show ?thesis by (simp add: abs_mult)
  qed
  have "e < k"
  proof (rule ccontr)
    assume "\<not> e < k"
    then have "(10::rat) powi k \<le> 10 powi e" by (simp add: power_int_increasing)
    moreover have "(of_int \<bar>m\<bar> :: rat) < 10 ^ dec_prec"
      using mk(2) by (metis of_int_less_iff of_int_numeral of_int_power)
    ultimately have "of_int \<bar>m\<bar> * (10::rat) powi k < ?R * 10 powi e"
      using big by (intro mult_less_le_imp_less) auto
    then show False using abs_eq by simp
  qed
  then obtain t where t: "k = e + int (Suc t)" by (metis zless_iff_Suc_zadd)
  have R: "?R = of_int (\<bar>m\<bar> * 10 ^ Suc t)"
  proof -
    have "?R * 10 powi e = of_int (\<bar>m\<bar> * 10 ^ Suc t) * 10 powi e"
      unfolding abs_eq t by (simp add: power_int_add)
    then show ?thesis by (rule mult_right_cancel [THEN iffD1, rotated]) simp
  qed
  then have "of_int (div_num a b) = (of_int (\<bar>m\<bar> * 10 ^ Suc t * div_den a b) :: rat)"
    using den by (simp add: field_simps)
  then have num: "div_num a b = \<bar>m\<bar> * 10 ^ Suc t * div_den a b" by (simp only: of_int_eq_iff)
  then have rem: "div_num a b mod div_den a b = 0" by simp
  have quo: "of_int (div_num a b div div_den a b) = ?R" using num den R by simp
  let ?S = "strip_zeros (nat (div_shift a b)) (s * (div_num a b div div_den a b)) e"
  have S: "dec_val ?S = dec_val a / dec_val b"
    by (simp add: strip_zeros_val dec_val_Dec quo val)
  have "dec_div a b = Some (dec_fix ?S)"
    using a b rem by (simp add: dec_div_def Let_def s_def e_def)
  moreover have "dec_val (dec_fix ?S) = dec_val a / dec_val b"
    using dec_fix_exact [of ?S] r by (simp only: S)
  ultimately show ?thesis by blast
qed

section \<open>Conversion to an integer\<close>

text \<open>\<^verbatim>\<open>d.to_integral_value()\<close> rounds half to even; \<^verbatim>\<open>int(...)\<close> of the result is exact.\<close>

definition dec_to_integral :: "decimal \<Rightarrow> int" where
  "dec_to_integral d =
     (if 0 \<le> expo d then coeff d * 10 ^ nat (expo d) else half_even (coeff d) (10 ^ nat (- expo d)))"

lemma dec_to_integral_error: "2 * \<bar>of_int (dec_to_integral d) - dec_val d\<bar> \<le> 1"
proof (cases "0 \<le> expo d")
  case True
  then have "(10::rat) powi expo d = 10 ^ nat (expo d)" by (simp add: power_int_def)
  with True show ?thesis by (simp add: dec_to_integral_def dec_val_def)
next
  case False
  let ?D = "10 ^ nat (- expo d) :: int" and ?h = "half_even (coeff d) (10 ^ nat (- expo d))"
  have p: "(10::rat) powi expo d = 1 / of_int ?D"
    using False by (simp add: power_int_def field_simps)
  have D: "0 < (of_int ?D :: rat)" by simp
  have "2 * \<bar>?h * ?D - coeff d\<bar> \<le> ?D" by (rule half_even_error) simp
  then have "of_int (2 * \<bar>?h * ?D - coeff d\<bar>) \<le> (of_int ?D :: rat)" by (simp only: of_int_le_iff)
  then have e: "2 * \<bar>of_int ?h * of_int ?D - of_int (coeff d)\<bar> \<le> (of_int ?D :: rat)" by simp
  have "of_int (dec_to_integral d) - dec_val d = (of_int ?h * of_int ?D - of_int (coeff d)) / of_int ?D"
    using False D by (simp add: dec_to_integral_def dec_val_def p diff_divide_distrib)
  then have "2 * \<bar>of_int (dec_to_integral d) - dec_val d\<bar>
    = 2 * \<bar>of_int ?h * of_int ?D - of_int (coeff d)\<bar> / of_int ?D"
    using D by (simp only: abs_divide abs_of_pos times_divide_eq_right)
  also have "\<dots> \<le> 1" using e D by (simp only: divide_le_eq_1_pos)
  finally show ?thesis .
qed

lemma dec_to_integral_exact: "dec_val d = of_int n \<Longrightarrow> dec_to_integral d = n"
proof -
  assume "dec_val d = of_int n"
  then have "2 * \<bar>of_int (dec_to_integral d) - of_int n\<bar> \<le> (1::rat)"
    using dec_to_integral_error [of d] by simp
  then have "of_int (2 * \<bar>dec_to_integral d - n\<bar>) \<le> (of_int 1 :: rat)" by simp
  then have "2 * \<bar>dec_to_integral d - n\<bar> \<le> 1" by (simp only: of_int_le_iff)
  then show ?thesis by arith
qed

section \<open>Values on a decimal grid\<close>

text \<open>
  \<open>on_grid p x\<close>: \<open>x\<close> is a multiple of \<open>10\<^sup>-\<^sup>p\<close>. The bound lemmas below turn a size bound on such a
  value into exactness of the arithmetic.
\<close>

definition on_grid :: "nat \<Rightarrow> rat \<Rightarrow> bool" where
  "on_grid p x \<longleftrightarrow> x * 10 ^ p \<in> \<int>"

lemma on_grid_repr:
  assumes "on_grid p x" "\<bar>x\<bar> * 10 ^ p < 10 ^ dec_prec"
  shows "dec_repr x"
proof -
  obtain m where m: "x * 10 ^ p = of_int m" using assms(1) by (auto simp: on_grid_def elim: Ints_cases)
  have "x = of_int m * 10 powi (- int p)"
    by (simp flip: m add: power_int_minus)
  moreover have "\<bar>m\<bar> < 10 ^ dec_prec"
  proof -
    have "of_int \<bar>m\<bar> = \<bar>x\<bar> * (10 ^ p :: rat)" by (simp flip: m add: abs_mult)
    then have "(of_int \<bar>m\<bar> :: rat) < of_int (10 ^ dec_prec)" using assms(2) by simp
    then show ?thesis by (simp only: of_int_less_iff)
  qed
  ultimately show ?thesis by (rule dec_reprI)
qed

lemma on_grid_add: "on_grid p x \<Longrightarrow> on_grid p y \<Longrightarrow> on_grid p (x + y)"
  by (simp add: on_grid_def distrib_right)

lemma on_grid_diff: "on_grid p x \<Longrightarrow> on_grid p y \<Longrightarrow> on_grid p (x - y)"
  by (simp add: on_grid_def left_diff_distrib)

lemma on_grid_int_mult: "on_grid p x \<Longrightarrow> on_grid p (of_int n * x)"
  by (simp add: on_grid_def mult.assoc)

lemma on_grid_of_int: "on_grid p (of_int n)"
  by (simp add: on_grid_def)

lemma on_grid_div_pow: "on_grid p x \<Longrightarrow> on_grid (p + k) (x / 10 ^ k)"
  by (simp add: on_grid_def power_add)

lemma on_grid_mono: "on_grid p x \<Longrightarrow> p \<le> q \<Longrightarrow> on_grid q x"
proof -
  assume g: "on_grid p x" and le: "p \<le> q"
  have "x * 10 ^ p * of_int (10 ^ (q - p)) \<in> \<int>"
    by (rule Ints_mult) (use g in \<open>simp_all only: on_grid_def Ints_of_int\<close>)
  moreover have "x * 10 ^ p * of_int (10 ^ (q - p)) = x * (10 ^ q :: rat)"
    using le by (simp flip: power_add)
  ultimately show ?thesis by (simp only: on_grid_def)
qed

lemma on_grid_0 [simp]: "on_grid p 0"
  by (simp add: on_grid_def)

end
