(* ===== verification/DomainErrors.thy ===== *)
theory DomainErrors
  imports PyDecimal PyText
begin

text \<open>
  The exceptions of the program. \<open>domain_kind\<close> is the hierarchy of
  \<^verbatim>\<open>app/service/domain/errors.py\<close> with the two class attributes every subclass sets, its
  machine-readable code and its HTTP status; \<open>exn\<close> adds the Python, database and HTTP
  exceptions the modelled code can raise.
\<close>

datatype domain_kind =
    DomainError
  | NotFound
  | Forbidden
  | Conflict
  | InvalidApiKey
  | InsufficientCredits
  | BudgetExceeded
  | RateLimited
  | GuardrailViolation
  | ProviderError

fun error_code :: "domain_kind \<Rightarrow> string" where
  "error_code DomainError = ''domain_error''"
| "error_code NotFound = ''not_found''"
| "error_code Forbidden = ''forbidden''"
| "error_code Conflict = ''conflict''"
| "error_code InvalidApiKey = ''invalid_api_key''"
| "error_code InsufficientCredits = ''insufficient_credits''"
| "error_code BudgetExceeded = ''budget_exceeded''"
| "error_code RateLimited = ''rate_limit_exceeded''"
| "error_code GuardrailViolation = ''guardrail_violation''"
| "error_code ProviderError = ''provider_error''"

fun http_status :: "domain_kind \<Rightarrow> int" where
  "http_status DomainError = 400"
| "http_status NotFound = 404"
| "http_status Forbidden = 403"
| "http_status Conflict = 409"
| "http_status InvalidApiKey = 401"
| "http_status InsufficientCredits = 402"
| "http_status BudgetExceeded = 402"
| "http_status RateLimited = 429"
| "http_status GuardrailViolation = 400"
| "http_status ProviderError = 502"

text \<open>
  \<open>Domain k msg\<close> is an instance of the domain error class \<open>k\<close>; \<open>DbError\<close> is what the driver
  raises for a violated constraint or a value a column cannot hold; \<open>HttpError\<close> is FastAPI's
  \<^verbatim>\<open>HTTPException\<close>.
\<close>

datatype exn =
    Domain domain_kind string
  | ValueError string
  | KeyError string
  | TypeError string
  | AttributeError string
  | IndexError
  | RuntimeError string
  | AssertionError
  | DivisionByZero
  | InvalidOperation
  | DbError string
  | MultipleResultsFound
  | HttpError int string
  | OverflowError string

type_synonym 'a result = "exn + 'a"

fun is_domain :: "exn \<Rightarrow> bool" where
  "is_domain (Domain k m) = True"
| "is_domain e = False"

lemma error_code_nonempty: "error_code k \<noteq> []"
  by (cases k) simp_all

lemma error_code_inj: "error_code k = error_code k' \<longleftrightarrow> k = k'"
  by (cases k; cases k') simp_all

lemma http_status_range: "400 \<le> http_status k \<and> http_status k < 600"
  by (cases k) simp_all

text \<open>Every domain error but a provider failure is reported as a client error.\<close>

lemma http_status_client: "http_status k < 500 \<longleftrightarrow> k \<noteq> ProviderError"
  by (cases k) simp_all

end
