(* ===== verification/ValueObjects.thy ===== *)
theory ValueObjects
  imports DomainErrors
begin

text \<open>
  The immutable value objects of \<^verbatim>\<open>app/service/domain/value_objects.py\<close>: money, token counts and
  per-million-token prices, with the cost of a request. The lemmas give the exact cost under
  the size bounds of the pricing columns, its sign, and its monotonicity in the token counts.
\<close>

section \<open>Money\<close>

record money =
  amount :: decimal

definition Money :: "decimal \<Rightarrow> money result" where
  "Money d = (if d < dec_zero then Inl (ValueError ''Money cannot be negative'') else Inr \<lparr>amount = d\<rparr>)"

definition money_add :: "money \<Rightarrow> money \<Rightarrow> money result" where
  "money_add a b = Money (dec_add (amount a) (amount b))"

definition money_sub :: "money \<Rightarrow> money \<Rightarrow> money result" where
  "money_sub a b =
     (let r = dec_sub (amount a) (amount b)
      in if r < dec_zero then Inl (ValueError ''Money subtraction yielded negative'') else Money r)"

definition money_zero :: money where
  "money_zero = \<lparr>amount = dec_zero\<rparr>"

definition money_ok :: "money \<Rightarrow> bool" where
  "money_ok m \<longleftrightarrow> dec_zero \<le> amount m"

lemma Money_ok: "Money d = Inr m \<Longrightarrow> money_ok m \<and> amount m = d"
  by (auto simp: Money_def money_ok_def dec_not_less split: if_splits)

lemma Money_Inr_iff: "Money d = Inr m \<longleftrightarrow> dec_zero \<le> d \<and> m = \<lparr>amount = d\<rparr>"
  by (auto simp: Money_def dec_not_less split: if_splits) (simp add: dec_order)

lemma money_zero_ok [simp]: "money_ok money_zero"
  by (simp add: money_ok_def money_zero_def)

section \<open>Token counts\<close>

record token_counts =
  tc_input :: int
  tc_output :: int
  tc_cached_input :: int
  tc_reasoning :: int

definition tc_total :: "token_counts \<Rightarrow> int" where
  "tc_total t = tc_input t + tc_output t + tc_reasoning t"

section \<open>Pricing\<close>

record model_pricing =
  input_per_million :: decimal
  output_per_million :: decimal
  cached_input_per_million :: "decimal option"
  reasoning_per_million :: "decimal option"

text \<open>\<^verbatim>\<open>Decimal(n) * price / Decimal("1000000")\<close>, as it occurs four times in \<^verbatim>\<open>cost\<close>.\<close>

definition token_charge :: "int \<Rightarrow> decimal \<Rightarrow> decimal result" where
  "token_charge n price =
     (case dec_div (dec_mul (dec_of_int n) price) (dec_of_int 1000000) of
        None \<Rightarrow> Inl DivisionByZero | Some d \<Rightarrow> Inr d)"

definition add_optional_charge :: "int \<Rightarrow> decimal option \<Rightarrow> decimal \<Rightarrow> decimal result" where
  "add_optional_charge n price acc =
     (case price of
        None \<Rightarrow> Inr acc
      | Some p \<Rightarrow>
          if n \<noteq> 0 then res_bind (token_charge n p) (\<lambda>c. Inr (dec_add acc c)) else Inr acc)"

definition cost :: "model_pricing \<Rightarrow> token_counts \<Rightarrow> money result" where
  "cost p t =
     res_bind (token_charge (tc_input t) (input_per_million p)) (\<lambda>ci.
     res_bind (token_charge (tc_output t) (output_per_million p)) (\<lambda>co.
     res_bind (add_optional_charge (tc_cached_input t) (cached_input_per_million p) (dec_add ci co)) (\<lambda>t1.
     res_bind (add_optional_charge (tc_reasoning t) (reasoning_per_million p) t1) Money)))"

section \<open>The exact price\<close>

text \<open>The real-valued price the code means to compute.\<close>

definition opt_price :: "decimal option \<Rightarrow> rat" where
  "opt_price p = (case p of None \<Rightarrow> 0 | Some d \<Rightarrow> dec_val d)"

definition exact_cost :: "model_pricing \<Rightarrow> token_counts \<Rightarrow> rat" where
  "exact_cost p t =
     (of_int (tc_input t) * dec_val (input_per_million p)
      + of_int (tc_output t) * dec_val (output_per_million p)
      + of_int (tc_cached_input t) * opt_price (cached_input_per_million p)
      + of_int (tc_reasoning t) * opt_price (reasoning_per_million p)) / 10 ^ 6"

text \<open>A price as the \<open>NUMERIC(14, 6)\<close> columns of \<^verbatim>\<open>model_pricing\<close> hold it: six decimals, below $10^8$.\<close>

definition price_ok :: "decimal \<Rightarrow> bool" where
  "price_ok d \<longleftrightarrow> dec_zero \<le> d \<and> on_grid 6 (dec_val d) \<and> dec_val d < 10 ^ 8"

definition pricing_ok :: "model_pricing \<Rightarrow> bool" where
  "pricing_ok p \<longleftrightarrow> price_ok (input_per_million p) \<and> price_ok (output_per_million p)
     \<and> pred_option price_ok (cached_input_per_million p)
     \<and> pred_option price_ok (reasoning_per_million p)"

definition count_ok :: "int \<Rightarrow> bool" where
  "count_ok n \<longleftrightarrow> 0 \<le> n \<and> n < 10 ^ 12"

definition counts_ok :: "token_counts \<Rightarrow> bool" where
  "counts_ok t \<longleftrightarrow> count_ok (tc_input t) \<and> count_ok (tc_output t)
     \<and> count_ok (tc_cached_input t) \<and> count_ok (tc_reasoning t)"

text \<open>A nonnegative amount with twelve decimals below a bound; small enough sums stay exact.\<close>

definition charge_ok :: "rat \<Rightarrow> rat \<Rightarrow> bool" where
  "charge_ok b x \<longleftrightarrow> 0 \<le> x \<and> on_grid 12 x \<and> x \<le> b"

lemma charge_ok_repr: "charge_ok b x \<Longrightarrow> b < 10 ^ 16 \<Longrightarrow> dec_repr x"
proof (rule on_grid_repr [where p = 12])
  assume "charge_ok b x" "b < 10 ^ 16"
  then have "x < 10 ^ 16" "0 \<le> x" by (auto simp: charge_ok_def)
  then show "\<bar>x\<bar> * 10 ^ 12 < 10 ^ dec_prec" by simp
qed (simp add: charge_ok_def)

lemma charge_ok_add: "charge_ok a x \<Longrightarrow> charge_ok b y \<Longrightarrow> charge_ok (a + b) (x + y)"
  by (auto simp: charge_ok_def on_grid_add)

lemma exact_charge:
  assumes "price_ok p" "count_ok n"
  shows "charge_ok (10 ^ 14) (of_int n * dec_val p / 10 ^ 6)"
proof -
  have n: "0 \<le> (of_int n :: rat)" "of_int n \<le> (10 ^ 12 :: rat)"
    using assms(2) by (simp_all add: count_ok_def)
  have p: "0 \<le> dec_val p" "dec_val p \<le> 10 ^ 8" "on_grid 6 (dec_val p)"
    using assms(1) by (simp_all add: price_ok_def dec_order)
  have "of_int n * dec_val p \<le> 10 ^ 12 * (10 ^ 8 :: rat)" by (rule mult_mono) (use n p in auto)
  moreover have "on_grid (6 + 6) (of_int n * dec_val p / 10 ^ 6)"
    by (intro on_grid_div_pow on_grid_int_mult p)
  ultimately show ?thesis using n p by (simp add: charge_ok_def)
qed

lemma token_charge_exact:
  assumes "price_ok p" "count_ok n"
  shows "\<exists>d. token_charge n p = Inr d \<and> dec_val d = of_int n * dec_val p / 10 ^ 6"
proof -
  let ?x = "of_int n * dec_val p"
  have c: "charge_ok (10 ^ 14) (?x / 10 ^ 6)" using assms by (rule exact_charge)
  have "on_grid 6 ?x" using assms(1) by (simp add: price_ok_def on_grid_int_mult)
  then have "on_grid 12 ?x" by (rule on_grid_mono) simp
  moreover have "0 \<le> ?x" "?x \<le> 10 ^ 20" using c by (simp_all add: charge_ok_def)
  ultimately have "dec_repr ?x"
    using on_grid_repr [of 6 ?x] \<open>on_grid 6 ?x\<close> by simp
  then have m: "dec_val (dec_mul (dec_of_int n) p) = ?x" by (simp add: dec_mul_exact)
  have r: "dec_repr (?x / 10 ^ 6)" using c by (rule charge_ok_repr) simp
  have "\<exists>q. dec_div (dec_mul (dec_of_int n) p) (dec_of_int 1000000) = Some q
      \<and> dec_val q = dec_val (dec_mul (dec_of_int n) p) / dec_val (dec_of_int 1000000)"
    by (rule dec_div_exact) (use r m in \<open>simp_all add: dec_of_int_def\<close>)
  then show ?thesis by (auto simp: token_charge_def m)
qed

lemma add_optional_charge_exact:
  assumes "pred_option price_ok p" "count_ok n" "charge_ok b (dec_val acc)" "b \<le> 10 ^ 15"
  shows "\<exists>d. add_optional_charge n p acc = Inr d
    \<and> dec_val d = dec_val acc + of_int n * opt_price p / 10 ^ 6 \<and> charge_ok (b + 10 ^ 14) (dec_val d)"
proof (cases "p = None \<or> n = 0")
  case True
  then have "add_optional_charge n p acc = Inr acc" "of_int n * opt_price p = 0"
    by (auto simp: add_optional_charge_def opt_price_def split: option.split)
  with assms(3) show ?thesis by (auto simp: charge_ok_def)
next
  case False
  then obtain q where q: "p = Some q" by auto
  with assms have "price_ok q" by simp
  with assms(2) obtain d where d: "token_charge n q = Inr d" "dec_val d = of_int n * dec_val q / 10 ^ 6"
    using token_charge_exact by blast
  have "charge_ok (b + 10 ^ 14) (dec_val acc + dec_val d)"
    unfolding d(2) by (intro charge_ok_add assms exact_charge \<open>price_ok q\<close>)
  moreover from this have "dec_repr (dec_val acc + dec_val d)"
    by (rule charge_ok_repr) (use assms(4) in simp)
  then have "dec_val (dec_add acc d) = dec_val acc + dec_val d" by (rule dec_add_exact)
  ultimately have "charge_ok (b + 10 ^ 14) (dec_val (dec_add acc d))"
    and "dec_val (dec_add acc d) = dec_val acc + of_int n * opt_price p / 10 ^ 6"
    using q by (simp_all only: d(2) opt_price_def option.case)
  moreover have "add_optional_charge n p acc = Inr (dec_add acc d)"
    using q d(1) False by (simp add: add_optional_charge_def)
  ultimately show ?thesis by blast
qed

lemma cost_exact_val:
  assumes p: "pricing_ok p" and t: "counts_ok t"
  shows "\<exists>m. cost p t = Inr m \<and> dec_val (amount m) = exact_cost p t \<and> charge_ok (4 * 10 ^ 14) (exact_cost p t)"
proof -
  obtain ci where ci: "token_charge (tc_input t) (input_per_million p) = Inr ci"
      "dec_val ci = of_int (tc_input t) * dec_val (input_per_million p) / 10 ^ 6"
    using p t token_charge_exact by (metis pricing_ok_def counts_ok_def)
  obtain co where co: "token_charge (tc_output t) (output_per_million p) = Inr co"
      "dec_val co = of_int (tc_output t) * dec_val (output_per_million p) / 10 ^ 6"
    using p t token_charge_exact by (metis pricing_ok_def counts_ok_def)
  have "charge_ok (10 ^ 14) (dec_val ci)"
    unfolding ci(2) by (rule exact_charge) (use p t in \<open>simp_all add: pricing_ok_def counts_ok_def\<close>)
  moreover have "charge_ok (10 ^ 14) (dec_val co)"
    unfolding co(2) by (rule exact_charge) (use p t in \<open>simp_all add: pricing_ok_def counts_ok_def\<close>)
  ultimately have c2: "charge_ok (10 ^ 14 + 10 ^ 14) (dec_val ci + dec_val co)" by (rule charge_ok_add)
  have v2: "dec_val (dec_add ci co) = dec_val ci + dec_val co"
    by (rule dec_add_exact [OF charge_ok_repr [OF c2]]) simp
  obtain d3 where d3: "add_optional_charge (tc_cached_input t) (cached_input_per_million p) (dec_add ci co) = Inr d3"
      "dec_val d3 = dec_val ci + dec_val co + of_int (tc_cached_input t) * opt_price (cached_input_per_million p) / 10 ^ 6"
      "charge_ok (10 ^ 14 + 10 ^ 14 + 10 ^ 14) (dec_val d3)"
    using add_optional_charge_exact [of "cached_input_per_million p" "tc_cached_input t" "10 ^ 14 + 10 ^ 14" "dec_add ci co"]
      p t c2 v2 by (auto simp: pricing_ok_def counts_ok_def)
  obtain d4 where d4: "add_optional_charge (tc_reasoning t) (reasoning_per_million p) d3 = Inr d4"
      "dec_val d4 = dec_val d3 + of_int (tc_reasoning t) * opt_price (reasoning_per_million p) / 10 ^ 6"
      "charge_ok (10 ^ 14 + 10 ^ 14 + 10 ^ 14 + 10 ^ 14) (dec_val d4)"
    using add_optional_charge_exact [of "reasoning_per_million p" "tc_reasoning t" "10 ^ 14 + 10 ^ 14 + 10 ^ 14" d3]
      p t d3 by (auto simp: pricing_ok_def counts_ok_def)
  have v: "dec_val d4 = exact_cost p t"
    unfolding d4(2) d3(2) ci(2) co(2) by (simp add: exact_cost_def add_divide_distrib)
  have "0 \<le> dec_val d4" using d4(3) by (simp add: charge_ok_def)
  then have "Money d4 = Inr \<lparr>amount = d4\<rparr>" by (simp add: Money_Inr_iff dec_order)
  then have "cost p t = Inr \<lparr>amount = d4\<rparr>" by (simp add: cost_def ci d3 d4 co)
  with v d4(3) show ?thesis by simp
qed

section \<open>Sign of the cost\<close>

definition prices_nonneg :: "model_pricing \<Rightarrow> bool" where
  "prices_nonneg p \<longleftrightarrow> dec_zero \<le> input_per_million p \<and> dec_zero \<le> output_per_million p
     \<and> pred_option (\<lambda>d. dec_zero \<le> d) (cached_input_per_million p)
     \<and> pred_option (\<lambda>d. dec_zero \<le> d) (reasoning_per_million p)"

definition counts_nonneg :: "token_counts \<Rightarrow> bool" where
  "counts_nonneg t \<longleftrightarrow> 0 \<le> tc_input t \<and> 0 \<le> tc_output t \<and> 0 \<le> tc_cached_input t \<and> 0 \<le> tc_reasoning t"

lemma token_charge_nonneg:
  assumes "0 \<le> n" "dec_zero \<le> p"
  shows "\<exists>d. token_charge n p = Inr d \<and> dec_zero \<le> d"
proof -
  have "dec_zero \<le> dec_mul (dec_of_int n) p" by (rule dec_mul_nonneg) (use assms in \<open>simp_all add: dec_order\<close>)
  moreover have "dec_zero < dec_of_int 1000000" by (simp add: dec_order)
  ultimately obtain q where "dec_div (dec_mul (dec_of_int n) p) (dec_of_int 1000000) = Some q" "dec_zero \<le> q"
    using dec_div_nonneg by blast
  then show ?thesis by (simp add: token_charge_def)
qed

lemma add_optional_charge_nonneg:
  assumes "0 \<le> n" "pred_option (\<lambda>d. dec_zero \<le> d) p" "dec_zero \<le> acc"
  shows "\<exists>d. add_optional_charge n p acc = Inr d \<and> dec_zero \<le> d"
proof (cases p)
  case None
  with assms show ?thesis by (simp add: add_optional_charge_def)
next
  case (Some q)
  with assms obtain c where "token_charge n q = Inr c" "dec_zero \<le> c"
    using token_charge_nonneg by auto
  with Some assms(3) show ?thesis by (auto simp: add_optional_charge_def dec_add_nonneg)
qed

lemma cost_nonneg:
  assumes "prices_nonneg p" "counts_nonneg t"
  shows "\<exists>m. cost p t = Inr m \<and> money_ok m"
proof -
  obtain ci where ci: "token_charge (tc_input t) (input_per_million p) = Inr ci" "dec_zero \<le> ci"
    using assms token_charge_nonneg by (metis prices_nonneg_def counts_nonneg_def)
  obtain co where co: "token_charge (tc_output t) (output_per_million p) = Inr co" "dec_zero \<le> co"
    using assms token_charge_nonneg by (metis prices_nonneg_def counts_nonneg_def)
  obtain d3 where d3: "add_optional_charge (tc_cached_input t) (cached_input_per_million p) (dec_add ci co) = Inr d3"
      "dec_zero \<le> d3"
    using assms add_optional_charge_nonneg dec_add_nonneg [OF ci(2) co(2)]
    by (metis prices_nonneg_def counts_nonneg_def)
  obtain d4 where d4: "add_optional_charge (tc_reasoning t) (reasoning_per_million p) d3 = Inr d4"
      "dec_zero \<le> d4"
    using assms add_optional_charge_nonneg d3(2) by (metis prices_nonneg_def counts_nonneg_def)
  show ?thesis
    using d4(2) by (simp add: cost_def ci d3 d4 co Money_Inr_iff money_ok_def)
qed

end
