(* ===== verification/DecimalText.thy ===== *)
theory DecimalText
  imports PyDecimal PyText
begin

text \<open>
  \<^verbatim>\<open>str(Decimal)\<close> and \<^verbatim>\<open>Decimal(str)\<close>: the textual form in which prices are cached and
  amounts appear in error messages. Printing follows the module's scientific notation rule;
  parsing accepts its numeric grammar (special values are left out). Parsing what was printed
  gives the same coefficient and exponent back.
\<close>

section \<open>Printing\<close>

definition dec_str_unsigned :: "nat \<Rightarrow> int \<Rightarrow> string" where
  "dec_str_unsigned c e =
     (let ds = show_nat c; left = e + int (length ds);
          dot = (if e \<le> 0 \<and> -6 < left then left else 1);
          body = (if dot \<le> 0 then ''0.'' @ replicate (nat (- dot)) (digit 0) @ ds
                  else if int (length ds) \<le> dot then ds @ replicate (nat (dot - int (length ds))) (digit 0)
                  else take (nat dot) ds @ ''.'' @ drop (nat dot) ds);
          tail = (if left = dot then []
                  else if 0 \<le> left - dot then ''E+'' @ show_nat (nat (left - dot))
                  else ''E-'' @ show_nat (nat (dot - left)))
      in body @ tail)"

definition dec_str :: "decimal \<Rightarrow> string" where
  "dec_str d = (if coeff d < 0 then ''-'' else []) @ dec_str_unsigned (nat \<bar>coeff d\<bar>) (expo d)"

section \<open>Parsing\<close>

definition parse_exponent :: "string \<Rightarrow> int option" where
  "parse_exponent s =
     (case s of [] \<Rightarrow> Some 0
      | c # r \<Rightarrow>
          if c \<noteq> CHR ''E'' \<and> c \<noteq> CHR ''e'' then None
          else let neg = (r \<noteq> [] \<and> hd r = CHR ''-'');
                   ds = (if r \<noteq> [] \<and> (hd r = CHR ''-'' \<or> hd r = CHR ''+'') then tl r else r)
               in if ds = [] \<or> \<not> list_all is_digit ds then None
                  else Some ((if neg then -1 else 1) * int (digits_val ds)))"

definition parse_unsigned :: "string \<Rightarrow> decimal option" where
  "parse_unsigned s =
     (let ip = takeWhile is_digit s; r = dropWhile is_digit s;
          point = (r \<noteq> [] \<and> hd r = CHR ''.'');
          fp = (if point then takeWhile is_digit (tl r) else []);
          r' = (if point then dropWhile is_digit (tl r) else r)
      in if ip @ fp = [] then None
         else map_option (\<lambda>x. Dec (int (digits_val (ip @ fp))) (x - int (length fp))) (parse_exponent r'))"

definition dec_parse :: "string \<Rightarrow> decimal option" where
  "dec_parse s =
     (let t = filter (\<lambda>c. c \<noteq> CHR ''_'') (py_strip s) in
      if t \<noteq> [] \<and> hd t = CHR ''-'' then map_option dec_neg (parse_unsigned (tl t))
      else if t \<noteq> [] \<and> hd t = CHR ''+'' then parse_unsigned (tl t)
      else parse_unsigned t)"

section \<open>Round trip\<close>

lemma ord_consts [simp]:
  "ord (CHR ''E'') = 69" "ord (CHR ''.'') = 46" "ord (CHR ''-'') = 45" "ord (CHR ''+'') = 43"
  "ord (CHR ''_'') = 95" "ord (CHR ''0'') = 48"
  by (simp_all add: ord_def)

lemma digit_0 [simp]: "digit 0 = CHR ''0''"
  using char_of_char [of "CHR ''0''"] by (simp add: digit_def)

lemma is_digit_ne: "is_digit c \<Longrightarrow> c \<noteq> CHR ''E'' \<and> c \<noteq> CHR ''.'' \<and> c \<noteq> CHR ''-'' \<and> c \<noteq> CHR ''+'' \<and> c \<noteq> CHR ''_''"
  by (auto simp: is_digit_def)

lemma takeWhile_digits:
  "list_all is_digit u \<Longrightarrow> (v = [] \<or> \<not> is_digit (hd v)) \<Longrightarrow> takeWhile is_digit (u @ v) = u"
  "list_all is_digit u \<Longrightarrow> (v = [] \<or> \<not> is_digit (hd v)) \<Longrightarrow> dropWhile is_digit (u @ v) = v"
  by (induction u; cases v; auto)+

lemma parse_exponent_shown:
  "parse_exponent (''E+'' @ show_nat n) = Some (int n)"
  "parse_exponent (''E-'' @ show_nat n) = Some (- int n)"
  using show_nat_digits [of n] by (simp_all add: parse_exponent_def Let_def)

lemma parse_unsigned_plain:
  assumes "list_all is_digit u" "u \<noteq> []" "v = [] \<or> hd v = CHR ''E''"
  shows "parse_unsigned (u @ v) = map_option (Dec (int (digits_val u))) (parse_exponent v)"
proof -
  have v: "v = [] \<or> \<not> is_digit (hd v)" and p: "v \<noteq> [] \<longrightarrow> hd v \<noteq> CHR ''.''"
    using assms(3) by (auto simp: is_digit_def)
  show ?thesis
    using takeWhile_digits [OF assms(1) v] p assms(2)
    by (auto simp: parse_unsigned_def Let_def intro!: map_option_cong)
qed

lemma parse_unsigned_point:
  assumes "list_all is_digit u" "list_all is_digit f" "u @ f \<noteq> []" "v = [] \<or> hd v = CHR ''E''"
  shows "parse_unsigned (u @ CHR ''.'' # f @ v)
    = map_option (\<lambda>x. Dec (int (digits_val (u @ f))) (x - int (length f))) (parse_exponent v)"
proof -
  have v: "v = [] \<or> \<not> is_digit (hd v)" using assms(4) by (auto simp: is_digit_def)
  have d: "CHR ''.'' # f @ v = [] \<or> \<not> is_digit (hd (CHR ''.'' # f @ v))" by (simp add: is_digit_def)
  show ?thesis
    using assms(3) by (auto simp: parse_unsigned_def Let_def takeWhile_digits [OF assms(1) d]
        takeWhile_digits [OF assms(2) v])
qed

lemma length_show_nat_pos: "0 < length (show_nat n)"
  by simp

lemma list_all_take_drop: "list_all P xs \<Longrightarrow> list_all P (take n xs) \<and> list_all P (drop n xs)"
  by (auto simp: list_all_iff dest: in_set_takeD in_set_dropD)

lemma parse_str_unsigned: "parse_unsigned (dec_str_unsigned c e) = Some (Dec (int c) e)"
proof -
  let ?ds = "show_nat c" and ?left = "e + int (length (show_nat c))"
  have D: "list_all is_digit ?ds" by (rule show_nat_digits)
  have L: "0 < length ?ds" by simp
  consider (small) "e \<le> 0" "-6 < ?left" "?left \<le> 0" | (int) "e = 0"
    | (mid) "e < 0" "0 < ?left"
    | (sci) "\<not> (e \<le> 0 \<and> -6 < ?left)"
    by linarith
  then show ?thesis
  proof cases
    case small
    have "dec_str_unsigned c e
      = [digit 0] @ CHR ''.'' # (replicate (nat (- ?left)) (digit 0) @ ?ds) @ []"
      using small by (simp add: dec_str_unsigned_def Let_def)
    moreover have "list_all is_digit (replicate (nat (- ?left)) (digit 0) @ ?ds)"
      using D by (auto simp: list_all_iff is_digit_def)
    ultimately show ?thesis
      using parse_unsigned_point [of "[digit 0]" "replicate (nat (- ?left)) (digit 0) @ ?ds" "[]"] small
      by (simp add: parse_exponent_def is_digit_def del: digit_0)
  next
    case int
    then have "dec_str_unsigned c e = ?ds @ []" by (simp add: dec_str_unsigned_def Let_def)
    then show ?thesis
      using parse_unsigned_plain [OF D, of "[]"] int by (simp add: parse_exponent_def)
  next
    case mid
    then have "dec_str_unsigned c e
      = take (nat ?left) ?ds @ CHR ''.'' # drop (nat ?left) ?ds @ []"
      by (simp add: dec_str_unsigned_def Let_def)
    then show ?thesis
      using parse_unsigned_point [of "take (nat ?left) ?ds" "drop (nat ?left) ?ds" "[]"]
        list_all_take_drop [OF D, of "nat ?left"] mid
      by (simp add: parse_exponent_def)
  next
    case sci
    define v where "v = (if 0 \<le> ?left - 1 then ''E+'' @ show_nat (nat (?left - 1))
                         else ''E-'' @ show_nat (nat (1 - ?left)))"
    have ne: "?left \<noteq> 1" using sci L by linarith
    have v: "v = [] \<or> hd v = CHR ''E''" by (simp add: v_def)
    have pv: "parse_exponent v = Some (?left - 1)"
      using parse_exponent_shown [of "nat (?left - 1)"] parse_exponent_shown [of "nat (1 - ?left)"]
      by (simp add: v_def)
    show ?thesis
    proof (cases "length ?ds = 1")
      case True
      then have "dec_str_unsigned c e = ?ds @ v"
        using sci ne by (auto simp: dec_str_unsigned_def Let_def v_def)
      then show ?thesis using parse_unsigned_plain [OF D _ v] pv True by simp
    next
      case False
      then have "\<not> int (length ?ds) \<le> 1" using L by linarith
      then have "dec_str_unsigned c e = take 1 ?ds @ CHR ''.'' # drop 1 ?ds @ v"
        using sci ne by (auto simp: dec_str_unsigned_def Let_def v_def)
      then show ?thesis
        using parse_unsigned_point [of "take 1 ?ds" "drop 1 ?ds" v]
          list_all_take_drop [OF D, of 1] v pv L by simp
    qed
  qed
qed

lemma plain_text:
  assumes "list_all (\<lambda>c. \<not> is_space c \<and> c \<noteq> CHR ''_'') s"
  shows "filter (\<lambda>c. c \<noteq> CHR ''_'') (py_strip s) = s"
proof -
  have "py_strip s = s"
  proof (cases s rule: rev_cases)
    case (snoc u x)
    with assms have "\<not> is_space x" "\<not> is_space (hd s)" by (cases u; auto)+
    moreover have "dropWhile is_space s = s"
      using \<open>\<not> is_space (hd s)\<close> by (cases s) auto
    ultimately show ?thesis using snoc by (simp add: py_strip_def)
  qed (simp add: py_strip_def)
  with assms show ?thesis by (auto simp: list_all_iff filter_id_conv)
qed

lemma is_digit_plain: "is_digit c \<Longrightarrow> \<not> is_space c \<and> c \<noteq> CHR ''_''"
  by (auto simp: is_digit_def is_space_def)

lemma list_all_plain_digits: "list_all is_digit u \<Longrightarrow> list_all (\<lambda>c. \<not> is_space c \<and> c \<noteq> CHR ''_'') u"
  by (auto simp: list_all_iff is_digit_plain)

lemma dec_str_all:
  assumes d: "\<And>c. is_digit c \<Longrightarrow> P c"
    and c: "P (CHR ''.'')" "P (CHR ''E'')" "P (CHR ''-'')" "P (CHR ''+'')"
  shows "list_all P (dec_str x)"
proof -
  have s: "list_all P (show_nat n)" for n
    using show_nat_digits [of n] d by (auto simp: list_all_iff)
  have td: "list_all P (take k (show_nat n))" "list_all P (drop k (show_nat n))" for k n
    using list_all_take_drop [OF s [of n], of k] by simp_all
  have z: "P (CHR ''0'')" by (rule d) (simp add: is_digit_def)
  have r: "list_all P (replicate k (CHR ''0''))" for k
    using z by (simp add: list_all_iff)
  have "list_all P (dec_str_unsigned n e)" for n e
    unfolding dec_str_unsigned_def Let_def by (simp add: c s td r z)
  then show ?thesis using c by (simp add: dec_str_def)
qed

lemma dec_str_plain: "list_all (\<lambda>c. \<not> is_space c \<and> c \<noteq> CHR ''_'') (dec_str d)"
proof (rule dec_str_all)
  show "\<not> is_space c \<and> c \<noteq> CHR ''_''" if "is_digit c" for c using that by (rule is_digit_plain)
qed (simp_all add: is_space_def)

lemma dec_str_unsigned_start: "dec_str_unsigned c e \<noteq> [] \<and> is_digit (hd (dec_str_unsigned c e))"
proof -
  have "is_digit (hd (show_nat c))" using show_nat_digits [of c] by (cases "show_nat c") auto
  moreover have "is_digit (CHR ''0'')" by (simp add: is_digit_def)
  moreover have "hd (take k (show_nat c)) = hd (show_nat c)" "take k (show_nat c) \<noteq> []" if "0 < k" for k
    using that by (cases "show_nat c"; cases k; simp)+
  ultimately show ?thesis
    unfolding dec_str_unsigned_def Let_def by (simp add: hd_append)
qed

lemma dec_parse_str: "dec_parse (dec_str d) = Some d"
proof -
  let ?u = "dec_str_unsigned (nat \<bar>coeff d\<bar>) (expo d)"
  have t: "filter (\<lambda>c. c \<noteq> CHR ''_'') (py_strip (dec_str d)) = dec_str d"
    by (rule plain_text [OF dec_str_plain])
  have u: "?u \<noteq> []" "hd ?u \<noteq> CHR ''-''" "hd ?u \<noteq> CHR ''+''"
    using dec_str_unsigned_start is_digit_ne by blast+
  show ?thesis
  proof (cases "coeff d < 0")
    case True
    then have "dec_str d = CHR ''-'' # ?u" by (simp add: dec_str_def)
    with t True show ?thesis
      by (cases d) (simp add: dec_parse_def parse_str_unsigned dec_neg_def)
  next
    case False
    then have "dec_str d = ?u" by (simp add: dec_str_def)
    with t u False show ?thesis
      by (cases d) (simp add: dec_parse_def parse_str_unsigned)
  qed
qed

end
