(* ===== verification/Entities.thy ===== *)
theory Entities
  imports ValueObjects DecimalText
begin

text \<open>
  The domain entities of \<^verbatim>\<open>app/service/domain/entities.py\<close> with their business rules: the role,
  scope and status enumerations and their string values, the usability and model checks of
  an API key, and the reservation arithmetic of a credit balance. A rule that reads the
  clock takes the current time as its first argument.
\<close>

section \<open>Enumerations\<close>

datatype user_role = OWNER | ADMIN | MEMBER | BILLING

fun role_value :: "user_role \<Rightarrow> string" where
  "role_value OWNER = ''owner''"
| "role_value ADMIN = ''admin''"
| "role_value MEMBER = ''member''"
| "role_value BILLING = ''billing''"

definition UserRole :: "string \<Rightarrow> user_role result" where
  "UserRole s =
     (if s = ''owner'' then Inr OWNER else if s = ''admin'' then Inr ADMIN
      else if s = ''member'' then Inr MEMBER else if s = ''billing'' then Inr BILLING
      else Inl (ValueError (s @ '' is not a valid UserRole'')))"

datatype key_scope = PERSONAL | PROJECT | TEAM | SCOPE_ADMIN | BYOK

fun scope_value :: "key_scope \<Rightarrow> string" where
  "scope_value PERSONAL = ''personal''"
| "scope_value PROJECT = ''project''"
| "scope_value TEAM = ''team''"
| "scope_value SCOPE_ADMIN = ''admin''"
| "scope_value BYOK = ''byok''"

definition KeyScope :: "string \<Rightarrow> key_scope result" where
  "KeyScope s =
     (if s = ''personal'' then Inr PERSONAL else if s = ''project'' then Inr PROJECT
      else if s = ''team'' then Inr TEAM else if s = ''admin'' then Inr SCOPE_ADMIN
      else if s = ''byok'' then Inr BYOK
      else Inl (ValueError (s @ '' is not a valid KeyScope'')))"

datatype video_job_status = PENDING | PROCESSING | COMPLETED | FAILED

fun status_value :: "video_job_status \<Rightarrow> string" where
  "status_value PENDING = ''pending''"
| "status_value PROCESSING = ''processing''"
| "status_value COMPLETED = ''completed''"
| "status_value FAILED = ''failed''"

definition VideoJobStatus :: "string \<Rightarrow> video_job_status result" where
  "VideoJobStatus s =
     (if s = ''pending'' then Inr PENDING else if s = ''processing'' then Inr PROCESSING
      else if s = ''completed'' then Inr COMPLETED else if s = ''failed'' then Inr FAILED
      else Inl (ValueError (s @ '' is not a valid VideoJobStatus'')))"

lemma UserRole_value [simp]: "UserRole (role_value r) = Inr r"
  by (cases r) (simp_all add: UserRole_def)

lemma KeyScope_value [simp]: "KeyScope (scope_value c) = Inr c"
  by (cases c) (simp_all add: KeyScope_def)

lemma VideoJobStatus_value [simp]: "VideoJobStatus (status_value c) = Inr c"
  by (cases c) (simp_all add: VideoJobStatus_def)

section \<open>Entities\<close>

record organization =
  org_id :: uuid
  org_name :: string
  org_slug :: string
  org_created_at :: datetime

record user =
  user_id :: uuid
  user_org_id :: uuid
  user_email :: string
  user_role :: user_role
  user_created_at :: datetime

record api_key =
  key_id :: uuid
  key_org_id :: uuid
  key_user_id :: uuid
  key_name :: string
  key_scope :: key_scope
  key_hash :: string
  key_lookup :: string
  allowed_models :: "string list"
  denied_models :: "string list"
  expires_at :: "datetime option"
  revoked_at :: "datetime option"
  key_created_at :: datetime

record credit_balance =
  cb_org_id :: uuid
  available :: decimal
  reserved :: decimal
  monthly_cap :: "decimal option"
  daily_cap :: "decimal option"
  hard_stop :: bool

record usage_record =
  ur_id :: uuid
  ur_org_id :: uuid
  ur_key_id :: uuid
  ur_model :: string
  ur_provider :: string
  ur_tokens :: token_counts
  ur_cost :: money
  ur_latency_ms :: int
  ur_cache_hit :: bool
  ur_created_at :: datetime

record video_job =
  vj_id :: uuid
  vj_org_id :: uuid
  vj_key_id :: uuid
  vj_model :: string
  vj_prompt :: string
  vj_status :: video_job_status
  vj_output_urls :: "string list"
  vj_cost :: money
  vj_error :: "string option"
  vj_created_at :: datetime
  vj_completed_at :: "datetime option"

section \<open>Rules of an API key\<close>

definition assert_usable :: "datetime \<Rightarrow> api_key \<Rightarrow> unit result" where
  "assert_usable now k =
     (if revoked_at k \<noteq> None then Inl (Domain InvalidApiKey ''Key revoked'')
      else case expires_at k of
        None \<Rightarrow> Inr ()
      | Some t \<Rightarrow> if t < now then Inl (Domain InvalidApiKey ''Key expired'') else Inr ())"

definition assert_model_allowed :: "string \<Rightarrow> api_key \<Rightarrow> unit result" where
  "assert_model_allowed model k =
     (if denied_models k \<noteq> [] \<and> model \<in> set (denied_models k)
      then Inl (Domain Forbidden (''Model '' @ model @ '' denied for this key''))
      else if allowed_models k \<noteq> [] \<and> model \<notin> set (allowed_models k)
      then Inl (Domain Forbidden (''Model '' @ model @ '' not in key allowlist''))
      else Inr ())"

text \<open>What the two checks decide together.\<close>

definition usable_at :: "datetime \<Rightarrow> api_key \<Rightarrow> bool" where
  "usable_at now k \<longleftrightarrow> revoked_at k = None \<and> (\<forall>t. expires_at k = Some t \<longrightarrow> now \<le> t)"

definition permits :: "api_key \<Rightarrow> string \<Rightarrow> bool" where
  "permits k model \<longleftrightarrow> model \<notin> set (denied_models k)
     \<and> (allowed_models k = [] \<or> model \<in> set (allowed_models k))"

lemma assert_usable_iff: "assert_usable now k = Inr () \<longleftrightarrow> usable_at now k"
  by (auto simp: assert_usable_def usable_at_def split: option.split)

lemma assert_usable_error: "\<not> usable_at now k \<Longrightarrow> \<exists>m. assert_usable now k = Inl (Domain InvalidApiKey m)"
  by (auto simp: assert_usable_def usable_at_def split: option.splits if_splits)

lemma assert_model_allowed_iff: "assert_model_allowed model k = Inr () \<longleftrightarrow> permits k model"
  by (auto simp: assert_model_allowed_def permits_def)

lemma assert_model_allowed_error:
  "\<not> permits k model \<Longrightarrow> \<exists>m. assert_model_allowed model k = Inl (Domain Forbidden m)"
  by (auto simp: assert_model_allowed_def permits_def)

lemma usable_at_antimono: "usable_at t k \<Longrightarrow> s \<le> t \<Longrightarrow> usable_at s k"
  by (fastforce simp: usable_at_def)

section \<open>Rules of a credit balance\<close>

definition usable :: "credit_balance \<Rightarrow> money result" where
  "usable b = Money (dec_sub (available b) (reserved b))"

definition assert_can_spend :: "money \<Rightarrow> credit_balance \<Rightarrow> unit result" where
  "assert_can_spend m b =
     res_bind (usable b) (\<lambda>u.
       if amount u < amount m then
         if hard_stop b
         then Inl (Domain InsufficientCredits
                (''Need $'' @ dec_str (amount m) @ '' but only $'' @ dec_str (amount u) @ '' available''))
         else Inl (Domain BudgetExceeded ''Soft cap reached'')
       else Inr ())"

definition reserve :: "money \<Rightarrow> credit_balance \<Rightarrow> credit_balance result" where
  "reserve m b =
     res_bind (assert_can_spend m b) (\<lambda>_. Inr (b\<lparr>reserved := dec_add (reserved b) (amount m)\<rparr>))"

definition settle :: "money \<Rightarrow> money \<Rightarrow> credit_balance \<Rightarrow> credit_balance" where
  "settle r actual b =
     b\<lparr>reserved := dec_sub (reserved b) (amount r), available := dec_sub (available b) (amount actual)\<rparr>"

text \<open>
  A balance as its \<open>NUMERIC(14, 6)\<close> columns hold it; on such values the decimal arithmetic of
  \<^const>\<open>reserve\<close> and \<^const>\<open>settle\<close> is exact.
\<close>

definition cents_ok :: "decimal \<Rightarrow> bool" where
  "cents_ok d \<longleftrightarrow> on_grid 6 (dec_val d) \<and> \<bar>dec_val d\<bar> < 10 ^ 8"

definition balance_ok :: "credit_balance \<Rightarrow> bool" where
  "balance_ok b \<longleftrightarrow> cents_ok (available b) \<and> cents_ok (reserved b)
     \<and> 0 \<le> dec_val (reserved b) \<and> dec_val (reserved b) \<le> dec_val (available b)"

lemma grid6_repr: "on_grid 6 x \<Longrightarrow> \<bar>x\<bar> < 10 ^ 20 \<Longrightarrow> dec_repr x"
  by (rule on_grid_repr [where p = 6]) simp_all

lemma cents_add: "cents_ok a \<Longrightarrow> cents_ok b \<Longrightarrow> dec_val (dec_add a b) = dec_val a + dec_val b"
  by (intro dec_add_exact grid6_repr) (auto simp: cents_ok_def intro: on_grid_add)

lemma cents_sub: "cents_ok a \<Longrightarrow> cents_ok b \<Longrightarrow> dec_val (dec_sub a b) = dec_val a - dec_val b"
  by (intro dec_sub_exact grid6_repr) (auto simp: cents_ok_def intro: on_grid_diff)

lemma usable_balance_ok:
  assumes "balance_ok b"
  shows "\<exists>u. usable b = Inr u \<and> dec_val (amount u) = dec_val (available b) - dec_val (reserved b)"
  using assms by (simp add: usable_def Money_Inr_iff balance_ok_def dec_order cents_sub)

text \<open>A reservation succeeds exactly when it fits, and keeps the balance consistent.\<close>

lemma reserve_spec:
  assumes b: "balance_ok b" and m: "money_ok m" "cents_ok (amount m)"
  shows "if dec_val (amount m) \<le> dec_val (available b) - dec_val (reserved b)
    then \<exists>b'. reserve m b = Inr b' \<and> balance_ok b' \<and> available b' = available b
           \<and> dec_val (reserved b') = dec_val (reserved b) + dec_val (amount m)
    else \<exists>msg. reserve m b = Inl (Domain (if hard_stop b then InsufficientCredits else BudgetExceeded) msg)"
proof -
  obtain u where u: "usable b = Inr u" "dec_val (amount u) = dec_val (available b) - dec_val (reserved b)"
    using usable_balance_ok [OF b] by blast
  have r: "dec_val (dec_add (reserved b) (amount m)) = dec_val (reserved b) + dec_val (amount m)"
    using b m by (intro cents_add) (simp_all add: balance_ok_def)
  have "0 \<le> dec_val (amount m)" using m by (simp add: money_ok_def dec_order)
  with b m u r show ?thesis
    by (auto simp: reserve_def assert_can_spend_def dec_order balance_ok_def cents_ok_def intro: on_grid_add)
qed

text \<open>Settling a reservation with an actual cost not above it keeps the balance consistent.\<close>

lemma settle_spec:
  assumes b: "balance_ok b" and r: "cents_ok (amount r)" "money_ok r" "amount r \<le> reserved b"
    and a: "cents_ok (amount a)" "money_ok a" "amount a \<le> amount r"
  shows "balance_ok (settle r a b)"
    and "dec_val (available (settle r a b)) = dec_val (available b) - dec_val (amount a)"
    and "dec_val (reserved (settle r a b)) = dec_val (reserved b) - dec_val (amount r)"
proof -
  show av: "dec_val (available (settle r a b)) = dec_val (available b) - dec_val (amount a)"
    and rv: "dec_val (reserved (settle r a b)) = dec_val (reserved b) - dec_val (amount r)"
    using b r a by (simp_all add: settle_def cents_sub balance_ok_def)
  have o: "dec_val (amount r) \<le> dec_val (reserved b)" "dec_val (amount a) \<le> dec_val (amount r)"
    "0 \<le> dec_val (amount r)" "0 \<le> dec_val (amount a)"
    using r a by (simp_all add: money_ok_def dec_order)
  show "balance_ok (settle r a b)"
    using b r(1) a(1) o unfolding balance_ok_def cents_ok_def av rv by (auto intro: on_grid_diff)
qed

end
