(* ===== verification/Schema.thy ===== *)
theory Schema
  imports Entities
begin

text \<open>
  The tables of \<^verbatim>\<open>app/repository/orm_models.py\<close>, with the nullable columns of the migrations
  that create them: one record per ORM class, the database as the lists of their rows, and
  the insertion of a row with the checks its columns declare (string lengths, integer width,
  uniqueness, foreign keys). The database itself is a service: its clock, its conversion of a
  value into a \<open>NUMERIC(14, 6)\<close> column and of a string into a timestamp are parameters,
  collected in \<open>db_env\<close>; the locale \<open>numeric_column\<close> states the documented laws of that
  conversion, and \<open>pg_numeric\<close> is the instance PostgreSQL documents.
\<close>

section \<open>Rows\<close>

record organization_row =
  o_id :: uuid
  o_name :: string
  o_slug :: string
  o_created_at :: datetime

record user_row =
  u_id :: uuid
  u_org_id :: uuid
  u_email :: string
  u_role :: string
  u_created_at :: datetime

record api_key_row =
  k_id :: uuid
  k_org_id :: uuid
  k_user_id :: uuid
  k_name :: string
  k_scope :: string
  k_key_hash :: string
  k_key_lookup :: string
  k_allowed_models :: "string list"
  k_denied_models :: "string list"
  k_expires_at :: "datetime option"
  k_revoked_at :: "datetime option"
  k_revocation_reason :: "string option"
  k_created_at :: datetime

record credit_row =
  c_org_id :: uuid
  c_available :: decimal
  c_reserved :: decimal
  c_monthly_cap :: "decimal option"
  c_daily_cap :: "decimal option"
  c_hard_stop :: bool
  c_updated_at :: datetime

record usage_row =
  r_id :: uuid
  r_org_id :: uuid
  r_key_id :: uuid
  r_model :: string
  r_provider :: string
  r_input_tokens :: int
  r_output_tokens :: int
  r_cached_input_tokens :: int
  r_reasoning_tokens :: int
  r_cost_usd :: decimal
  r_latency_ms :: int
  r_cache_hit :: bool
  r_created_at :: datetime

record video_row =
  v_id :: uuid
  v_org_id :: uuid
  v_key_id :: uuid
  v_model :: string
  v_prompt :: string
  v_status :: string
  v_output_urls :: "string list"
  v_cost_usd :: decimal
  v_error :: "string option"
  v_created_at :: datetime
  v_completed_at :: "datetime option"

record audit_row =
  a_id :: uuid
  a_org_id :: "uuid option"
  a_actor_user_id :: "uuid option"
  a_action :: string
  a_target_type :: string
  a_target_id :: string
  a_metadata :: "(string \<times> string) list"
  a_created_at :: datetime

record database =
  organizations :: "organization_row list"
  users :: "user_row list"
  api_keys :: "api_key_row list"
  credit_balances :: "credit_row list"
  usage_records :: "usage_row list"
  video_jobs :: "video_row list"
  audit_logs :: "audit_row list"

type_synonym 'a db_action = "(database, exn, 'a) action"

definition empty_db :: database where
  "empty_db = \<lparr>organizations = [], users = [], api_keys = [], credit_balances = [],
     usage_records = [], video_jobs = [], audit_logs = []\<rparr>"

section \<open>The numeric columns\<close>

record db_env =
  db_now :: datetime
  db_numeric :: "decimal \<Rightarrow> decimal result"
  db_timestamp :: "string \<Rightarrow> datetime result"

locale numeric_column =
  fixes num :: "decimal \<Rightarrow> decimal result"
  assumes num_exact: "cents_ok d \<Longrightarrow> \<exists>d'. num d = Inr d' \<and> dec_val d' = dec_val d"
    and num_range: "num d = Inr d' \<Longrightarrow> cents_ok d'"
    and num_close: "num d = Inr d' \<Longrightarrow> 2 * 10 ^ 6 * \<bar>dec_val d' - dec_val d\<bar> \<le> 1"
    and num_mono: "c \<le> d \<Longrightarrow> num c = Inr c' \<Longrightarrow> num d = Inr d' \<Longrightarrow> c' \<le> d'"
    and num_total: "cents_ok c \<Longrightarrow> dec_zero \<le> d \<Longrightarrow> d \<le> c \<Longrightarrow> \<exists>d'. num d = Inr d'"
begin

lemma num_nonneg: "dec_zero \<le> d \<Longrightarrow> num d = Inr d' \<Longrightarrow> dec_zero \<le> d'"
proof -
  assume d: "dec_zero \<le> d" "num d = Inr d'"
  have "cents_ok dec_zero" by (simp add: cents_ok_def)
  then obtain z where z: "num dec_zero = Inr z" "dec_val z = 0" using num_exact by force
  then have "z \<le> d'" using d num_mono by blast
  with z show ?thesis by (simp add: dec_order)
qed

lemma num_cents: "cents_ok d \<Longrightarrow> num d = Inr d' \<Longrightarrow> dec_val d' = dec_val d"
  using num_exact by fastforce

end

text \<open>
  PostgreSQL: round to the declared scale, ties away from zero, and raise when more than
  eight digits are left before the point.
\<close>

definition half_away :: "int \<Rightarrow> int \<Rightarrow> int" where
  "half_away n d = sgn n * ((2 * \<bar>n\<bar> + d) div (2 * d))"

definition pg_numeric :: "decimal \<Rightarrow> decimal result" where
  "pg_numeric d =
     (let c = (if - 6 \<le> expo d then coeff d * 10 ^ nat (expo d + 6)
               else half_away (coeff d) (10 ^ nat (- 6 - expo d)))
      in if 10 ^ 14 \<le> \<bar>c\<bar> then Inl (DbError ''numeric field overflow'') else Inr (Dec c (- 6)))"

definition nearest_away :: "rat \<Rightarrow> int" where
  "nearest_away x = (if 0 \<le> x then \<lfloor>x + 1 / 2\<rfloor> else - \<lfloor>- x + 1 / 2\<rfloor>)"

definition pg_scaled :: "decimal \<Rightarrow> int" where
  "pg_scaled d = (if - 6 \<le> expo d then coeff d * 10 ^ nat (expo d + 6)
               else half_away (coeff d) (10 ^ nat (- 6 - expo d)))"

lemma pg_numeric_scaled:
  "pg_numeric d = (if 10 ^ 14 \<le> \<bar>pg_scaled d\<bar> then Inl (DbError ''numeric field overflow'')
     else Inr (Dec (pg_scaled d) (- 6)))"
  by (simp add: pg_numeric_def pg_scaled_def Let_def)

lemma nearest_away_error: "2 * \<bar>of_int (nearest_away x) - x\<bar> \<le> 1"
proof -
  have fl: "\<bar>of_int \<lfloor>y + 1 / 2\<rfloor> - y\<bar> \<le> 1 / 2" for y :: rat
    by (simp only: abs_le_iff) linarith
  have dbl: "2 * \<bar>a\<bar> \<le> 1" if "\<bar>a\<bar> \<le> 1 / 2" for a :: rat
    using that by simp
  show ?thesis
  proof (cases "0 \<le> x")
    case True
    then have "nearest_away x = \<lfloor>x + 1 / 2\<rfloor>" by (simp add: nearest_away_def)
    with dbl [OF fl [of x]] show ?thesis by simp
  next
    case False
    then have "nearest_away x = - \<lfloor>- x + 1 / 2\<rfloor>" by (simp add: nearest_away_def)
    moreover have "\<bar>of_int (- \<lfloor>- x + 1 / 2\<rfloor>) - x\<bar> = \<bar>of_int \<lfloor>- x + 1 / 2\<rfloor> - - x\<bar>" by simp
    ultimately show ?thesis using dbl [OF fl [of "- x"]] by simp
  qed
qed

lemma nearest_away_of_int [simp]: "nearest_away (of_int n) = n"
proof -
  have "2 * \<bar>of_int (nearest_away (of_int n)) - of_int n\<bar> \<le> (1::rat)" by (rule nearest_away_error)
  then have "of_int (2 * \<bar>nearest_away (of_int n) - n\<bar>) \<le> (of_int 1 :: rat)" by simp
  then have "2 * \<bar>nearest_away (of_int n) - n\<bar> \<le> 1" by (simp only: of_int_le_iff)
  then show ?thesis by arith
qed

lemma nearest_away_mono: "x \<le> y \<Longrightarrow> nearest_away x \<le> nearest_away y"
proof -
  assume xy: "x \<le> y"
  consider "0 \<le> x" | "y < 0" | "x < 0" "0 \<le> y" by linarith
  then show ?thesis
  proof cases
    case 1
    with xy show ?thesis by (simp add: nearest_away_def floor_mono)
  next
    case 2
    with xy show ?thesis by (simp add: nearest_away_def floor_mono)
  next
    case 3
    then have "nearest_away x \<le> 0" "0 \<le> nearest_away y" by (simp_all add: nearest_away_def)
    then show ?thesis by (rule order_trans)
  qed
qed

lemma half_away_nearest:
  assumes "0 < d"
  shows "half_away n d = nearest_away (of_int n / of_int d)"
proof -
  have q: "(2 * \<bar>n\<bar> + d) div (2 * d) = \<lfloor>\<bar>of_int n\<bar> / of_int d + 1 / 2 :: rat\<rfloor>"
  proof -
    have "\<bar>of_int n\<bar> / of_int d + 1 / 2 = (of_int (2 * \<bar>n\<bar> + d) / of_int (2 * d) :: rat)"
      using assms by (simp add: field_simps)
    then show ?thesis by (simp only: floor_divide_of_int_eq)
  qed
  have "0 \<le> (of_int n / of_int d :: rat) \<longleftrightarrow> 0 \<le> n" using assms by (simp add: zero_le_divide_iff)
  with q show ?thesis
    using nearest_away_of_int [of 0]
    by (cases "n = 0") (auto simp: half_away_def nearest_away_def abs_if sgn_if)
qed

lemma pg_scaled_nearest: "pg_scaled d = nearest_away (dec_val d * 10 ^ 6)"
proof (cases "- 6 \<le> expo d")
  case True
  have "dec_val d * 10 ^ 6 = of_int (coeff d) * 10 powi (expo d + 6)"
    by (simp add: dec_val_def power_int_add)
  also have "\<dots> = of_int (coeff d * 10 ^ nat (expo d + 6))"
    using True by (simp add: power_int_def)
  finally show ?thesis using True by (simp only: pg_scaled_def if_True nearest_away_of_int)
next
  case False
  have "dec_val d * 10 ^ 6 = of_int (coeff d) * 10 powi (expo d + 6)"
    by (simp add: dec_val_def power_int_add)
  also have "(10::rat) powi (expo d + 6) = 1 / of_int (10 ^ nat (- 6 - expo d))"
    using False by (simp add: power_int_def field_simps)
  finally show ?thesis using False by (simp add: pg_scaled_def half_away_nearest)
qed

lemma dec_val_m6: "dec_val (Dec c (- 6)) = of_int c / 10 ^ 6"
  by (simp add: dec_val_def power_int_minus)

lemma pg_scaled_cents:
  assumes "cents_ok d"
  shows "\<bar>pg_scaled d\<bar> < 10 ^ 14" and "of_int (pg_scaled d) = dec_val d * 10 ^ 6"
proof -
  obtain n where n: "dec_val d * 10 ^ 6 = of_int n" and b: "\<bar>dec_val d\<bar> < 10 ^ 8"
    using assms by (auto simp: cents_ok_def on_grid_def elim: Ints_cases)
  have s: "pg_scaled d = n" by (simp only: pg_scaled_nearest n nearest_away_of_int)
  then show "of_int (pg_scaled d) = dec_val d * 10 ^ 6" by (simp only: n)
  have "of_int \<bar>n\<bar> = \<bar>dec_val d\<bar> * (10 ^ 6 :: rat)" by (simp flip: n add: abs_mult)
  then have "(of_int \<bar>n\<bar> :: rat) < of_int (10 ^ 14)" using b by simp
  then show "\<bar>pg_scaled d\<bar> < 10 ^ 14" by (simp only: of_int_less_iff s)
qed

interpretation pg: numeric_column pg_numeric
proof
  fix d :: decimal
  assume d: "cents_ok d"
  have "dec_val (Dec (pg_scaled d) (- 6)) = dec_val d" unfolding dec_val_m6 by (simp add: pg_scaled_cents [OF d])
  moreover have "\<bar>pg_scaled d\<bar> < 10 ^ 14" by (rule pg_scaled_cents [OF d])
  ultimately show "\<exists>d'. pg_numeric d = Inr d' \<and> dec_val d' = dec_val d"
    by (simp add: pg_numeric_scaled)
next
  fix d d' assume "pg_numeric d = Inr d'"
  then have d': "d' = Dec (pg_scaled d) (- 6)" "\<bar>pg_scaled d\<bar> < 10 ^ 14"
    by (auto simp: pg_numeric_scaled split: if_splits)
  have "(of_int \<bar>pg_scaled d\<bar> :: rat) < of_int (10 ^ 14)" using d'(2) by (simp only: of_int_less_iff)
  then show "cents_ok d'" unfolding d'(1) cents_ok_def on_grid_def dec_val_m6 by (simp add: abs_divide)
  show "2 * 10 ^ 6 * \<bar>dec_val d' - dec_val d\<bar> \<le> 1"
  proof -
    have "10 ^ 6 * (dec_val d' - dec_val d) = of_int (pg_scaled d) - dec_val d * 10 ^ 6"
      unfolding d'(1) dec_val_m6 by (simp add: right_diff_distrib)
    then have "10 ^ 6 * \<bar>dec_val d' - dec_val d\<bar> = \<bar>of_int (pg_scaled d) - dec_val d * 10 ^ 6\<bar>"
      using abs_mult [of "10 ^ 6" "dec_val d' - dec_val d"] by (simp only: power_abs abs_numeral)
    then show ?thesis using nearest_away_error [of "dec_val d * 10 ^ 6"]
      by (simp only: pg_scaled_nearest mult.assoc)
  qed
next
  fix c d c' d' :: decimal
  assume "c \<le> d" and c: "pg_numeric c = Inr c'" and d: "pg_numeric d = Inr d'"
  then have "pg_scaled c \<le> pg_scaled d"
    by (simp add: pg_scaled_nearest nearest_away_mono dec_order)
  with c d show "c' \<le> d'"
    by (auto simp: pg_numeric_scaled dec_order dec_val_m6 split: if_splits)
next
  fix c d :: decimal
  assume c: "cents_ok c" and d: "dec_zero \<le> d" "d \<le> c"
  have "pg_scaled d \<le> pg_scaled c"
    using d(2) by (simp add: pg_scaled_nearest nearest_away_mono dec_order)
  moreover have "pg_scaled dec_zero \<le> pg_scaled d"
    using d(1) by (simp add: pg_scaled_nearest nearest_away_mono dec_order)
  then have "0 \<le> pg_scaled d" by (simp add: pg_scaled_def dec_zero_def)
  moreover have "\<bar>pg_scaled c\<bar> < 10 ^ 14" by (rule pg_scaled_cents [OF c])
  ultimately show "\<exists>d'. pg_numeric d = Inr d'" by (simp add: pg_numeric_scaled)
qed

section \<open>Inserting rows\<close>

text \<open>
  \<^verbatim>\<open>session.add(row); await session.flush()\<close>: the row is refused, and nothing is written, when a
  value does not fit its column, a unique column repeats, or a foreign key has no target.
\<close>

definition checked_insert :: "bool \<Rightarrow> bool \<Rightarrow> bool \<Rightarrow> (database \<Rightarrow> database) \<Rightarrow> unit db_action" where
  "checked_insert fit uniq fk f db =
     (if \<not> fit then (Inl (DbError ''value does not fit its column''), db)
      else if \<not> uniq then (Inl (DbError ''unique violation''), db)
      else if \<not> fk then (Inl (DbError ''foreign key violation''), db)
      else (Inr (), f db))"

definition varchar :: "nat \<Rightarrow> string \<Rightarrow> bool" where
  "varchar n s \<longleftrightarrow> length s \<le> n"

definition int4 :: "int \<Rightarrow> bool" where
  "int4 n \<longleftrightarrow> - (2 ^ 31) \<le> n \<and> n < 2 ^ 31"

definition insert_organization :: "organization_row \<Rightarrow> unit db_action" where
  "insert_organization r db =
     checked_insert (varchar 200 (o_name r) \<and> varchar 100 (o_slug r))
       (o_id r \<notin> o_id ` set (organizations db) \<and> o_slug r \<notin> o_slug ` set (organizations db))
       True
       (\<lambda>d. d\<lparr>organizations := organizations d @ [r]\<rparr>) db"

definition insert_user :: "user_row \<Rightarrow> unit db_action" where
  "insert_user r db =
     checked_insert (varchar 320 (u_email r) \<and> varchar 20 (u_role r))
       (u_id r \<notin> u_id ` set (users db) \<and> u_email r \<notin> u_email ` set (users db))
       (u_org_id r \<in> o_id ` set (organizations db))
       (\<lambda>d. d\<lparr>users := users d @ [r]\<rparr>) db"

definition insert_api_key :: "api_key_row \<Rightarrow> unit db_action" where
  "insert_api_key r db =
     checked_insert
       (varchar 200 (k_name r) \<and> varchar 20 (k_scope r) \<and> varchar 200 (k_key_hash r)
        \<and> varchar 64 (k_key_lookup r) \<and> pred_option (varchar 500) (k_revocation_reason r))
       (k_id r \<notin> k_id ` set (api_keys db) \<and> k_key_lookup r \<notin> k_key_lookup ` set (api_keys db))
       (k_org_id r \<in> o_id ` set (organizations db) \<and> k_user_id r \<in> u_id ` set (users db))
       (\<lambda>d. d\<lparr>api_keys := api_keys d @ [r]\<rparr>) db"

definition insert_credit :: "credit_row \<Rightarrow> unit db_action" where
  "insert_credit r db =
     checked_insert True
       (c_org_id r \<notin> c_org_id ` set (credit_balances db))
       (c_org_id r \<in> o_id ` set (organizations db))
       (\<lambda>d. d\<lparr>credit_balances := credit_balances d @ [r]\<rparr>) db"

definition insert_usage :: "usage_row \<Rightarrow> unit db_action" where
  "insert_usage r db =
     checked_insert
       (varchar 200 (r_model r) \<and> varchar 100 (r_provider r) \<and> int4 (r_input_tokens r)
        \<and> int4 (r_output_tokens r) \<and> int4 (r_cached_input_tokens r) \<and> int4 (r_reasoning_tokens r)
        \<and> int4 (r_latency_ms r))
       (r_id r \<notin> r_id ` set (usage_records db))
       (r_org_id r \<in> o_id ` set (organizations db) \<and> r_key_id r \<in> k_id ` set (api_keys db))
       (\<lambda>d. d\<lparr>usage_records := usage_records d @ [r]\<rparr>) db"

definition insert_video_job :: "video_row \<Rightarrow> unit db_action" where
  "insert_video_job r db =
     checked_insert (varchar 200 (v_model r) \<and> varchar 20 (v_status r))
       (v_id r \<notin> v_id ` set (video_jobs db))
       (v_org_id r \<in> o_id ` set (organizations db) \<and> v_key_id r \<in> k_id ` set (api_keys db))
       (\<lambda>d. d\<lparr>video_jobs := video_jobs d @ [r]\<rparr>) db"

definition insert_audit_log :: "audit_row \<Rightarrow> unit db_action" where
  "insert_audit_log r db =
     checked_insert (varchar 100 (a_action r) \<and> varchar 100 (a_target_type r) \<and> varchar 200 (a_target_id r))
       (a_id r \<notin> a_id ` set (audit_logs db))
       True
       (\<lambda>d. d\<lparr>audit_logs := audit_logs d @ [r]\<rparr>) db"

lemmas insert_defs = insert_organization_def insert_user_def insert_api_key_def insert_credit_def
  insert_usage_def insert_video_job_def insert_audit_log_def checked_insert_def

section \<open>What every committed database satisfies\<close>

text \<open>
  The declared keys and foreign keys hold, and every stored enumeration string and amount is
  one the repositories can read back.
\<close>

definition organizations_ok :: "database \<Rightarrow> bool" where
  "organizations_ok db \<longleftrightarrow> distinct (map o_id (organizations db)) \<and> distinct (map o_slug (organizations db))"

definition users_ok :: "database \<Rightarrow> bool" where
  "users_ok db \<longleftrightarrow> distinct (map u_id (users db)) \<and> distinct (map u_email (users db))
     \<and> (\<forall>r \<in> set (users db). u_org_id r \<in> o_id ` set (organizations db) \<and> is_ok (UserRole (u_role r)))"

definition api_keys_ok :: "database \<Rightarrow> bool" where
  "api_keys_ok db \<longleftrightarrow> distinct (map k_id (api_keys db)) \<and> distinct (map k_key_lookup (api_keys db))
     \<and> (\<forall>r \<in> set (api_keys db). k_org_id r \<in> o_id ` set (organizations db)
          \<and> k_user_id r \<in> u_id ` set (users db) \<and> is_ok (KeyScope (k_scope r)))"

definition credits_ok :: "database \<Rightarrow> bool" where
  "credits_ok db \<longleftrightarrow> distinct (map c_org_id (credit_balances db))
     \<and> (\<forall>r \<in> set (credit_balances db). c_org_id r \<in> o_id ` set (organizations db)
          \<and> cents_ok (c_available r) \<and> cents_ok (c_reserved r))"

definition usage_ok :: "database \<Rightarrow> bool" where
  "usage_ok db \<longleftrightarrow> distinct (map r_id (usage_records db))
     \<and> (\<forall>r \<in> set (usage_records db). r_org_id r \<in> o_id ` set (organizations db)
          \<and> r_key_id r \<in> k_id ` set (api_keys db) \<and> cents_ok (r_cost_usd r) \<and> dec_zero \<le> r_cost_usd r)"

definition video_jobs_ok :: "database \<Rightarrow> bool" where
  "video_jobs_ok db \<longleftrightarrow> distinct (map v_id (video_jobs db))
     \<and> (\<forall>r \<in> set (video_jobs db). v_org_id r \<in> o_id ` set (organizations db)
          \<and> v_key_id r \<in> k_id ` set (api_keys db) \<and> is_ok (VideoJobStatus (v_status r))
          \<and> dec_zero \<le> v_cost_usd r)"

definition db_ok :: "database \<Rightarrow> bool" where
  "db_ok db \<longleftrightarrow> organizations_ok db \<and> users_ok db \<and> api_keys_ok db \<and> credits_ok db
     \<and> usage_ok db \<and> video_jobs_ok db \<and> distinct (map a_id (audit_logs db))"

lemmas table_ok_defs = organizations_ok_def users_ok_def api_keys_ok_def credits_ok_def
  usage_ok_def video_jobs_ok_def

lemma empty_db_ok: "db_ok empty_db"
  by (simp add: db_ok_def table_ok_defs empty_db_def)

lemma insert_organization_ok [inv_intros]: "keeps db_ok (insert_organization r)"
  by (rule keepsI) (auto simp: insert_defs db_ok_def table_ok_defs)

lemma insert_user_ok [inv_intros]: "is_ok (UserRole (u_role r)) \<Longrightarrow> keeps db_ok (insert_user r)"
  by (rule keepsI) (auto simp: insert_defs db_ok_def table_ok_defs)

lemma insert_api_key_ok [inv_intros]: "is_ok (KeyScope (k_scope r)) \<Longrightarrow> keeps db_ok (insert_api_key r)"
  by (rule keepsI) (auto simp: insert_defs db_ok_def table_ok_defs)

lemma insert_credit_ok [inv_intros]:
  "cents_ok (c_available r) \<Longrightarrow> cents_ok (c_reserved r) \<Longrightarrow> keeps db_ok (insert_credit r)"
  by (rule keepsI) (auto simp: insert_defs db_ok_def table_ok_defs)

lemma insert_usage_ok [inv_intros]:
  "cents_ok (r_cost_usd r) \<Longrightarrow> dec_zero \<le> r_cost_usd r \<Longrightarrow> keeps db_ok (insert_usage r)"
  by (rule keepsI) (auto simp: insert_defs db_ok_def table_ok_defs)

lemma insert_video_job_ok [inv_intros]:
  "is_ok (VideoJobStatus (v_status r)) \<Longrightarrow> dec_zero \<le> v_cost_usd r \<Longrightarrow> keeps db_ok (insert_video_job r)"
  by (rule keepsI) (auto simp: insert_defs db_ok_def table_ok_defs)

lemma insert_audit_log_ok [inv_intros]: "keeps db_ok (insert_audit_log r)"
  by (rule keepsI) (auto simp: insert_defs db_ok_def table_ok_defs)

end
