(* ===== verification/PyFloat.thy ===== *)
theory PyFloat
  imports PyDecimal "HOL-Library.Log_Nat"
begin

text \<open>
  Conversions to Python's \<open>float\<close>. A finite double is the rational number it denotes;
  \<open>py_float\<close> is the correctly rounded conversion (53 bits, ties to even) that
  \<^verbatim>\<open>float(Decimal)\<close> performs on values in the normal range, which the prices, costs and
  balances of the program never leave. Infinities, NaN and subnormals are outside the model.
\<close>

type_synonym pyfloat = rat

definition pow2 :: "int \<Rightarrow> rat" where
  "pow2 k = (if 0 \<le> k then 2 ^ nat k else 1 / 2 ^ nat (- k))"

text \<open>A unit in the last place for a positive fraction: its 53-bit quotient is rounded to an integer.\<close>

definition ulp_exp :: "int \<Rightarrow> int \<Rightarrow> int" where
  "ulp_exp p q =
     (let k = bitlen p - bitlen q
      in if of_int p < of_int q * pow2 k then k - 53 else k - 52)"

definition round_frac :: "int \<Rightarrow> int \<Rightarrow> int \<Rightarrow> rat" where
  "round_frac p q k =
     (if 0 \<le> k then of_int (half_even p (q * 2 ^ nat k)) * 2 ^ nat k
      else of_int (half_even (p * 2 ^ nat (- k)) q) / 2 ^ nat (- k))"

definition py_float :: "rat \<Rightarrow> pyfloat" where
  "py_float x =
     (case quotient_of x of (p, q) \<Rightarrow>
        if p = 0 then 0 else of_int (sgn p) * round_frac \<bar>p\<bar> q (ulp_exp \<bar>p\<bar> q))"

lemma pow2_pos [simp]: "0 < pow2 k"
  by (simp add: pow2_def)

lemma pow2_add: "pow2 (a + b) = pow2 a * pow2 b"
proof -
  have "pow2 k = 2 powi k" for k by (simp add: pow2_def power_int_def field_simps)
  then show ?thesis by (simp add: power_int_add)
qed

lemma pow2_bitlen:
  assumes "0 < p"
  shows "pow2 (bitlen p - 1) \<le> of_int p" "of_int p < pow2 (bitlen p)"
proof -
  have b: "2 ^ nat (bitlen p - 1) \<le> p" "p < 2 ^ nat (bitlen p)" "0 < bitlen p"
    using bitlen_bounds [OF assms] bitlen_ge_iff_power [of 1 p] assms by auto
  have "(of_int (2 ^ nat (bitlen p - 1)) :: rat) \<le> of_int p" using b(1) by (simp only: of_int_le_iff)
  then show "pow2 (bitlen p - 1) \<le> of_int p" using b(3) by (simp add: pow2_def)
  have "(of_int p :: rat) < of_int (2 ^ nat (bitlen p))" using b(2) by (simp only: of_int_less_iff)
  then show "of_int p < pow2 (bitlen p)" using b(3) by (simp add: pow2_def)
qed

text \<open>The chosen exponent leaves a quotient with 53 significant bits.\<close>

lemma ulp_exp_bound:
  assumes "0 < p" "0 < q"
  shows "pow2 (ulp_exp p q + 52) \<le> of_int p / of_int q"
proof -
  let ?k = "bitlen p - bitlen q"
  show ?thesis
  proof (cases "of_int p < of_int q * pow2 ?k")
    case True
    have "of_int q * pow2 (?k - 1) \<le> pow2 (bitlen q) * pow2 (?k - 1)"
      by (rule mult_right_mono) (use pow2_bitlen [OF assms(2)] in \<open>simp_all add: less_imp_le\<close>)
    also have "\<dots> = pow2 (bitlen p - 1)" by (simp flip: pow2_add)
    also have "\<dots> \<le> of_int p" using pow2_bitlen [OF assms(1)] by simp
    finally have "pow2 (?k - 1) \<le> of_int p / of_int q" using assms(2) by (simp add: le_divide_eq mult.commute)
    with True show ?thesis by (simp add: ulp_exp_def)
  next
    case False
    then have "pow2 ?k \<le> of_int p / of_int q" using assms(2) by (simp add: le_divide_eq mult.commute)
    with False show ?thesis by (simp add: ulp_exp_def)
  qed
qed

lemma half_even_rat_error:
  assumes "0 < d"
  shows "2 * \<bar>of_int (half_even n d) - of_int n / (of_int d :: rat)\<bar> \<le> 1"
proof -
  have "(of_int (2 * \<bar>half_even n d * d - n\<bar>) :: rat) \<le> of_int d"
    using half_even_error [OF assms, of n] by (simp only: of_int_le_iff)
  then have "2 * \<bar>of_int (half_even n d) * of_int d - of_int n\<bar> / (of_int d :: rat) \<le> 1"
    using assms by (simp add: divide_le_eq)
  moreover have "\<bar>of_int (half_even n d) - of_int n / (of_int d :: rat)\<bar>
      = \<bar>of_int (half_even n d) * of_int d - of_int n\<bar> / of_int d"
  proof -
    have "of_int (half_even n d) - of_int n / (of_int d :: rat)
        = (of_int (half_even n d) * of_int d - of_int n) / of_int d"
      using assms by (simp add: field_simps)
    then show ?thesis using assms by (simp add: abs_divide)
  qed
  ultimately show ?thesis by simp
qed

lemma round_frac_error:
  assumes "0 < q"
  shows "2 * \<bar>round_frac p q k - of_int p / of_int q\<bar> \<le> pow2 k"
proof (cases "0 \<le> k")
  case True
  let ?t = "2 ^ nat k :: rat"
  have "2 * \<bar>of_int (half_even p (q * 2 ^ nat k)) - of_int p / (of_int q * ?t)\<bar> \<le> 1"
    using half_even_rat_error [of "q * 2 ^ nat k" p] assms by simp
  then have "?t * (2 * \<bar>of_int (half_even p (q * 2 ^ nat k)) - of_int p / (of_int q * ?t)\<bar>) \<le> ?t * 1"
    by (rule mult_left_mono) simp
  moreover have "round_frac p q k - of_int p / of_int q
      = ?t * (of_int (half_even p (q * 2 ^ nat k)) - of_int p / (of_int q * ?t))"
    using True assms by (simp add: round_frac_def field_simps)
  ultimately show ?thesis using True by (simp add: pow2_def abs_mult mult.left_commute)
next
  case False
  let ?t = "2 ^ nat (- k) :: rat"
  have "2 * \<bar>of_int (half_even (p * 2 ^ nat (- k)) q) - of_int p * ?t / of_int q\<bar> \<le> 1"
    using half_even_rat_error [of q "p * 2 ^ nat (- k)"] assms by simp
  then have "(2 * \<bar>of_int (half_even (p * 2 ^ nat (- k)) q) - of_int p * ?t / of_int q\<bar>) / ?t \<le> 1 / ?t"
    by (rule divide_right_mono) simp
  moreover have "round_frac p q k - of_int p / of_int q
      = (of_int (half_even (p * 2 ^ nat (- k)) q) - of_int p * ?t / of_int q) / ?t"
    using False assms by (simp add: round_frac_def field_simps)
  ultimately show ?thesis using False by (simp add: pow2_def abs_divide)
qed

text \<open>A conversion is off by at most one part in \<open>2 ^ 53\<close>.\<close>

lemma py_float_error: "\<bar>py_float x - x\<bar> * 2 ^ 53 \<le> \<bar>x\<bar>"
proof -
  obtain p q where pq: "quotient_of x = (p, q)" by fastforce
  have q: "0 < q" and x: "x = of_int p / of_int q"
    using pq quotient_of_denom_pos quotient_of_div by blast+
  show ?thesis
  proof (cases "p = 0")
    case True
    with pq x show ?thesis by (simp add: py_float_def)
  next
    case False
    let ?k = "ulp_exp \<bar>p\<bar> q" and ?y = "of_int \<bar>p\<bar> / of_int q :: rat"
    have e: "2 * \<bar>round_frac \<bar>p\<bar> q ?k - ?y\<bar> \<le> pow2 ?k" using q by (rule round_frac_error)
    have "pow2 ?k * 2 ^ 52 = pow2 (?k + 52)" by (simp only: pow2_add) (simp add: pow2_def)
    also have "\<dots> \<le> ?y" by (rule ulp_exp_bound) (use False q in simp_all)
    finally have b: "pow2 ?k * 2 ^ 52 \<le> ?y" .
    have sx: "x = of_int (sgn p) * ?y" "\<bar>x\<bar> = ?y"
      using x q False by (auto simp: sgn_if abs_if divide_less_0_iff)
    have "py_float x - x = of_int (sgn p) * (round_frac \<bar>p\<bar> q ?k - ?y)"
      using pq False sx(1) by (simp add: py_float_def algebra_simps)
    then have "\<bar>py_float x - x\<bar> = \<bar>round_frac \<bar>p\<bar> q ?k - ?y\<bar>"
      using False by (simp add: abs_mult sgn_if)
    with e b sx(2) show ?thesis by simp
  qed
qed

lemma py_float_0 [simp]: "py_float 0 = 0"
  by (simp add: py_float_def)

end
