(* ===== verification/Repositories.thy ===== *)
theory Repositories
  imports Schema PyFloat
begin

text \<open>
  The SQL repositories of \<^verbatim>\<open>app/repository\<close> (\<^verbatim>\<open>api_keys.py\<close>, \<^verbatim>\<open>users.py\<close>, \<^verbatim>\<open>organizations.py\<close>,
  \<^verbatim>\<open>credits.py\<close>, \<^verbatim>\<open>usage.py\<close>, \<^verbatim>\<open>video_jobs.py\<close>) as actions on the database of a session. The
  parameters of an \<open>UPDATE\<close> are converted to the types of their columns before rows are
  looked at. The port \<^verbatim>\<open>APIKeyRepository\<close> is the locale \<open>api_key_repository\<close>; the SQL
  repository is its interpretation. The identity map of the session, which returns the same
  object for a row read twice, is not modelled: no operation below reads a row twice.
\<close>

section \<open>Reading rows\<close>

definition scalar_one_or_none :: "'r list \<Rightarrow> 'r option result" where
  "scalar_one_or_none rs =
     (case rs of [] \<Rightarrow> Inr None | [r] \<Rightarrow> Inr (Some r) | _ \<Rightarrow> Inl MultipleResultsFound)"

text \<open>\<^verbatim>\<open>_to_domain(row) if row else None\<close>\<close>

definition row_to_domain :: "('r \<Rightarrow> 'a result) \<Rightarrow> 'r option \<Rightarrow> 'a option result" where
  "row_to_domain f r = (case r of None \<Rightarrow> Inr None | Some x \<Rightarrow> res_bind (f x) (\<lambda>d. Inr (Some d)))"

definition num_option :: "(decimal \<Rightarrow> decimal result) \<Rightarrow> decimal option \<Rightarrow> decimal option result" where
  "num_option num d = (case d of None \<Rightarrow> Inr None | Some x \<Rightarrow> res_bind (num x) (\<lambda>y. Inr (Some y)))"

lemma scalar_by_key:
  "distinct (map key rs) \<Longrightarrow> scalar_one_or_none (filter (\<lambda>r. key r = k) rs) = Inr (by_key key k rs)"
  by (simp add: filter_key_distinct scalar_one_or_none_def split: option.split)

lemma row_to_domain_simps [simp]:
  "row_to_domain f None = Inr None"
  "f r = Inr d \<Longrightarrow> row_to_domain f (Some r) = Inr (Some d)"
  by (simp_all add: row_to_domain_def)

section \<open>API keys\<close>

definition api_key_of_row :: "api_key_row \<Rightarrow> api_key result" where
  "api_key_of_row r =
     res_bind (KeyScope (k_scope r)) (\<lambda>sc.
       Inr \<lparr>key_id = k_id r, key_org_id = k_org_id r, key_user_id = k_user_id r, key_name = k_name r,
            key_scope = sc, key_hash = k_key_hash r, key_lookup = k_key_lookup r,
            allowed_models = k_allowed_models r, denied_models = k_denied_models r,
            expires_at = k_expires_at r, revoked_at = k_revoked_at r, key_created_at = k_created_at r\<rparr>)"

definition api_key_to_row :: "datetime \<Rightarrow> api_key \<Rightarrow> api_key_row" where
  "api_key_to_row now k =
     \<lparr>k_id = key_id k, k_org_id = key_org_id k, k_user_id = key_user_id k, k_name = key_name k,
      k_scope = scope_value (key_scope k), k_key_hash = key_hash k, k_key_lookup = key_lookup k,
      k_allowed_models = allowed_models k, k_denied_models = denied_models k,
      k_expires_at = expires_at k, k_revoked_at = None, k_revocation_reason = None,
      k_created_at = now\<rparr>"

definition keys_find_by_lookup_hash :: "string \<Rightarrow> api_key option db_action" where
  "keys_find_by_lookup_hash h db =
     (res_bind (scalar_one_or_none (filter (\<lambda>r. k_key_lookup r = h) (api_keys db)))
        (row_to_domain api_key_of_row), db)"

definition keys_get :: "uuid \<Rightarrow> api_key option db_action" where
  "keys_get i db = (row_to_domain api_key_of_row (by_key k_id i (api_keys db)), db)"

definition keys_list_for_org :: "uuid \<Rightarrow> api_key list db_action" where
  "keys_list_for_org org db =
     (map_result api_key_of_row (filter (\<lambda>r. k_org_id r = org) (api_keys db)), db)"

definition keys_add :: "db_env \<Rightarrow> api_key \<Rightarrow> api_key db_action" where
  "keys_add env k = bind (insert_api_key (api_key_to_row (db_now env) k)) (\<lambda>_. return k)"

text \<open>\<open>now\<close> is the clock of the process, read by \<^verbatim>\<open>revoke\<close> itself.\<close>

definition keys_revoke :: "datetime \<Rightarrow> uuid \<Rightarrow> string \<Rightarrow> unit db_action" where
  "keys_revoke now i reason db =
     (if \<not> varchar 500 reason then (Inl (DbError ''value does not fit its column''), db)
      else (Inr (), db\<lparr>api_keys := update_where (\<lambda>r. k_id r = i)
        (\<lambda>r. r\<lparr>k_revoked_at := Some now, k_revocation_reason := Some reason\<rparr>) (api_keys db)\<rparr>))"

section \<open>Users and organizations\<close>

definition user_of_row :: "user_row \<Rightarrow> user result" where
  "user_of_row r =
     res_bind (UserRole (u_role r)) (\<lambda>ro.
       Inr \<lparr>user_id = u_id r, user_org_id = u_org_id r, user_email = u_email r, user_role = ro,
            user_created_at = u_created_at r\<rparr>)"

definition users_get :: "uuid \<Rightarrow> user option db_action" where
  "users_get i db = (row_to_domain user_of_row (by_key u_id i (users db)), db)"

definition users_find_by_email :: "string \<Rightarrow> user option db_action" where
  "users_find_by_email e db =
     (res_bind (scalar_one_or_none (filter (\<lambda>r. u_email r = e) (users db))) (row_to_domain user_of_row), db)"

definition users_add :: "db_env \<Rightarrow> user \<Rightarrow> user db_action" where
  "users_add env u =
     bind (insert_user \<lparr>u_id = user_id u, u_org_id = user_org_id u, u_email = user_email u,
             u_role = role_value (user_role u), u_created_at = db_now env\<rparr>) (\<lambda>_. return u)"

definition organization_of_row :: "organization_row \<Rightarrow> organization result" where
  "organization_of_row r =
     Inr \<lparr>org_id = o_id r, org_name = o_name r, org_slug = o_slug r, org_created_at = o_created_at r\<rparr>"

definition organizations_get :: "uuid \<Rightarrow> organization option db_action" where
  "organizations_get i db = (row_to_domain organization_of_row (by_key o_id i (organizations db)), db)"

definition organizations_add :: "db_env \<Rightarrow> organization \<Rightarrow> organization db_action" where
  "organizations_add env g =
     bind (insert_organization \<lparr>o_id = org_id g, o_name = org_name g, o_slug = org_slug g,
             o_created_at = db_now env\<rparr>) (\<lambda>_. return g)"

section \<open>Credit balances\<close>

definition credit_of_row :: "credit_row \<Rightarrow> credit_balance" where
  "credit_of_row r =
     \<lparr>cb_org_id = c_org_id r, available = c_available r, reserved = c_reserved r,
      monthly_cap = c_monthly_cap r, daily_cap = c_daily_cap r, hard_stop = c_hard_stop r\<rparr>"

definition new_credit_row :: "db_env \<Rightarrow> uuid \<Rightarrow> credit_row" where
  "new_credit_row env org =
     \<lparr>c_org_id = org, c_available = dec_zero, c_reserved = dec_zero, c_monthly_cap = None,
      c_daily_cap = None, c_hard_stop = True, c_updated_at = db_now env\<rparr>"

definition credits_get_for_update :: "db_env \<Rightarrow> uuid \<Rightarrow> credit_balance db_action" where
  "credits_get_for_update env org db =
     (case by_key c_org_id org (credit_balances db) of
        Some r \<Rightarrow> (Inr (credit_of_row r), db)
      | None \<Rightarrow>
          bind (insert_credit (new_credit_row env org))
            (\<lambda>_. return (credit_of_row (new_credit_row env org))) db)"

definition credits_update :: "db_env \<Rightarrow> credit_balance \<Rightarrow> unit db_action" where
  "credits_update env b db =
     (case res_bind (db_numeric env (available b)) (\<lambda>av.
           res_bind (db_numeric env (reserved b)) (\<lambda>rv.
           res_bind (num_option (db_numeric env) (monthly_cap b)) (\<lambda>mc.
           res_bind (num_option (db_numeric env) (daily_cap b)) (\<lambda>dc.
             Inr (\<lambda>r. r\<lparr>c_available := av, c_reserved := rv, c_monthly_cap := mc, c_daily_cap := dc,
                        c_hard_stop := hard_stop b, c_updated_at := db_now env\<rparr>))))) of
        Inl e \<Rightarrow> (Inl e, db)
      | Inr f \<Rightarrow> (Inr (), db\<lparr>credit_balances :=
          update_where (\<lambda>r. c_org_id r = cb_org_id b) f (credit_balances db)\<rparr>))"

text \<open>The subtraction of two \<open>NUMERIC\<close> values is exact; its result is converted to the column.\<close>

definition sql_sub :: "decimal \<Rightarrow> decimal \<Rightarrow> decimal" where
  "sql_sub a b =
     (let e = min (expo a) (expo b)
      in Dec (coeff a * 10 ^ nat (expo a - e) - coeff b * 10 ^ nat (expo b - e)) e)"

definition deductible :: "uuid \<Rightarrow> decimal \<Rightarrow> credit_row \<Rightarrow> bool" where
  "deductible org a r \<longleftrightarrow> c_org_id r = org \<and> a \<le> c_available r"

definition deduct_row :: "db_env \<Rightarrow> decimal \<Rightarrow> credit_row \<Rightarrow> credit_row result" where
  "deduct_row env a r =
     res_bind (db_numeric env (sql_sub (c_available r) a))
       (\<lambda>av. Inr (r\<lparr>c_available := av, c_updated_at := db_now env\<rparr>))"

definition credits_deduct_atomic :: "db_env \<Rightarrow> uuid \<Rightarrow> money \<Rightarrow> bool db_action" where
  "credits_deduct_atomic env org m db =
     (case map_result (\<lambda>r. if deductible org (amount m) r then deduct_row env (amount m) r else Inr r)
             (credit_balances db) of
        Inl e \<Rightarrow> (Inl e, db)
      | Inr rs \<Rightarrow> (Inr (0 < row_count (deductible org (amount m)) (credit_balances db)),
                  db\<lparr>credit_balances := rs\<rparr>))"

section \<open>Usage records\<close>

definition usage_to_row :: "datetime \<Rightarrow> decimal \<Rightarrow> usage_record \<Rightarrow> usage_row" where
  "usage_to_row now c u =
     \<lparr>r_id = ur_id u, r_org_id = ur_org_id u, r_key_id = ur_key_id u, r_model = ur_model u,
      r_provider = ur_provider u, r_input_tokens = tc_input (ur_tokens u),
      r_output_tokens = tc_output (ur_tokens u), r_cached_input_tokens = tc_cached_input (ur_tokens u),
      r_reasoning_tokens = tc_reasoning (ur_tokens u), r_cost_usd = c,
      r_latency_ms = ur_latency_ms u, r_cache_hit = ur_cache_hit u, r_created_at = now\<rparr>"

definition usage_add :: "db_env \<Rightarrow> usage_record \<Rightarrow> unit db_action" where
  "usage_add env u =
     bind (lift (db_numeric env (amount (ur_cost u)))) (\<lambda>c. insert_usage (usage_to_row (db_now env) c u))"

record usage_totals =
  ut_input_tokens :: int
  ut_output_tokens :: int
  ut_cost_usd :: pyfloat
  ut_requests :: int

text \<open>
  An SQL sum over no rows is \<open>NULL\<close>, which \<^verbatim>\<open>or 0\<close> turns into zero, as the sum of an empty list. The
  bounds are handed to the driver as text; \<open>db_timestamp\<close> is its verdict on a text for a \<^verbatim>\<open>timestamptz\<close>
  parameter, which asyncpg refuses whatever the text says.
\<close>

definition in_period :: "uuid \<Rightarrow> datetime \<Rightarrow> datetime \<Rightarrow> usage_row \<Rightarrow> bool" where
  "in_period org t0 t1 r \<longleftrightarrow> r_org_id r = org \<and> t0 \<le> r_created_at r \<and> r_created_at r < t1"

definition usage_aggregate_for_period :: "db_env \<Rightarrow> uuid \<Rightarrow> string \<Rightarrow> string \<Rightarrow> usage_totals db_action" where
  "usage_aggregate_for_period env org start stop db =
     (res_bind (db_timestamp env start) (\<lambda>t0.
      res_bind (db_timestamp env stop) (\<lambda>t1.
        let rs = filter (in_period org t0 t1) (usage_records db)
        in Inr \<lparr>ut_input_tokens = sum_list (map r_input_tokens rs),
                ut_output_tokens = sum_list (map r_output_tokens rs),
                ut_cost_usd = py_float (sum_list (map (\<lambda>r. dec_val (r_cost_usd r)) rs)),
                ut_requests = int (length rs)\<rparr>)), db)"

section \<open>Video jobs\<close>

definition video_job_of_row :: "video_row \<Rightarrow> video_job result" where
  "video_job_of_row r =
     res_bind (VideoJobStatus (v_status r)) (\<lambda>st.
     res_bind (Money (v_cost_usd r)) (\<lambda>c.
       Inr \<lparr>vj_id = v_id r, vj_org_id = v_org_id r, vj_key_id = v_key_id r, vj_model = v_model r,
            vj_prompt = v_prompt r, vj_status = st, vj_output_urls = v_output_urls r, vj_cost = c,
            vj_error = v_error r, vj_created_at = v_created_at r, vj_completed_at = v_completed_at r\<rparr>))"

definition video_jobs_get :: "uuid \<Rightarrow> video_job option db_action" where
  "video_jobs_get i db = (row_to_domain video_job_of_row (by_key v_id i (video_jobs db)), db)"

definition video_jobs_add :: "db_env \<Rightarrow> video_job \<Rightarrow> video_job db_action" where
  "video_jobs_add env j =
     bind (lift (db_numeric env (amount (vj_cost j)))) (\<lambda>c.
     bind (insert_video_job
             \<lparr>v_id = vj_id j, v_org_id = vj_org_id j, v_key_id = vj_key_id j, v_model = vj_model j,
              v_prompt = vj_prompt j, v_status = status_value (vj_status j),
              v_output_urls = vj_output_urls j, v_cost_usd = c, v_error = vj_error j,
              v_created_at = db_now env, v_completed_at = None\<rparr>)
       (\<lambda>_. return j))"

definition video_jobs_update :: "db_env \<Rightarrow> video_job \<Rightarrow> unit db_action" where
  "video_jobs_update env j db =
     (case db_numeric env (amount (vj_cost j)) of
        Inl e \<Rightarrow> (Inl e, db)
      | Inr c \<Rightarrow> (Inr (), db\<lparr>video_jobs := update_where (\<lambda>r. v_id r = vj_id j)
          (\<lambda>r. r\<lparr>v_status := status_value (vj_status j), v_output_urls := vj_output_urls j,
                 v_cost_usd := c, v_error := vj_error j, v_completed_at := vj_completed_at j\<rparr>)
          (video_jobs db)\<rparr>))"

section \<open>Every operation keeps the database well-formed\<close>

lemma keys_add_ok [inv_intros]: "keeps db_ok (keys_add env k)"
  unfolding keys_add_def by (intro inv_intros) (simp add: api_key_to_row_def)

lemma keys_revoke_ok [inv_intros]: "keeps db_ok (keys_revoke now i reason)"
  by (rule keepsI)
    (auto simp: keys_revoke_def db_ok_def table_ok_defs map_update_where image_update_where ball_update_where)

lemma users_add_ok [inv_intros]: "keeps db_ok (users_add env u)"
  unfolding users_add_def by (intro inv_intros) simp

lemma organizations_add_ok [inv_intros]: "keeps db_ok (organizations_add env g)"
  unfolding organizations_add_def by (intro inv_intros)

lemma reads_ok [inv_intros]:
  "keeps db_ok (keys_find_by_lookup_hash h)" "keeps db_ok (keys_get i)"
  "keeps db_ok (keys_list_for_org org)" "keeps db_ok (users_get i)"
  "keeps db_ok (users_find_by_email e)" "keeps db_ok (organizations_get i)"
  "keeps db_ok (usage_aggregate_for_period env org start stop)" "keeps db_ok (video_jobs_get i)"
  by (simp_all add: keeps_def keys_find_by_lookup_hash_def keys_get_def keys_list_for_org_def
      users_get_def users_find_by_email_def organizations_get_def usage_aggregate_for_period_def
      video_jobs_get_def)

lemma cents_ok_zero [simp]: "cents_ok dec_zero"
  by (simp add: cents_ok_def)

lemma credits_get_for_update_ok [inv_intros]: "keeps db_ok (credits_get_for_update env org)"
proof (rule keepsI)
  fix db assume "db_ok db"
  moreover have "keeps db_ok (bind (insert_credit (new_credit_row env org))
      (\<lambda>_. return (credit_of_row (new_credit_row env org))))"
    by (intro inv_intros) (simp_all add: new_credit_row_def)
  ultimately show "db_ok (snd (credits_get_for_update env org db))"
    by (auto simp: credits_get_for_update_def keeps_def split: option.split)
qed

lemma credits_update_ok [inv_intros]:
  assumes "numeric_column (db_numeric env)"
  shows "keeps db_ok (credits_update env b)"
proof (rule keepsI)
  fix db assume db: "db_ok db"
  show "db_ok (snd (credits_update env b db))"
  proof (cases "fst (credits_update env b db)")
    case (Inl e)
    then show ?thesis using db by (auto simp: credits_update_def split: sum.splits)
  next
    case (Inr u)
    then obtain av rv mc dc where n: "db_numeric env (available b) = Inr av"
      "db_numeric env (reserved b) = Inr rv"
      and s: "snd (credits_update env b db) = db\<lparr>credit_balances :=
        update_where (\<lambda>r. c_org_id r = cb_org_id b)
          (\<lambda>r. r\<lparr>c_available := av, c_reserved := rv, c_monthly_cap := mc, c_daily_cap := dc,
                 c_hard_stop := hard_stop b, c_updated_at := db_now env\<rparr>) (credit_balances db)\<rparr>"
      by (auto simp: credits_update_def res_bind_Inr_iff split: sum.splits)
    have "cents_ok av" "cents_ok rv" using numeric_column.num_range [OF assms] n by blast+
    with db show ?thesis
      by (auto simp: s db_ok_def table_ok_defs map_update_where ball_update_where) metis
  qed
qed

lemma usage_add_ok [inv_intros]:
  assumes "numeric_column (db_numeric env)" "money_ok (ur_cost u)"
  shows "keeps db_ok (usage_add env u)"
proof (cases "db_numeric env (amount (ur_cost u))")
  case (Inl e)
  then show ?thesis by (simp add: usage_add_def keeps_def)
next
  case (Inr c)
  have "cents_ok c" using numeric_column.num_range [OF assms(1)] Inr by blast
  moreover have "dec_zero \<le> c"
    using numeric_column.num_nonneg [OF assms(1) _ Inr] assms(2) by (simp add: money_ok_def)
  ultimately have "keeps db_ok (insert_usage (usage_to_row (db_now env) c u))"
    by (intro inv_intros) (simp_all add: usage_to_row_def)
  with Inr show ?thesis by (simp add: usage_add_def keeps_def)
qed

lemma video_jobs_add_ok [inv_intros]:
  assumes "numeric_column (db_numeric env)" "money_ok (vj_cost j)"
  shows "keeps db_ok (video_jobs_add env j)"
proof (cases "db_numeric env (amount (vj_cost j))")
  case (Inl e)
  then show ?thesis by (simp add: video_jobs_add_def keeps_def)
next
  case (Inr c)
  have "dec_zero \<le> c"
    using numeric_column.num_nonneg [OF assms(1) _ Inr] assms(2) by (simp add: money_ok_def)
  then have "keeps db_ok (bind (insert_video_job
             \<lparr>v_id = vj_id j, v_org_id = vj_org_id j, v_key_id = vj_key_id j, v_model = vj_model j,
              v_prompt = vj_prompt j, v_status = status_value (vj_status j),
              v_output_urls = vj_output_urls j, v_cost_usd = c, v_error = vj_error j,
              v_created_at = db_now env, v_completed_at = None\<rparr>) (\<lambda>_. return j))"
    by (intro inv_intros) simp_all
  with Inr show ?thesis by (simp add: video_jobs_add_def keeps_def)
qed

lemma video_jobs_update_ok [inv_intros]:
  assumes "numeric_column (db_numeric env)" "money_ok (vj_cost j)"
  shows "keeps db_ok (video_jobs_update env j)"
proof (rule keepsI)
  fix db assume db: "db_ok db"
  show "db_ok (snd (video_jobs_update env j db))"
  proof (cases "db_numeric env (amount (vj_cost j))")
    case (Inr c)
    have "dec_zero \<le> c"
      using numeric_column.num_nonneg [OF assms(1) _ Inr] assms(2) by (simp add: money_ok_def)
    with db Inr show ?thesis
      by (auto simp: video_jobs_update_def db_ok_def table_ok_defs map_update_where ball_update_where)
  qed (use db in \<open>simp add: video_jobs_update_def\<close>)
qed

section \<open>The atomic deduction\<close>

lemma sql_sub_val [simp]: "dec_val (sql_sub a b) = dec_val a - dec_val b"
proof -
  let ?e = "min (expo a) (expo b)"
  have "dec_val (sql_sub a b)
      = of_int (coeff a * 10 ^ nat (expo a - ?e) + coeff (dec_neg b) * 10 ^ nat (expo (dec_neg b) - ?e)) * 10 powi ?e"
    by (simp add: sql_sub_def dec_val_def dec_neg_def Let_def)
  also have "\<dots> = dec_val a + dec_val (dec_neg b)"
    by (rule dec_val_add_raw) (simp_all add: dec_neg_def)
  finally show ?thesis by simp
qed

lemma map_result_at_most_one:
  assumes "distinct (map key rs)" "\<And>r. P r \<Longrightarrow> key r = k"
  shows "map_result (\<lambda>r. if P r then f r else Inr r) rs =
    (case by_key key k rs of
       None \<Rightarrow> Inr rs
     | Some r \<Rightarrow> if P r then res_bind (f r) (\<lambda>r'. Inr (update_where P (\<lambda>_. r') rs)) else Inr rs)"
  using assms(1)
proof (induction rs)
  case Nil
  then show ?case by simp
next
  case (Cons r rs)
  have none: "map_result (\<lambda>r. if P r then f r else Inr r) rs = Inr rs \<and> update_where P g rs = rs"
    if "key r = k" for g
  proof -
    have "\<not> P s" if "s \<in> set rs" for s
      using that Cons.prems \<open>key r = k\<close> assms(2) [of s] by (auto simp: image_iff)
    then show ?thesis
      using map_result_total [of rs "\<lambda>r. if P r then f r else Inr r" "\<lambda>r. r"]
      by (simp add: update_where_none)
  qed
  have IH: "map_result (\<lambda>r. if P r then f r else Inr r) rs =
    (case by_key key k rs of
       None \<Rightarrow> Inr rs
     | Some r \<Rightarrow> if P r then res_bind (f r) (\<lambda>r'. Inr (update_where P (\<lambda>_. r') rs)) else Inr rs)"
    using Cons by simp
  consider "P r" "key r = k" | "\<not> P r" "key r = k" | "\<not> P r" "key r \<noteq> k"
    using assms(2) by blast
  then show ?case
  proof cases
    case 1
    with none show ?thesis by (cases "f r") simp_all
  next
    case 2
    with none show ?thesis by simp
  next
    case 3
    show ?thesis
    proof (cases "by_key key k rs")
      case None
      with 3 IH show ?thesis by simp
    next
      case (Some t)
      with 3 IH show ?thesis by (cases "f t") simp_all
    qed
  qed
qed

lemma deduct_row_exact:
  assumes num: "numeric_column (db_numeric env)"
    and ok: "cents_ok (c_available r)" "cents_ok a" "dec_zero \<le> a" "a \<le> c_available r"
  shows "\<exists>av. deduct_row env a r = Inr (r\<lparr>c_available := av, c_updated_at := db_now env\<rparr>)
    \<and> dec_val av = dec_val (c_available r) - dec_val a"
proof -
  have "cents_ok (sql_sub (c_available r) a)"
    using ok by (auto simp: cents_ok_def dec_order intro: on_grid_diff)
  then obtain av where "db_numeric env (sql_sub (c_available r) a) = Inr av"
      "dec_val av = dec_val (sql_sub (c_available r) a)"
    using numeric_column.num_exact [OF num] by blast
  then show ?thesis by (auto simp: deduct_row_def intro!: exI [of _ av])
qed

text \<open>
  The contract of \<^verbatim>\<open>deduct_atomic\<close>: it answers whether the balance covers the amount, and
  changes only the balance it answers for.
\<close>

lemma deduct_atomic_cases:
  assumes db: "db_ok db"
  shows "credits_deduct_atomic env org m db =
    (case by_key c_org_id org (credit_balances db) of
       None \<Rightarrow> (Inr False, db)
     | Some r \<Rightarrow>
         if amount m \<le> c_available r then
           (case deduct_row env (amount m) r of
              Inl e \<Rightarrow> (Inl e, db)
            | Inr r' \<Rightarrow> (Inr True, db\<lparr>credit_balances :=
                update_where (\<lambda>s. c_org_id s = org) (\<lambda>_. r') (credit_balances db)\<rparr>))
         else (Inr False, db))"
proof -
  let ?rs = "credit_balances db" and ?P = "deductible org (amount m)"
  have d: "distinct (map c_org_id ?rs)" using db by (simp add: db_ok_def credits_ok_def)
  have mr: "map_result (\<lambda>r. if ?P r then deduct_row env (amount m) r else Inr r) ?rs =
    (case by_key c_org_id org ?rs of None \<Rightarrow> Inr ?rs
     | Some r \<Rightarrow> if ?P r then res_bind (deduct_row env (amount m) r) (\<lambda>r'. Inr (update_where ?P (\<lambda>_. r') ?rs))
                 else Inr ?rs)"
    using d by (rule map_result_at_most_one) (simp add: deductible_def)
  show ?thesis
  proof (cases "by_key c_org_id org ?rs")
    case None
    then have "\<not> (\<exists>r \<in> set ?rs. ?P r)" by (auto simp: by_key_None_iff deductible_def)
    then have "\<not> 0 < row_count ?P ?rs" by (simp only: row_count_pos not_False_eq_True)
    then show ?thesis by (simp add: credits_deduct_atomic_def mr None)
  next
    case (Some r)
    have r: "r \<in> set ?rs" "c_org_id r = org" using by_key_SomeD [OF Some] by auto
    have uniq: "s = r" if "s \<in> set ?rs" "c_org_id s = org" for s
      using by_key_mem [OF d that(1)] Some that(2) by simp
    have cnt: "0 < row_count ?P ?rs \<longleftrightarrow> amount m \<le> c_available r"
      unfolding row_count_pos deductible_def using r uniq by blast
    have upd: "update_where ?P (\<lambda>_. r') ?rs = update_where (\<lambda>s. c_org_id s = org) (\<lambda>_. r') ?rs"
      if "amount m \<le> c_available r" for r'
    proof -
      have "?P s \<longleftrightarrow> c_org_id s = org" if "s \<in> set ?rs" for s
        using uniq [OF that] \<open>amount m \<le> c_available r\<close> by (cases "c_org_id s = org") (simp_all add: deductible_def)
      then show ?thesis by (simp add: update_where_def)
    qed
    show ?thesis
    proof (cases "amount m \<le> c_available r")
      case True
      then have "?P r" "0 < row_count ?P ?rs" using r cnt by (simp_all add: deductible_def)
      then show ?thesis
        by (cases "deduct_row env (amount m) r")
          (simp_all add: credits_deduct_atomic_def mr Some True upd [OF True])
    next
      case False
      then have "\<not> ?P r" "\<not> 0 < row_count ?P ?rs" using cnt by (simp_all add: deductible_def)
      with False show ?thesis by (simp add: credits_deduct_atomic_def mr Some)
    qed
  qed
qed

text \<open>The available balance of an organization, as a number.\<close>

definition avail :: "uuid \<Rightarrow> database \<Rightarrow> rat option" where
  "avail org db = map_option (\<lambda>r. dec_val (c_available r)) (by_key c_org_id org (credit_balances db))"

definition covers :: "uuid \<Rightarrow> money \<Rightarrow> database \<Rightarrow> bool" where
  "covers org m db \<longleftrightarrow> (\<exists>v. avail org db = Some v \<and> dec_val (amount m) \<le> v)"

lemma by_key_set_row:
  assumes "c_org_id r' = org"
  shows "by_key c_org_id o' (update_where (\<lambda>s. c_org_id s = org) (\<lambda>_. r') rs)
    = (if o' = org then map_option (\<lambda>_. r') (by_key c_org_id org rs) else by_key c_org_id o' rs)"
proof -
  have *: "by_key c_org_id o' (update_where (\<lambda>s. c_org_id s = org) (\<lambda>_. r') rs)
    = map_option (\<lambda>r. if c_org_id r = org then r' else r) (by_key c_org_id o' rs)"
    using assms by (intro by_key_update_where) simp
  show ?thesis
  proof (cases "by_key c_org_id o' rs")
    case None
    with * show ?thesis by auto
  next
    case (Some r)
    with * by_key_SomeD [OF Some] show ?thesis by auto
  qed
qed

lemma deduct_refused:
  "db_ok db \<Longrightarrow> \<not> covers org m db \<Longrightarrow> credits_deduct_atomic env org m db = (Inr False, db)"
  by (auto simp: deduct_atomic_cases covers_def avail_def dec_order split: option.split)

lemma deduct_granted:
  assumes num: "numeric_column (db_numeric env)" and db: "db_ok db"
    and m: "money_ok m" and cov: "covers org m db"
  shows "\<exists>r av rs. by_key c_org_id org (credit_balances db) = Some r
    \<and> credits_deduct_atomic env org m db = (Inr True, db\<lparr>credit_balances := rs\<rparr>)
    \<and> rs = update_where (\<lambda>s. c_org_id s = org)
        (\<lambda>_. r\<lparr>c_available := av, c_updated_at := db_now env\<rparr>) (credit_balances db)
    \<and> cents_ok av \<and> dec_zero \<le> av
    \<and> 2 * 10 ^ 6 * \<bar>dec_val av - (dec_val (c_available r) - dec_val (amount m))\<bar> \<le> 1
    \<and> (cents_ok (amount m) \<longrightarrow> dec_val av = dec_val (c_available r) - dec_val (amount m))"
proof -
  obtain r where r: "by_key c_org_id org (credit_balances db) = Some r" "amount m \<le> c_available r"
    using cov by (auto simp: covers_def avail_def dec_order)
  have c: "cents_ok (c_available r)"
    using db by_key_SomeD [OF r(1)] by (simp add: db_ok_def credits_ok_def)
  let ?d = "sql_sub (c_available r) (amount m)"
  have d: "dec_zero \<le> ?d" "?d \<le> c_available r"
    using r(2) m by (simp_all add: dec_order money_ok_def)
  obtain av where av: "db_numeric env ?d = Inr av"
    using numeric_column.num_total [OF num c d] by blast
  have "cents_ok (amount m) \<Longrightarrow> cents_ok ?d"
    using c d by (auto simp: cents_ok_def dec_order intro: on_grid_diff)
  then have ex: "cents_ok (amount m) \<Longrightarrow> dec_val av = dec_val (c_available r) - dec_val (amount m)"
    using numeric_column.num_cents [OF num _ av] by simp
  have "deduct_row env (amount m) r = Inr (r\<lparr>c_available := av, c_updated_at := db_now env\<rparr>)"
    by (simp add: deduct_row_def av)
  then have "credits_deduct_atomic env org m db = (Inr True, db\<lparr>credit_balances :=
      update_where (\<lambda>s. c_org_id s = org) (\<lambda>_. r\<lparr>c_available := av, c_updated_at := db_now env\<rparr>) (credit_balances db)\<rparr>)"
    using r by (simp add: deduct_atomic_cases [OF db])
  moreover have "cents_ok av" using numeric_column.num_range [OF num av] .
  moreover have "dec_zero \<le> av" using numeric_column.num_nonneg [OF num d(1) av] .
  moreover have "2 * 10 ^ 6 * \<bar>dec_val av - (dec_val (c_available r) - dec_val (amount m))\<bar> \<le> 1"
    using numeric_column.num_close [OF num av] by (simp only: sql_sub_val)
  ultimately show ?thesis using r(1) ex by blast
qed

lemma deduct_atomic_ok:
  assumes "numeric_column (db_numeric env)" "money_ok m"
  shows "keeps db_ok (credits_deduct_atomic env org m)"
proof (rule keepsI)
  fix db assume db: "db_ok db"
  show "db_ok (snd (credits_deduct_atomic env org m db))"
  proof (cases "covers org m db")
    case False
    with db show ?thesis by (simp add: deduct_refused)
  next
    case True
    obtain r av rs where r: "by_key c_org_id org (credit_balances db) = Some r"
      "credits_deduct_atomic env org m db = (Inr True, db\<lparr>credit_balances := rs\<rparr>)"
      "rs = update_where (\<lambda>s. c_org_id s = org)
        (\<lambda>_. r\<lparr>c_available := av, c_updated_at := db_now env\<rparr>) (credit_balances db)" "cents_ok av"
      using deduct_granted [OF assms(1) db assms(2) True] by blast
    have "r \<in> set (credit_balances db)" "c_org_id r = org" using by_key_SomeD [OF r(1)] by auto
    with db r(4) show ?thesis
      by (auto simp: r(2,3) db_ok_def table_ok_defs map_update_where ball_update_where)
  qed
qed
declare deduct_atomic_ok [inv_intros]

lemma deduct_avail:
  assumes "numeric_column (db_numeric env)" "db_ok db" "money_ok m" "cents_ok (amount m)" "covers org m db"
  shows "\<exists>rs. credits_deduct_atomic env org m db = (Inr True, db\<lparr>credit_balances := rs\<rparr>)
    \<and> avail o' (db\<lparr>credit_balances := rs\<rparr>)
      = (if o' = org then map_option (\<lambda>v. v - dec_val (amount m)) (avail org db) else avail o' db)"
proof -
  obtain r av rs where r: "by_key c_org_id org (credit_balances db) = Some r"
      "credits_deduct_atomic env org m db = (Inr True, db\<lparr>credit_balances := rs\<rparr>)"
      "rs = update_where (\<lambda>s. c_org_id s = org)
        (\<lambda>_. r\<lparr>c_available := av, c_updated_at := db_now env\<rparr>) (credit_balances db)"
      "dec_val av = dec_val (c_available r) - dec_val (amount m)"
    using deduct_granted [OF assms(1-3,5)] assms(4) by blast
  have "c_org_id r = org" using by_key_SomeD [OF r(1)] by simp
  then have "avail o' (db\<lparr>credit_balances := rs\<rparr>)
      = (if o' = org then map_option (\<lambda>v. v - dec_val (amount m)) (avail org db) else avail o' db)"
    by (simp add: avail_def r(1,3,4) by_key_set_row)
  with r(2) show ?thesis by blast
qed

section \<open>The port of the API key repository\<close>

text \<open>
  What the services rely on: a view of the store as a map from ids to keys in which no two
  keys share a lookup hash, and the effect of every operation on the view. \<open>stored\<close> is the
  form in which a key added to the store reads back.
\<close>

locale api_key_repository =
  fixes inv :: "'s \<Rightarrow> bool"
    and view :: "'s \<Rightarrow> uuid \<Rightarrow> api_key option"
    and stored :: "api_key \<Rightarrow> api_key"
    and find :: "string \<Rightarrow> ('s, exn, api_key option) action"
    and get :: "uuid \<Rightarrow> ('s, exn, api_key option) action"
    and add :: "api_key \<Rightarrow> ('s, exn, api_key) action"
    and revoke :: "datetime \<Rightarrow> uuid \<Rightarrow> string \<Rightarrow> ('s, exn, unit) action"
  assumes view_id: "inv s \<Longrightarrow> view s i = Some k \<Longrightarrow> key_id k = i"
    and lookup_unique: "inv s \<Longrightarrow> view s i = Some k \<Longrightarrow> view s j = Some k' \<Longrightarrow>
          key_lookup k = key_lookup k' \<Longrightarrow> i = j"
    and find_result: "inv s \<Longrightarrow> \<exists>x. find h s = (Inr x, s)
          \<and> (\<forall>k. x = Some k \<longleftrightarrow> (\<exists>i. view s i = Some k) \<and> key_lookup k = h)"
    and get_result: "inv s \<Longrightarrow> get i s = (Inr (view s i), s)"
    and add_result: "inv s \<Longrightarrow> add k s = (Inr r, s') \<Longrightarrow>
          inv s' \<and> r = k \<and> view s' = (view s)(key_id k := Some (stored k))"
    and add_error: "inv s \<Longrightarrow> add k s = (Inl e, s') \<Longrightarrow> s' = s"
    and stored_keeps: "key_id (stored k) = key_id k" "key_lookup (stored k) = key_lookup k"
          "key_hash (stored k) = key_hash k" "expires_at (stored k) = expires_at k"
          "revoked_at (stored k) = None" "allowed_models (stored k) = allowed_models k"
          "denied_models (stored k) = denied_models k" "key_org_id (stored k) = key_org_id k"
    and revoke_result: "inv s \<Longrightarrow> revoke t i reason s = (Inr u, s') \<Longrightarrow>
          inv s' \<and> view s' = (view s)(i := map_option (\<lambda>k. k\<lparr>revoked_at := Some t\<rparr>) (view s i))"
    and revoke_error: "inv s \<Longrightarrow> revoke t i reason s = (Inl e, s') \<Longrightarrow> s' = s"
begin

lemma find_Some_iff:
  "inv s \<Longrightarrow> find h s = (Inr (Some k), s) \<longleftrightarrow> (\<exists>i. view s i = Some k) \<and> key_lookup k = h"
  using find_result [of s h] by auto

lemma find_None_iff:
  "inv s \<Longrightarrow> find h s = (Inr None, s) \<longleftrightarrow> (\<forall>i k. view s i = Some k \<longrightarrow> key_lookup k \<noteq> h)"
  using find_result [of s h] by (auto, metis option.exhaust)

lemma find_keeps: "inv s \<Longrightarrow> snd (find h s) = s"
  using find_result [of s h] by auto

lemma find_after_add:
  assumes "inv s" "add k s = (Inr r, s')"
  shows "find (key_lookup k) s' = (Inr (Some (stored k)), s')"
proof -
  have s': "inv s'" "view s' = (view s)(key_id k := Some (stored k))"
    using add_result [OF assms] by auto
  then have "view s' (key_id k) = Some (stored k)" by simp
  then show ?thesis using find_Some_iff [OF s'(1)] stored_keeps(2) by blast
qed

lemma find_other_after_add:
  assumes "inv s" "add k s = (Inr r, s')" "find h s = (Inr (Some k'), s)" "key_id k' \<noteq> key_id k"
  shows "find h s' = (Inr (Some k'), s')"
proof -
  obtain i where i: "view s i = Some k'" "key_lookup k' = h"
    using assms(1,3) find_Some_iff by blast
  have s': "inv s'" "view s' = (view s)(key_id k := Some (stored k))"
    using add_result [OF assms(1,2)] by auto
  have "view s' i = Some k'" using i view_id [OF assms(1) i(1)] assms(4) s'(2) by auto
  then show ?thesis using find_Some_iff [OF s'(1)] i(2) by blast
qed

lemma find_after_revoke:
  assumes "inv s" "view s i = Some k" "revoke t i reason s = (Inr u, s')"
  shows "find (key_lookup k) s' = (Inr (Some (k\<lparr>revoked_at := Some t\<rparr>)), s')"
proof -
  have s': "inv s'" "view s' i = Some (k\<lparr>revoked_at := Some t\<rparr>)"
    using revoke_result [OF assms(1,3)] assms(2) by auto
  then show ?thesis using find_Some_iff [OF s'(1)] by auto
qed

lemma find_other_after_revoke:
  assumes "inv s" "revoke t i reason s = (Inr u, s')" "find h s = (Inr (Some k), s)" "key_id k \<noteq> i"
  shows "find h s' = (Inr (Some k), s')"
proof -
  obtain j where j: "view s j = Some k" "key_lookup k = h"
    using assms(1,3) find_Some_iff by blast
  have s': "inv s'" "view s' j = Some k"
    using revoke_result [OF assms(1,2)] j(1) view_id [OF assms(1) j(1)] assms(4) by auto
  then show ?thesis using find_Some_iff [OF s'(1)] j(2) by blast
qed

end

section \<open>The SQL repository provides the port\<close>

definition sql_key :: "api_key_row \<Rightarrow> api_key option" where
  "sql_key r = (case api_key_of_row r of Inl _ \<Rightarrow> None | Inr k \<Rightarrow> Some k)"

definition sql_view :: "database \<Rightarrow> uuid \<Rightarrow> api_key option" where
  "sql_view db i = (case by_key k_id i (api_keys db) of None \<Rightarrow> None | Some r \<Rightarrow> sql_key r)"

definition sql_stored :: "db_env \<Rightarrow> api_key \<Rightarrow> api_key" where
  "sql_stored env k = k\<lparr>revoked_at := None, key_created_at := db_now env\<rparr>"

lemma api_key_of_row_Inr:
  "api_key_of_row r = Inr k \<Longrightarrow> key_id k = k_id r \<and> key_lookup k = k_key_lookup r
    \<and> api_key_of_row (r\<lparr>k_revoked_at := Some t, k_revocation_reason := Some reason\<rparr>)
      = Inr (k\<lparr>revoked_at := Some t\<rparr>)"
  by (auto simp: api_key_of_row_def res_bind_Inr_iff)

lemma api_key_of_stored_row: "api_key_of_row (api_key_to_row (db_now env) k) = Inr (sql_stored env k)"
  by (cases k) (simp add: api_key_of_row_def api_key_to_row_def sql_stored_def)

lemma readable_keys:
  assumes "db_ok db" "r \<in> set (api_keys db)"
  shows "\<exists>k. api_key_of_row r = Inr k"
  using assms by (auto simp: db_ok_def api_keys_ok_def api_key_of_row_def is_ok_iff)

lemma sql_view_SomeD:
  assumes "db_ok db" "sql_view db i = Some k"
  shows "\<exists>r. r \<in> set (api_keys db) \<and> k_id r = i \<and> api_key_of_row r = Inr k"
  using assms by (auto simp: sql_view_def sql_key_def split: option.splits sum.splits dest!: by_key_SomeD)

lemma sql_view_SomeI:
  assumes "db_ok db" "r \<in> set (api_keys db)" "api_key_of_row r = Inr k"
  shows "sql_view db (k_id r) = Some k"
proof -
  have "distinct (map k_id (api_keys db))" using assms(1) by (simp add: db_ok_def api_keys_ok_def)
  then show ?thesis using assms(2,3) by (simp add: sql_view_def sql_key_def by_key_mem)
qed

lemma keys_get_view: "db_ok db \<Longrightarrow> keys_get i db = (Inr (sql_view db i), db)"
  using readable_keys [of db]
  by (auto simp: keys_get_def sql_view_def sql_key_def row_to_domain_def split: option.split sum.split
      dest!: by_key_SomeD) fastforce+

lemma keys_find_result:
  assumes db: "db_ok db"
  shows "\<exists>x. keys_find_by_lookup_hash h db = (Inr x, db)
    \<and> (\<forall>k. x = Some k \<longleftrightarrow> (\<exists>i. sql_view db i = Some k) \<and> key_lookup k = h)"
proof -
  have d: "distinct (map k_key_lookup (api_keys db))" using db by (simp add: db_ok_def api_keys_ok_def)
  have f: "keys_find_by_lookup_hash h db
      = (row_to_domain api_key_of_row (by_key k_key_lookup h (api_keys db)), db)"
    by (simp add: keys_find_by_lookup_hash_def scalar_by_key [OF d])
  show ?thesis
  proof (cases "by_key k_key_lookup h (api_keys db)")
    case None
    then have "key_lookup k \<noteq> h" if "sql_view db i = Some k" for i k
      using sql_view_SomeD [OF db that] api_key_of_row_Inr by (auto simp: by_key_None_iff image_iff)
    with None f show ?thesis by auto
  next
    case (Some r)
    then have r: "r \<in> set (api_keys db)" "k_key_lookup r = h" by (auto dest: by_key_SomeD)
    obtain k where k: "api_key_of_row r = Inr k" using readable_keys [OF db r(1)] by blast
    have "k' = k" if v: "sql_view db i = Some k'" "key_lookup k' = h" for i k'
    proof -
      obtain r' where r': "r' \<in> set (api_keys db)" "api_key_of_row r' = Inr k'"
        using sql_view_SomeD [OF db v(1)] by blast
      then have "by_key k_key_lookup h (api_keys db) = Some r'"
        using by_key_mem [OF d r'(1)] api_key_of_row_Inr [OF r'(2)] v(2) by simp
      with Some r'(2) k show ?thesis by simp
    qed
    moreover have "sql_view db (k_id r) = Some k" "key_lookup k = h"
      using sql_view_SomeI [OF db r(1) k] api_key_of_row_Inr [OF k] r(2) by simp_all
    ultimately have "\<forall>k'. Some k = Some k' \<longleftrightarrow> (\<exists>i. sql_view db i = Some k') \<and> key_lookup k' = h"
      by (metis option.inject)
    moreover have "keys_find_by_lookup_hash h db = (Inr (Some k), db)" using Some f k by simp
    ultimately show ?thesis by blast
  qed
qed

lemma keys_add_result:
  assumes db: "db_ok db" and add: "keys_add env k db = (Inr r, db')"
  shows "db_ok db'" "r = k" "sql_view db' = (sql_view db)(key_id k := Some (sql_stored env k))"
    and "db' = db\<lparr>api_keys := api_keys db @ [api_key_to_row (db_now env) k]\<rparr>"
    and "key_id k \<notin> k_id ` set (api_keys db)" "key_lookup k \<notin> k_key_lookup ` set (api_keys db)"
proof -
  show "db_ok db'" using keepsD [OF keys_add_ok db, of env k] add by simp
  show r: "r = k" and db': "db' = db\<lparr>api_keys := api_keys db @ [api_key_to_row (db_now env) k]\<rparr>"
    and fresh: "key_id k \<notin> k_id ` set (api_keys db)" "key_lookup k \<notin> k_key_lookup ` set (api_keys db)"
    using add by (auto simp: keys_add_def bind_ok_iff insert_api_key_def checked_insert_def
        api_key_to_row_def split: if_splits)
  show "sql_view db' = (sql_view db)(key_id k := Some (sql_stored env k))"
  proof
    fix i
    have "by_key k_id (key_id k) (api_keys db) = None" using fresh(1) by (simp add: by_key_None_iff)
    moreover have "k_id (api_key_to_row (db_now env) k) = key_id k" by (simp add: api_key_to_row_def)
    ultimately show "sql_view db' i = ((sql_view db)(key_id k := Some (sql_stored env k))) i"
      by (auto simp: sql_view_def db' by_key_append sql_key_def api_key_of_stored_row split: option.split)
  qed
qed

lemma keys_add_error:
  "keys_add env k db = (Inl e, db') \<Longrightarrow> db' = db"
  by (auto simp: keys_add_def bind_def insert_api_key_def checked_insert_def split: if_splits)

lemma keys_revoke_result:
  assumes db: "db_ok db" and rev: "keys_revoke t i reason db = (Inr u, db')"
  shows "db_ok db'" "sql_view db' = (sql_view db)(i := map_option (\<lambda>k. k\<lparr>revoked_at := Some t\<rparr>) (sql_view db i))"
proof -
  show "db_ok db'" using keepsD [OF keys_revoke_ok db, of t i reason] rev by simp
  let ?f = "\<lambda>r. r\<lparr>k_revoked_at := Some t, k_revocation_reason := Some reason\<rparr>"
  have db': "api_keys db' = update_where (\<lambda>r. k_id r = i) ?f (api_keys db)"
    using rev by (auto simp: keys_revoke_def split: if_splits)
  show "sql_view db' = (sql_view db)(i := map_option (\<lambda>k. k\<lparr>revoked_at := Some t\<rparr>) (sql_view db i))"
  proof
    fix j
    have bk: "by_key k_id j (api_keys db')
        = map_option (\<lambda>r. if k_id r = i then ?f r else r) (by_key k_id j (api_keys db))"
      unfolding db' by (rule by_key_update_where) simp
    show "sql_view db' j = ((sql_view db)(i := map_option (\<lambda>k. k\<lparr>revoked_at := Some t\<rparr>) (sql_view db i))) j"
    proof (cases "by_key k_id j (api_keys db)")
      case None
      with bk show ?thesis by (cases "j = i") (simp_all add: sql_view_def)
    next
      case (Some r)
      then have r: "r \<in> set (api_keys db)" "k_id r = j" by (auto dest: by_key_SomeD)
      obtain k where k: "api_key_of_row r = Inr k" using readable_keys [OF db r(1)] by blast
      then have "api_key_of_row (?f r) = Inr (k\<lparr>revoked_at := Some t\<rparr>)" by (simp add: api_key_of_row_Inr)
      with Some bk k r(2) show ?thesis by (cases "j = i") (simp_all add: sql_view_def sql_key_def)
    qed
  qed
qed

interpretation sql_keys: api_key_repository db_ok sql_view "sql_stored env" keys_find_by_lookup_hash
  keys_get "keys_add env" keys_revoke
  for env
proof (unfold_locales, goal_cases)
  case (1 s i k)
  then show ?case using sql_view_SomeD api_key_of_row_Inr by blast
next
  case (2 s i k j k')
  obtain r r' where r: "r \<in> set (api_keys s)" "k_id r = i" "api_key_of_row r = Inr k"
    "r' \<in> set (api_keys s)" "k_id r' = j" "api_key_of_row r' = Inr k'"
    using 2 sql_view_SomeD by metis
  have "distinct (map k_key_lookup (api_keys s))" using 2(1) by (simp add: db_ok_def api_keys_ok_def)
  moreover have "k_key_lookup r = k_key_lookup r'"
    using api_key_of_row_Inr r(3,6) 2(4) by metis
  ultimately have "r = r'" using r(1,4) by (metis by_key_mem option.inject)
  with r show ?case by simp
next
  case (3 s h)
  then show ?case by (rule keys_find_result)
next
  case (4 s i)
  then show ?case by (rule keys_get_view)
next
  case (5 s k r s')
  then show ?case using keys_add_result [OF 5] by blast
next
  case (6 s k e s')
  then show ?case using keys_add_error by blast
next
  case (15 s t i reason u s')
  then show ?case using keys_revoke_result [OF 15] by blast
next
  case (16 s t i reason e s')
  then show ?case by (auto simp: keys_revoke_def split: if_splits)
qed (simp_all add: sql_stored_def)

end
