(* ===== verification/UnitOfWork.thy ===== *)
theory UnitOfWork
  imports Repositories
begin

text \<open>
  The unit of work (\<^verbatim>\<open>app/service/uow.py\<close>, \<^verbatim>\<open>app/repository/uow.py\<close>): the committed database and
  the session of the block in progress. A session works on the state it sees until \<^verbatim>\<open>commit\<close>
  publishes it; leaving the block closes the session, which drops what was not committed. The
  lemmas reduce a use case written in this pattern to its database action.
\<close>

record uow =
  committed :: database
  session :: "database option"

type_synonym 'a uow_action = "(uow, exn, 'a) action"

definition uow_enter :: "uow \<Rightarrow> uow" where
  "uow_enter u = u\<lparr>session := Some (committed u)\<rparr>"

definition uow_commit :: "unit uow_action" where
  "uow_commit u =
     (case session u of None \<Rightarrow> (Inl AssertionError, u) | Some db \<Rightarrow> (Inr (), u\<lparr>committed := db\<rparr>))"

definition uow_rollback :: "unit uow_action" where
  "uow_rollback u =
     (case session u of
        None \<Rightarrow> (Inl AssertionError, u)
      | Some db \<Rightarrow> (Inr (), u\<lparr>session := Some (committed u)\<rparr>))"

text \<open>\<open>failed\<close>: the block is left by an exception (\<^verbatim>\<open>exc_type is not None\<close>).\<close>

definition uow_exit :: "bool \<Rightarrow> unit uow_action" where
  "uow_exit failed u =
     (case session u of
        None \<Rightarrow> (Inl AssertionError, u)
      | Some db \<Rightarrow>
          (let u' = (if failed then snd (uow_rollback u) else u) in (Inr (), u'\<lparr>session := None\<rparr>)))"

text \<open>A repository call inside the block. Outside it the repositories have no live session.\<close>

definition in_session :: "'a db_action \<Rightarrow> 'a uow_action" where
  "in_session m u =
     (case session u of
        None \<Rightarrow> (Inl (AttributeError ''session''), u)
      | Some db \<Rightarrow> (case m db of (r, db') \<Rightarrow> (r, u\<lparr>session := Some db'\<rparr>)))"

text \<open>\<^verbatim>\<open>async with self._uow: body\<close>\<close>

definition with_uow :: "'a uow_action \<Rightarrow> 'a uow_action" where
  "with_uow body u =
     (case body (uow_enter u) of
        (r, u1) \<Rightarrow>
          (case uow_exit (\<not> is_ok r) u1 of
             (Inl e, u2) \<Rightarrow> (Inl e, u2)
           | (Inr _, u2) \<Rightarrow> (r, u2)))"

text \<open>The usual body: database work, then one commit.\<close>

definition committing :: "'a db_action \<Rightarrow> 'a uow_action" where
  "committing m = bind (in_session m) (\<lambda>x. bind uow_commit (\<lambda>_. return x))"

section \<open>The port\<close>

text \<open>
  What the use cases rely on (\<^verbatim>\<open>class UnitOfWork\<close>): the block works on a private copy of the stored
  state, only \<^verbatim>\<open>commit\<close> publishes it, and leaving the block by whatever way closes the session
  and keeps what is stored. \<open>run\<close> is a repository call inside the block.
\<close>

definition scoped :: "('u \<Rightarrow> 'u) \<Rightarrow> (bool \<Rightarrow> ('u, exn, unit) action) \<Rightarrow> ('u, exn, 'a) action \<Rightarrow> ('u, exn, 'a) action" where
  "scoped enter leave body u =
     (case body (enter u) of
        (r, u1) \<Rightarrow>
          (case leave (\<not> is_ok r) u1 of
             (Inl e, u2) \<Rightarrow> (Inl e, u2)
           | (Inr _, u2) \<Rightarrow> (r, u2)))"

locale unit_of_work =
  fixes stored :: "'u \<Rightarrow> 'd"
    and live :: "'u \<Rightarrow> 'd option"
    and enter :: "'u \<Rightarrow> 'u"
    and leave :: "bool \<Rightarrow> ('u, exn, unit) action"
    and commit :: "('u, exn, unit) action"
    and rollback :: "('u, exn, unit) action"
    and run :: "('d, exn, 'a) action \<Rightarrow> ('u, exn, 'a) action"
  assumes state: "stored u = stored v \<Longrightarrow> live u = live v \<Longrightarrow> u = v"
    and entered: "stored (enter u) = stored u" "live (enter u) = Some (stored u)"
    and run_live: "live u = Some d \<Longrightarrow> run m u = (r, u') \<Longrightarrow>
          m d = (r, the (live u')) \<and> live u' \<noteq> None \<and> stored u' = stored u"
    and commit_live: "live u = Some d \<Longrightarrow>
          \<exists>u'. commit u = (Inr (), u') \<and> stored u' = d \<and> live u' = Some d"
    and rollback_live: "live u = Some d \<Longrightarrow>
          \<exists>u'. rollback u = (Inr (), u') \<and> stored u' = stored u \<and> live u' = Some (stored u)"
    and leave_live: "live u = Some d \<Longrightarrow>
          \<exists>u'. leave failed u = (Inr (), u') \<and> stored u' = stored u \<and> live u' = None"
    and not_live: "live u = None \<Longrightarrow> \<exists>e. commit u = (Inl e, u)"
          "live u = None \<Longrightarrow> \<exists>e. rollback u = (Inl e, u)"
          "live u = None \<Longrightarrow> \<exists>e. leave failed u = (Inl e, u)"
          "live u = None \<Longrightarrow> \<exists>e. run m u = (Inl e, u)"
begin

lemma leaves: "stored (snd (leave failed u)) = stored u" "live (snd (leave failed u)) = None"
  using leave_live [of u] not_live(3) [of u failed]
  by (cases "live u"; metis prod.collapse sndI)+

lemma closes: "live (snd (scoped enter leave body u)) = None"
  using leaves(2) by (auto simp: scoped_def split: prod.split sum.split) (metis snd_conv)+

lemma uncommitted:
  assumes "\<And>v. stored (snd (body v)) = stored v"
  shows "stored (snd (scoped enter leave body u)) = stored u"
  using assms [of "enter u"] leaves(1)
  by (auto simp: scoped_def entered split: prod.split sum.split) (metis snd_conv)+

lemma block:
  assumes "body (enter u) = (r, u1)" "live u1 = Some d"
  shows "\<exists>u2. scoped enter leave body u = (r, u2) \<and> stored u2 = stored u1 \<and> live u2 = None"
  using leave_live [OF assms(2), of "\<not> is_ok r"] assms(1) by (auto simp: scoped_def)

lemma running:
  assumes "m (stored u) = (r, d)"
  shows "\<exists>u1. run m (enter u) = (r, u1) \<and> stored u1 = stored u \<and> live u1 = Some d"
  using run_live [OF entered(2), of m u] assms entered(1) [of u]
  by (cases "run m (enter u)") fastforce

lemma block_reads:
  assumes "m (stored u) = (r, d)"
  shows "\<exists>u2. scoped enter leave (run m) u = (r, u2) \<and> stored u2 = stored u \<and> live u2 = None"
  using running [of m u r d, OF assms] block [of "run m" u r] by fastforce

lemma block_fails:
  assumes "m (stored u) = (Inl e, d)"
  shows "\<exists>u2. scoped enter leave (bind (run m) f) u = (Inl e, u2) \<and> stored u2 = stored u \<and> live u2 = None"
proof -
  obtain u1 where u1: "run m (enter u) = (Inl e, u1)" "stored u1 = stored u" "live u1 = Some d"
    using running [of m u, OF assms] by blast
  then have "bind (run m) f (enter u) = (Inl e, u1)" by (simp add: bind_def)
  then show ?thesis using block [OF _ u1(3), of "bind (run m) f"] u1(2) by simp
qed

lemma block_commits:
  assumes "m (stored u) = (Inr x, d)"
  shows "\<exists>u2. scoped enter leave (bind (run m) (\<lambda>x. bind commit (\<lambda>_. return x))) u = (Inr x, u2)
    \<and> stored u2 = d \<and> live u2 = None"
proof -
  obtain u1 where u1: "run m (enter u) = (Inr x, u1)" "live u1 = Some d"
    using running [of m u, OF assms] by blast
  obtain u' where u': "commit u1 = (Inr (), u')" "stored u' = d" "live u' = Some d"
    using commit_live [OF u1(2)] by blast
  have "bind (run m) (\<lambda>x. bind commit (\<lambda>_. return x)) (enter u) = (Inr x, u')"
    using u1 u' by (simp add: bind_def return_def)
  then show ?thesis using block [OF _ u'(3)] u'(2) by blast
qed

text \<open>What was committed stays, whatever goes wrong afterwards in the block.\<close>

lemma committed_stays:
  assumes "m (stored u) = (Inr x, d)" "\<And>v. stored (snd (rest v)) = stored v"
  shows "stored (snd (scoped enter leave (bind (run m) (\<lambda>_. bind commit (\<lambda>_. rest))) u)) = d"
proof -
  obtain u1 where u1: "run m (enter u) = (Inr x, u1)" "live u1 = Some d"
    using running [of m u, OF assms(1)] by blast
  obtain u' where u': "commit u1 = (Inr (), u')" "stored u' = d"
    using commit_live [OF u1(2)] by blast
  have "bind (run m) (\<lambda>_. bind commit (\<lambda>_. rest)) (enter u) = rest u'"
    using u1 u' by (simp add: bind_def)
  then show ?thesis
    using assms(2) [of u'] u'(2) leaves(1)
    by (auto simp: scoped_def split: prod.split sum.split) (metis snd_conv)+
qed

end

section \<open>The SQL unit of work\<close>

lemma in_session_Some:
  "session u = Some db \<Longrightarrow> in_session m u = (fst (m db), u\<lparr>session := Some (snd (m db))\<rparr>)"
  by (simp add: in_session_def split: prod.split)

lemma in_session_bind:
  "session u = Some db \<Longrightarrow> bind (in_session m) (\<lambda>x. in_session (f x)) u = in_session (bind m f) u"
  by (cases "m db") (auto simp: bind_def in_session_def split: sum.split prod.split)

interpretation sql_uow: unit_of_work committed session uow_enter uow_exit uow_commit uow_rollback in_session
  by unfold_locales
    (auto simp: uow_enter_def uow_exit_def uow_commit_def uow_rollback_def in_session_def Let_def
      split: option.splits prod.splits)

lemma with_uow_scoped: "with_uow = scoped uow_enter uow_exit"
  by (simp add: with_uow_def scoped_def fun_eq_iff)

lemmas with_uow_closes = sql_uow.closes [folded with_uow_scoped]

text \<open>An action that never commits leaves the committed database alone, whatever it does.\<close>

lemmas with_uow_uncommitted = sql_uow.uncommitted [folded with_uow_scoped]

lemma with_committing:
  "with_uow (committing m) u =
    (case m (committed u) of
       (Inl e, _) \<Rightarrow> (Inl e, u\<lparr>session := None\<rparr>)
     | (Inr x, db) \<Rightarrow> (Inr x, \<lparr>committed = db, session = None\<rparr>))"
proof (cases "m (committed u)")
  case (Pair r db)
  show ?thesis
  proof (cases r)
    case (Inl e)
    with Pair obtain u2 where "with_uow (committing m) u = (Inl e, u2)" "committed u2 = committed u" "session u2 = None"
      unfolding with_uow_scoped committing_def using sql_uow.block_fails [of m u e db] by blast
    with Pair Inl show ?thesis by simp
  next
    case (Inr x)
    with Pair obtain u2 where "with_uow (committing m) u = (Inr x, u2)" "committed u2 = db" "session u2 = None"
      unfolding with_uow_scoped committing_def using sql_uow.block_commits [of m u x db] by blast
    with Pair Inr show ?thesis by simp
  qed
qed

lemma with_reading:
  "with_uow (in_session m) u = (fst (m (committed u)), u\<lparr>session := None\<rparr>)"
  using sql_uow.block_reads [of m u]
  by (cases "m (committed u)") (fastforce simp: with_uow_scoped)

lemma committing_keeps:
  assumes "keeps db_ok m" "db_ok (committed u)"
  shows "db_ok (committed (snd (with_uow (committing m) u)))"
  using assms keepsD [OF assms(1), of "committed u"]
  by (auto simp: with_committing split: prod.split sum.split)

end
