(* ===== verification/PyUuid.thy ===== *)
theory PyUuid
  imports DomainErrors
begin

text \<open>
  Python's \<^verbatim>\<open>uuid.UUID\<close>: the canonical text of a 128-bit identifier, and the constructor from
  a string, which drops the prefixes, braces and hyphens it tolerates and reads the 32
  characters left with \<^verbatim>\<open>int(s, 16)\<close>, underscores, sign and \<^verbatim>\<open>0x\<close> included.
\<close>

section \<open>Removing substrings\<close>

fun py_remove_fuel :: "nat \<Rightarrow> string \<Rightarrow> string \<Rightarrow> string" where
  "py_remove_fuel 0 p s = s"
| "py_remove_fuel (Suc n) p s =
     (case s of
        [] \<Rightarrow> []
      | c # t \<Rightarrow> if py_startswith s p then py_remove_fuel n p (drop (length p) s)
                 else c # py_remove_fuel n p t)"

text \<open>\<^verbatim>\<open>s.replace(p, "")\<close> for a nonempty \<open>p\<close>: every step consumes a character, so the length is enough fuel.\<close>

definition py_remove :: "string \<Rightarrow> string \<Rightarrow> string" where
  "py_remove p s = py_remove_fuel (length s) p s"

definition strip_chars :: "char list \<Rightarrow> string \<Rightarrow> string" where
  "strip_chars cs s = rev (dropWhile (\<lambda>c. c \<in> set cs) (rev (dropWhile (\<lambda>c. c \<in> set cs) s)))"

lemma py_remove_absent: "p \<noteq> [] \<Longrightarrow> hd p \<notin> set s \<Longrightarrow> py_remove p s = s"
proof -
  assume p: "p \<noteq> []" "hd p \<notin> set s"
  have "py_remove_fuel n p s = s" if "hd p \<notin> set s" for n s
    using that
  proof (induction n arbitrary: s)
    case (Suc n)
    show ?case
    proof (cases s)
      case (Cons c t)
      with Suc.prems have "hd p \<noteq> c" by auto
      with p(1) have "\<not> py_startswith (c # t) p" by (cases p) (auto simp: py_startswith_def)
      with Cons Suc show ?thesis by simp
    qed simp
  qed simp
  with p(2) show ?thesis by (simp add: py_remove_def)
qed

lemma py_remove_char: "py_remove [c] s = filter (\<lambda>x. x \<noteq> c) s"
proof -
  have "py_remove_fuel n [c] s = filter (\<lambda>x. x \<noteq> c) s" if "length s \<le> n" for n s
    using that by (induction n arbitrary: s) (auto simp: py_startswith_def split: list.split)
  then show ?thesis by (simp add: py_remove_def)
qed

lemma strip_chars_id:
  "s \<noteq> [] \<Longrightarrow> hd s \<notin> set cs \<Longrightarrow> last s \<notin> set cs \<Longrightarrow> strip_chars cs s = s"
proof -
  assume s: "s \<noteq> []" "hd s \<notin> set cs" "last s \<notin> set cs"
  then have "dropWhile (\<lambda>c. c \<in> set cs) s = s" by (cases s) auto
  moreover have "dropWhile (\<lambda>c. c \<in> set cs) (rev s) = rev s"
    using s by (cases "rev s") (auto simp: last_rev hd_rev dest: arg_cong [of _ _ rev])
  ultimately show ?thesis by (simp add: strip_chars_def)
qed

section \<open>Hexadecimal digits\<close>

definition hex_digit :: "nat \<Rightarrow> char" where
  "hex_digit d = (if d < 10 then char_of (48 + d) else char_of (87 + d))"

definition hex_val :: "char \<Rightarrow> nat option" where
  "hex_val c =
     (let n = ord c in
        if 48 \<le> n \<and> n \<le> 57 then Some (n - 48)
        else if 97 \<le> n \<and> n \<le> 102 then Some (n - 87)
        else if 65 \<le> n \<and> n \<le> 70 then Some (n - 55) else None)"

fun hex_fixed :: "nat \<Rightarrow> nat \<Rightarrow> string" where
  "hex_fixed 0 n = []"
| "hex_fixed (Suc k) n = hex_fixed k (n div 16) @ [hex_digit (n mod 16)]"

text \<open>The digits of \<^verbatim>\<open>int(s, 16)\<close>: single underscores may stand between two digits.\<close>

fun hex_digits :: "bool \<Rightarrow> nat \<Rightarrow> string \<Rightarrow> nat option" where
  "hex_digits after_digit acc [] = (if after_digit then Some acc else None)"
| "hex_digits after_digit acc (c # cs) =
     (if c = CHR ''_'' then (if after_digit then hex_digits False acc cs else None)
      else case hex_val c of None \<Rightarrow> None | Some d \<Rightarrow> hex_digits True (16 * acc + d) cs)"

definition hex_unsigned :: "string \<Rightarrow> nat option" where
  "hex_unsigned s =
     (if py_startswith s ''0x'' \<or> py_startswith s ''0X''
      then (case drop 2 s of
              c # cs \<Rightarrow> if c = CHR ''_'' then hex_digits False 0 cs else hex_digits False 0 (c # cs)
            | [] \<Rightarrow> None)
      else hex_digits False 0 s)"

definition int_of_hex :: "string \<Rightarrow> int option" where
  "int_of_hex s =
     (case py_strip s of
        [] \<Rightarrow> None
      | c # cs \<Rightarrow>
          if c = CHR ''-'' then map_option (\<lambda>n. - int n) (hex_unsigned cs)
          else if c = CHR ''+'' then map_option int (hex_unsigned cs)
          else map_option int (hex_unsigned (c # cs)))"

section \<open>Identifiers\<close>

definition uuid_hex :: "uuid \<Rightarrow> string" where
  "uuid_hex u = hex_fixed 32 (unat u)"

definition uuid_str :: "uuid \<Rightarrow> string" where
  "uuid_str u =
     (let h = uuid_hex u
      in take 8 h @ ''-'' @ take 4 (drop 8 h) @ ''-'' @ take 4 (drop 12 h) @ ''-''
         @ take 4 (drop 16 h) @ ''-'' @ drop 20 h)"

definition uuid_parse :: "string \<Rightarrow> uuid result" where
  "uuid_parse s =
     (let h = py_remove ''-'' (strip_chars ''{}'' (py_remove ''uuid:'' (py_remove ''urn:'' s)))
      in if length h \<noteq> 32 then Inl (ValueError ''badly formed hexadecimal UUID string'')
         else case int_of_hex h of
             None \<Rightarrow> Inl (ValueError ''invalid literal for int() with base 16'')
           | Some n \<Rightarrow>
               if n < 0 \<or> 2 ^ 128 \<le> n then Inl (ValueError ''int is out of range (need a 128-bit value)'')
               else Inr (word_of_int n))"

section \<open>Round trip\<close>

definition is_hex :: "char \<Rightarrow> bool" where
  "is_hex c \<longleftrightarrow> (48 \<le> ord c \<and> ord c \<le> 57) \<or> (97 \<le> ord c \<and> ord c \<le> 102)"

lemma ord_char_of [simp]: "n < 256 \<Longrightarrow> ord (char_of n) = n"
  by (simp add: ord_def)

lemma hex_digit_is_hex: "d < 16 \<Longrightarrow> is_hex (hex_digit d)"
  by (simp add: is_hex_def hex_digit_def)

lemma hex_val_digit [simp]: "d < 16 \<Longrightarrow> hex_val (hex_digit d) = Some d"
  by (simp add: hex_val_def hex_digit_def Let_def)

lemma length_hex_fixed [simp]: "length (hex_fixed k n) = k"
  by (induction k arbitrary: n) simp_all

lemma hex_fixed_is_hex: "list_all is_hex (hex_fixed k n)"
  by (induction k arbitrary: n) (simp_all add: hex_digit_is_hex)

lemma not_hex_chars:
  "is_hex c \<Longrightarrow> c \<noteq> CHR ''u'' \<and> c \<noteq> CHR ''-'' \<and> c \<noteq> CHR ''{'' \<and> c \<noteq> CHR ''}'' \<and> c \<noteq> CHR ''x''
    \<and> c \<noteq> CHR ''X'' \<and> c \<noteq> CHR ''_'' \<and> c \<noteq> CHR ''+'' \<and> \<not> is_space c"
  by (auto simp: is_hex_def is_space_def ord_def)

lemma hex_digits_append:
  "list_all is_hex s \<Longrightarrow> s \<noteq> [] \<Longrightarrow> list_all (\<lambda>c. hex_val c \<noteq> None) s \<Longrightarrow>
    hex_digits b acc (s @ [hex_digit d]) = map_option (\<lambda>n. 16 * n + d) (hex_digits b acc s)"
  if "d < 16"
  using that
proof (induction s arbitrary: b acc)
  case (Cons c s)
  then obtain v where "hex_val c = Some v" by auto
  moreover have "c \<noteq> CHR ''_''" "hex_digit d \<noteq> CHR ''_''"
    using Cons.prems not_hex_chars hex_digit_is_hex by simp_all
  ultimately show ?case using Cons by (cases "s = []") simp_all
qed simp

lemma hex_val_is_hex: "is_hex c \<Longrightarrow> hex_val c \<noteq> None"
  by (auto simp: is_hex_def hex_val_def Let_def)

lemma hex_digits_fixed: "0 < k \<Longrightarrow> n < 16 ^ k \<Longrightarrow> hex_digits b 0 (hex_fixed k n) = Some n"
proof (induction k arbitrary: n)
  case (Suc k)
  have d: "n mod 16 < 16" by simp
  then have u: "hex_digit (n mod 16) \<noteq> CHR ''_''" using hex_digit_is_hex not_hex_chars by blast
  show ?case
  proof (cases "k = 0")
    case True
    with Suc.prems u show ?thesis by simp
  next
    case False
    have "hex_fixed k (n div 16) \<noteq> []" using False by (metis length_hex_fixed length_0_conv)
    moreover have "list_all (\<lambda>c. hex_val c \<noteq> None) (hex_fixed k (n div 16))"
      using hex_fixed_is_hex hex_val_is_hex by (metis (mono_tags, lifting) list_all_iff)
    moreover have "n div 16 < 16 ^ k" using Suc.prems by (simp add: less_mult_imp_div_less mult.commute)
    ultimately show ?thesis
      using False Suc.IH [of "n div 16"] hex_digits_append [OF d hex_fixed_is_hex, of k "n div 16" b 0] by simp
  qed
qed simp

lemma py_strip_id: "\<forall>c \<in> set s. \<not> is_space c \<Longrightarrow> py_strip s = s"
proof -
  have dw: "\<forall>c \<in> set t. \<not> is_space c \<Longrightarrow> dropWhile is_space t = t" for t by (cases t) auto
  assume "\<forall>c \<in> set s. \<not> is_space c"
  then have "dropWhile is_space s = s" "dropWhile is_space (rev s) = rev s"
    using dw [of s] dw [of "rev s"] by simp_all
  then show ?thesis by (simp add: py_strip_def)
qed

lemma py_startswith_set: "py_startswith s p \<Longrightarrow> set p \<subseteq> set s"
  unfolding py_startswith_def by (metis set_take_subset)

lemma int_of_hex_fixed: "0 < k \<Longrightarrow> n < 16 ^ k \<Longrightarrow> int_of_hex (hex_fixed k n) = Some (int n)"
proof -
  assume k: "0 < k" "n < 16 ^ k"
  let ?h = "hex_fixed k n"
  have all: "\<forall>c \<in> set ?h. is_hex c" using hex_fixed_is_hex by (simp add: list_all_iff)
  then have "py_strip ?h = ?h" by (intro py_strip_id) (use not_hex_chars in blast)
  moreover have "?h \<noteq> []" using k(1) by (metis length_hex_fixed length_0_conv less_nat_zero_code)
  then obtain c cs where h: "?h = c # cs" by (cases ?h) auto
  have c: "c \<noteq> CHR ''-''" "c \<noteq> CHR ''+''" using all h not_hex_chars by simp_all
  have "\<forall>x \<in> set ?h. x \<noteq> CHR ''x'' \<and> x \<noteq> CHR ''X''" using all not_hex_chars by blast
  then have "\<not> py_startswith ?h ''0x''" "\<not> py_startswith ?h ''0X''"
    using py_startswith_set [of ?h "''0x''"] py_startswith_set [of ?h "''0X''"] by auto
  then have "hex_unsigned (c # cs) = Some n"
    using hex_digits_fixed [OF k, of False] by (simp add: hex_unsigned_def flip: h)
  ultimately show ?thesis using c by (simp add: int_of_hex_def h)
qed

lemma uuid_hex_parts:
  "uuid_hex u = take 8 (uuid_hex u) @ take 4 (drop 8 (uuid_hex u)) @ take 4 (drop 12 (uuid_hex u))
     @ take 4 (drop 16 (uuid_hex u)) @ drop 20 (uuid_hex u)"
proof -
  have split: "drop i xs = take k (drop i xs) @ drop (i + k) xs" for i k and xs :: string
    by (metis append_take_drop_id drop_drop add.commute)
  have "uuid_hex u = take 8 (uuid_hex u) @ drop 8 (uuid_hex u)" by simp
  also have "drop 8 (uuid_hex u) = take 4 (drop 8 (uuid_hex u)) @ drop 12 (uuid_hex u)"
    using split [of 8 "uuid_hex u" 4] by simp
  also have "drop 12 (uuid_hex u) = take 4 (drop 12 (uuid_hex u)) @ drop 16 (uuid_hex u)"
    using split [of 12 "uuid_hex u" 4] by simp
  also have "drop 16 (uuid_hex u) = take 4 (drop 16 (uuid_hex u)) @ drop 20 (uuid_hex u)"
    using split [of 16 "uuid_hex u" 4] by simp
  finally show ?thesis .
qed

lemma uuid_parse_str: "uuid_parse (uuid_str u) = Inr u"
proof -
  let ?h = "uuid_hex u" and ?s = "uuid_str u"
  have all: "is_hex c" if "c \<in> set ?h" for c
    using that hex_fixed_is_hex by (auto simp: uuid_hex_def list_all_iff)
  have sub: "set (take k (drop i ?h)) \<subseteq> set ?h" "set (take k ?h) \<subseteq> set ?h" "set (drop i ?h) \<subseteq> set ?h" for i k
    by (auto dest: in_set_takeD in_set_dropD)
  have nohyphen: "filter (\<lambda>x. x \<noteq> CHR ''-'') w = w" if "set w \<subseteq> set ?h" for w
    using that all not_hex_chars by (intro filter_True) blast
  have chars: "set ?s \<subseteq> insert (CHR ''-'') (set ?h)"
    by (auto simp: uuid_str_def Let_def dest: in_set_takeD in_set_dropD)
  then have u: "CHR ''u'' \<notin> set ?s" using all not_hex_chars by auto
  have len: "length ?h = 32" by (simp add: uuid_hex_def)
  then obtain c cs where h: "?h = c # cs" by (cases ?h) auto
  have "hd ?s = c" "?s \<noteq> []" by (simp_all add: uuid_str_def Let_def h)
  moreover have "last ?s = last ?h" using len by (simp add: uuid_str_def Let_def last_drop)
  moreover have "last ?h \<in> set ?h" "c \<in> set ?h" using h by (simp_all only: last_in_set list.simps) simp_all
  ultimately have st: "strip_chars ''{}'' ?s = ?s"
    using all not_hex_chars by (intro strip_chars_id) auto
  have "py_remove ''urn:'' ?s = ?s" "py_remove ''uuid:'' ?s = ?s"
    using u by (intro py_remove_absent; simp)+
  moreover have "filter (\<lambda>x. x \<noteq> CHR ''-'') ?s = ?h"
    using nohyphen [OF sub(1)] nohyphen [OF sub(2)] nohyphen [OF sub(3)] uuid_hex_parts [of u]
    by (simp add: uuid_str_def Let_def)
  ultimately have "py_remove ''-'' (strip_chars ''{}'' (py_remove ''uuid:'' (py_remove ''urn:'' ?s))) = ?h"
    by (simp add: st py_remove_char)
  moreover have b: "unat u < 2 ^ 128" using unsigned_less [where ?'a = nat and w = u] by simp
  then have "int_of_hex ?h = Some (int (unat u))" unfolding uuid_hex_def by (intro int_of_hex_fixed) simp_all
  moreover have "int (unat u) < 2 ^ 128" using b by (metis of_nat_less_iff of_nat_numeral of_nat_power)
  ultimately show ?thesis by (simp add: uuid_parse_def len not_le)
qed

end
