(* ===== verification/Security.thy ===== *)
theory Security
  imports PyUuid Entities "HOL-Library.AList"
begin

text \<open>
  The cryptographic primitives of \<^verbatim>\<open>app/shared/security.py\<close>. The algorithms are third-party code
  and parameters here: argon2 (hash with a salt, verification), SHA-256, and the JWT encoder.
  \<open>hasher_ok\<close> states the one documented law the key lifecycle relies on.
\<close>

datatype argon2_error = VerifyMismatchError | OtherArgon2Error string

record crypto =
  argon2_hash :: "string \<Rightarrow> string \<Rightarrow> string"
  argon2_verify :: "string \<Rightarrow> string \<Rightarrow> argon2_error + bool"
  sha256_hex :: "string \<Rightarrow> string"

text \<open>\<open>salt\<close> is the randomness of the hasher, \<open>token\<close> the result of \<^verbatim>\<open>secrets.token_hex(32)\<close>.\<close>

definition hash_api_key :: "crypto \<Rightarrow> string \<Rightarrow> string \<Rightarrow> string" where
  "hash_api_key c salt plaintext = argon2_hash c salt plaintext"

definition verify_api_key :: "crypto \<Rightarrow> string \<Rightarrow> string \<Rightarrow> bool result" where
  "verify_api_key c plaintext stored_hash =
     (case argon2_verify c stored_hash plaintext of
        Inr b \<Rightarrow> Inr b
      | Inl VerifyMismatchError \<Rightarrow> Inr False
      | Inl (OtherArgon2Error m) \<Rightarrow> Inl (RuntimeError m))"

definition sha256_lookup :: "crypto \<Rightarrow> string \<Rightarrow> string" where
  "sha256_lookup c plaintext = sha256_hex c plaintext"

definition generate_api_key :: "string \<Rightarrow> string \<Rightarrow> string" where
  "generate_api_key key_prefix token = key_prefix @ token"

text \<open>A claim is a string or a time; the two clock readings of \<^verbatim>\<open>encode_jwt\<close> are arguments.\<close>

datatype claim = ClaimStr string | ClaimTime datetime

definition jwt_payload :: "datetime \<Rightarrow> datetime \<Rightarrow> (string \<times> claim) list \<Rightarrow> int \<Rightarrow> (string \<times> claim) list" where
  "jwt_payload now1 now2 claims expires_in =
     AList.update ''exp'' (ClaimTime (now2 + expires_in)) (AList.update ''iat'' (ClaimTime now1) claims)"

definition encode_jwt :: "((string \<times> claim) list \<Rightarrow> string) \<Rightarrow> datetime \<Rightarrow> datetime
    \<Rightarrow> (string \<times> claim) list \<Rightarrow> int \<Rightarrow> string" where
  "encode_jwt sign now1 now2 claims expires_in = sign (jwt_payload now1 now2 claims expires_in)"

lemma jwt_payload_lookup:
  "map_of (jwt_payload n1 n2 claims ttl) ''exp'' = Some (ClaimTime (n2 + ttl))"
  "map_of (jwt_payload n1 n2 claims ttl) ''iat'' = Some (ClaimTime n1)"
  "k \<noteq> ''exp'' \<Longrightarrow> k \<noteq> ''iat'' \<Longrightarrow> map_of (jwt_payload n1 n2 claims ttl) k = map_of claims k"
  by (simp_all add: jwt_payload_def update_conv')

section \<open>The law of the hasher\<close>

text \<open>What argon2 documents: a hash verifies against the text it was made from.\<close>

definition hasher_ok :: "crypto \<Rightarrow> bool" where
  "hasher_ok c \<longleftrightarrow> (\<forall>salt p. argon2_verify c (argon2_hash c salt p) p = Inr True)"

lemma verify_own_hash: "hasher_ok c \<Longrightarrow> verify_api_key c p (hash_api_key c salt p) = Inr True"
  by (simp add: hasher_ok_def verify_api_key_def hash_api_key_def)

text \<open>A concrete hasher with that law, to evaluate the key lifecycle on.\<close>

definition plain_crypto :: crypto where
  "plain_crypto =
     \<lparr>argon2_hash = (\<lambda>salt p. salt @ ''$'' @ p),
      argon2_verify = (\<lambda>h p. if drop (Suc (length h - Suc (length p))) h = p then Inr True
                            else Inl VerifyMismatchError),
      sha256_hex = take 64\<rparr>"

lemma plain_crypto_ok: "hasher_ok plain_crypto"
  by (simp add: hasher_ok_def plain_crypto_def)

end
