(* ===== verification/AuthService.thy ===== *)
theory AuthService
  imports UnitOfWork Security
begin

text \<open>
  The API key lifecycle of \<^verbatim>\<open>app/service/auth_service.py\<close>: issuing, validating and revoking a
  key. Everything the code draws from its environment (identifier, salt, token, clock) is an
  argument. The lemmas rest on the port \<open>api_key_repository\<close> through its SQL interpretation.
\<close>

record create_key_command =
  ck_org_id :: uuid
  ck_user_id :: uuid
  ck_name :: string
  ck_scope :: key_scope
  ck_allowed_models :: "string list"
  ck_expires_at :: "datetime option"

record created_key =
  created_key :: api_key
  created_plaintext :: string

record key_entropy =
  ke_id :: uuid
  ke_salt :: string
  ke_token :: string
  ke_now :: datetime

definition issue_key :: "crypto \<Rightarrow> string \<Rightarrow> key_entropy \<Rightarrow> create_key_command \<Rightarrow> api_key" where
  "issue_key c key_prefix e cmd =
     (let plaintext = generate_api_key key_prefix (ke_token e)
      in \<lparr>key_id = ke_id e, key_org_id = ck_org_id cmd, key_user_id = ck_user_id cmd,
          key_name = ck_name cmd, key_scope = ck_scope cmd,
          key_hash = hash_api_key c (ke_salt e) plaintext, key_lookup = sha256_lookup c plaintext,
          allowed_models = ck_allowed_models cmd, denied_models = [],
          expires_at = ck_expires_at cmd, revoked_at = None, key_created_at = ke_now e\<rparr>)"

definition create_key :: "db_env \<Rightarrow> crypto \<Rightarrow> string \<Rightarrow> key_entropy \<Rightarrow> create_key_command
    \<Rightarrow> created_key uow_action" where
  "create_key env c key_prefix e cmd =
     (let key = issue_key c key_prefix e cmd
      in bind (with_uow (bind (in_session (keys_add env key)) (\<lambda>_. uow_commit)))
           (\<lambda>_. return \<lparr>created_key = key, created_plaintext = generate_api_key key_prefix (ke_token e)\<rparr>))"

definition check_key :: "crypto \<Rightarrow> datetime \<Rightarrow> string \<Rightarrow> string \<Rightarrow> api_key option \<Rightarrow> api_key result" where
  "check_key c now plaintext model key =
     (case key of
        None \<Rightarrow> Inl (Domain InvalidApiKey ''Unknown API key'')
      | Some k \<Rightarrow>
          res_bind (verify_api_key c plaintext (key_hash k)) (\<lambda>ok.
            if \<not> ok then Inl (Domain InvalidApiKey ''Invalid API key'')
            else res_bind (assert_usable now k) (\<lambda>_.
                 res_bind (assert_model_allowed model k) (\<lambda>_. Inr k))))"

definition validate_for_request :: "crypto \<Rightarrow> datetime \<Rightarrow> string \<Rightarrow> string \<Rightarrow> api_key uow_action" where
  "validate_for_request c now plaintext model =
     with_uow (in_session
       (bind (keys_find_by_lookup_hash (sha256_lookup c plaintext))
          (\<lambda>k. lift (check_key c now plaintext model k))))"

definition revoke_key :: "datetime \<Rightarrow> uuid \<Rightarrow> string \<Rightarrow> unit uow_action" where
  "revoke_key now i reason =
     with_uow (committing
       (bind (keys_get i)
          (\<lambda>k. case k of
             None \<Rightarrow> throw (Domain NotFound ''API key not found'')
           | Some _ \<Rightarrow> keys_revoke now i reason)))"

section \<open>What the use cases do\<close>

lemma create_key_committing:
  "create_key env c key_prefix e cmd u =
     (case keys_add env (issue_key c key_prefix e cmd) (committed u) of
        (Inl err, _) \<Rightarrow> (Inl err, u\<lparr>session := None\<rparr>)
      | (Inr _, db) \<Rightarrow>
          (Inr \<lparr>created_key = issue_key c key_prefix e cmd,
                created_plaintext = generate_api_key key_prefix (ke_token e)\<rparr>,
           \<lparr>committed = db, session = None\<rparr>))"
proof -
  have "bind (in_session (keys_add env k)) (\<lambda>_. uow_commit) = committing (bind (keys_add env k) (\<lambda>_. return ()))" for k
  proof
    fix v
    show "bind (in_session (keys_add env k)) (\<lambda>_. uow_commit) v = committing (bind (keys_add env k) (\<lambda>_. return ())) v"
      by (auto simp: committing_def bind_def in_session_def uow_commit_def split: sum.split prod.split option.split)
  qed
  then show ?thesis
    by (auto simp: create_key_def Let_def bind_def with_committing split: sum.split prod.split)
qed

lemma check_key_ok_iff:
  "check_key c now p model x = Inr k \<longleftrightarrow>
    x = Some k \<and> verify_api_key c p (key_hash k) = Inr True \<and> usable_at now k \<and> permits k model"
  by (cases x)
    (auto simp: check_key_def res_bind_Inr_iff assert_usable_iff assert_model_allowed_iff split: if_splits)

lemma validate_lookup:
  assumes "db_ok (committed u)" "keys_find_by_lookup_hash (sha256_lookup c p) (committed u) = (Inr x, committed u)"
  shows "validate_for_request c now p model u = (check_key c now p model x, u\<lparr>session := None\<rparr>)"
  using assms(2) by (simp add: validate_for_request_def with_reading bind_def)

lemma validate_readonly: "committed (snd (validate_for_request c now p model u)) = committed u"
  by (simp add: validate_for_request_def with_reading)

lemma validate_iff:
  assumes "db_ok (committed u)"
  shows "fst (validate_for_request c now p model u) = Inr k \<longleftrightarrow>
    (\<exists>i. sql_view (committed u) i = Some k) \<and> key_lookup k = sha256_lookup c p
    \<and> verify_api_key c p (key_hash k) = Inr True \<and> usable_at now k \<and> permits k model"
proof -
  obtain x where x: "keys_find_by_lookup_hash (sha256_lookup c p) (committed u) = (Inr x, committed u)"
    "\<forall>k. x = Some k \<longleftrightarrow> (\<exists>i. sql_view (committed u) i = Some k) \<and> key_lookup k = sha256_lookup c p"
    using sql_keys.find_result [OF assms] by blast
  then show ?thesis by (auto simp: validate_lookup [OF assms x(1)] check_key_ok_iff)
qed

lemma create_then_validate:
  assumes db: "db_ok (committed u)" and c: "hasher_ok c"
    and cr: "create_key env c key_prefix e cmd u = (Inr ck, u1)"
    and t: "\<forall>t. ck_expires_at cmd = Some t \<longrightarrow> now \<le> t"
    and m: "ck_allowed_models cmd = [] \<or> model \<in> set (ck_allowed_models cmd)"
  shows "validate_for_request c now (created_plaintext ck) model u1
    = (Inr (sql_stored env (created_key ck)), u1\<lparr>session := None\<rparr>)"
proof -
  let ?k = "issue_key c key_prefix e cmd" and ?p = "generate_api_key key_prefix (ke_token e)"
  obtain r where r: "keys_add env ?k (committed u) = (Inr r, committed u1)"
    and ck: "created_key ck = ?k" "created_plaintext ck = ?p"
    using cr by (auto simp: create_key_committing split: prod.splits sum.splits)
  have "db_ok (committed u1)" using sql_keys.add_result [OF db r] by blast
  moreover have "key_lookup ?k = sha256_lookup c ?p" by (simp add: issue_key_def Let_def)
  then have "keys_find_by_lookup_hash (sha256_lookup c ?p) (committed u1) = (Inr (Some (sql_stored env ?k)), committed u1)"
    using sql_keys.find_after_add [OF db r] by simp
  ultimately have "validate_for_request c now ?p model u1
      = (check_key c now ?p model (Some (sql_stored env ?k)), u1\<lparr>session := None\<rparr>)"
    by (rule validate_lookup)
  moreover have "check_key c now ?p model (Some (sql_stored env ?k)) = Inr (sql_stored env ?k)"
    using c t m
    by (simp add: check_key_ok_iff sql_stored_def issue_key_def Let_def verify_own_hash usable_at_def permits_def)
  ultimately show ?thesis using ck by simp
qed

lemma revoke_key_cases:
  assumes "db_ok (committed u)"
  shows "revoke_key now i reason u =
    (if sql_view (committed u) i = None
     then (Inl (Domain NotFound ''API key not found''), u\<lparr>session := None\<rparr>)
     else case keys_revoke now i reason (committed u) of
       (Inl e, _) \<Rightarrow> (Inl e, u\<lparr>session := None\<rparr>)
     | (Inr x, db) \<Rightarrow> (Inr x, \<lparr>committed = db, session = None\<rparr>))"
  using keys_get_view [OF assms, of i]
  by (auto simp: revoke_key_def with_committing bind_def split: prod.split sum.split option.split)

lemma revoke_then_reject:
  assumes db: "db_ok (committed u)" and rv: "revoke_key t i reason u = (Inr (), u1)"
    and k: "sql_view (committed u) i = Some k" "key_lookup k = sha256_lookup c p"
    and v: "is_ok (verify_api_key c p (key_hash k))"
  shows "\<exists>msg. fst (validate_for_request c now p model u1) = Inl (Domain InvalidApiKey msg)"
proof -
  have r: "keys_revoke t i reason (committed u) = (Inr (), committed u1)"
    using rv k(1) by (auto simp: revoke_key_cases [OF db] split: prod.splits sum.splits if_splits)
  have "db_ok (committed u1)" using sql_keys.revoke_result [OF db r] by blast
  moreover have "keys_find_by_lookup_hash (sha256_lookup c p) (committed u1)
      = (Inr (Some (k\<lparr>revoked_at := Some t\<rparr>)), committed u1)"
    using sql_keys.find_after_revoke [OF db k(1) r] k(2) by simp
  ultimately have "fst (validate_for_request c now p model u1)
      = check_key c now p model (Some (k\<lparr>revoked_at := Some t\<rparr>))"
    by (simp add: validate_lookup)
  then show ?thesis using v by (auto simp: check_key_def is_ok_iff assert_usable_def)
qed

lemma revoke_other_keys:
  assumes db: "db_ok (committed u)" and rv: "revoke_key t i reason u = (Inr (), u1)"
    and ok: "fst (validate_for_request c now p model u) = Inr k" "key_id k \<noteq> i"
  shows "fst (validate_for_request c now p model u1) = Inr k"
proof -
  obtain j where j: "sql_view (committed u) j = Some k" "key_lookup k = sha256_lookup c p"
    using ok(1) by (auto simp: validate_iff [OF db])
  have r: "keys_revoke t i reason (committed u) = (Inr (), committed u1)"
    using rv by (auto simp: revoke_key_cases [OF db] split: prod.splits sum.splits if_splits)
  have db1: "db_ok (committed u1)" using sql_keys.revoke_result [OF db r] by blast
  have "keys_find_by_lookup_hash (sha256_lookup c p) (committed u) = (Inr (Some k), committed u)"
    using sql_keys.find_Some_iff [OF db] j by blast
  then have "keys_find_by_lookup_hash (sha256_lookup c p) (committed u1) = (Inr (Some k), committed u1)"
    using sql_keys.find_other_after_revoke [OF db r _ ok(2)] by blast
  then show ?thesis
    using validate_lookup [OF db1] ok(1) by (auto simp: validate_iff [OF db] check_key_ok_iff)
qed

lemma create_key_ok: "db_ok (committed u) \<Longrightarrow> db_ok (committed (snd (create_key env c key_prefix e cmd u)))"
  using keepsD [OF keys_add_ok, of "committed u" env "issue_key c key_prefix e cmd"]
  by (auto simp: create_key_committing split: prod.split sum.split)

lemma revoke_key_ok: "db_ok (committed u) \<Longrightarrow> db_ok (committed (snd (revoke_key now i reason u)))"
  unfolding revoke_key_def by (intro committing_keeps inv_intros)

end
