(* ===== verification/Json.thy ===== *)
theory Json
  imports DomainErrors DecimalText PyFloat "HOL-Library.AList"
begin

text \<open>
  The dynamically typed values the code passes around: JSON and YAML documents, request bodies
  and SDK payloads. A \<^verbatim>\<open>dict\<close> is the list of its items in insertion order; \<^const>\<open>AList.update\<close>
  is item assignment, which keeps the position of a key that is present.
\<close>

datatype json =
    JNull
  | JBool bool
  | JInt int
  | JFloat pyfloat
  | JStr string
  | JList "json list"
  | JObj "(string \<times> json) list"

fun truthy :: "json \<Rightarrow> bool" where
  "truthy JNull = False"
| "truthy (JBool b) = b"
| "truthy (JInt n) = (n \<noteq> 0)"
| "truthy (JFloat x) = (x \<noteq> 0)"
| "truthy (JStr s) = (s \<noteq> [])"
| "truthy (JList xs) = (xs \<noteq> [])"
| "truthy (JObj d) = (d \<noteq> [])"

text \<open>\<^verbatim>\<open>d.get(k, default)\<close>: only a mapping has the method.\<close>

fun json_get :: "json \<Rightarrow> string \<Rightarrow> json \<Rightarrow> json result" where
  "json_get (JObj d) k dflt = Inr (case map_of d k of None \<Rightarrow> dflt | Some v \<Rightarrow> v)"
| "json_get v k dflt = Inl (AttributeError ''get'')"

text \<open>\<^verbatim>\<open>d[k]\<close> with a string key.\<close>

fun json_item :: "json \<Rightarrow> string \<Rightarrow> json result" where
  "json_item (JObj d) k = (case map_of d k of None \<Rightarrow> Inl (KeyError k) | Some v \<Rightarrow> Inr v)"
| "json_item v k = Inl (TypeError ''indices must be integers or slices, not str'')"

definition json_or :: "json \<Rightarrow> json \<Rightarrow> json" where
  "json_or a b = (if truthy a then a else b)"

text \<open>The values a \<^verbatim>\<open>for\<close> loop over a document visits.\<close>

fun json_iter :: "json \<Rightarrow> json list result" where
  "json_iter (JList xs) = Inr xs"
| "json_iter (JObj d) = Inr (map (\<lambda>kv. JStr (fst kv)) d)"
| "json_iter (JStr s) = Inr (map (\<lambda>c. JStr [c]) s)"
| "json_iter v = Inl (TypeError ''object is not iterable'')"

section \<open>Numbers\<close>

text \<open>In a numeral, an underscore may only stand between two digits.\<close>

fun underscores_ok :: "bool \<Rightarrow> string \<Rightarrow> bool" where
  "underscores_ok after_digit [] = True"
| "underscores_ok after_digit (c # cs) =
     (if c = CHR ''_'' then after_digit \<and> cs \<noteq> [] \<and> is_digit (hd cs) \<and> underscores_ok False cs
      else underscores_ok (is_digit c) cs)"

definition int_of_text :: "string \<Rightarrow> int option" where
  "int_of_text s =
     (let t = py_strip s;
          neg = (t \<noteq> [] \<and> hd t = CHR ''-'');
          u = (if t \<noteq> [] \<and> (hd t = CHR ''-'' \<or> hd t = CHR ''+'') then tl t else t);
          ds = filter (\<lambda>c. c \<noteq> CHR ''_'') u
      in if ds = [] \<or> \<not> underscores_ok False u \<or> \<not> list_all is_digit ds then None
         else Some ((if neg then -1 else 1) * int (digits_val ds)))"

fun int_of_json :: "json \<Rightarrow> int result" where
  "int_of_json (JInt n) = Inr n"
| "int_of_json (JBool b) = Inr (if b then 1 else 0)"
| "int_of_json (JFloat x) = Inr (if 0 \<le> x then \<lfloor>x\<rfloor> else - \<lfloor>- x\<rfloor>)"
| "int_of_json (JStr s) =
     (case int_of_text s of None \<Rightarrow> Inl (ValueError ''invalid literal for int()'') | Some n \<Rightarrow> Inr n)"
| "int_of_json v = Inl (TypeError ''int() argument must be a string or a real number'')"

fun float_of_json :: "json \<Rightarrow> pyfloat result" where
  "float_of_json (JInt n) = Inr (py_float (of_int n))"
| "float_of_json (JBool b) = Inr (if b then 1 else 0)"
| "float_of_json (JFloat x) = Inr x"
| "float_of_json (JStr s) =
     (case (if underscores_ok False (py_strip s) then dec_parse s else None) of
        None \<Rightarrow> Inl (ValueError ''could not convert string to float'')
      | Some d \<Rightarrow> Inr (py_float (dec_val d)))"
| "float_of_json v = Inl (TypeError ''float() argument must be a string or a real number'')"

text \<open>
  \<^verbatim>\<open>Decimal(str(x))\<close> of a float: its shortest decimal that reads back as \<open>x\<close>, at most 17 digits
  (the value of Python's text; trailing zeros are not kept).
\<close>

definition round_digits :: "nat \<Rightarrow> rat \<Rightarrow> decimal" where
  "round_digits n x =
     (case quotient_of x of (p, q) \<Rightarrow>
        let k = int (ndigits (nat \<bar>p\<bar>)) - int (ndigits (nat q));
            small = (if 0 \<le> k then \<bar>p\<bar> < q * 10 ^ nat k else \<bar>p\<bar> * 10 ^ nat (- k) < q);
            e = (if small then k - int n else k - int n + 1);
            c = (if 0 \<le> e then half_even \<bar>p\<bar> (q * 10 ^ nat e) else half_even (\<bar>p\<bar> * 10 ^ nat (- e)) q)
        in Dec (sgn p * c) e)"

fun shortest_digits :: "nat \<Rightarrow> nat \<Rightarrow> rat \<Rightarrow> decimal" where
  "shortest_digits 0 n x = round_digits n x"
| "shortest_digits (Suc m) n x =
     (let d = round_digits n x in if py_float (dec_val d) = x then d else shortest_digits m (Suc n) x)"

definition dec_of_float_text :: "pyfloat \<Rightarrow> decimal" where
  "dec_of_float_text x = (if x = 0 then dec_zero else shortest_digits 16 1 x)"

text \<open>\<^verbatim>\<open>Decimal(str(v))\<close>\<close>

fun dec_of_json_text :: "json \<Rightarrow> decimal result" where
  "dec_of_json_text (JInt n) = Inr (dec_of_int n)"
| "dec_of_json_text (JFloat x) = Inr (dec_of_float_text x)"
| "dec_of_json_text (JStr s) = (case dec_parse s of None \<Rightarrow> Inl InvalidOperation | Some d \<Rightarrow> Inr d)"
| "dec_of_json_text v = Inl InvalidOperation"

text \<open>
  \<^verbatim>\<open>Decimal(value)\<close>. A finite float is converted exactly; the three-element sequence form of
  the constructor does not occur in the program and is refused here.
\<close>

definition dec_of_float :: "pyfloat \<Rightarrow> decimal" where
  "dec_of_float x =
     (case quotient_of x of (p, q) \<Rightarrow>
        let k = nat (bitlen q - 1) in if q = 1 then Dec p 0 else Dec (p * 5 ^ k) (- int k))"

fun dec_of_json :: "json \<Rightarrow> decimal result" where
  "dec_of_json (JInt n) = Inr (dec_of_int n)"
| "dec_of_json (JBool b) = Inr (dec_of_int (if b then 1 else 0))"
| "dec_of_json (JFloat x) = Inr (dec_of_float x)"
| "dec_of_json (JStr s) = (case dec_parse s of None \<Rightarrow> Inl InvalidOperation | Some d \<Rightarrow> Inr d)"
| "dec_of_json JNull = Inl (TypeError ''conversion from NoneType to Decimal is not supported'')"
| "dec_of_json (JList xs) = Inl (ValueError ''argument must be a sequence of length 3'')"
| "dec_of_json (JObj d) = Inl (TypeError ''conversion from dict to Decimal is not supported'')"

lemma json_get_total: "json_get (JObj d) k v = Inr (case map_of d k of None \<Rightarrow> v | Some w \<Rightarrow> w)"
  by simp

lemma map_of_update: "map_of (AList.update k v d) = (map_of d)(k \<mapsto> v)"
  by (rule update_conv')

end
