(* ===== verification/ApiErrors.thy ===== *)
theory ApiErrors
  imports Json PyUuid
begin

text \<open>
  The error responses of the HTTP API (\<^verbatim>\<open>app/api/errors.py\<close>): every exception becomes an OpenAI
  error envelope with a status. A validation failure is the list of its errors, each with its
  location and message.
\<close>

record http_response =
  resp_status :: int
  resp_body :: json

definition envelope :: "string \<Rightarrow> string \<Rightarrow> string \<Rightarrow> string option \<Rightarrow> json" where
  "envelope msg error_type code param =
     (let body = [(''message'', JStr msg), (''type'', JStr error_type), (''code'', JStr code)]
      in JObj [(''error'', JObj (case param of None \<Rightarrow> body | Some p \<Rightarrow> AList.update ''param'' (JStr p) body))])"

definition domain_handler :: "domain_kind \<Rightarrow> string \<Rightarrow> http_response" where
  "domain_handler k msg =
     \<lparr>resp_status = http_status k,
      resp_body = envelope (if msg \<noteq> [] then msg else error_code k) ''invalid_request_error'' (error_code k) None\<rparr>"

text \<open>A location is made of field names and list indices.\<close>

datatype loc_part = LocName string | LocIndex int

fun loc_text :: "loc_part \<Rightarrow> string" where
  "loc_text (LocName s) = s"
| "loc_text (LocIndex i) = show_int i"

record validation_item =
  vi_loc :: "loc_part list"
  vi_msg :: "string option"

definition validation_handler :: "validation_item list \<Rightarrow> http_response" where
  "validation_handler errors =
     (let first = (case errors of e # _ \<Rightarrow> e | [] \<Rightarrow> \<lparr>vi_loc = [], vi_msg = None\<rparr>);
          param = py_join ''.'' (map loc_text (vi_loc first))
      in \<lparr>resp_status = 422,
          resp_body = envelope (case vi_msg first of None \<Rightarrow> ''Invalid request'' | Some m \<Rightarrow> m)
            ''invalid_request_error'' ''validation_error'' (if param \<noteq> [] then Some param else None)\<rparr>)"

definition http_handler :: "int \<Rightarrow> string \<Rightarrow> http_response" where
  "http_handler status detail =
     \<lparr>resp_status = status,
      resp_body = envelope detail ''invalid_request_error'' (''http_'' @ show_int status) None\<rparr>"

definition unhandled_handler :: http_response where
  "unhandled_handler =
     \<lparr>resp_status = 500, resp_body = envelope ''Internal server error'' ''server_error'' ''internal_error'' None\<rparr>"

text \<open>The handler FastAPI selects is that of the most specific class.\<close>

fun handle_exception :: "exn \<Rightarrow> http_response" where
  "handle_exception (Domain k msg) = domain_handler k msg"
| "handle_exception (HttpError status detail) = http_handler status detail"
| "handle_exception e = unhandled_handler"

definition error_field :: "http_response \<Rightarrow> string \<Rightarrow> json option" where
  "error_field r k =
     (case json_item (resp_body r) ''error'' of
        Inr e \<Rightarrow> (case json_item e k of Inr v \<Rightarrow> Some v | Inl _ \<Rightarrow> None)
      | Inl _ \<Rightarrow> None)"

lemma error_field_envelope:
  "resp_body r = envelope m t c None \<Longrightarrow>
    error_field r ''message'' = Some (JStr m) \<and> error_field r ''type'' = Some (JStr t)
    \<and> error_field r ''code'' = Some (JStr c) \<and> error_field r ''param'' = None"
  by (simp add: error_field_def envelope_def)

text \<open>The code in the body tells which domain error it was.\<close>

lemma domain_response_determines_kind:
  "error_field (handle_exception (Domain k m)) ''code'' = error_field (handle_exception (Domain k' m')) ''code''
    \<longleftrightarrow> k = k'"
  by (simp add: domain_handler_def error_field_def envelope_def error_code_inj)

text \<open>An exception that is neither a domain nor an HTTP error leaves no trace in its response.\<close>

definition internal :: "exn \<Rightarrow> bool" where
  "internal e \<longleftrightarrow> \<not> is_domain e \<and> (\<forall>s d. e \<noteq> HttpError s d)"

lemma internal_response: "internal e \<Longrightarrow> handle_exception e = unhandled_handler"
  by (cases e) (simp_all add: internal_def)

end
