(* ===== verification/ApiAuth.thy ===== *)
theory ApiAuth
  imports AuthService ApiErrors
begin

text \<open>
  Authentication and authorization of the HTTP API: the dependencies of
  \<^verbatim>\<open>app/api/dependencies.py\<close> and the decorators of \<^verbatim>\<open>app/api/decorators.py\<close>. A handler is an
  action on the unit of work of its request.
\<close>

record auth_context =
  auth_user :: user
  auth_api_key :: api_key

section \<open>Who is calling\<close>

definition extract_bearer :: "string option \<Rightarrow> string result" where
  "extract_bearer authorization =
     (case authorization of
        None \<Rightarrow> Inl (Domain InvalidApiKey ''Missing bearer token'')
      | Some a \<Rightarrow>
          if a = [] \<or> \<not> py_startswith (py_lower a) ''bearer ''
          then Inl (Domain InvalidApiKey ''Missing bearer token'')
          else Inr (py_strip (split_once (CHR '' '') a ! 1)))"

definition get_current_auth :: "crypto \<Rightarrow> datetime \<Rightarrow> string option \<Rightarrow> auth_context uow_action" where
  "get_current_auth c now authorization =
     bind (lift (extract_bearer authorization)) (\<lambda>plaintext.
       with_uow (in_session
         (bind (keys_find_by_lookup_hash (sha256_lookup c plaintext)) (\<lambda>key.
            case key of
              None \<Rightarrow> throw (Domain InvalidApiKey ''Unknown API key'')
            | Some k \<Rightarrow>
                bind (lift (verify_api_key c plaintext (key_hash k))) (\<lambda>ok.
                  if \<not> ok then throw (Domain InvalidApiKey ''Unknown API key'')
                  else bind (lift (assert_usable now k)) (\<lambda>_.
                       bind (users_get (key_user_id k)) (\<lambda>user.
                         case user of
                           None \<Rightarrow> throw (Domain InvalidApiKey ''Key owner not found'')
                         | Some u \<Rightarrow> return \<lparr>auth_user = u, auth_api_key = k\<rparr>)))))))"

definition require_role :: "user_role set \<Rightarrow> user \<Rightarrow> user result" where
  "require_role allowed u =
     (if user_role u \<notin> allowed
      then Inl (Domain Forbidden (''Role '' @ role_value (user_role u) @ '' not permitted''))
      else Inr u)"

section \<open>Permissions\<close>

fun role_permissions :: "user_role \<Rightarrow> string list" where
  "role_permissions OWNER = [''keys:write'', ''keys:read'', ''billing:write'', ''billing:read'', ''admin:write'']"
| "role_permissions ADMIN = [''keys:write'', ''keys:read'', ''billing:read'', ''admin:write'']"
| "role_permissions BILLING = [''billing:write'', ''billing:read'']"
| "role_permissions MEMBER = [''keys:read'']"

text \<open>\<open>auth\<close> is what \<^verbatim>\<open>_find_auth_context\<close> finds among the arguments of the handler.\<close>

definition require_permission :: "string \<Rightarrow> auth_context option \<Rightarrow> 'a uow_action \<Rightarrow> 'a uow_action" where
  "require_permission permission auth handler =
     (case auth of
        None \<Rightarrow> throw (Domain Forbidden ''Missing auth context for permission check'')
      | Some a \<Rightarrow>
          if permission \<notin> set (role_permissions (user_role (auth_user a)))
          then throw (Domain Forbidden
                 (''Permission '' @ permission @ '' denied for role '' @ role_value (user_role (auth_user a))))
          else handler)"

section \<open>The audit trail\<close>

record audit_entropy =
  ae_id :: uuid
  ae_target :: uuid

definition audit_row_of :: "db_env \<Rightarrow> audit_entropy \<Rightarrow> string \<Rightarrow> string \<Rightarrow> string \<Rightarrow> auth_context option \<Rightarrow> audit_row" where
  "audit_row_of env e action target_type target_id auth =
     \<lparr>a_id = ae_id e, a_org_id = map_option (\<lambda>a. user_org_id (auth_user a)) auth,
      a_actor_user_id = map_option (\<lambda>a. user_id (auth_user a)) auth,
      a_action = action, a_target_type = target_type, a_target_id = target_id, a_metadata = [],
      a_created_at = db_now env\<rparr>"

text \<open>The row is written in a session of its own, and only after the handler has succeeded.\<close>

definition write_audit :: "audit_row \<Rightarrow> unit uow_action" where
  "write_audit row u =
     (case insert_audit_log row (committed u) of
        (Inl e, _) \<Rightarrow> (Inl e, u)
      | (Inr _, db) \<Rightarrow> (Inr (), u\<lparr>committed := db\<rparr>))"

text \<open>\<open>target\<close> is the argument \<^verbatim>\<open>target_id_arg\<close> names, when the decorator names one.\<close>

definition audit_log :: "db_env \<Rightarrow> audit_entropy \<Rightarrow> string \<Rightarrow> string \<Rightarrow> uuid option \<Rightarrow> auth_context option
    \<Rightarrow> 'a uow_action \<Rightarrow> 'a uow_action" where
  "audit_log env e action target_type target auth handler =
     bind handler (\<lambda>x u.
       (Inr x, snd (write_audit (audit_row_of env e action target_type
          (uuid_str (case target of None \<Rightarrow> ae_target e | Some t \<Rightarrow> t)) auth) u)))"

section \<open>Their lemmas\<close>

lemma audit_log_result: "fst (audit_log env e action tt target auth handler u) = fst (handler u)"
  by (auto simp: audit_log_def bind_def split: sum.split prod.split)

text \<open>An audited action changes no table but the audit log.\<close>

lemma write_audit_tables:
  "committed (snd (write_audit row u)) = (committed u)\<lparr>audit_logs := audit_logs (committed (snd (write_audit row u)))\<rparr>"
  by (auto simp: write_audit_def insert_audit_log_def checked_insert_def split: if_splits)

lemma audit_log_tables:
  "committed (snd (audit_log env e action tt target auth handler u))
    = (committed (snd (handler u)))\<lparr>audit_logs := audit_logs (committed (snd (audit_log env e action tt target auth handler u)))\<rparr>"
  using write_audit_tables by (auto simp: audit_log_def bind_def split: sum.split prod.split)

lemma write_audit_ok: "db_ok (committed u) \<Longrightarrow> db_ok (committed (snd (write_audit row u)))"
  using keepsD [OF insert_audit_log_ok, of "committed u" row]
  by (auto simp: write_audit_def split: sum.split prod.split)

lemma audit_log_view:
  "sql_view (committed (snd (audit_log env e action tt target auth handler u)))
    = sql_view (committed (snd (handler u)))"
proof -
  have "sql_view (committed (snd (write_audit row v))) = sql_view (committed v)" for row v
    by (subst write_audit_tables) (simp add: sql_view_def fun_eq_iff)
  then show ?thesis by (auto simp: audit_log_def bind_def split: sum.split prod.split)
qed

lemma audit_log_on_success:
  assumes "handler u = (Inr x, u')" and fresh: "ae_id e \<notin> a_id ` set (audit_logs (committed u'))"
    and fit: "varchar 100 action" "varchar 100 tt"
  shows "audit_logs (committed (snd (audit_log env e action tt target auth handler u)))
    = audit_logs (committed u') @ [audit_row_of env e action tt
        (uuid_str (case target of None \<Rightarrow> ae_target e | Some t \<Rightarrow> t)) auth]"
proof -
  have "varchar 200 (uuid_str v)" for v
    by (simp add: varchar_def uuid_str_def uuid_hex_def Let_def)
  with assms show ?thesis
    by (simp add: audit_log_def bind_def write_audit_def insert_audit_log_def checked_insert_def audit_row_of_def)
qed

lemma require_permission_denied:
  assumes "permission \<notin> set (role_permissions (user_role (auth_user a)))"
  shows "\<exists>m. require_permission permission (Some a) handler u = (Inl (Domain Forbidden m), u)"
  using assms by (simp add: require_permission_def)

lemma require_permission_granted:
  "permission \<in> set (role_permissions (user_role (auth_user a))) \<Longrightarrow>
    require_permission permission (Some a) handler = handler"
  by (simp add: require_permission_def)

lemma lower_char_bearer: "py_lower a = CHR ''b'' # r \<Longrightarrow> a \<noteq> []"
  by (auto simp: py_lower_def)

lemma get_current_auth_iff:
  assumes db: "db_ok (committed u)" and p: "extract_bearer h = Inr p"
  shows "fst (get_current_auth c now h u) = Inr a \<longleftrightarrow>
    (\<exists>i. sql_view (committed u) i = Some (auth_api_key a))
    \<and> key_lookup (auth_api_key a) = sha256_lookup c p
    \<and> verify_api_key c p (key_hash (auth_api_key a)) = Inr True
    \<and> usable_at now (auth_api_key a)
    \<and> fst (users_get (key_user_id (auth_api_key a)) (committed u)) = Inr (Some (auth_user a))"
proof -
  obtain x where x: "keys_find_by_lookup_hash (sha256_lookup c p) (committed u) = (Inr x, committed u)"
    "\<forall>k. x = Some k \<longleftrightarrow> (\<exists>i. sql_view (committed u) i = Some k) \<and> key_lookup k = sha256_lookup c p"
    using sql_keys.find_result [OF db] by blast
  have g: "fst (users_get i (committed u)) = r \<longleftrightarrow> users_get i (committed u) = (r, committed u)" for i r
    by (simp add: users_get_def)
  show ?thesis
  proof (cases x)
    case None
    with x p show ?thesis by (auto simp: get_current_auth_def with_reading bind_def)
  next
    case (Some k)
    then have eq: "(\<exists>i. sql_view (committed u) i = Some k') \<and> key_lookup k' = sha256_lookup c p \<longleftrightarrow> k' = k" for k'
      using spec [OF x(2), of k'] by auto
    have "fst (get_current_auth c now h u) = Inr a \<longleftrightarrow>
      auth_api_key a = k \<and> verify_api_key c p (key_hash k) = Inr True \<and> usable_at now k
      \<and> fst (users_get (key_user_id k) (committed u)) = Inr (Some (auth_user a))"
      using x(1) Some p
      by (cases a; cases "verify_api_key c p (key_hash k)"; cases "assert_usable now k")
        (auto simp: get_current_auth_def with_reading bind_def users_get_def assert_usable_iff [symmetric]
          split: sum.splits option.splits)
    then show ?thesis using eq by metis
  qed
qed

lemma get_current_auth_readonly: "committed (snd (get_current_auth c now h u)) = committed u"
  by (cases "extract_bearer h") (simp_all add: get_current_auth_def with_reading)

end
