(* ===== verification/CreditPort.thy ===== *)
theory CreditPort
  imports Repositories
begin

text \<open>
  The port \<^verbatim>\<open>CreditRepository\<close> (\<^verbatim>\<open>app/service/domain/repositories.py\<close>) as its clients rely on it: a
  ledger of funds per organization from which amounts are deducted atomically. The SQL repository
  (\<^verbatim>\<open>app/repository/credits.py\<close>) implements it whenever the numeric columns convert as documented.
\<close>

section \<open>The port\<close>

type_synonym 's deduction = "uuid \<Rightarrow> money \<Rightarrow> ('s, exn, bool) action"

text \<open>A sequence of deductions, each in its own call; what is granted to an organization in it.\<close>

fun deduct_all :: "'s deduction \<Rightarrow> (uuid \<times> money) list \<Rightarrow> 's \<Rightarrow> bool result list \<times> 's" where
  "deduct_all deduct [] s = ([], s)"
| "deduct_all deduct ((org, m) # ops) s =
     (case deduct org m s of (r, s1) \<Rightarrow> (case deduct_all deduct ops s1 of (rs, s2) \<Rightarrow> (r # rs, s2)))"

fun granted :: "uuid \<Rightarrow> (uuid \<times> money) list \<Rightarrow> bool result list \<Rightarrow> rat" where
  "granted org ((o', m) # ops) (r # rs) =
     (if o' = org \<and> r = Inr True then dec_val (amount m) else 0) + granted org ops rs"
| "granted org _ _ = 0"

locale credit_ledger =
  fixes inv :: "'s \<Rightarrow> bool"
    and funds :: "uuid \<Rightarrow> 's \<Rightarrow> rat option"
    and deduct :: "'s deduction"
  assumes short: "inv s \<Longrightarrow> funds org s = None \<or> funds org s = Some v \<and> v < dec_val (amount m)
        \<Longrightarrow> deduct org m s = (Inr False, s)"
    and enough: "inv s \<Longrightarrow> money_ok m \<Longrightarrow> funds org s = Some v \<Longrightarrow> dec_val (amount m) \<le> v \<Longrightarrow>
        \<exists>s' v'. deduct org m s = (Inr True, s') \<and> inv s' \<and> funds org s' = Some v' \<and> 0 \<le> v'
          \<and> 2 * 10 ^ 6 * \<bar>v' - (v - dec_val (amount m))\<bar> \<le> 1
          \<and> (cents_ok (amount m) \<longrightarrow> v' = v - dec_val (amount m))
          \<and> (\<forall>o'. o' \<noteq> org \<longrightarrow> funds o' s' = funds o' s)"
begin

lemma total:
  assumes "inv s" "money_ok m"
  obtains (refused) "deduct org m s = (Inr False, s)"
    "\<nexists>v. funds org s = Some v \<and> dec_val (amount m) \<le> v"
  | (paid) s' v v' where "deduct org m s = (Inr True, s')" "inv s'"
    "funds org s = Some v" "dec_val (amount m) \<le> v" "funds org s' = Some v'" "0 \<le> v'"
    "2 * 10 ^ 6 * \<bar>v' - (v - dec_val (amount m))\<bar> \<le> 1"
    "cents_ok (amount m) \<Longrightarrow> v' = v - dec_val (amount m)"
    "\<And>o'. o' \<noteq> org \<Longrightarrow> funds o' s' = funds o' s"
proof (cases "funds org s")
  case None
  with assms(1) show ?thesis by (intro refused short) auto
next
  case (Some v)
  show ?thesis
  proof (cases "dec_val (amount m) \<le> v")
    case True
    with enough [OF assms Some] paid Some show ?thesis by blast
  next
    case False
    with assms(1) Some show ?thesis by (intro refused short [of s org v]) auto
  qed
qed

lemma never_raises: "inv s \<Longrightarrow> money_ok m \<Longrightarrow> fst (deduct org m s) \<noteq> Inl e"
  by (rule total [of s m org]) simp_all

lemma keeps_inv: "inv s \<Longrightarrow> money_ok m \<Longrightarrow> inv (snd (deduct org m s))"
  by (rule total [of s m org]) simp_all

lemma granted_iff:
  "inv s \<Longrightarrow> money_ok m \<Longrightarrow>
    fst (deduct org m s) = Inr True \<longleftrightarrow> (\<exists>v. funds org s = Some v \<and> dec_val (amount m) \<le> v)"
  by (rule total [of s m org]) auto

lemma refused_unchanged:
  "inv s \<Longrightarrow> money_ok m \<Longrightarrow> fst (deduct org m s) \<noteq> Inr True \<Longrightarrow> snd (deduct org m s) = s"
  by (rule total [of s m org]) simp_all

lemma granted_funds:
  assumes "inv s" "money_ok m" "deduct org m s = (Inr True, s')"
  shows "if o' = org
    then \<exists>v v'. funds org s = Some v \<and> funds org s' = Some v' \<and> 0 \<le> v'
      \<and> 2 * 10 ^ 6 * \<bar>v' - (v - dec_val (amount m))\<bar> \<le> 1
      \<and> (cents_ok (amount m) \<longrightarrow> v' = v - dec_val (amount m))
    else funds o' s' = funds o' s"
  using assms(1,2) by (rule total [of s m org]) (use assms(3) in auto)

lemma exact_funds:
  assumes "inv s" "money_ok m" "cents_ok (amount m)" "deduct org m s = (r, s')"
  shows "inv s' \<and> (r = Inr True \<or> r = Inr False) \<and>
    funds o' s' = map_option (\<lambda>v. v - (if o' = org \<and> r = Inr True then dec_val (amount m) else 0)) (funds o' s)"
  using assms(1,2)
  by (rule total [of s m org])
    (use assms(1,3,4) in \<open>auto simp: option.map_ident\<close>)

text \<open>
  However often and for whatever organizations it is called, the deductions granted are paid for
  exactly, and nobody is granted more than the funds there were.
\<close>

lemma granted_is_paid:
  assumes "inv s" "\<forall>(o', m) \<in> set ops. money_ok m \<and> cents_ok (amount m)" "deduct_all deduct ops s = (rs, s')"
  shows "inv s' \<and> funds org s' = map_option (\<lambda>v. v - granted org ops rs) (funds org s)"
  using assms
proof (induction ops arbitrary: s rs)
  case Nil
  then show ?case by (simp add: option.map_ident)
next
  case (Cons op ops)
  obtain o1 m where op: "op = (o1, m)" by (cases op)
  obtain r s1 where d: "deduct o1 m s = (r, s1)" by (cases "deduct o1 m s")
  obtain rs' s2 where d': "deduct_all deduct ops s1 = (rs', s2)" by (cases "deduct_all deduct ops s1")
  have rs: "rs = r # rs'" "s' = s2" using Cons.prems(3) op d d' by auto
  note one = exact_funds [OF Cons.prems(1) _ _ d, of org]
  have "inv s' \<and> funds org s' = map_option (\<lambda>v. v - granted org ops rs') (funds org s1)"
    using Cons.IH [of s1 rs'] Cons.prems(2) one op d' rs(2) by auto
  with one Cons.prems(2) op show ?case
    by (cases "funds org s") (auto simp: rs(1) op)
qed

lemma granted_within_funds:
  assumes "inv s" "\<forall>(o', m) \<in> set ops. money_ok m \<and> cents_ok (amount m)" "deduct_all deduct ops s = (rs, s')"
    and "\<And>t v. inv t \<Longrightarrow> funds org t = Some v \<Longrightarrow> 0 \<le> v" and "funds org s = Some v"
  shows "granted org ops rs \<le> v"
  using granted_is_paid [OF assms(1-3), of org] assms(4) [of s' "v - granted org ops rs"] assms(5) by simp

end

section \<open>The SQL repository is such a ledger\<close>

locale sql_credits = numeric_column "db_numeric env" for env :: db_env
begin

lemma sql_short:
  assumes "db_ok db" "avail org db = None \<or> avail org db = Some v \<and> v < dec_val (amount m)"
  shows "credits_deduct_atomic env org m db = (Inr False, db)"
  using assms by (intro deduct_refused) (auto simp: covers_def)

lemma sql_enough:
  assumes "db_ok db" "money_ok m" "avail org db = Some v" "dec_val (amount m) \<le> v"
  shows "\<exists>db' v'. credits_deduct_atomic env org m db = (Inr True, db') \<and> db_ok db'
    \<and> avail org db' = Some v' \<and> 0 \<le> v'
    \<and> 2 * 10 ^ 6 * \<bar>v' - (v - dec_val (amount m))\<bar> \<le> 1
    \<and> (cents_ok (amount m) \<longrightarrow> v' = v - dec_val (amount m))
    \<and> (\<forall>o'. o' \<noteq> org \<longrightarrow> avail o' db' = avail o' db)"
proof -
  have cov: "covers org m db" using assms(3,4) by (simp add: covers_def)
  obtain r av rs where r: "by_key c_org_id org (credit_balances db) = Some r"
    and d: "credits_deduct_atomic env org m db = (Inr True, db\<lparr>credit_balances := rs\<rparr>)"
    and rs: "rs = update_where (\<lambda>s. c_org_id s = org)
        (\<lambda>_. r\<lparr>c_available := av, c_updated_at := db_now env\<rparr>) (credit_balances db)"
    and av: "dec_zero \<le> av" "2 * 10 ^ 6 * \<bar>dec_val av - (dec_val (c_available r) - dec_val (amount m))\<bar> \<le> 1"
      "cents_ok (amount m) \<longrightarrow> dec_val av = dec_val (c_available r) - dec_val (amount m)"
    using deduct_granted [OF numeric_column_axioms assms(1,2) cov] by blast
  have "db_ok (db\<lparr>credit_balances := rs\<rparr>)"
    using keepsD [OF deduct_atomic_ok [OF numeric_column_axioms assms(2)] assms(1), of org] d by simp
  moreover have "c_org_id r = org" using by_key_SomeD [OF r] by simp
  then have "avail o' (db\<lparr>credit_balances := rs\<rparr>) = (if o' = org then Some (dec_val av) else avail o' db)" for o'
    using r by (simp add: avail_def rs by_key_set_row)
  moreover have "v = dec_val (c_available r)" using assms(3) r by (simp add: avail_def)
  ultimately show ?thesis using d av by (auto simp: dec_order)
qed

end

sublocale sql_credits \<subseteq> credit_ledger db_ok avail "credits_deduct_atomic env"
  by unfold_locales (fact sql_short, fact sql_enough)

lemma sql_ledger:
  assumes "numeric_column (db_numeric env)"
  shows "credit_ledger db_ok avail (credits_deduct_atomic env)"
proof -
  have "sql_credits env" using assms by (simp add: sql_credits_def)
  then show ?thesis by unfold_locales (rule sql_credits.sql_short, assumption+, rule sql_credits.sql_enough)
qed

text \<open>The repository on PostgreSQL's \<^verbatim>\<open>NUMERIC\<close> columns.\<close>

interpretation pg_credits: sql_credits "\<lparr>db_now = now, db_numeric = pg_numeric, db_timestamp = parse\<rparr>"
  for now parse
  by (simp add: sql_credits_def pg.numeric_column_axioms)

end
