(* ===== verification/BillingService.thy ===== *)
theory BillingService
  imports UnitOfWork PyUuid CreditPort
begin

text \<open>
  Metering (\<^verbatim>\<open>app/service/billing_service.py\<close>): price a request, deduct the price from the balance
  of the organization, append a usage record, and commit both together. The lemmas give the
  outcome on every branch and the bookkeeping identity between balances and records.
\<close>

record meter_usage_command =
  mu_org_id :: uuid
  mu_key_id :: uuid
  mu_model :: string
  mu_provider :: string
  mu_tokens :: token_counts
  mu_pricing :: model_pricing
  mu_latency_ms :: int
  mu_cache_hit :: bool

definition meter_cost :: "meter_usage_command \<Rightarrow> money result" where
  "meter_cost cmd = (if \<not> mu_cache_hit cmd then cost (mu_pricing cmd) (mu_tokens cmd) else Inr money_zero)"

definition meter_record :: "uuid \<Rightarrow> datetime \<Rightarrow> meter_usage_command \<Rightarrow> money \<Rightarrow> usage_record" where
  "meter_record i now cmd c =
     \<lparr>ur_id = i, ur_org_id = mu_org_id cmd, ur_key_id = mu_key_id cmd, ur_model = mu_model cmd,
      ur_provider = mu_provider cmd, ur_tokens = mu_tokens cmd, ur_cost = c,
      ur_latency_ms = mu_latency_ms cmd, ur_cache_hit = mu_cache_hit cmd, ur_created_at = now\<rparr>"

definition meter_work :: "db_env \<Rightarrow> uuid \<Rightarrow> datetime \<Rightarrow> meter_usage_command \<Rightarrow> money \<Rightarrow> usage_record db_action" where
  "meter_work env i now cmd c =
     bind (if dec_zero < amount c
           then bind (credits_deduct_atomic env (mu_org_id cmd) c) (\<lambda>ok.
                  if \<not> ok
                  then throw (Domain InsufficientCredits
                         (''Could not deduct $'' @ dec_str (amount c) @ '' from org '' @ uuid_str (mu_org_id cmd)))
                  else return ())
           else return ())
       (\<lambda>_. bind (usage_add env (meter_record i now cmd c)) (\<lambda>_. return (meter_record i now cmd c)))"

definition meter :: "db_env \<Rightarrow> uuid \<Rightarrow> datetime \<Rightarrow> meter_usage_command \<Rightarrow> usage_record uow_action" where
  "meter env i now cmd =
     bind (lift (meter_cost cmd)) (\<lambda>c. with_uow (committing (meter_work env i now cmd c)))"

section \<open>All or nothing\<close>

lemma meter_run:
  "meter env i now cmd u =
    (case meter_cost cmd of
       Inl e \<Rightarrow> (Inl e, u)
     | Inr c \<Rightarrow>
         (case meter_work env i now cmd c (committed u) of
            (Inl e, _) \<Rightarrow> (Inl e, u\<lparr>session := None\<rparr>)
          | (Inr r, db) \<Rightarrow> (Inr r, \<lparr>committed = db, session = None\<rparr>)))"
  by (simp add: meter_def with_committing split: sum.split)

lemma meter_failure_keeps_database:
  "fst (meter env i now cmd u) = Inl e \<Longrightarrow> committed (snd (meter env i now cmd u)) = committed u"
  by (auto simp: meter_run split: sum.splits prod.splits)

lemma meter_cost_ok:
  assumes "prices_nonneg (mu_pricing cmd)" "counts_nonneg (mu_tokens cmd)"
  shows "\<exists>c. meter_cost cmd = Inr c \<and> money_ok c"
  using cost_nonneg [OF assms] by (simp add: meter_cost_def)

lemma meter_cost_money_ok: "meter_cost cmd = Inr c \<Longrightarrow> money_ok c"
  by (auto simp: meter_cost_def cost_def res_bind_Inr_iff Money_ok split: if_splits)

lemma meter_work_ok:
  assumes "numeric_column (db_numeric env)" "money_ok c"
  shows "keeps db_ok (meter_work env i now cmd c)"
  unfolding meter_work_def using assms
  by (intro inv_intros) (simp_all add: meter_record_def)

lemma meter_ok:
  assumes "numeric_column (db_numeric env)" "db_ok (committed u)"
  shows "db_ok (committed (snd (meter env i now cmd u)))"
proof (cases "meter_cost cmd")
  case (Inl e)
  with assms(2) show ?thesis by (simp add: meter_def)
next
  case (Inr c)
  then have "keeps db_ok (meter_work env i now cmd c)"
    using assms(1) meter_cost_money_ok by (intro meter_work_ok)
  then have "db_ok (committed (snd (with_uow (committing (meter_work env i now cmd c)) u)))"
    using assms(2) by (rule committing_keeps)
  with Inr show ?thesis by (simp add: meter_def)
qed

lemma meter_insufficient:
  assumes db: "db_ok (committed u)" and c: "meter_cost cmd = Inr c" "dec_zero < amount c"
    and poor: "\<not> covers (mu_org_id cmd) c (committed u)"
  shows "\<exists>msg. meter env i now cmd u = (Inl (Domain InsufficientCredits msg), u\<lparr>session := None\<rparr>)"
  by (simp add: meter_run c meter_work_def bind_def deduct_refused [OF db poor])

section \<open>Bookkeeping\<close>

text \<open>What an organization was charged for, according to its usage records.\<close>

definition spent :: "uuid \<Rightarrow> database \<Rightarrow> rat" where
  "spent org db = sum_list (map (\<lambda>r. dec_val (r_cost_usd r)) (filter (\<lambda>r. r_org_id r = org) (usage_records db)))"

definition solvent :: "database \<Rightarrow> bool" where
  "solvent db \<longleftrightarrow> (\<forall>org v. avail org db = Some v \<longrightarrow> 0 \<le> v)"

lemma usage_add_Inr:
  assumes "usage_add env r db = (Inr x, db')"
  shows "\<exists>c. db_numeric env (amount (ur_cost r)) = Inr c
    \<and> db' = db\<lparr>usage_records := usage_records db @ [usage_to_row (db_now env) c r]\<rparr>"
  using assms
  by (auto simp: usage_add_def insert_usage_def checked_insert_def split: sum.splits if_splits)

lemma usage_add_only:
  assumes "usage_add env r db = (Inr x, db')" "credit_balances db = credit_balances db0"
  shows "avail org db' = avail org db0"
  using usage_add_Inr [OF assms(1)] assms(2) by (auto simp: avail_def)

lemma spent_append:
  "spent org (db\<lparr>usage_records := usage_records db @ [r]\<rparr>)
    = (if r_org_id r = org then spent org db + dec_val (r_cost_usd r) else spent org db)"
  by (simp add: spent_def)

text \<open>What a metering transaction that goes through has written.\<close>

lemma meter_work_Inr:
  assumes num: "numeric_column (db_numeric env)" and db: "db_ok db" and c: "money_ok c"
    and w: "meter_work env i now cmd c db = (Inr r, db')"
  shows "\<exists>cn db1. r = meter_record i now cmd c
    \<and> db_numeric env (amount c) = Inr cn
    \<and> (if dec_zero < amount c
       then covers (mu_org_id cmd) c db \<and> credits_deduct_atomic env (mu_org_id cmd) c db = (Inr True, db1)
       else db1 = db)
    \<and> db' = db1\<lparr>usage_records := usage_records db1 @ [usage_to_row (db_now env) cn r]\<rparr>"
proof (cases "dec_zero < amount c")
  case True
  show ?thesis
  proof (cases "covers (mu_org_id cmd) c db")
    case False
    with w True show ?thesis by (simp add: meter_work_def bind_def deduct_refused [OF db])
  next
    case cov: True
    obtain rs where d: "credits_deduct_atomic env (mu_org_id cmd) c db = (Inr True, db\<lparr>credit_balances := rs\<rparr>)"
      using deduct_granted [OF num db c cov] by blast
    have u: "r = meter_record i now cmd c" "\<exists>x. usage_add env r (db\<lparr>credit_balances := rs\<rparr>) = (Inr x, db')"
      using w True d by (auto simp: meter_work_def bind_def split: prod.splits sum.splits)
    have "amount (ur_cost r) = amount c" using u(1) by (simp add: meter_record_def)
    then obtain cn where "db_numeric env (amount c) = Inr cn"
      "db' = (db\<lparr>credit_balances := rs\<rparr>)\<lparr>usage_records := usage_records (db\<lparr>credit_balances := rs\<rparr>) @ [usage_to_row (db_now env) cn r]\<rparr>"
      using u(2) usage_add_Inr by fastforce
    with u(1) d cov True show ?thesis by auto
  qed
next
  case False
  then have u: "r = meter_record i now cmd c" "\<exists>x. usage_add env r db = (Inr x, db')"
    using w by (auto simp: meter_work_def bind_def split: prod.splits sum.splits)
  have "amount (ur_cost r) = amount c" using u(1) by (simp add: meter_record_def)
  with u False usage_add_Inr [of env r db] show ?thesis by fastforce
qed

lemma meter_work_spent:
  assumes "numeric_column (db_numeric env)" "db_ok db" "money_ok c"
    and w: "meter_work env i now cmd c db = (Inr r, db')"
  shows "\<exists>cn. db_numeric env (amount c) = Inr cn
    \<and> spent org db' = (if org = mu_org_id cmd then spent org db + dec_val cn else spent org db)"
proof -
  obtain cn db1 where *: "r = meter_record i now cmd c" "db_numeric env (amount c) = Inr cn"
    "if dec_zero < amount c
     then covers (mu_org_id cmd) c db \<and> credits_deduct_atomic env (mu_org_id cmd) c db = (Inr True, db1)
     else db1 = db"
    "db' = db1\<lparr>usage_records := usage_records db1 @ [usage_to_row (db_now env) cn r]\<rparr>"
    using meter_work_Inr [OF assms] by blast
  have "usage_records db1 = usage_records db"
  proof (cases "dec_zero < amount c")
    case True
    then have "covers (mu_org_id cmd) c db" "credits_deduct_atomic env (mu_org_id cmd) c db = (Inr True, db1)"
      using *(3) by simp_all
    with deduct_granted [OF assms(1-3), of "mu_org_id cmd"] show ?thesis by auto
  qed (use *(3) in simp)
  then have "spent org db1 = spent org db" by (simp add: spent_def)
  moreover have "r_org_id (usage_to_row (db_now env) cn r) = mu_org_id cmd"
    "r_cost_usd (usage_to_row (db_now env) cn r) = cn"
    by (simp_all add: *(1) usage_to_row_def meter_record_def)
  ultimately show ?thesis using *(2,4) by (cases "org = mu_org_id cmd") (simp_all add: spent_append)
qed

lemma meter_work_avail:
  assumes "numeric_column (db_numeric env)" "db_ok db" "money_ok c"
    and w: "meter_work env i now cmd c db = (Inr r, db')"
  shows "if org = mu_org_id cmd \<and> dec_zero < amount c
    then \<exists>v v'. avail org db = Some v \<and> avail org db' = Some v' \<and> 0 \<le> v'
      \<and> 2 * 10 ^ 6 * \<bar>v' - (v - dec_val (amount c))\<bar> \<le> 1
      \<and> (cents_ok (amount c) \<longrightarrow> v' = v - dec_val (amount c))
    else avail org db' = avail org db"
proof -
  obtain cn db1 where *: "if dec_zero < amount c
     then covers (mu_org_id cmd) c db \<and> credits_deduct_atomic env (mu_org_id cmd) c db = (Inr True, db1)
     else db1 = db"
    "db' = db1\<lparr>usage_records := usage_records db1 @ [usage_to_row (db_now env) cn r]\<rparr>"
    using meter_work_Inr [OF assms] by blast
  have a: "avail o' db' = avail o' db1" for o' using *(2) by (simp add: avail_def)
  show ?thesis
  proof (cases "dec_zero < amount c")
    case False
    with * a show ?thesis by simp
  next
    case True
    then have d: "covers (mu_org_id cmd) c db" "credits_deduct_atomic env (mu_org_id cmd) c db = (Inr True, db1)"
      using *(1) by simp_all
    show ?thesis
      using credit_ledger.granted_funds [OF sql_ledger [OF assms(1)] assms(2,3) d(2), of org] a [of org] True
      by auto
  qed
qed

lemma meter_success:
  "meter env i now cmd u = (Inr r, u') \<Longrightarrow>
    \<exists>c. meter_cost cmd = Inr c \<and> money_ok c \<and> meter_work env i now cmd c (committed u) = (Inr r, committed u')"
  by (auto simp: meter_run meter_cost_money_ok split: sum.splits prod.splits)

lemma meter_books_balance:
  assumes num: "numeric_column (db_numeric env)" and db: "db_ok (committed u)"
    and m: "meter env i now cmd u = (Inr r, u')" and c: "cents_ok (amount (ur_cost r))"
  shows "spent org (committed u') = spent org (committed u)
      + (if org = mu_org_id cmd then dec_val (amount (ur_cost r)) else 0)"
    and "avail org (committed u') = map_option (\<lambda>v. v
      - (if org = mu_org_id cmd then dec_val (amount (ur_cost r)) else 0)) (avail org (committed u))"
proof -
  obtain c where c': "money_ok c" "meter_work env i now cmd c (committed u) = (Inr r, committed u')"
    using meter_success [OF m] by blast
  then have r: "ur_cost r = c" using meter_work_Inr [OF num db] by (fastforce simp: meter_record_def)
  obtain cn where cn: "db_numeric env (amount c) = Inr cn"
    "spent org (committed u') = (if org = mu_org_id cmd then spent org (committed u) + dec_val cn
       else spent org (committed u))"
    using meter_work_spent [OF num db c'] by blast
  have "dec_val cn = dec_val (amount c)"
    using numeric_column.num_cents [OF num _ cn(1)] c r by simp
  with cn(2) r show "spent org (committed u') = spent org (committed u)
      + (if org = mu_org_id cmd then dec_val (amount (ur_cost r)) else 0)" by simp
  show "avail org (committed u') = map_option (\<lambda>v. v
      - (if org = mu_org_id cmd then dec_val (amount (ur_cost r)) else 0)) (avail org (committed u))"
  proof (cases "org = mu_org_id cmd \<and> dec_zero < amount c")
    case True
    then show ?thesis using meter_work_avail [OF num db c', of org] c r by auto
  next
    case False
    then have "avail org (committed u') = avail org (committed u)"
      using meter_work_avail [OF num db c', of org] by auto
    moreover have "org = mu_org_id cmd \<Longrightarrow> dec_val (amount (ur_cost r)) = 0"
      using False c'(1) r by (auto simp: dec_order money_ok_def)
    ultimately show ?thesis by (auto simp: option.map_ident)
  qed
qed

lemma meter_drift:
  assumes num: "numeric_column (db_numeric env)" and db: "db_ok (committed u)"
    and m: "meter env i now cmd u = (Inr r, u')"
    and v: "avail (mu_org_id cmd) (committed u) = Some v"
  shows "\<exists>v'. avail (mu_org_id cmd) (committed u') = Some v'
    \<and> 10 ^ 6 * \<bar>(v' + spent (mu_org_id cmd) (committed u')) - (v + spent (mu_org_id cmd) (committed u))\<bar> \<le> 1"
proof -
  obtain c where c': "money_ok c" "meter_work env i now cmd c (committed u) = (Inr r, committed u')"
    using meter_success [OF m] by blast
  obtain cn where cn: "db_numeric env (amount c) = Inr cn"
    "spent (mu_org_id cmd) (committed u') = spent (mu_org_id cmd) (committed u) + dec_val cn"
    using meter_work_spent [OF num db c', of "mu_org_id cmd"] by auto
  have close: "2 * 10 ^ 6 * \<bar>dec_val cn - dec_val (amount c)\<bar> \<le> 1"
    by (rule numeric_column.num_close [OF num cn(1)])
  obtain v' where v': "avail (mu_org_id cmd) (committed u') = Some v'"
    "2 * 10 ^ 6 * \<bar>v' - (v - dec_val (amount c))\<bar> \<le> 1"
  proof (cases "dec_zero < amount c")
    case True
    then show ?thesis using that meter_work_avail [OF num db c', of "mu_org_id cmd"] v by auto
  next
    case False
    then have "dec_val (amount c) = 0" using c'(1) by (simp add: dec_order money_ok_def)
    with False show ?thesis using that meter_work_avail [OF num db c', of "mu_org_id cmd"] v by auto
  qed
  let ?a = "v' - (v - dec_val (amount c))" and ?b = "dec_val cn - dec_val (amount c)"
  have "\<bar>?a + ?b\<bar> \<le> \<bar>?a\<bar> + \<bar>?b\<bar>" by (rule abs_triangle_ineq)
  then have "10 ^ 6 * \<bar>?a + ?b\<bar> \<le> 1" using close v'(2) by simp
  moreover have "(v' + spent (mu_org_id cmd) (committed u')) - (v + spent (mu_org_id cmd) (committed u)) = ?a + ?b"
    by (simp add: cn(2))
  ultimately have "10 ^ 6 * \<bar>(v' + spent (mu_org_id cmd) (committed u')) - (v + spent (mu_org_id cmd) (committed u))\<bar> \<le> 1"
    by (simp only:)
  with v'(1) show ?thesis by blast
qed

lemma meter_solvent:
  assumes num: "numeric_column (db_numeric env)" and db: "db_ok (committed u)" "solvent (committed u)"
  shows "solvent (committed (snd (meter env i now cmd u)))"
proof (cases "fst (meter env i now cmd u)")
  case (Inl e)
  then show ?thesis using meter_failure_keeps_database db(2) by metis
next
  case (Inr r)
  then obtain u' where u': "meter env i now cmd u = (Inr r, u')" by (metis prod.collapse)
  then obtain c where c': "money_ok c" "meter_work env i now cmd c (committed u) = (Inr r, committed u')"
    using meter_success by blast
  show ?thesis unfolding solvent_def
  proof (intro allI impI)
    fix org v assume "avail org (committed (snd (meter env i now cmd u))) = Some v"
    then have v: "avail org (committed u') = Some v" by (simp add: u')
    show "0 \<le> v"
      using meter_work_avail [OF num db(1) c', of org] v db(2)
      by (auto simp: solvent_def split: if_splits)
  qed
qed

end
