(* ===== verification/StripeClient.thy ===== *)
theory StripeClient
  imports BillingService Json
begin

text \<open>
  The payment wrapper \<^verbatim>\<open>app/repository/billing/stripe_client.py\<close>: the amount sent to Stripe for
  a purchase and the handling of webhook events, which credits the organization named in
  the metadata of a payment. The SDK's verdict on a payload is a parameter. Log lines are
  not modelled, but the reads that build them are, because they can raise.
\<close>

section \<open>Creating a payment\<close>

record payment_request =
  pi_amount :: int
  pi_currency :: string
  pi_metadata :: "(string \<times> string) list"

definition cents_per_dollar :: decimal where
  "cents_per_dollar = dec_of_int 100"

definition amount_cents :: "decimal \<Rightarrow> int" where
  "amount_cents amount_usd = dec_to_integral (dec_mul amount_usd cents_per_dollar)"

definition create_payment_intent :: "decimal \<Rightarrow> uuid \<Rightarrow> uuid \<Rightarrow> payment_request" where
  "create_payment_intent amount_usd org user =
     \<lparr>pi_amount = amount_cents amount_usd, pi_currency = ''usd'',
      pi_metadata = [(''org_id'', uuid_str org), (''user_id'', uuid_str user), (''kind'', ''credit_topup'')]\<rparr>"

datatype webhook_error = StripeValueError string | SignatureVerificationError string | OtherStripeError string

definition verify_webhook :: "webhook_error + json \<Rightarrow> json result" where
  "verify_webhook construct_event =
     (case construct_event of
        Inr ev \<Rightarrow> Inr ev
      | Inl (StripeValueError m) \<Rightarrow> Inl (ValueError m)
      | Inl (SignatureVerificationError m) \<Rightarrow> Inl (ValueError m)
      | Inl (OtherStripeError m) \<Rightarrow> Inl (RuntimeError m))"

section \<open>Webhook events\<close>

fun uuid_of_json :: "json \<Rightarrow> uuid result" where
  "uuid_of_json (JStr s) = uuid_parse s"
| "uuid_of_json v = Inl (AttributeError ''replace'')"

text \<open>
  The balance row is inserted, or updated when its value changes; the commit of
  \<^verbatim>\<open>session.begin()\<close> publishes the one statement or fails with it.
\<close>

definition apply_credit :: "db_env \<Rightarrow> uuid \<Rightarrow> decimal \<Rightarrow> unit db_action" where
  "apply_credit env org amount_usd db =
     (case by_key c_org_id org (credit_balances db) of
        None \<Rightarrow>
          bind (lift (db_numeric env amount_usd))
            (\<lambda>av. insert_credit ((new_credit_row env org)\<lparr>c_available := av\<rparr>)) db
      | Some r \<Rightarrow>
          let new = dec_add (c_available r) amount_usd
          in if dec_val new = dec_val (c_available r) then (Inr (), db)
             else bind (lift (db_numeric env new))
               (\<lambda>av d. (Inr (), d\<lparr>credit_balances := update_where (\<lambda>s. c_org_id s = org)
                  (\<lambda>s. s\<lparr>c_available := av, c_updated_at := db_now env\<rparr>) (credit_balances d)\<rparr>)) db)"

definition credit_org :: "db_env \<Rightarrow> json \<Rightarrow> unit db_action" where
  "credit_org env intent =
     bind (lift (json_get intent ''metadata'' JNull)) (\<lambda>m.
     bind (lift (json_get (json_or m (JObj [])) ''org_id'' JNull)) (\<lambda>org_id_str.
       if \<not> truthy org_id_str
       then bind (lift (json_get intent ''id'' JNull)) (\<lambda>_. return ())
       else bind (lift (uuid_of_json org_id_str)) (\<lambda>org.
            bind (lift (json_get intent ''amount'' (JInt 0))) (\<lambda>a.
            bind (lift (dec_of_json a)) (\<lambda>d.
            bind (lift (case dec_div d cents_per_dollar of None \<Rightarrow> Inl DivisionByZero | Some x \<Rightarrow> Inr x)) (\<lambda>amount_usd.
              apply_credit env org amount_usd))))))"

definition handle_webhook :: "db_env \<Rightarrow> json \<Rightarrow> unit db_action" where
  "handle_webhook env event =
     bind (lift (json_get event ''type'' (JStr ''''))) (\<lambda>event_type.
     bind (lift (json_get event ''data'' (JObj []))) (\<lambda>data.
     bind (lift (json_get data ''object'' (JObj []))) (\<lambda>obj.
       if event_type = JStr ''payment_intent.succeeded'' then credit_org env obj
       else if event_type = JStr ''invoice.paid''
       then bind (lift (json_get obj ''id'' JNull)) (\<lambda>_. return ())
       else if event_type = JStr ''charge.failed'' \<or> event_type = JStr ''payment_intent.payment_failed''
       then bind (lift (json_get event ''id'' JNull)) (\<lambda>_.
            bind (lift (json_get obj ''failure_code'' JNull)) (\<lambda>_.
            bind (lift (json_get obj ''failure_message'' JNull)) (\<lambda>_. return ())))
       else return ())))"

section \<open>The event of a purchase\<close>

text \<open>What Stripe sends back once the payment requested by \<^const>\<open>create_payment_intent\<close> succeeds.\<close>

definition succeeded_event :: "payment_request \<Rightarrow> json" where
  "succeeded_event p =
     JObj [(''type'', JStr ''payment_intent.succeeded''),
           (''data'', JObj [(''object'', JObj
              [(''amount'', JInt (pi_amount p)),
               (''metadata'', JObj (map (\<lambda>(k, v). (k, JStr v)) (pi_metadata p)))])])]"

lemma handle_purchase:
  "handle_webhook env (succeeded_event (create_payment_intent d org user)) db =
    (case dec_div (dec_of_int (amount_cents d)) cents_per_dollar of
       None \<Rightarrow> (Inl DivisionByZero, db)
     | Some x \<Rightarrow> apply_credit env org x db)"
proof -
  have "uuid_str org \<noteq> []" by (simp add: uuid_str_def Let_def)
  then show ?thesis
    by (auto simp: handle_webhook_def succeeded_event_def create_payment_intent_def credit_org_def
        json_or_def uuid_parse_str split: option.split)
qed

section \<open>Crediting a balance\<close>

definition balance_of :: "uuid \<Rightarrow> database \<Rightarrow> rat" where
  "balance_of org db = (case avail org db of None \<Rightarrow> 0 | Some v \<Rightarrow> v)"

lemma apply_credit_spec:
  assumes num: "numeric_column (db_numeric env)" and db: "db_ok db"
    and org: "org \<in> o_id ` set (organizations db)"
    and x: "on_grid 6 (dec_val x)" "0 \<le> dec_val x" "balance_of org db + dec_val x < 10 ^ 8"
    and pos: "0 \<le> balance_of org db"
  shows "\<exists>db'. apply_credit env org x db = (Inr (), db') \<and> db_ok db'
    \<and> organizations db' = organizations db
    \<and> balance_of o' db' = balance_of o' db + (if o' = org then dec_val x else 0)"
proof (cases "by_key c_org_id org (credit_balances db)")
  case None
  then have b: "balance_of org db = 0" by (simp add: balance_of_def avail_def)
  then have "cents_ok x" using x by (simp add: cents_ok_def)
  then obtain av where av: "db_numeric env x = Inr av" "dec_val av = dec_val x"
    using numeric_column.num_exact [OF num] by blast
  let ?r = "(new_credit_row env org)\<lparr>c_available := av\<rparr>"
  have "cents_ok av" using numeric_column.num_range [OF num av(1)] .
  then have k: "keeps db_ok (insert_credit ?r)" by (intro inv_intros) (simp_all add: new_credit_row_def)
  have f: "c_org_id ?r = org" "org \<notin> c_org_id ` set (credit_balances db)"
    using None by (simp_all add: new_credit_row_def by_key_None_iff)
  then have i: "insert_credit ?r db = (Inr (), db\<lparr>credit_balances := credit_balances db @ [?r]\<rparr>)"
    using org by (simp add: insert_credit_def checked_insert_def)
  have "apply_credit env org x db = (Inr (), db\<lparr>credit_balances := credit_balances db @ [?r]\<rparr>)"
    using None av i by (simp add: apply_credit_def)
  moreover have "db_ok (db\<lparr>credit_balances := credit_balances db @ [?r]\<rparr>)"
    using keepsD [OF k db] i by simp
  moreover have "balance_of o' (db\<lparr>credit_balances := credit_balances db @ [?r]\<rparr>)
      = balance_of o' db + (if o' = org then dec_val x else 0)"
    using None f(1) b av(2)
    by (auto simp: balance_of_def avail_def by_key_append split: option.split)
  ultimately show ?thesis by simp
next
  case (Some r)
  then have r: "r \<in> set (credit_balances db)" "c_org_id r = org" by (auto dest: by_key_SomeD)
  have c: "cents_ok (c_available r)" using db r(1) by (simp add: db_ok_def credits_ok_def)
  have b: "balance_of org db = dec_val (c_available r)" using Some by (simp add: balance_of_def avail_def)
  have s: "dec_val (dec_add (c_available r) x) = dec_val (c_available r) + dec_val x"
    by (intro dec_add_exact grid6_repr on_grid_add x) (use c x pos b in \<open>auto simp: cents_ok_def\<close>)
  show ?thesis
  proof (cases "dec_val x = 0")
    case True
    then have "apply_credit env org x db = (Inr (), db)" using Some s by (simp add: apply_credit_def)
    with True db show ?thesis by simp
  next
    case False
    have "cents_ok (dec_add (c_available r) x)"
      using c x pos b unfolding cents_ok_def s by (auto intro: on_grid_add)
    then obtain av where av: "db_numeric env (dec_add (c_available r) x) = Inr av"
      "dec_val av = dec_val (c_available r) + dec_val x"
      using numeric_column.num_exact [OF num] s by metis
    let ?f = "\<lambda>s. s\<lparr>c_available := av, c_updated_at := db_now env\<rparr>"
    let ?db = "db\<lparr>credit_balances := update_where (\<lambda>s. c_org_id s = org) ?f (credit_balances db)\<rparr>"
    have "apply_credit env org x db = (Inr (), ?db)"
      using Some s False av(1) by (simp add: apply_credit_def)
    moreover have "cents_ok av" using numeric_column.num_range [OF num av(1)] .
    then have "db_ok ?db"
      using db by (auto simp: db_ok_def table_ok_defs map_update_where ball_update_where)
    moreover have "by_key c_org_id o' (credit_balances ?db)
        = map_option (\<lambda>s. if c_org_id s = org then ?f s else s) (by_key c_org_id o' (credit_balances db))"
      by (simp add: by_key_update_where)
    then have "balance_of o' ?db = balance_of o' db + (if o' = org then dec_val x else 0)"
      using Some r(2) av(2) by (auto simp: balance_of_def avail_def split: option.split dest: by_key_SomeD)
    ultimately show ?thesis by simp
  qed
qed

lemma cents_division:
  assumes "\<bar>n\<bar> < 10 ^ 20"
  shows "\<exists>x. dec_div (dec_of_int n) cents_per_dollar = Some x \<and> dec_val x = of_int n / 100"
proof -
  have "dec_repr (of_int n / 100)"
    by (rule dec_reprI [where m = n and k = "- 2"]) (use assms in \<open>simp_all add: power_int_minus\<close>)
  then show ?thesis
    using dec_div_exact [of cents_per_dollar "dec_of_int n"]
    by (simp add: cents_per_dollar_def dec_of_int_def)
qed

lemma cents_grid: "on_grid 6 (of_int n / 100)"
proof -
  have "of_int n / 100 * 10 ^ 6 = (of_int (n * 10000) :: rat)" by simp
  then show ?thesis unfolding on_grid_def by (metis Ints_of_int)
qed

text \<open>A delivered purchase event credits its amount; delivering it again credits it again.\<close>

lemma handle_purchase_spec:
  assumes num: "numeric_column (db_numeric env)" and db: "db_ok db"
    and org: "org \<in> o_id ` set (organizations db)"
    and n: "0 \<le> amount_cents d" "balance_of org db + of_int (amount_cents d) / 100 < 10 ^ 8"
    and pos: "0 \<le> balance_of org db"
  shows "\<exists>db'. handle_webhook env (succeeded_event (create_payment_intent d org user)) db = (Inr (), db')
    \<and> db_ok db' \<and> organizations db' = organizations db
    \<and> balance_of o' db' = balance_of o' db + (if o' = org then of_int (amount_cents d) / 100 else 0)"
proof -
  have "of_int (amount_cents d) < (10 ^ 10 :: rat)" using n pos by simp
  then have "(of_int (amount_cents d) :: rat) < of_int (10 ^ 20)" by simp
  then have "amount_cents d < 10 ^ 20" by (simp only: of_int_less_iff)
  with n(1) obtain x where x: "dec_div (dec_of_int (amount_cents d)) cents_per_dollar = Some x"
    "dec_val x = of_int (amount_cents d) / 100"
    using cents_division [of "amount_cents d"] by auto
  have "\<exists>db'. apply_credit env org x db = (Inr (), db') \<and> db_ok db'
    \<and> organizations db' = organizations db
    \<and> balance_of o' db' = balance_of o' db + (if o' = org then dec_val x else 0)"
    by (rule apply_credit_spec [OF num db org]) (unfold x(2), rule cents_grid, use n pos in simp_all)
  then show ?thesis by (simp only: handle_purchase x option.case)
qed

lemma handle_purchase_twice:
  assumes num: "numeric_column (db_numeric env)" and db: "db_ok db"
    and org: "org \<in> o_id ` set (organizations db)"
    and n: "0 \<le> amount_cents d" "balance_of org db + 2 * (of_int (amount_cents d) / 100) < 10 ^ 8"
    and pos: "0 \<le> balance_of org db"
  shows "\<exists>db'. bind (handle_webhook env (succeeded_event (create_payment_intent d org user)))
      (\<lambda>_. handle_webhook env (succeeded_event (create_payment_intent d org user))) db = (Inr (), db')
    \<and> balance_of org db' = balance_of org db + 2 * (of_int (amount_cents d) / 100)"
proof -
  let ?x = "of_int (amount_cents d) / 100 :: rat"
  let ?h = "handle_webhook env (succeeded_event (create_payment_intent d org user))"
  have x: "0 \<le> ?x" using n(1) by simp
  obtain db1 where db1: "?h db = (Inr (), db1)" "db_ok db1" "organizations db1 = organizations db"
    "balance_of org db1 = balance_of org db + ?x"
    using handle_purchase_spec [OF num db org n(1) _ pos, of user org] n(2) x by auto
  obtain db2 where "?h db1 = (Inr (), db2)" "balance_of org db2 = balance_of org db1 + ?x"
    using handle_purchase_spec [OF num db1(2), of org d user org] db1 org n x pos by auto
  with db1 show ?thesis by (simp add: bind_def)
qed

text \<open>A purchase amount reaches the balance rounded to whole cents.\<close>

lemma amount_cents_close:
  assumes "dec_repr (dec_val d * 100)"
  shows "200 * \<bar>of_int (amount_cents d) / 100 - dec_val d\<bar> \<le> 1"
proof -
  have "dec_val (dec_mul d cents_per_dollar) = dec_val d * 100"
    using assms by (simp add: dec_mul_exact cents_per_dollar_def)
  then have "2 * \<bar>of_int (amount_cents d) - dec_val d * 100\<bar> \<le> 1"
    using dec_to_integral_error [of "dec_mul d cents_per_dollar"] by (simp add: amount_cents_def)
  moreover have "of_int (amount_cents d) - dec_val d * 100 = 100 * (of_int (amount_cents d) / 100 - dec_val d)"
    by simp
  ultimately have "2 * \<bar>100 * (of_int (amount_cents d) / 100 - dec_val d)\<bar> \<le> 1" by (simp only:)
  then show ?thesis by (simp only: abs_mult abs_numeral)
qed

lemma amount_cents_nonneg:
  assumes "dec_repr (dec_val d * 100)" "dec_zero \<le> d"
  shows "0 \<le> amount_cents d"
proof -
  have "200 * \<bar>of_int (amount_cents d) / 100 - dec_val d\<bar> \<le> 1" by (rule amount_cents_close [OF assms(1)])
  moreover have "- (of_int (amount_cents d) / 100 - dec_val d) \<le> \<bar>of_int (amount_cents d) / 100 - dec_val d\<bar>"
    by (rule abs_ge_minus_self)
  moreover have "0 \<le> dec_val d" using assms(2) by (simp add: dec_order)
  moreover have "200 * a \<le> 1 \<Longrightarrow> - (y / 100 - e) \<le> a \<Longrightarrow> 0 \<le> e \<Longrightarrow> - 1 < y" for a y e :: rat by simp
  ultimately have "- 1 < (of_int (amount_cents d) :: rat)" by blast
  then have "(of_int (- 1) :: rat) < of_int (amount_cents d)" by simp
  then have "- 1 < amount_cents d" by (simp only: of_int_less_iff)
  then show ?thesis by simp
qed

section \<open>Webhooks and the invariants\<close>

lemma apply_credit_ok [inv_intros]:
  assumes "numeric_column (db_numeric env)"
  shows "keeps db_ok (apply_credit env org x)"
proof (rule keepsI)
  fix db
  assume db: "db_ok db"
  show "db_ok (snd (apply_credit env org x db))"
  proof (cases "by_key c_org_id org (credit_balances db)")
    case None
    show ?thesis
    proof (cases "db_numeric env x")
      case (Inr av)
      then have "keeps db_ok (insert_credit ((new_credit_row env org)\<lparr>c_available := av\<rparr>))"
        using numeric_column.num_range [OF assms] by (intro inv_intros) (simp_all add: new_credit_row_def)
      with db None Inr show ?thesis by (simp add: apply_credit_def bind_def keepsD)
    qed (use db None in \<open>simp add: apply_credit_def bind_def\<close>)
  next
    case (Some r)
    have key: "(\<lambda>x. c_org_id (if c_org_id x = org then x\<lparr>c_available := av, c_updated_at := t\<rparr> else x)) = c_org_id" for av t
      by auto
    with Some db numeric_column.num_range [OF assms] show ?thesis
      by (auto simp: apply_credit_def bind_def Let_def key db_ok_def table_ok_defs update_where_def comp_def
          split: sum.split)
  qed
qed

lemma handle_webhook_ok:
  assumes "numeric_column (db_numeric env)"
  shows "keeps db_ok (handle_webhook env event)"
  unfolding handle_webhook_def credit_org_def using assms by (intro inv_intros)

end
