(* ===== verification/OAuthService.thy ===== *)
theory OAuthService
  imports UnitOfWork Security Json
begin

text \<open>
  The OAuth exchange of \<^verbatim>\<open>app/service/oauth_service.py\<close>: resolve the e-mail behind a provider
  token, find or create its user and organization, and sign a JWT for them. The HTTP client
  and the signer are parameters; a response is its status and its decoded body.
\<close>

record oauth_command =
  oc_provider :: string
  oc_access_token :: string

record backend_jwt =
  bj_access_token :: string
  bj_expires_in_seconds :: int
  bj_user_id :: string
  bj_org_id :: string
  bj_role :: string

type_synonym http_get = "string \<Rightarrow> (string \<times> string) list \<Rightarrow> (int \<times> json result) result"

section \<open>The e-mail of a token\<close>

definition google_userinfo_url :: string where
  "google_userinfo_url = ''https://www.googleapis.com/oauth2/v2/userinfo''"

definition github_emails_url :: string where
  "github_emails_url = ''https://api.github.com/user/emails''"

definition google_email :: "http_get \<Rightarrow> string \<Rightarrow> json result" where
  "google_email http token =
     res_bind (http google_userinfo_url [(''Authorization'', ''Bearer '' @ token)]) (\<lambda>(status, body).
       if status \<noteq> 200
       then Inl (Domain InvalidApiKey (''Google userinfo failed: '' @ show_int status))
       else res_bind body (\<lambda>data. json_get data ''email'' JNull))"

fun primary_email :: "json list \<Rightarrow> json result" where
  "primary_email [] = Inr JNull"
| "primary_email (e # es) =
     res_bind (json_get e ''primary'' JNull) (\<lambda>p.
     res_bind (if truthy p then json_get e ''verified'' JNull else Inr p) (\<lambda>v.
       if truthy v then json_get e ''email'' JNull else primary_email es))"

definition github_email :: "http_get \<Rightarrow> string \<Rightarrow> json result" where
  "github_email http token =
     res_bind (http github_emails_url
       [(''Authorization'', ''Bearer '' @ token), (''Accept'', ''application/vnd.github+json'')]) (\<lambda>(status, body).
       if status \<noteq> 200
       then Inl (Domain InvalidApiKey (''GitHub emails failed: '' @ show_int status))
       else res_bind body (\<lambda>data. res_bind (json_iter data) primary_email))"

definition resolve_email :: "http_get \<Rightarrow> string \<Rightarrow> string \<Rightarrow> json result" where
  "resolve_email http provider token =
     (if provider = ''google'' then google_email http token
      else if provider = ''github'' then github_email http token
      else Inl (Domain InvalidApiKey (''Unsupported provider: '' @ provider)))"

section \<open>The exchange\<close>

text \<open>Fresh identifiers and clock readings of a call.\<close>

record oauth_entropy =
  oe_org_id :: uuid
  oe_slug_id :: uuid
  oe_user_id :: uuid
  oe_now :: datetime
  oe_iat :: datetime
  oe_exp_base :: datetime

definition provisioned_org :: "oauth_entropy \<Rightarrow> string \<Rightarrow> organization" where
  "provisioned_org e email =
     \<lparr>org_id = oe_org_id e, org_name = hd (py_split (CHR ''@'') email) @ CHR 0x27 # ''s workspace'',
      org_slug = ''org-'' @ take 12 (uuid_hex (oe_slug_id e)), org_created_at = oe_now e\<rparr>"

definition provisioned_user :: "oauth_entropy \<Rightarrow> string \<Rightarrow> user" where
  "provisioned_user e email =
     \<lparr>user_id = oe_user_id e, user_org_id = oe_org_id e, user_email = email, user_role = OWNER,
      user_created_at = oe_now e\<rparr>"

definition provision_user :: "db_env \<Rightarrow> oauth_entropy \<Rightarrow> string \<Rightarrow> user db_action" where
  "provision_user env e email =
     bind (organizations_add env (provisioned_org e email)) (\<lambda>_.
     bind (users_add env (provisioned_user e email)) (\<lambda>_. return (provisioned_user e email)))"

definition find_or_provision :: "db_env \<Rightarrow> oauth_entropy \<Rightarrow> string \<Rightarrow> user db_action" where
  "find_or_provision env e email =
     bind (users_find_by_email email) (\<lambda>u.
       case u of None \<Rightarrow> provision_user env e email | Some v \<Rightarrow> return v)"

text \<open>One hour, in the microseconds of a datetime.\<close>

definition default_ttl :: int where
  "default_ttl = 3600 * 1000000"

definition issue_jwt :: "((string \<times> claim) list \<Rightarrow> string) \<Rightarrow> oauth_entropy \<Rightarrow> user \<Rightarrow> backend_jwt" where
  "issue_jwt sign e v =
     \<lparr>bj_access_token = encode_jwt sign (oe_iat e) (oe_exp_base e)
        [(''sub'', ClaimStr (uuid_str (user_id v))), (''org_id'', ClaimStr (uuid_str (user_org_id v))),
         (''role'', ClaimStr (role_value (user_role v)))] default_ttl,
      bj_expires_in_seconds = default_ttl div 1000000,
      bj_user_id = uuid_str (user_id v), bj_org_id = uuid_str (user_org_id v),
      bj_role = role_value (user_role v)\<rparr>"

text \<open>
  A truthy e-mail that is no string does not compare with a \<open>VARCHAR\<close> column: the driver refuses it.
\<close>

definition exchange :: "db_env \<Rightarrow> http_get \<Rightarrow> ((string \<times> claim) list \<Rightarrow> string) \<Rightarrow> oauth_entropy
    \<Rightarrow> oauth_command \<Rightarrow> backend_jwt uow_action" where
  "exchange env http sign e cmd =
     bind (lift (resolve_email http (oc_provider cmd) (oc_access_token cmd))) (\<lambda>email.
       if \<not> truthy email then throw (Domain InvalidApiKey ''OAuth token has no associated email'')
       else bind (with_uow (committing
              (case email of
                 JStr s \<Rightarrow> find_or_provision env e s
               | _ \<Rightarrow> throw (DbError ''invalid input for query argument''))))
            (\<lambda>v. return (issue_jwt sign e v)))"

section \<open>Find or create\<close>

lemma find_or_provision_ok [inv_intros]: "keeps db_ok (find_or_provision env e email)"
  unfolding find_or_provision_def provision_user_def by (intro inv_intros)

lemma users_find_by_key:
  assumes "db_ok db"
  shows "users_find_by_email email db = (row_to_domain user_of_row (by_key u_email email (users db)), db)"
  using assms by (simp add: users_find_by_email_def scalar_by_key db_ok_def users_ok_def)

lemma readable_user: "db_ok db \<Longrightarrow> r \<in> set (users db) \<Longrightarrow> \<exists>v. user_of_row r = Inr v"
  by (auto simp: db_ok_def users_ok_def user_of_row_def is_ok_iff)

lemma find_known_user:
  assumes "db_ok db" "by_key u_email email (users db) = Some r" "user_of_row r = Inr v"
  shows "find_or_provision env e email db = (Inr v, db)"
  using assms by (simp add: find_or_provision_def bind_def users_find_by_key)

lemma find_or_provision_result:
  assumes db: "db_ok db" and r: "find_or_provision env e email db = (Inr v, db')"
  shows "user_email v = email \<and> (\<exists>r. by_key u_email email (users db') = Some r
    \<and> user_of_row r = Inr (if by_key u_email email (users db) = None then v\<lparr>user_created_at := db_now env\<rparr> else v))"
proof (cases "by_key u_email email (users db)")
  case (Some row)
  then have row: "row \<in> set (users db)" "u_email row = email" by (auto dest: by_key_SomeD)
  obtain v' where v': "user_of_row row = Inr v'" using readable_user [OF db row(1)] by blast
  then have "v = v'" "db' = db" using r find_known_user [OF db Some v'] by simp_all
  with Some v' row show ?thesis by (auto simp: user_of_row_def res_bind_Inr_iff)
next
  case None
  let ?row = "\<lparr>u_id = oe_user_id e, u_org_id = oe_org_id e, u_email = email, u_role = role_value OWNER,
    u_created_at = db_now env\<rparr>"
  have "v = provisioned_user e email" "users db' = users db @ [?row]"
    using r None db
    by (auto simp: find_or_provision_def bind_def users_find_by_key provision_user_def organizations_add_def
        users_add_def insert_user_def insert_organization_def checked_insert_def provisioned_user_def
        split: if_splits)
  with None show ?thesis
    by (simp add: by_key_append user_of_row_def provisioned_user_def UserRole_value del: role_value.simps)
qed

text \<open>Exchanging a token twice yields the same identity, and the second exchange writes nothing.\<close>

lemma exchange_idempotent:
  assumes db: "db_ok (committed u)"
    and x: "exchange env http sign e cmd u = (Inr j, u1)"
  shows "\<exists>j'. exchange env' http sign' e' cmd u1 = (Inr j', u1)
    \<and> bj_user_id j' = bj_user_id j \<and> bj_org_id j' = bj_org_id j \<and> bj_role j' = bj_role j"
proof -
  obtain email v where r: "resolve_email http (oc_provider cmd) (oc_access_token cmd) = Inr (JStr email)"
    "truthy (JStr email)" "find_or_provision env e email (committed u) = (Inr v, committed u1)"
    and j: "j = issue_jwt sign e v" and s: "session u1 = None"
    using x by (auto simp: exchange_def bind_def with_committing split: sum.splits prod.splits if_splits json.splits)
  have db1: "db_ok (committed u1)" using keepsD [OF find_or_provision_ok db, of env e email] r(3) by simp
  obtain row v' where row: "by_key u_email email (users (committed u1)) = Some row" "user_of_row row = Inr v'"
    and v': "user_id v' = user_id v" "user_org_id v' = user_org_id v" "user_role v' = user_role v"
    using find_or_provision_result [OF db r(3)] by (auto split: if_splits)
  have "exchange env' http sign' e' cmd u1 = (Inr (issue_jwt sign' e' v'), u1)"
    using r(1,2) find_known_user [OF db1 row] s
    by (cases u1) (simp add: exchange_def bind_def with_committing)
  with v' j show ?thesis by (simp add: issue_jwt_def)
qed

lemma exchange_ok: "db_ok (committed u) \<Longrightarrow> db_ok (committed (snd (exchange env http sign e cmd u)))"
proof -
  assume db: "db_ok (committed u)"
  show ?thesis
  proof (cases "resolve_email http (oc_provider cmd) (oc_access_token cmd)")
    case (Inl err)
    with db show ?thesis by (simp add: exchange_def)
  next
    case (Inr email)
    let ?m = "case email of JStr s \<Rightarrow> find_or_provision env e s | _ \<Rightarrow> throw (DbError ''invalid input for query argument'')"
    have "keeps db_ok ?m" by (cases email) (simp_all add: inv_intros)
    then have "db_ok (committed (snd (with_uow (committing ?m) u)))" using db by (rule committing_keeps)
    with Inr db show ?thesis by (auto simp: exchange_def bind_def split: sum.split prod.split)
  qed
qed

end
