(* ===== verification/PyDatetime.thy ===== *)
theory PyDatetime
  imports PyText DomainErrors
begin

text \<open>
  \<^verbatim>\<open>datetime\<close> as the routes use it: the proleptic Gregorian calendar with the day numbers of
  \<^verbatim>\<open>date.toordinal\<close>, subtraction of days with its range check, \<^verbatim>\<open>isoformat\<close> and, for dates,
  \<^verbatim>\<open>fromisoformat\<close>. A value is its wall-clock time in microseconds since 1970-01-01 and, when it is aware, its offset from UTC in
  whole minutes.
\<close>

section \<open>The calendar\<close>

definition is_leap :: "int \<Rightarrow> bool" where
  "is_leap y \<longleftrightarrow> 4 dvd y \<and> (\<not> 100 dvd y \<or> 400 dvd y)"

definition days_before_year :: "int \<Rightarrow> int" where
  "days_before_year y = (y - 1) * 365 + (y - 1) div 4 - (y - 1) div 100 + (y - 1) div 400"

definition days_before_month :: "bool \<Rightarrow> int \<Rightarrow> int" where
  "days_before_month leap m =
     [0, 31, 59, 90, 120, 151, 181, 212, 243, 273, 304, 334] ! nat (m - 1) + (if 2 < m \<and> leap then 1 else 0)"

definition ymd2ord :: "int \<times> int \<times> int \<Rightarrow> int" where
  "ymd2ord = (\<lambda>(y, m, d). days_before_year y + days_before_month (is_leap y) m + d)"

text \<open>The month of a day of the year, counted from 0: an estimate, and one step back where it is too late.\<close>

definition month_day :: "bool \<Rightarrow> int \<Rightarrow> int \<times> int" where
  "month_day leap n =
     (let m = (n + 50) div 32; before = days_before_month leap m
      in if n < before then (m - 1, n - days_before_month leap (m - 1) + 1) else (m, n - before + 1))"

definition ord2ymd :: "int \<Rightarrow> int \<times> int \<times> int" where
  "ord2ymd ordinal =
     (let n = ordinal - 1;
          n400 = n div 146097; n = n mod 146097;
          n100 = n div 36524; n = n mod 36524;
          n4 = n div 1461; n = n mod 1461;
          n1 = n div 365; n = n mod 365;
          y = n400 * 400 + 1 + n100 * 100 + n4 * 4 + n1
      in if n1 = 4 \<or> n100 = 4 then (y - 1, 12, 31)
         else (y, month_day (n1 = 3 \<and> (n4 \<noteq> 24 \<or> n100 = 3)) n))"

definition days_in_month :: "bool \<Rightarrow> int \<Rightarrow> int" where
  "days_in_month leap m =
     (if m = 2 \<and> leap then 29 else [31, 28, 31, 30, 31, 30, 31, 31, 30, 31, 30, 31] ! nat (m - 1))"

definition valid_ymd :: "int \<times> int \<times> int \<Rightarrow> bool" where
  "valid_ymd = (\<lambda>(y, m, d). 1 \<le> y \<and> y \<le> 9999 \<and> 1 \<le> m \<and> m \<le> 12 \<and> 1 \<le> d \<and> d \<le> days_in_month (is_leap y) m)"

lemma month_day_table:
  "list_all (\<lambda>leap. list_all (\<lambda>n. case month_day leap n of
     (m, d) \<Rightarrow> 1 \<le> m \<and> m \<le> 12 \<and> 1 \<le> d \<and> d \<le> days_in_month leap m \<and> days_before_month leap m + d = n + 1)
     [0..if leap then 365 else 364]) [False, True]"
  by code_simp

lemma days_in_month_le: "1 \<le> m \<Longrightarrow> m \<le> 12 \<Longrightarrow> days_in_month leap m \<le> 31"
proof -
  have "list_all (\<lambda>leap. list_all (\<lambda>m. days_in_month leap m \<le> 31) [1..12]) [False, True]" by code_simp
  then show "1 \<le> m \<Longrightarrow> m \<le> 12 \<Longrightarrow> days_in_month leap m \<le> 31" by (cases leap) (auto simp: list_all_iff)
qed

lemma month_day_ok:
  assumes "0 \<le> n" "n < 365"
  shows "case month_day leap n of (m, d) \<Rightarrow>
    1 \<le> m \<and> m \<le> 12 \<and> 1 \<le> d \<and> d \<le> days_in_month leap m \<and> days_before_month leap m + d = n + 1"
  using assms month_day_table by (cases leap) (auto simp: list_all_iff)

text \<open>The parts of a year counted from 0, by its place in the cycles of 400, 100 and 4 years.\<close>

lemma div_at: "0 \<le> r \<Longrightarrow> r < k \<Longrightarrow> (k * q + r) div k = (q :: int)"
  by (rule int_div_pos_eq [of _ _ _ r]) simp_all

lemma dvd_at: "0 \<le> r \<Longrightarrow> r < k \<Longrightarrow> k dvd k * q + r + 1 \<longleftrightarrow> r + 1 = (k :: int)"
proof -
  assume r: "0 \<le> r" "r < k"
  have "k dvd k * q + r + 1 \<longleftrightarrow> k dvd r + 1"
    using dvd_add_right_iff [of k "k * q" "r + 1"] by (simp add: add.assoc)
  also have "\<dots> \<longleftrightarrow> r + 1 = k" using r zdvd_imp_le [of k "r + 1"] by auto
  finally show ?thesis .
qed

lemma year_parts:
  assumes "0 \<le> b" "b \<le> 3" "0 \<le> c" "c \<le> 24" "0 \<le> d" "d \<le> 3" "y = 400 * a + 100 * b + 4 * c + d"
  shows "days_before_year (y + 1) = 146097 * a + 36524 * b + 1461 * c + 365 * d"
    and "is_leap (y + 1) \<longleftrightarrow> d = 3 \<and> (c \<noteq> 24 \<or> b = 3)"
proof -
  have y: "y = 4 * (100 * a + 25 * b + c) + d" "y = 100 * (4 * a + b) + (4 * c + d)"
    "y = 400 * a + (100 * b + 4 * c + d)" using assms(7) by simp_all
  have "y div 4 = 100 * a + 25 * b + c" unfolding y(1) by (rule div_at) (use assms in simp_all)
  moreover have "y div 100 = 4 * a + b" unfolding y(2) by (rule div_at) (use assms in simp_all)
  moreover have "y div 400 = a" unfolding y(3) by (rule div_at) (use assms in simp_all)
  ultimately show "days_before_year (y + 1) = 146097 * a + 36524 * b + 1461 * c + 365 * d"
    using assms(7) by (simp add: days_before_year_def)
  have "4 dvd y + 1 \<longleftrightarrow> d + 1 = 4" unfolding y(1) by (rule dvd_at) (use assms in simp_all)
  moreover have "100 dvd y + 1 \<longleftrightarrow> 4 * c + d + 1 = 100" unfolding y(2) by (rule dvd_at) (use assms in simp_all)
  moreover have "400 dvd y + 1 \<longleftrightarrow> 100 * b + 4 * c + d + 1 = 400" unfolding y(3)
    by (rule dvd_at) (use assms in simp_all)
  ultimately show "is_leap (y + 1) \<longleftrightarrow> d = 3 \<and> (c \<noteq> 24 \<or> b = 3)"
    using assms unfolding is_leap_def by linarith
qed

text \<open>The place of a day in the cycles of 400, 100, 4 and 1 years.\<close>

lemma ord2ymd_parts:
  obtains a b c d r y :: int where "n - 1 = 146097 * a + (36524 * b + (1461 * c + (365 * d + r)))"
    "0 \<le> b" "0 \<le> c" "0 \<le> d" "0 \<le> r" "r < 365" "c \<le> 24" "y = 400 * a + 100 * b + 4 * c + d"
    "b = 4 \<and> c = 0 \<and> d = 0 \<and> r = 0 \<or> d = 4 \<and> b \<le> 3 \<and> c \<le> 23 \<and> r = 0 \<or> d \<le> 3 \<and> b \<le> 3"
    "ord2ymd n = (if d = 4 \<or> b = 4 then (y, 12, 31) else (y + 1, month_day (d = 3 \<and> (c \<noteq> 24 \<or> b = 3)) r))"
proof -
  define a where "a = (n - 1) div 146097"
  define n1 where "n1 = (n - 1) mod 146097"
  define b where "b = n1 div 36524"
  define n2 where "n2 = n1 mod 36524"
  define c where "c = n2 div 1461"
  define n3 where "n3 = n2 mod 1461"
  define d where "d = n3 div 365"
  define r where "r = n3 mod 365"
  have n: "n - 1 = 146097 * a + n1" "n1 = 36524 * b + n2" "n2 = 1461 * c + n3" "n3 = 365 * d + r"
    by (simp_all add: a_def n1_def b_def n2_def c_def n3_def d_def r_def)
  have lo: "0 \<le> n1" "0 \<le> n2" "0 \<le> n3" "0 \<le> r" and hi: "n1 < 146097" "n2 < 36524" "n3 < 1461" "r < 365"
    by (simp_all add: n1_def n2_def n3_def r_def)
  have b: "0 \<le> b" "b \<le> 4" and c: "0 \<le> c" "c \<le> 24" and d: "0 \<le> d" "d \<le> 4"
    using n lo hi by linarith+
  define y where "y = 400 * a + 100 * b + 4 * c + d"
  have "ord2ymd n = (if d = 4 \<or> b = 4 then (y, 12, 31)
      else (y + 1, month_day (d = 3 \<and> (c \<noteq> 24 \<or> b = 3)) r))"
    by (simp add: ord2ymd_def Let_def y_def a_def n1_def b_def n2_def c_def n3_def d_def r_def algebra_simps)
  moreover have "b = 4 \<and> c = 0 \<and> d = 0 \<and> r = 0 \<or> d = 4 \<and> b \<le> 3 \<and> c \<le> 23 \<and> r = 0 \<or> d \<le> 3 \<and> b \<le> 3"
    using n lo hi b c d by linarith
  ultimately show ?thesis using that [of a b c d r y] n lo(4) hi(4) b(1) c d(1) y_def by simp
qed

text \<open>Reading a date off a day number loses nothing.\<close>

lemma ord2ymd_ord: "ymd2ord (ord2ymd n) = n"
proof (rule ord2ymd_parts [of n])
  fix a b c d r y :: int
  assume n: "n - 1 = 146097 * a + (36524 * b + (1461 * c + (365 * d + r)))"
    and lo: "0 \<le> b" "0 \<le> c" "0 \<le> d" "0 \<le> r" and hi: "r < 365" "c \<le> 24"
    and y: "y = 400 * a + 100 * b + 4 * c + d"
    and cases: "b = 4 \<and> c = 0 \<and> d = 0 \<and> r = 0 \<or> d = 4 \<and> b \<le> 3 \<and> c \<le> 23 \<and> r = 0 \<or> d \<le> 3 \<and> b \<le> 3"
    and o: "ord2ymd n = (if d = 4 \<or> b = 4 then (y, 12, 31) else (y + 1, month_day (d = 3 \<and> (c \<noteq> 24 \<or> b = 3)) r))"
  from cases show ?thesis
  proof (elim disjE conjE)
    assume four: "b = 4" "c = 0" "d = 0" "r = 0"
    have y': "y - 1 = 400 * a + 100 * 3 + 4 * 24 + 3" using four by (simp add: y)
    have o': "ord2ymd n = (y, 12, 31)" using four o by simp
    from year_parts [OF _ _ _ _ _ _ y'] four n show ?thesis
      unfolding o' by (simp add: ymd2ord_def days_before_month_def)
  next
    assume one: "d = 4" "b \<le> 3" "c \<le> 23" "r = 0"
    have y': "y - 1 = 400 * a + 100 * b + 4 * c + 3" using one by (simp add: y)
    have o': "ord2ymd n = (y, 12, 31)" using one o by simp
    from year_parts [OF _ _ _ _ _ _ y'] one lo n show ?thesis
      unfolding o' by (simp add: ymd2ord_def days_before_month_def)
  next
    assume else: "d \<le> 3" "b \<le> 3"
    have o': "ord2ymd n = (y + 1, month_day (is_leap (y + 1)) r)"
      using else o year_parts(2) [OF lo(1) else(2) lo(2) hi(2) lo(3) else(1) y] by simp
    from year_parts(1) [OF lo(1) else(2) lo(2) hi(2) lo(3) else(1) y]
      month_day_ok [OF lo(4) hi(1), of "is_leap (y + 1)"] n
    show ?thesis unfolding o' by (simp add: ymd2ord_def split: prod.splits)
  qed
qed

lemma ord2ymd_valid:
  assumes "1 \<le> n" "n \<le> 3652059"
  shows "valid_ymd (ord2ymd n)"
proof (rule ord2ymd_parts [of n])
  fix a b c d r y :: int
  assume n: "n - 1 = 146097 * a + (36524 * b + (1461 * c + (365 * d + r)))"
    and lo: "0 \<le> b" "0 \<le> c" "0 \<le> d" "0 \<le> r" and hi: "r < 365" "c \<le> 24"
    and y: "y = 400 * a + 100 * b + 4 * c + d"
    and cases: "b = 4 \<and> c = 0 \<and> d = 0 \<and> r = 0 \<or> d = 4 \<and> b \<le> 3 \<and> c \<le> 23 \<and> r = 0 \<or> d \<le> 3 \<and> b \<le> 3"
    and o: "ord2ymd n = (if d = 4 \<or> b = 4 then (y, 12, 31) else (y + 1, month_day (d = 3 \<and> (c \<noteq> 24 \<or> b = 3)) r))"
  from cases show ?thesis
  proof (elim disjE conjE)
    assume "b = 4" "c = 0" "d = 0" "r = 0"
    with n o y assms show ?thesis by (simp add: valid_ymd_def days_in_month_def)
  next
    assume one: "d = 4" "b \<le> 3" "c \<le> 23" "r = 0"
    then have "1 \<le> y \<and> y \<le> 9999" using n y lo assms by linarith
    with one o show ?thesis by (simp add: valid_ymd_def days_in_month_def)
  next
    assume else: "d \<le> 3" "b \<le> 3"
    have "0 \<le> y \<and> y \<le> 9998" using else n y lo hi assms by linarith
    moreover have "ord2ymd n = (y + 1, month_day (is_leap (y + 1)) r)"
      using else o year_parts(2) [OF lo(1) else(2) lo(2) hi(2) lo(3) else(1) y] by simp
    ultimately show ?thesis
      using month_day_ok [OF lo(4) hi(1), of "is_leap (y + 1)"] by (simp add: valid_ymd_def split: prod.splits)
  qed
qed

section \<open>Date and time\<close>

definition second_us :: int where "second_us = 1000000"

definition day_us :: int where "day_us = 86400 * second_us"

definition epoch_ordinal :: int where "epoch_ordinal = 719163"

definition max_ordinal :: int where "max_ordinal = 3652059"

record py_datetime =
  dt_us :: int
  dt_offset :: "int option"

text \<open>\<^verbatim>\<open>datetime.utcnow()\<close> carries no offset.\<close>

definition utcnow :: "int \<Rightarrow> py_datetime" where
  "utcnow now = \<lparr>dt_us = now, dt_offset = None\<rparr>"

definition minus_days :: "int \<Rightarrow> py_datetime \<Rightarrow> py_datetime result" where
  "minus_days k d =
     (let us = dt_us d - k * day_us; ordinal = us div day_us + epoch_ordinal
      in if 1 \<le> ordinal \<and> ordinal \<le> max_ordinal then Inr (d\<lparr>dt_us := us\<rparr>)
         else Inl (OverflowError ''date value out of range''))"

definition zpad :: "nat \<Rightarrow> int \<Rightarrow> string" where
  "zpad w n = (let s = show_nat (nat n) in replicate (w - length s) (CHR ''0'') @ s)"

definition offset_text :: "int option \<Rightarrow> string" where
  "offset_text off =
     (case off of
        None \<Rightarrow> ''''
      | Some m \<Rightarrow> (if m < 0 then ''-'' else ''+'') @ zpad 2 (\<bar>m\<bar> div 60) @ '':'' @ zpad 2 (\<bar>m\<bar> mod 60))"

definition isoformat :: "py_datetime \<Rightarrow> string" where
  "isoformat d =
     (let (y, m, dd) = ord2ymd (dt_us d div day_us + epoch_ordinal);
          t = dt_us d mod day_us; s = t div second_us; us = t mod second_us
      in zpad 4 y @ ''-'' @ zpad 2 m @ ''-'' @ zpad 2 dd @ ''T'' @ zpad 2 (s div 3600) @ '':''
         @ zpad 2 (s div 60 mod 60) @ '':'' @ zpad 2 (s mod 60)
         @ (if us = 0 then '''' else ''.'' @ zpad 6 us) @ offset_text (dt_offset d))"

lemma isoformat_samples:
  "isoformat \<lparr>dt_us = 0, dt_offset = None\<rparr> = ''1970-01-01T00:00:00''"
  "isoformat \<lparr>dt_us = 50, dt_offset = None\<rparr> = ''1970-01-01T00:00:00.000050''"
  "isoformat \<lparr>dt_us = 1709251199000001, dt_offset = Some (- 90)\<rparr> = ''2024-02-29T23:59:59.000001-01:30''"
  by code_simp+

section \<open>Dates as text\<close>

definition date_isoformat :: "int \<Rightarrow> string" where
  "date_isoformat n = (let (y, m, d) = ord2ymd n in zpad 4 y @ ''-'' @ zpad 2 m @ ''-'' @ zpad 2 d)"

definition read_digits :: "nat \<Rightarrow> string \<Rightarrow> (int \<times> string) option" where
  "read_digits w s =
     (let t = take w s
      in if length t = w \<and> list_all is_digit t then Some (int (digits_val t), drop w s) else None)"

text \<open>The Monday of a year's first ISO week; the weeks of a year that has 53.\<close>

definition iso_week1_monday :: "int \<Rightarrow> int" where
  "iso_week1_monday y =
     (let first = ymd2ord (y, 1, 1); weekday = (first + 6) mod 7
      in first - weekday + (if 3 < weekday then 7 else 0))"

definition week_in_year :: "int \<Rightarrow> int \<Rightarrow> bool" where
  "week_in_year y week \<longleftrightarrow>
     (let weekday = (ymd2ord (y, 1, 1) + 6) mod 7
      in 1 \<le> week \<and> (week \<le> 52 \<or> week = 53 \<and> (weekday = 3 \<or> weekday = 2 \<and> is_leap y)))"

definition in_calendar :: "int \<Rightarrow> int option" where
  "in_calendar n = (if 1 \<le> n \<and> n \<le> max_ordinal then Some n else None)"

definition read_dash :: "bool \<Rightarrow> string \<Rightarrow> string option" where
  "read_dash wanted s =
     (if \<not> wanted then Some s else case s of c # r \<Rightarrow> (if c = CHR ''-'' then Some r else None) | [] \<Rightarrow> None)"

text \<open>After \<^verbatim>\<open>YYYY-?W\<close>: the week, and the day of the week unless the text ends there.\<close>

definition read_week :: "int \<Rightarrow> bool \<Rightarrow> string \<Rightarrow> int option" where
  "read_week y dashed s =
     (case read_digits 2 s of
        None \<Rightarrow> None
      | Some (week, r) \<Rightarrow>
          (case (if r = [] then Some 1 else Option.bind (read_dash dashed r) (\<lambda>r. map_option fst (read_digits 1 r))) of
             None \<Rightarrow> None
           | Some d \<Rightarrow>
               if week_in_year y week \<and> 1 \<le> d \<and> d \<le> 7
               then in_calendar (iso_week1_monday y + (week - 1) * 7 + d - 1) else None))"

text \<open>After \<^verbatim>\<open>YYYY-?\<close>: month and day.\<close>

definition read_month_day :: "int \<Rightarrow> bool \<Rightarrow> string \<Rightarrow> int option" where
  "read_month_day y dashed s =
     (case read_digits 2 s of
        None \<Rightarrow> None
      | Some (m, r) \<Rightarrow>
          (case Option.bind (read_dash dashed r) (read_digits 2) of
             Some (d, []) \<Rightarrow> if valid_ymd (y, m, d) then Some (ymd2ord (y, m, d)) else None
           | _ \<Rightarrow> None))"

text \<open>\<^verbatim>\<open>date.fromisoformat\<close>: the day number of a date in basic, extended or week form.\<close>

definition date_fromisoformat :: "string \<Rightarrow> int result" where
  "date_fromisoformat s =
     (case
        (if length s \<in> {7, 8, 10}
         then Option.bind (read_digits 4 s) (\<lambda>(y, r).
                let dashed = (take 1 r = ''-''); r = (if dashed then drop 1 r else r)
                in if take 1 r = ''W'' then read_week y dashed (drop 1 r) else read_month_day y dashed r)
         else None)
      of None \<Rightarrow> Inl (ValueError (''Invalid isoformat string: '' @ s)) | Some n \<Rightarrow> Inr n)"

lemma fromisoformat_samples:
  "date_fromisoformat ''2024-02-29'' = Inr (ymd2ord (2024, 2, 29))"
  "date_fromisoformat ''20240229'' = Inr (ymd2ord (2024, 2, 29))"
  "date_fromisoformat ''2020-W53-5'' = Inr (ymd2ord (2021, 1, 1))"
  "date_fromisoformat ''2026W01'' = Inr (ymd2ord (2025, 12, 29))"
  "\<not> is_ok (date_fromisoformat ''2023-02-29'')" "\<not> is_ok (date_fromisoformat ''2024-0229'')"
  "\<not> is_ok (date_fromisoformat ''2024-02-29T00:00'')" "\<not> is_ok (date_fromisoformat ''2021-W53'')"
  by code_simp+

lemma show_nat_length: "n < 10 ^ w \<Longrightarrow> 0 < w \<Longrightarrow> length (show_nat n) \<le> w"
proof (induction n arbitrary: w rule: show_nat.induct)
  case (1 n)
  show ?case
  proof (cases "n < 10")
    case True
    with 1(3) show ?thesis by (simp add: show_nat.simps [of n])
  next
    case False
    with 1(2,3) obtain v where w: "w = Suc v" "0 < v" by (cases w; cases "w - 1") auto
    with 1(2) have "n div 10 < 10 ^ v" by (simp add: less_mult_imp_div_less mult.commute)
    with 1(1) False w show ?thesis by (simp add: show_nat.simps [of n])
  qed
qed

lemma digit_zero: "CHR ''0'' = digit 0"
  by code_simp

lemma zpad_length: "0 \<le> n \<Longrightarrow> n < 10 ^ w \<Longrightarrow> 0 < w \<Longrightarrow> length (zpad w n) = w"
  using show_nat_length [of "nat n" w] by (simp add: zpad_def Let_def nat_less_iff)

lemma read_zpad:
  assumes "0 \<le> n" "n < 10 ^ w" "0 < w"
  shows "read_digits w (zpad w n @ r) = Some (n, r)"
proof -
  have "length (zpad w n) = w" using assms by (rule zpad_length)
  moreover have "list_all is_digit (zpad w n)"
    by (simp add: zpad_def Let_def show_nat_digits list_all_iff [of _ "replicate _ _"] digit_zero)
  moreover have "int (digits_val (zpad w n)) = n" using assms(1) by (simp add: zpad_def Let_def digit_zero)
  ultimately show ?thesis by (simp add: read_digits_def)
qed

lemma zpad_first: "0 < w \<Longrightarrow> \<exists>c s. zpad w n = c # s \<and> is_digit c"
proof -
  assume "0 < w"
  have "list_all is_digit (zpad w n)"
    by (simp add: zpad_def Let_def show_nat_digits list_all_iff [of _ "replicate _ _"] digit_zero)
  moreover have "zpad w n \<noteq> []" by (simp add: zpad_def Let_def)
  ultimately show ?thesis by (cases "zpad w n") auto
qed

lemma date_round_trip:
  assumes "1 \<le> n" "n \<le> max_ordinal"
  shows "date_fromisoformat (date_isoformat n) = Inr n"
proof -
  obtain y m d where o: "ord2ymd n = (y, m, d)" by (cases "ord2ymd n")
  have v: "valid_ymd (y, m, d)" using ord2ymd_valid [of n] assms o by (simp add: max_ordinal_def)
  then have "d \<le> 31" using days_in_month_le [of m "is_leap y"] by (simp add: valid_ymd_def)
  with v have b: "1 \<le> y" "y < 10 ^ 4" "1 \<le> m" "m < 10 ^ 2" "1 \<le> d" "d < 10 ^ 2" by (auto simp: valid_ymd_def)
  obtain c s where c: "zpad 2 m = c # s" "is_digit c" using zpad_first [of 2 m] by auto
  moreover have "\<not> is_digit CHR ''W''" by code_simp
  ultimately have "c \<noteq> CHR ''W''" by auto
  have r: "read_digits 4 (zpad 4 y @ u) = Some (y, u)" "read_digits 2 (zpad 2 m @ u) = Some (m, u)"
    "read_digits 2 (zpad 2 d) = Some (d, [])" for u
    using read_zpad [of y 4 u] read_zpad [of m 2 u] read_zpad [of d 2 "[]"] b by simp_all
  have md: "read_month_day y True (zpad 2 m @ ''-'' @ zpad 2 d) = Some n"
    using ord2ymd_ord [of n] v by (simp add: read_month_day_def r(2,3) read_dash_def o)
  have iso: "date_isoformat n = zpad 4 y @ ''-'' @ zpad 2 m @ ''-'' @ zpad 2 d"
    by (simp add: date_isoformat_def o)
  have "length (date_isoformat n) = 10"
    using zpad_length [of y 4] zpad_length [of m 2] zpad_length [of d 2] b unfolding iso by simp
  then show ?thesis
    using md \<open>c \<noteq> CHR ''W''\<close> c(1) r(1) by (simp add: date_fromisoformat_def iso Let_def)
qed

end
