(* ===== verification/ApiRoutes.thy ===== *)
theory ApiRoutes
  imports ApiAuth StripeClient OAuthService PyDatetime
begin

text \<open>
  The HTTP routes of \<^verbatim>\<open>app/api/routes\<close>: key management (\<^verbatim>\<open>auth.py\<close>), administration (\<^verbatim>\<open>admin.py\<close>),
  balance and purchase (\<^verbatim>\<open>billing.py\<close>), the Stripe webhook (\<^verbatim>\<open>webhooks.py\<close>), the OAuth exchange
  (\<^verbatim>\<open>oauth.py\<close>) and the probes (\<^verbatim>\<open>health.py\<close>). A route resolves the caller, then runs its handler
  inside its decorators in the order they are written. Bodies arrive validated by their
  pydantic models, whose constraints are the \<open>valid_\<close> predicates.
\<close>

section \<open>Keys\<close>

record create_key_body =
  kb_name :: string
  kb_scope :: key_scope
  kb_allowed_models :: "string list"
  kb_expires_at :: "datetime option"

definition valid_create_key_body :: "create_key_body \<Rightarrow> bool" where
  "valid_create_key_body b \<longleftrightarrow> 1 \<le> length (kb_name b) \<and> length (kb_name b) \<le> 200"

record key_view =
  kv_id :: uuid
  kv_name :: string
  kv_scope :: key_scope
  kv_allowed_models :: "string list"
  kv_expires_at :: "datetime option"
  kv_created_at :: datetime

definition key_view_of :: "api_key \<Rightarrow> key_view" where
  "key_view_of k =
     \<lparr>kv_id = key_id k, kv_name = key_name k, kv_scope = key_scope k,
      kv_allowed_models = allowed_models k, kv_expires_at = expires_at k,
      kv_created_at = key_created_at k\<rparr>"

record created_key_view = key_view +
  kv_plaintext :: string

definition created_key_view_of :: "created_key \<Rightarrow> created_key_view" where
  "created_key_view_of ck = key_view.extend (key_view_of (created_key ck)) \<lparr>kv_plaintext = created_plaintext ck\<rparr>"

text \<open>The environment of a request: the database, the hasher, the header, the clock, fresh values.\<close>

record request_env =
  re_db :: db_env
  re_crypto :: crypto
  re_authorization :: "string option"
  re_now :: datetime
  re_audit :: audit_entropy

definition create_key_route :: "request_env \<Rightarrow> string \<Rightarrow> key_entropy \<Rightarrow> create_key_body \<Rightarrow> created_key_view uow_action" where
  "create_key_route e key_prefix ke body =
     bind (get_current_auth (re_crypto e) (re_now e) (re_authorization e)) (\<lambda>auth.
       audit_log (re_db e) (re_audit e) ''api_key.create'' ''api_key'' None (Some auth)
         (require_permission ''keys:write'' (Some auth)
           (bind (create_key (re_db e) (re_crypto e) key_prefix ke
                   \<lparr>ck_org_id = user_org_id (auth_user auth), ck_user_id = user_id (auth_user auth),
                    ck_name = kb_name body, ck_scope = kb_scope body,
                    ck_allowed_models = kb_allowed_models body, ck_expires_at = kb_expires_at body\<rparr>)
             (\<lambda>created. return (created_key_view_of created)))))"

definition list_keys_route :: "request_env \<Rightarrow> key_view list uow_action" where
  "list_keys_route e =
     bind (get_current_auth (re_crypto e) (re_now e) (re_authorization e)) (\<lambda>auth.
       require_permission ''keys:read'' (Some auth)
         (bind (with_uow (in_session (keys_list_for_org (user_org_id (auth_user auth)))))
           (\<lambda>keys. return (map key_view_of keys))))"

text \<open>\<open>t\<close> is the clock when the revocation is written.\<close>

definition revoke_key_route :: "request_env \<Rightarrow> datetime \<Rightarrow> uuid \<Rightarrow> unit uow_action" where
  "revoke_key_route e t i =
     bind (get_current_auth (re_crypto e) (re_now e) (re_authorization e)) (\<lambda>auth.
       audit_log (re_db e) (re_audit e) ''api_key.revoke'' ''api_key'' (Some i) (Some auth)
         (require_permission ''keys:write'' (Some auth) (revoke_key t i ''user_requested'')))"

section \<open>Administration\<close>

text \<open>\<open>clock n\<close> is the time at which the \<open>n\<close>-th key of the loop is revoked.\<close>

fun revoke_user_keys :: "(nat \<Rightarrow> datetime) \<Rightarrow> nat \<Rightarrow> uuid \<Rightarrow> api_key list \<Rightarrow> unit db_action" where
  "revoke_user_keys clock n user [] = return ()"
| "revoke_user_keys clock n user (k # ks) =
     bind (if key_user_id k = user \<and> revoked_at k = None
           then keys_revoke (clock n) (key_id k) ''user_suspended'' else return ())
       (\<lambda>_. revoke_user_keys clock (Suc n) user ks)"

definition suspend_user :: "(nat \<Rightarrow> datetime) \<Rightarrow> uuid \<Rightarrow> uuid \<Rightarrow> unit db_action" where
  "suspend_user clock caller_org i =
     bind (users_get i) (\<lambda>u.
       case u of
         None \<Rightarrow> throw (Domain NotFound ''User not found'')
       | Some v \<Rightarrow>
           if user_org_id v \<noteq> caller_org then throw (Domain NotFound ''User not in your organization'')
           else bind (keys_list_for_org (user_org_id v)) (revoke_user_keys clock 0 i))"

definition suspend_user_route :: "request_env \<Rightarrow> (nat \<Rightarrow> datetime) \<Rightarrow> uuid \<Rightarrow> unit uow_action" where
  "suspend_user_route e clock i =
     bind (get_current_auth (re_crypto e) (re_now e) (re_authorization e)) (\<lambda>auth.
       audit_log (re_db e) (re_audit e) ''user.suspend'' ''user'' (Some i) (Some auth)
         (require_permission ''admin:write'' (Some auth)
           (with_uow (committing (suspend_user clock (user_org_id (auth_user auth)) i)))))"

section \<open>Billing\<close>

record balance_view =
  bv_available :: decimal
  bv_reserved :: decimal
  bv_monthly_cap :: "decimal option"
  bv_daily_cap :: "decimal option"
  bv_hard_stop :: bool

definition get_balance_route :: "request_env \<Rightarrow> balance_view uow_action" where
  "get_balance_route e =
     bind (get_current_auth (re_crypto e) (re_now e) (re_authorization e)) (\<lambda>auth.
       require_permission ''billing:read'' (Some auth)
         (bind (with_uow (in_session (credits_get_for_update (re_db e) (user_org_id (auth_user auth)))))
           (\<lambda>b. return \<lparr>bv_available = available b, bv_reserved = reserved b, bv_monthly_cap = monthly_cap b,
              bv_daily_cap = daily_cap b, bv_hard_stop = hard_stop b\<rparr>)))"

definition valid_purchase_amount :: "decimal \<Rightarrow> bool" where
  "valid_purchase_amount d \<longleftrightarrow> dec_zero < d \<and> d \<le> dec_of_int 100000"

record purchase_response =
  pr_client_secret :: string
  pr_payment_intent_id :: string

text \<open>\<open>stripe\<close> is the SDK's answer to a payment request: the intent's id and client secret.\<close>

definition purchase_credits_route :: "request_env \<Rightarrow> (payment_request \<Rightarrow> (string \<times> string) result)
    \<Rightarrow> decimal \<Rightarrow> purchase_response uow_action" where
  "purchase_credits_route e stripe amount_usd =
     bind (get_current_auth (re_crypto e) (re_now e) (re_authorization e)) (\<lambda>auth.
       audit_log (re_db e) (re_audit e) ''billing.purchase_intent'' ''org'' None (Some auth)
         (require_permission ''billing:write'' (Some auth)
           (bind (lift (stripe (create_payment_intent amount_usd (user_org_id (auth_user auth)) (user_id (auth_user auth)))))
             (\<lambda>(i, secret). return \<lparr>pr_client_secret = secret, pr_payment_intent_id = i\<rparr>))))"

record usage_view =
  uv_input_tokens :: int
  uv_output_tokens :: int
  uv_cost_usd :: pyfloat
  uv_requests :: int

text \<open>
  The window defaults to the thirty days before its end, and its end to the time \<open>t\<close>. The bounds
  travel to the database as text, which the driver may refuse.
\<close>

definition get_usage_route :: "request_env \<Rightarrow> datetime \<Rightarrow> py_datetime option \<Rightarrow> py_datetime option
    \<Rightarrow> usage_view uow_action" where
  "get_usage_route e t start stop =
     bind (get_current_auth (re_crypto e) (re_now e) (re_authorization e)) (\<lambda>auth.
       require_permission ''billing:read'' (Some auth)
         (let stop' = (case stop of None \<Rightarrow> utcnow t | Some x \<Rightarrow> x)
          in bind (lift (case start of None \<Rightarrow> minus_days 30 stop' | Some x \<Rightarrow> Inr x)) (\<lambda>start'.
             bind (with_uow (in_session (usage_aggregate_for_period (re_db e) (user_org_id (auth_user auth))
                     (isoformat start') (isoformat stop'))))
               (\<lambda>agg. return \<lparr>uv_input_tokens = ut_input_tokens agg, uv_output_tokens = ut_output_tokens agg,
                  uv_cost_usd = ut_cost_usd agg, uv_requests = ut_requests agg\<rparr>))))"

section \<open>The Stripe webhook\<close>

text \<open>\<open>construct_event\<close> is the SDK's verdict on the payload and its signature.\<close>

definition stripe_webhook_route :: "db_env \<Rightarrow> webhook_error + json \<Rightarrow> http_response db_action" where
  "stripe_webhook_route env construct_event =
     (case verify_webhook construct_event of
        Inl (ValueError m) \<Rightarrow>
          return \<lparr>resp_status = 400, resp_body = JObj [(''error'', JStr ''invalid_signature'')]\<rparr>
      | Inl e \<Rightarrow> throw e
      | Inr event \<Rightarrow>
          bind (handle_webhook env event)
            (\<lambda>_. return \<lparr>resp_status = 200, resp_body = JObj [(''received'', JBool True)]\<rparr>))"

section \<open>OAuth\<close>

record oauth_body =
  ob_provider :: string
  ob_access_token :: string

definition valid_oauth_body :: "oauth_body \<Rightarrow> bool" where
  "valid_oauth_body b \<longleftrightarrow> ob_provider b \<in> {''google'', ''github''}
     \<and> 10 \<le> length (ob_access_token b) \<and> length (ob_access_token b) \<le> 4096"

record oauth_response =
  or_access_token :: string
  or_token_type :: string
  or_expires_in :: int
  or_user_id :: string
  or_org_id :: string
  or_role :: string

definition exchange_route :: "db_env \<Rightarrow> http_get \<Rightarrow> ((string \<times> claim) list \<Rightarrow> string) \<Rightarrow> oauth_entropy
    \<Rightarrow> oauth_body \<Rightarrow> oauth_response uow_action" where
  "exchange_route env http sign e b =
     bind (exchange env http sign e \<lparr>oc_provider = ob_provider b, oc_access_token = ob_access_token b\<rparr>)
       (\<lambda>j. return \<lparr>or_access_token = bj_access_token j, or_token_type = ''Bearer'',
          or_expires_in = bj_expires_in_seconds j, or_user_id = bj_user_id j, or_org_id = bj_org_id j,
          or_role = bj_role j\<rparr>)"

section \<open>Probes\<close>

record dependency_status =
  ds_status :: string
  ds_latency_ms :: int

record health_response =
  hr_status :: string
  hr_version :: string
  hr_dependencies :: "(string \<times> dependency_status) list"

text \<open>\<open>probe\<close> is the outcome of the ping; a failure is reported, not raised.\<close>

definition check_dependency :: "'a result \<Rightarrow> int \<Rightarrow> dependency_status" where
  "check_dependency probe elapsed =
     (case probe of
        Inr _ \<Rightarrow> \<lparr>ds_status = ''healthy'', ds_latency_ms = elapsed\<rparr>
      | Inl _ \<Rightarrow> \<lparr>ds_status = ''unhealthy'', ds_latency_ms = elapsed\<rparr>)"

definition health :: "string \<Rightarrow> health_response" where
  "health version = \<lparr>hr_status = ''healthy'', hr_version = version, hr_dependencies = []\<rparr>"

definition ready :: "string \<Rightarrow> unit result \<Rightarrow> int \<Rightarrow> unit result \<Rightarrow> int \<Rightarrow> int \<times> health_response" where
  "ready version postgres t1 redis t2 =
     (let deps = [(''postgres'', check_dependency postgres t1), (''redis'', check_dependency redis t2)]
      in if list_ex (\<lambda>d. ds_status (snd d) \<noteq> ''healthy'') deps
         then (503, \<lparr>hr_status = ''unhealthy'', hr_version = version, hr_dependencies = deps\<rparr>)
         else (200, \<lparr>hr_status = ''healthy'', hr_version = version, hr_dependencies = deps\<rparr>))"

lemma ready_iff: "fst (ready v postgres t1 redis t2) = 200 \<longleftrightarrow> is_ok postgres \<and> is_ok redis"
  by (cases postgres; cases redis) (simp_all add: ready_def check_dependency_def)

section \<open>Suspending a user\<close>

lemma keys_list_result:
  assumes db: "db_ok db"
  shows "\<exists>ks. keys_list_for_org org db = (Inr ks, db)
    \<and> (\<forall>k. k \<in> set ks \<longleftrightarrow> (\<exists>i. sql_view db i = Some k) \<and> key_org_id k = org)"
proof -
  let ?rs = "filter (\<lambda>r. k_org_id r = org) (api_keys db)"
  have "\<exists>y. api_key_of_row r = Inr y \<and> api_key_of_row r = Inr y" if "r \<in> set ?rs" for r
    using that readable_keys [OF db] by auto
  then obtain ks where ks: "map_result api_key_of_row ?rs = Inr ks"
    "list_all2 (\<lambda>r k. api_key_of_row r = Inr k) ?rs ks"
    using map_result_ok [of ?rs api_key_of_row "\<lambda>r k. api_key_of_row r = Inr k"] by blast
  have org: "key_org_id k = k_org_id r" if "api_key_of_row r = Inr k" for r k
    using that by (auto simp: api_key_of_row_def res_bind_Inr_iff)
  have mem: "k \<in> set ks \<longleftrightarrow> (\<exists>r \<in> set ?rs. api_key_of_row r = Inr k)" for k
    using ks(2) by (induction rule: list_all2_induct) auto
  have "k \<in> set ks \<longleftrightarrow> (\<exists>i. sql_view db i = Some k) \<and> key_org_id k = org" for k
  proof
    assume "k \<in> set ks"
    then obtain r where r: "r \<in> set (api_keys db)" "k_org_id r = org" "api_key_of_row r = Inr k"
      using mem by auto
    then show "(\<exists>i. sql_view db i = Some k) \<and> key_org_id k = org"
      using sql_view_SomeI [OF db r(1,3)] org [OF r(3)] by auto
  next
    assume k: "(\<exists>i. sql_view db i = Some k) \<and> key_org_id k = org"
    then obtain i where "sql_view db i = Some k" by blast
    then obtain r where r: "r \<in> set (api_keys db)" "api_key_of_row r = Inr k"
      using sql_view_SomeD [OF db] by blast
    with k org [OF r(2)] mem show "k \<in> set ks" by auto
  qed
  with ks(1) show ?thesis by (simp add: keys_list_for_org_def)
qed

definition revoke_ids :: "uuid \<Rightarrow> api_key list \<Rightarrow> uuid set" where
  "revoke_ids user ks = key_id ` {k \<in> set ks. key_user_id k = user \<and> revoked_at k = None}"

lemma revoke_user_keys_view:
  "db_ok db \<Longrightarrow> \<exists>db' f. revoke_user_keys clock n user ks db = (Inr (), db') \<and> db_ok db'
    \<and> (\<forall>i. sql_view db' i = map_option (\<lambda>k. if i \<in> revoke_ids user ks then k\<lparr>revoked_at := Some (f i)\<rparr> else k)
             (sql_view db i))"
proof (induction ks arbitrary: n db)
  case Nil
  then show ?case by (simp add: revoke_ids_def option.map_ident)
next
  case (Cons k ks)
  show ?case
  proof (cases "key_user_id k = user \<and> revoked_at k = None")
    case False
    then have "revoke_ids user (k # ks) = revoke_ids user ks" by (auto simp: revoke_ids_def)
    with False Cons.IH [OF Cons.prems, of "Suc n"] show ?thesis by (auto simp: bind_def)
  next
    case True
    have "varchar 500 ''user_suspended''" by (simp add: varchar_def)
    then obtain db1 where r: "keys_revoke (clock n) (key_id k) ''user_suspended'' db = (Inr (), db1)"
      by (simp add: keys_revoke_def)
    have db1: "db_ok db1" "sql_view db1 = (sql_view db)(key_id k :=
        map_option (\<lambda>k. k\<lparr>revoked_at := Some (clock n)\<rparr>) (sql_view db (key_id k)))"
      using sql_keys.revoke_result [OF Cons.prems r] by auto
    obtain db' f where db': "revoke_user_keys clock (Suc n) user ks db1 = (Inr (), db')" "db_ok db'"
      "\<And>i. sql_view db' i = map_option (\<lambda>k. if i \<in> revoke_ids user ks then k\<lparr>revoked_at := Some (f i)\<rparr> else k)
             (sql_view db1 i)"
      using Cons.IH [OF db1(1), of "Suc n"] by blast
    have ids: "revoke_ids user (k # ks) = insert (key_id k) (revoke_ids user ks)"
      using True by (auto simp: revoke_ids_def)
    let ?f = "\<lambda>i. if i \<in> revoke_ids user ks then f i else clock n"
    have "sql_view db' i = map_option (\<lambda>k'. if i \<in> revoke_ids user (k # ks) then k'\<lparr>revoked_at := Some (?f i)\<rparr> else k')
             (sql_view db i)" for i
      by (cases "sql_view db i") (auto simp: db'(3) db1(2) ids)
    moreover have "revoke_user_keys clock n user (k # ks) db = (Inr (), db')"
      using True r db'(1) by (simp add: bind_def)
    ultimately show ?thesis using db'(2) by (intro exI [of _ db'] exI [of _ ?f] conjI allI)
  qed
qed

lemma suspend_user_view:
  assumes db: "db_ok db" and s: "suspend_user clock org i db = (Inr (), db')"
  shows "db_ok db'"
    and "sql_view db' j = Some k \<Longrightarrow> key_user_id k = i \<Longrightarrow> key_org_id k = org \<Longrightarrow> revoked_at k \<noteq> None"
    and "sql_view db j = Some k \<Longrightarrow> key_user_id k \<noteq> i \<or> key_org_id k \<noteq> org \<or> revoked_at k \<noteq> None \<Longrightarrow>
      sql_view db' j = Some k"
proof -
  obtain ks where ks: "keys_list_for_org org db = (Inr ks, db)"
    "\<And>k. k \<in> set ks \<longleftrightarrow> (\<exists>i. sql_view db i = Some k) \<and> key_org_id k = org"
    using keys_list_result [OF db] by blast
  have "revoke_user_keys clock 0 i ks db = (Inr (), db')"
    using s ks(1) by (auto simp: suspend_user_def bind_def users_get_def split: sum.splits option.splits if_splits)
  then obtain f where v: "db_ok db'"
    "\<And>j. sql_view db' j = map_option (\<lambda>k. if j \<in> revoke_ids i ks then k\<lparr>revoked_at := Some (f j)\<rparr> else k) (sql_view db j)"
    using revoke_user_keys_view [OF db, of clock 0 i ks] by auto
  have ids: "j \<in> revoke_ids i ks \<longleftrightarrow> key_user_id k = i \<and> revoked_at k = None \<and> key_org_id k = org"
    if "sql_view db j = Some k" for j k
    using that ks(2) sql_keys.view_id [OF db] by (fastforce simp: revoke_ids_def)
  show "db_ok db'" by (rule v(1))
  show "revoked_at k \<noteq> None" if k: "sql_view db' j = Some k" "key_user_id k = i" "key_org_id k = org"
  proof -
    obtain k0 where "sql_view db j = Some k0" "k = (if j \<in> revoke_ids i ks then k0\<lparr>revoked_at := Some (f j)\<rparr> else k0)"
      using k(1) v(2) [of j] by auto
    with ids [of j k0] k(2,3) show ?thesis by (auto split: if_splits)
  qed
  show "sql_view db' j = Some k"
    if "sql_view db j = Some k" "key_user_id k \<noteq> i \<or> key_org_id k \<noteq> org \<or> revoked_at k \<noteq> None"
    using that v(2) [of j] ids [OF that(1)] by auto
qed

section \<open>Who may do what\<close>

lemma audit_log_denied:
  "(\<And>v. handler v = (Inl e, v)) \<Longrightarrow> audit_log env ae action tt target auth handler u = (Inl e, u)"
  by (simp add: audit_log_def bind_def)

lemma authorized_run:
  assumes "fst (get_current_auth c now h u) = Inr a"
  shows "bind (get_current_auth c now h) f u = f a (u\<lparr>session := None\<rparr>)"
proof -
  have "snd (get_current_auth c now h u) = u\<lparr>session := None\<rparr>"
    using assms by (cases "extract_bearer h") (simp_all add: get_current_auth_def with_reading)
  with assms show ?thesis by (metis bind_eqs(2) prod.collapse)
qed

text \<open>Revocation asks for a permission, never for the owner of the key.\<close>

lemma revoke_key_route_any_owner:
  assumes db: "db_ok (committed u)"
    and a: "fst (get_current_auth (re_crypto e) (re_now e) (re_authorization e) u) = Inr a"
    and p: "''keys:write'' \<in> set (role_permissions (user_role (auth_user a)))"
    and k: "sql_view (committed u) i = Some k"
  shows "fst (revoke_key_route e t i u) = Inr ()"
    and "sql_view (committed (snd (revoke_key_route e t i u))) i = Some (k\<lparr>revoked_at := Some t\<rparr>)"
proof -
  let ?u = "u\<lparr>session := None\<rparr>"
  have run: "revoke_key_route e t i u = audit_log (re_db e) (re_audit e) ''api_key.revoke'' ''api_key'' (Some i)
      (Some a) (revoke_key t i ''user_requested'') ?u"
    unfolding revoke_key_route_def authorized_run [OF a] by (simp add: require_permission_granted [OF p])
  have "varchar 500 ''user_requested''" by (simp add: varchar_def)
  then obtain db1 where r: "keys_revoke t i ''user_requested'' (committed u) = (Inr (), db1)"
    by (simp add: keys_revoke_def)
  have rk: "revoke_key t i ''user_requested'' ?u = (Inr (), \<lparr>committed = db1, session = None\<rparr>)"
    using db k r by (simp add: revoke_key_cases)
  show "fst (revoke_key_route e t i u) = Inr ()" by (simp add: run audit_log_result rk)
  show "sql_view (committed (snd (revoke_key_route e t i u))) i = Some (k\<lparr>revoked_at := Some t\<rparr>)"
    using sql_keys.revoke_result [OF db r] k by (simp add: run audit_log_view rk)
qed

lemma list_keys_own_org:
  assumes db: "db_ok (committed u)"
    and a: "fst (get_current_auth (re_crypto e) (re_now e) (re_authorization e) u) = Inr a"
    and r: "fst (list_keys_route e u) = Inr vs"
  shows "v \<in> set vs \<longleftrightarrow> (\<exists>i k. sql_view (committed u) i = Some k \<and> key_org_id k = user_org_id (auth_user a)
    \<and> v = key_view_of k)"
proof -
  obtain ks where ks: "keys_list_for_org (user_org_id (auth_user a)) (committed u) = (Inr ks, committed u)"
    "\<And>k. k \<in> set ks \<longleftrightarrow> (\<exists>i. sql_view (committed u) i = Some k) \<and> key_org_id k = user_org_id (auth_user a)"
    using keys_list_result [OF db] by blast
  have "vs = map key_view_of ks"
    using r ks(1) unfolding list_keys_route_def authorized_run [OF a]
    by (auto simp: require_permission_def bind_def with_reading split: if_splits)
  then have "v \<in> set vs \<longleftrightarrow> (\<exists>k. k \<in> set ks \<and> v = key_view_of k)" by auto
  then show ?thesis unfolding ks(2) by blast
qed

section \<open>What a usage report adds up\<close>

lemma usage_route_result:
  assumes a: "fst (get_current_auth (re_crypto e) (re_now e) (re_authorization e) u) = Inr a"
    and p: "''billing:read'' \<in> set (role_permissions (user_role (auth_user a)))"
    and t: "db_timestamp (re_db e) (isoformat x0) = Inr t0" "db_timestamp (re_db e) (isoformat x1) = Inr t1"
    and rs: "rs = filter (in_period (user_org_id (auth_user a)) t0 t1) (usage_records (committed u))"
  shows "get_usage_route e t (Some x0) (Some x1) u =
    (Inr \<lparr>uv_input_tokens = sum_list (map r_input_tokens rs), uv_output_tokens = sum_list (map r_output_tokens rs),
       uv_cost_usd = py_float (sum_list (map (\<lambda>r. dec_val (r_cost_usd r)) rs)), uv_requests = int (length rs)\<rparr>,
     u\<lparr>session := None\<rparr>)"
  unfolding get_usage_route_def authorized_run [OF a] require_permission_granted [OF p]
  by (simp add: bind_def with_reading usage_aggregate_for_period_def t rs Let_def)

lemma in_period_split:
  "t0 \<le> t1 \<Longrightarrow> t1 \<le> t2 \<Longrightarrow> in_period org t0 t2 r \<longleftrightarrow> in_period org t0 t1 r \<or> in_period org t1 t2 r"
  "\<not> (in_period org t0 t1 r \<and> in_period org t1 t2 r)"
  by (auto simp: in_period_def)

lemma sum_filter_split:
  fixes f :: "'a \<Rightarrow> int"
  assumes "\<And>x. R x \<longleftrightarrow> P x \<or> Q x" "\<And>x. \<not> (P x \<and> Q x)"
  shows "sum_list (map f (filter R xs)) = sum_list (map f (filter P xs)) + sum_list (map f (filter Q xs))"
  using assms by (induction xs) auto

text \<open>A driver that takes no text for a timestamp answers no usage report; the request changes nothing.\<close>

lemma usage_report_refused:
  assumes a: "fst (get_current_auth (re_crypto e) (re_now e) (re_authorization e) u) = Inr a"
    and p: "''billing:read'' \<in> set (role_permissions (user_role (auth_user a)))"
    and no_text: "\<And>s. db_timestamp (re_db e) s = Inl err"
  shows "get_usage_route e t (Some x0) (Some x1) u = (Inl err, u\<lparr>session := None\<rparr>)"
  unfolding get_usage_route_def authorized_run [OF a] require_permission_granted [OF p]
  by (simp add: bind_def with_reading usage_aggregate_for_period_def no_text Let_def)

text \<open>With one that does, adjacent periods add up.\<close>

lemma usage_periods_add:
  assumes a: "fst (get_current_auth (re_crypto e) (re_now e) (re_authorization e) u) = Inr a"
    and p: "''billing:read'' \<in> set (role_permissions (user_role (auth_user a)))"
    and t: "db_timestamp (re_db e) (isoformat x0) = Inr t0" "db_timestamp (re_db e) (isoformat x1) = Inr t1"
      "db_timestamp (re_db e) (isoformat x2) = Inr t2" "t0 \<le> t1" "t1 \<le> t2"
    and db: "db_ok (committed u)"
  shows "\<exists>v v1 v2. get_usage_route e t (Some x0) (Some x2) u = (Inr v, u\<lparr>session := None\<rparr>)
    \<and> fst (get_usage_route e t (Some x0) (Some x1) u) = Inr v1 \<and> fst (get_usage_route e t (Some x1) (Some x2) u) = Inr v2
    \<and> uv_requests v = uv_requests v1 + uv_requests v2
    \<and> uv_input_tokens v = uv_input_tokens v1 + uv_input_tokens v2
    \<and> uv_output_tokens v = uv_output_tokens v1 + uv_output_tokens v2
    \<and> uv_requests v = int (card {r \<in> set (usage_records (committed u)). in_period (user_org_id (auth_user a)) t0 t2 r})"
proof -
  let ?P = "in_period (user_org_id (auth_user a))"
  have s: "sum_list (map f (filter (?P t0 t2) rs)) = sum_list (map f (filter (?P t0 t1) rs))
      + sum_list (map f (filter (?P t1 t2) rs))" for f :: "usage_row \<Rightarrow> int" and rs
    by (rule sum_filter_split) (use in_period_split(1) [OF t(4,5)] in_period_split(2) in blast)+
  have len: "int (length xs) = sum_list (map (\<lambda>_. 1) xs)" for xs :: "usage_row list"
    by (induction xs) simp_all
  have "distinct (usage_records (committed u))"
    using db by (auto simp: db_ok_def usage_ok_def distinct_map)
  then have card: "length (filter (?P t0 t2) (usage_records (committed u)))
      = card {r \<in> set (usage_records (committed u)). ?P t0 t2 r}"
    by (metis distinct_card distinct_filter set_filter)
  show ?thesis
    unfolding card [symmetric]
    by (simp add: usage_route_result [OF a p t(1,3) refl] usage_route_result [OF a p t(1,2) refl]
        usage_route_result [OF a p t(2,3) refl] s len)
qed

section \<open>A created key authenticates its owner\<close>

lemma extract_bearer_of:
  assumes "\<forall>c \<in> set p. \<not> is_space c"
  shows "extract_bearer (Some (''Bearer '' @ p)) = Inr p"
proof -
  have "py_lower (''Bearer '' @ p) = ''bearer '' @ py_lower p"
  proof -
    have "py_lower ''Bearer '' = ''bearer ''" by code_simp
    then show ?thesis by (simp add: py_lower_def)
  qed
  then have "py_startswith (py_lower (''Bearer '' @ p)) ''bearer ''" by (simp add: py_startswith_def)
  moreover have "split_once (CHR '' '') (''Bearer'' @ CHR '' '' # p) = [''Bearer'', p]"
    by (rule split_once_append) simp
  then have "split_once (CHR '' '') (''Bearer '' @ p) ! 1 = p" by simp
  ultimately show ?thesis using py_strip_id [OF assms] by (simp add: extract_bearer_def)
qed

lemma write_audit_keeps:
  "users (committed (snd (write_audit row u))) = users (committed u)
    \<and> sql_view (committed (snd (write_audit row u))) = sql_view (committed u)"
proof -
  obtain ls where "committed (snd (write_audit row u)) = (committed u)\<lparr>audit_logs := ls\<rparr>"
    using write_audit_tables by blast
  then show ?thesis by (simp add: sql_view_def fun_eq_iff)
qed

lemma users_get_id: "fst (users_get i db) = Inr (Some v) \<Longrightarrow> user_id v = i"
  by (auto simp: users_get_def row_to_domain_def user_of_row_def res_bind_Inr_iff
      split: option.splits dest: by_key_SomeD)

lemma create_key_route_result:
  assumes db: "db_ok (committed u)"
    and a: "fst (get_current_auth (re_crypto e) (re_now e) (re_authorization e) u) = Inr a"
    and r: "create_key_route e pre ke body u = (Inr v, u1)"
  shows "\<exists>k. k = issue_key (re_crypto e) pre ke
      \<lparr>ck_org_id = user_org_id (auth_user a), ck_user_id = user_id (auth_user a), ck_name = kb_name body,
       ck_scope = kb_scope body, ck_allowed_models = kb_allowed_models body, ck_expires_at = kb_expires_at body\<rparr>
    \<and> kv_plaintext v = generate_api_key pre (ke_token ke) \<and> kv_id v = key_id k
    \<and> db_ok (committed u1) \<and> users (committed u1) = users (committed u)
    \<and> sql_view (committed u1) (key_id k) = Some (sql_stored (re_db e) k)"
proof -
  let ?cmd = "\<lparr>ck_org_id = user_org_id (auth_user a), ck_user_id = user_id (auth_user a), ck_name = kb_name body,
       ck_scope = kb_scope body, ck_allowed_models = kb_allowed_models body, ck_expires_at = kb_expires_at body\<rparr>"
  let ?k = "issue_key (re_crypto e) pre ke ?cmd" and ?u = "u\<lparr>session := None\<rparr>"
  obtain x db1 row where add: "keys_add (re_db e) ?k (committed u) = (Inr x, db1)"
    and v: "v = created_key_view_of \<lparr>created_key = ?k, created_plaintext = generate_api_key pre (ke_token ke)\<rparr>"
    and u1: "u1 = snd (write_audit row \<lparr>committed = db1, session = None\<rparr>)"
    using r unfolding create_key_route_def authorized_run [OF a]
    by (auto simp: audit_log_def require_permission_def bind_def create_key_committing split: if_splits sum.splits prod.splits)
  note db1 = keys_add_result [OF db add]
  have "db_ok (committed u1)" unfolding u1 by (rule write_audit_ok) (simp add: db1(1))
  moreover have "users (committed u1) = users (committed u)" by (simp add: u1 write_audit_keeps db1(4))
  moreover have "sql_view (committed u1) (key_id ?k) = Some (sql_stored (re_db e) ?k)"
    by (simp add: u1 write_audit_keeps db1(3))
  moreover have "kv_plaintext v = generate_api_key pre (ke_token ke)" "kv_id v = key_id ?k"
    by (simp_all add: v created_key_view_of_def key_view_of_def key_view.defs)
  ultimately show ?thesis by blast
qed

lemma created_key_authenticates:
  assumes db: "db_ok (committed u)" and c: "hasher_ok (re_crypto e)"
    and a: "fst (get_current_auth (re_crypto e) (re_now e) (re_authorization e) u) = Inr a"
    and r: "create_key_route e pre ke body u = (Inr v, u1)"
    and sp: "\<forall>ch \<in> set (kv_plaintext v). \<not> is_space ch"
    and t: "\<forall>t. kb_expires_at body = Some t \<longrightarrow> now \<le> t"
  shows "\<exists>a'. fst (get_current_auth (re_crypto e) now (Some (''Bearer '' @ kv_plaintext v)) u1) = Inr a'
    \<and> auth_user a' = auth_user a \<and> key_id (auth_api_key a') = kv_id v"
proof -
  obtain k where k: "k = issue_key (re_crypto e) pre ke
      \<lparr>ck_org_id = user_org_id (auth_user a), ck_user_id = user_id (auth_user a), ck_name = kb_name body,
       ck_scope = kb_scope body, ck_allowed_models = kb_allowed_models body, ck_expires_at = kb_expires_at body\<rparr>"
    "kv_plaintext v = generate_api_key pre (ke_token ke)" "kv_id v = key_id k"
    "db_ok (committed u1)" "users (committed u1) = users (committed u)"
    "sql_view (committed u1) (key_id k) = Some (sql_stored (re_db e) k)"
    using create_key_route_result [OF db a r] by blast
  have bearer: "extract_bearer (Some (''Bearer '' @ kv_plaintext v)) = Inr (kv_plaintext v)"
    by (rule extract_bearer_of [OF sp])
  obtain p where "extract_bearer (re_authorization e) = Inr p"
    using a by (cases "extract_bearer (re_authorization e)") (simp_all add: get_current_auth_def)
  then have "fst (users_get (key_user_id (auth_api_key a)) (committed u)) = Inr (Some (auth_user a))"
    using a get_current_auth_iff [OF db] by metis
  then have "user_id (auth_user a) = key_user_id (auth_api_key a)" by (rule users_get_id)
  then have own: "fst (users_get (user_id (auth_user a)) (committed u1)) = Inr (Some (auth_user a))"
    using \<open>fst (users_get _ _) = _\<close> k(5) by (simp add: users_get_def)
  let ?a' = "\<lparr>auth_user = auth_user a, auth_api_key = sql_stored (re_db e) k\<rparr>"
  have "usable_at now (sql_stored (re_db e) k)"
    using t by (simp add: usable_at_def sql_stored_def k(1) issue_key_def Let_def)
  moreover have "verify_api_key (re_crypto e) (kv_plaintext v) (key_hash (sql_stored (re_db e) k)) = Inr True"
    using c by (simp add: sql_stored_def k(1,2) issue_key_def Let_def verify_own_hash)
  moreover have "key_lookup (sql_stored (re_db e) k) = sha256_lookup (re_crypto e) (kv_plaintext v)"
    "key_user_id (sql_stored (re_db e) k) = user_id (auth_user a)" "key_id (sql_stored (re_db e) k) = key_id k"
    by (simp_all add: sql_stored_def k(1,2) issue_key_def Let_def)
  ultimately have "fst (get_current_auth (re_crypto e) now (Some (''Bearer '' @ kv_plaintext v)) u1) = Inr ?a'"
    using own k(6) by (subst get_current_auth_iff [OF k(4) bearer]) auto
  then show ?thesis using \<open>key_id (sql_stored (re_db e) k) = key_id k\<close> k(3) by auto
qed

section \<open>Refusals\<close>

text \<open>The action is refused for want of a permission and commits nothing.\<close>

definition forbidden :: "'a uow_action \<Rightarrow> uow \<Rightarrow> bool" where
  "forbidden m u \<longleftrightarrow> (\<exists>msg. fst (m u) = Inl (Domain Forbidden msg)) \<and> committed (snd (m u)) = committed u"

lemma forbidden_guarded:
  assumes "fst (get_current_auth c now h u) = Inr a"
    and "permission \<notin> set (role_permissions (user_role (auth_user a)))"
  shows "forbidden (bind (get_current_auth c now h) (\<lambda>auth.
    audit_log env ae action tt target (Some auth) (require_permission permission (Some auth) (handler auth)))) u"
  using require_permission_denied [OF assms(2), of "handler a" "u\<lparr>session := None\<rparr>"]
  unfolding forbidden_def authorized_run [OF assms(1)] by (auto simp: audit_log_def bind_def)

lemma forbidden_routes:
  assumes a: "fst (get_current_auth (re_crypto e) (re_now e) (re_authorization e) u) = Inr a"
  shows "user_role (auth_user a) \<in> {MEMBER, BILLING} \<Longrightarrow> forbidden (create_key_route e pre ke body) u"
    and "user_role (auth_user a) \<in> {MEMBER, BILLING} \<Longrightarrow> forbidden (revoke_key_route e t i) u"
    and "user_role (auth_user a) \<in> {MEMBER, BILLING} \<Longrightarrow> forbidden (suspend_user_route e clock i) u"
    and "user_role (auth_user a) \<in> {MEMBER, ADMIN} \<Longrightarrow> forbidden (purchase_credits_route e stripe amount_usd) u"
  unfolding create_key_route_def revoke_key_route_def suspend_user_route_def purchase_credits_route_def
  by (rule forbidden_guarded [OF a], fastforce)+

end
