(* ===== verification/Routing.thy ===== *)
theory Routing
  imports Json "HOL-Library.Multiset"
begin

text \<open>
  Semantic routing: the strategies of \<^verbatim>\<open>app/service/routing/strategies.py\<close>, the configured pool
  with its filter, loader and reload of \<^verbatim>\<open>app/service/routing/config.py\<close>, and the servicer of
  \<^verbatim>\<open>app/repository/grpc/routing_servicer.py\<close>. Reading and decoding the YAML file is a parameter,
  the outcome of one read. Model and provider names come from the file unchecked and stay
  documents; the response type refuses one that is no string.
\<close>

section \<open>Strategies\<close>

record candidate =
  ca_model :: json
  ca_provider :: json
  ca_pricing_per_million :: decimal
  ca_quality_score :: pyfloat
  ca_latency_p50_ms :: pyfloat

record routing_decision =
  rd_primary :: candidate
  rd_fallback :: "candidate list"
  rd_strategy :: string

datatype routing_strategy = CostStrategy | LatencyStrategy | QualityStrategy

fun strategy_name :: "routing_strategy \<Rightarrow> string" where
  "strategy_name CostStrategy = ''cost''"
| "strategy_name LatencyStrategy = ''latency''"
| "strategy_name QualityStrategy = ''quality''"

text \<open>
  The key a strategy sorts by, smaller first. \<^verbatim>\<open>sorted\<close> is stable, also with \<^verbatim>\<open>reverse=True\<close>,
  which is a stable sort by the negated key.
\<close>

fun strategy_key :: "routing_strategy \<Rightarrow> candidate \<Rightarrow> rat" where
  "strategy_key CostStrategy c = dec_val (ca_pricing_per_million c)"
| "strategy_key LatencyStrategy c = ca_latency_p50_ms c"
| "strategy_key QualityStrategy c = - ca_quality_score c"

definition strategy_choose :: "routing_strategy \<Rightarrow> candidate list \<Rightarrow> routing_decision result" where
  "strategy_choose st candidates =
     (case sort_key (strategy_key st) candidates of
        [] \<Rightarrow> Inl IndexError
      | c # cs \<Rightarrow> Inr \<lparr>rd_primary = c, rd_fallback = cs, rd_strategy = strategy_name st\<rparr>)"

type_synonym strategy_registry = "(string \<times> routing_strategy) list"

definition strategy_registry :: "routing_strategy list \<Rightarrow> strategy_registry" where
  "strategy_registry sts = fold (\<lambda>st. AList.update (strategy_name st) st) sts []"

definition default_registry :: strategy_registry where
  "default_registry = strategy_registry [CostStrategy, LatencyStrategy, QualityStrategy]"

text \<open>The name comes from the configuration: a list or a mapping is not hashable.\<close>

fun registry_get :: "strategy_registry \<Rightarrow> json \<Rightarrow> routing_strategy result" where
  "registry_get reg (JStr name) =
     (case map_of reg name of
        None \<Rightarrow> Inl (KeyError (''Unknown routing strategy: '' @ name))
      | Some st \<Rightarrow> Inr st)"
| "registry_get reg (JList xs) = Inl (TypeError ''unhashable type: list'')"
| "registry_get reg (JObj d) = Inl (TypeError ''unhashable type: dict'')"
| "registry_get reg v = Inl (KeyError ''Unknown routing strategy'')"

section \<open>The pool and its filter\<close>

record pool_entry =
  pe_model :: json
  pe_provider :: json
  pe_pricing_per_million :: decimal
  pe_quality_score :: pyfloat
  pe_latency_p50_ms :: pyfloat
  pe_capabilities :: "json set"
  pe_geos_allowed :: "json set"
  pe_residency :: "json set"

definition to_candidate :: "pool_entry \<Rightarrow> candidate" where
  "to_candidate e =
     \<lparr>ca_model = pe_model e, ca_provider = pe_provider e,
      ca_pricing_per_million = pe_pricing_per_million e,
      ca_quality_score = pe_quality_score e, ca_latency_p50_ms = pe_latency_p50_ms e\<rparr>"

record routing_config =
  rc_default_strategy :: json
  rc_fallback_max :: int
  rc_pool :: "pool_entry list"
  rc_quality_floor :: pyfloat
  rc_latency_max_ms :: pyfloat

record request_hints =
  needs_tools :: bool
  needs_vision :: bool
  needs_streaming :: bool
  user_geo :: string
  data_residency :: "string list"

definition no_hints :: request_hints where
  "no_hints = \<lparr>needs_tools = False, needs_vision = False, needs_streaming = False, user_geo = '''',
     data_residency = []\<rparr>"

definition required_capabilities :: "request_hints \<Rightarrow> json set" where
  "required_capabilities h =
     (let r0 = {}; r1 = (if needs_tools h then insert (JStr ''tools'') r0 else r0);
          r2 = (if needs_vision h then insert (JStr ''vision'') r1 else r1)
      in if needs_streaming h then insert (JStr ''streaming'') r2 else r2)"

fun pool_survivors :: "routing_config \<Rightarrow> request_hints \<Rightarrow> pool_entry list \<Rightarrow> pool_entry list" where
  "pool_survivors cfg h [] = []"
| "pool_survivors cfg h (e # es) =
     (if \<not> required_capabilities h \<subseteq> pe_capabilities e then pool_survivors cfg h es
      else if user_geo h \<noteq> '''' \<and> JStr ''*'' \<notin> pe_geos_allowed e \<and> JStr (user_geo h) \<notin> pe_geos_allowed e
      then pool_survivors cfg h es
      else if data_residency h \<noteq> [] \<and> set (map JStr (data_residency h)) \<inter> pe_residency e = {}
      then pool_survivors cfg h es
      else if pe_quality_score e < rc_quality_floor cfg then pool_survivors cfg h es
      else if rc_latency_max_ms cfg < pe_latency_p50_ms e then pool_survivors cfg h es
      else e # pool_survivors cfg h es)"

definition config_filter :: "routing_config \<Rightarrow> request_hints \<Rightarrow> candidate list" where
  "config_filter cfg h = map to_candidate (pool_survivors cfg h (rc_pool cfg))"

section \<open>Loading and reloading the configuration\<close>

fun hashable :: "json \<Rightarrow> bool" where
  "hashable (JList xs) = False"
| "hashable (JObj d) = False"
| "hashable v = True"

definition frozenset_of_json :: "json \<Rightarrow> json set result" where
  "frozenset_of_json v =
     res_bind (json_iter v) (\<lambda>xs.
       if list_all hashable xs then Inr (set xs) else Inl (TypeError ''unhashable type''))"

definition parse_pool_entry :: "json \<Rightarrow> pool_entry result" where
  "parse_pool_entry item =
     res_bind (json_item item ''model'') (\<lambda>model.
     res_bind (json_item item ''provider'') (\<lambda>provider.
     res_bind (res_bind (json_item item ''pricing_per_million'') dec_of_json_text) (\<lambda>pricing.
     res_bind (res_bind (json_item item ''quality_score'') float_of_json) (\<lambda>quality.
     res_bind (res_bind (json_item item ''latency_p50_ms'') float_of_json) (\<lambda>latency.
     res_bind (res_bind (json_get item ''capabilities'' (JList [])) frozenset_of_json) (\<lambda>caps.
     res_bind (res_bind (json_get item ''geos_allowed'' (JList [JStr ''*''])) frozenset_of_json) (\<lambda>geos.
     res_bind (res_bind (json_get item ''residency'' (JList [JStr ''global''])) frozenset_of_json) (\<lambda>res.
       Inr \<lparr>pe_model = model, pe_provider = provider, pe_pricing_per_million = pricing,
            pe_quality_score = quality, pe_latency_p50_ms = latency, pe_capabilities = caps,
            pe_geos_allowed = geos, pe_residency = res\<rparr>))))))))"

definition parse_config :: "json \<Rightarrow> routing_config result" where
  "parse_config raw =
     res_bind (res_bind (json_get raw ''pool'' (JList [])) json_iter) (\<lambda>items.
     res_bind (map_result parse_pool_entry items) (\<lambda>pool.
     res_bind (json_get raw ''strategy_floors'' (JObj [])) (\<lambda>floors.
     res_bind (json_get raw ''default_strategy'' (JStr ''cost'')) (\<lambda>strategy.
     res_bind (res_bind (json_get raw ''fallback_max'' (JInt 2)) int_of_json) (\<lambda>fmax.
     res_bind (res_bind (json_get floors ''quality'' (JFloat 0)) float_of_json) (\<lambda>qfloor.
     res_bind (res_bind (json_get floors ''latency_max_ms'' (JFloat 1000000000)) float_of_json) (\<lambda>lmax.
       Inr \<lparr>rc_default_strategy = strategy, rc_fallback_max = fmax, rc_pool = pool,
            rc_quality_floor = qfloor, rc_latency_max_ms = lmax\<rparr>)))))))"

text \<open>The state is the cell of \<^verbatim>\<open>lru_cache(maxsize=1)\<close>; an exception is not cached.\<close>

type_synonym 'a config_action = "(routing_config option, exn, 'a) action"

definition get_routing_config :: "json result \<Rightarrow> routing_config config_action" where
  "get_routing_config file cache =
     (case cache of
        Some cfg \<Rightarrow> (Inr cfg, cache)
      | None \<Rightarrow>
          (case res_bind file parse_config of
             Inl e \<Rightarrow> (Inl e, None)
           | Inr cfg \<Rightarrow> (Inr cfg, Some cfg)))"

definition cache_clear :: "unit config_action" where
  "cache_clear cache = (Inr (), None)"

text \<open>Python compares decimals by value.\<close>

definition same_entry :: "pool_entry \<Rightarrow> pool_entry \<Rightarrow> bool" where
  "same_entry a b \<longleftrightarrow>
     dec_val (pe_pricing_per_million a) = dec_val (pe_pricing_per_million b)
     \<and> a\<lparr>pe_pricing_per_million := dec_zero\<rparr> = b\<lparr>pe_pricing_per_million := dec_zero\<rparr>"

text \<open>The file is read twice: \<open>file1\<close> to validate, \<open>file2\<close> to prime the cleared cache.\<close>

definition reload_routing_config :: "json result \<Rightarrow> json result \<Rightarrow> routing_config config_action" where
  "reload_routing_config file1 file2 =
     bind (lift (res_bind file1 parse_config)) (\<lambda>new_cfg.
     bind cache_clear (\<lambda>_.
     bind (get_routing_config file2) (\<lambda>cached.
       if list_all2 same_entry (rc_pool cached) (rc_pool new_cfg) then return cached
       else throw AssertionError)))"

section \<open>The servicer\<close>

record resolve_response =
  rr_primary_model :: string
  rr_primary_provider :: string
  rr_fallback_chain :: "(string \<times> string) list"
  rr_strategy_used :: string

definition sentinel_model :: string where
  "sentinel_model = ''gpt-4o-mini''"

definition sentinel_provider :: string where
  "sentinel_provider = ''openai''"

text \<open>\<^verbatim>\<open>xs[:n]\<close> also for a negative \<open>n\<close>, which counts from the end.\<close>

definition py_take :: "int \<Rightarrow> 'a list \<Rightarrow> 'a list" where
  "py_take n xs = (if 0 \<le> n then take (nat n) xs else take (nat (int (length xs) + n)) xs)"

fun proto_string :: "json \<Rightarrow> string result" where
  "proto_string (JStr s) = Inr s"
| "proto_string v = Inl (TypeError ''bad argument type for built-in operation'')"

definition fallback_target :: "candidate \<Rightarrow> (string \<times> string) result" where
  "fallback_target c =
     res_bind (proto_string (ca_model c)) (\<lambda>m. res_bind (proto_string (ca_provider c)) (\<lambda>p. Inr (m, p)))"

text \<open>
  \<open>hints\<close> is \<open>None\<close> for a request without the field. The chain is built after the primary's
  fields are read and before the response is constructed.
\<close>

definition ResolveModel :: "strategy_registry \<Rightarrow> json result \<Rightarrow> request_hints option
    \<Rightarrow> resolve_response config_action" where
  "ResolveModel reg file hints =
     bind (get_routing_config file) (\<lambda>cfg. lift
       (let candidates = config_filter cfg (case hints of None \<Rightarrow> no_hints | Some h \<Rightarrow> h)
        in if candidates = []
           then Inr \<lparr>rr_primary_model = sentinel_model, rr_primary_provider = sentinel_provider,
                     rr_fallback_chain = [], rr_strategy_used = ''sentinel''\<rparr>
           else
             res_bind (registry_get reg (rc_default_strategy cfg)) (\<lambda>strategy.
             res_bind (strategy_choose strategy candidates) (\<lambda>decision.
             res_bind (map_result fallback_target (py_take (rc_fallback_max cfg) (rd_fallback decision))) (\<lambda>chain.
             res_bind (proto_string (ca_model (rd_primary decision))) (\<lambda>m.
             res_bind (proto_string (ca_provider (rd_primary decision))) (\<lambda>p.
               Inr \<lparr>rr_primary_model = m, rr_primary_provider = p, rr_fallback_chain = chain,
                    rr_strategy_used = rd_strategy decision\<rparr>)))))))"

record provider_score =
  ps_model :: string
  ps_provider :: string
  ps_score :: pyfloat
  ps_last_updated_unix :: int

definition latency_score :: "pyfloat \<Rightarrow> pyfloat" where
  "latency_score l = max 0 (min 1 (py_float (1 - py_float (l / 2000))))"

definition ProviderScores :: "json result \<Rightarrow> string list \<Rightarrow> provider_score list config_action" where
  "ProviderScores file wanted =
     bind (get_routing_config file) (\<lambda>cfg. lift
       (map_result (\<lambda>e.
            res_bind (proto_string (pe_model e)) (\<lambda>m.
            res_bind (proto_string (pe_provider e)) (\<lambda>p.
              Inr \<lparr>ps_model = m, ps_provider = p, ps_score = latency_score (pe_latency_p50_ms e),
                   ps_last_updated_unix = 0\<rparr>)))
          (filter (\<lambda>e. wanted = [] \<or> pe_model e \<in> set (map JStr wanted)) (rc_pool cfg))))"

section \<open>What the filter admits\<close>

definition admissible :: "routing_config \<Rightarrow> request_hints \<Rightarrow> pool_entry \<Rightarrow> bool" where
  "admissible cfg h e \<longleftrightarrow>
     (needs_tools h \<longrightarrow> JStr ''tools'' \<in> pe_capabilities e)
     \<and> (needs_vision h \<longrightarrow> JStr ''vision'' \<in> pe_capabilities e)
     \<and> (needs_streaming h \<longrightarrow> JStr ''streaming'' \<in> pe_capabilities e)
     \<and> (user_geo h = [] \<or> JStr ''*'' \<in> pe_geos_allowed e \<or> JStr (user_geo h) \<in> pe_geos_allowed e)
     \<and> (data_residency h = [] \<or> (\<exists>j \<in> set (data_residency h). JStr j \<in> pe_residency e))
     \<and> rc_quality_floor cfg \<le> pe_quality_score e \<and> pe_latency_p50_ms e \<le> rc_latency_max_ms cfg"

lemma required_subset_iff:
  "required_capabilities h \<subseteq> C \<longleftrightarrow>
    (needs_tools h \<longrightarrow> JStr ''tools'' \<in> C) \<and> (needs_vision h \<longrightarrow> JStr ''vision'' \<in> C)
    \<and> (needs_streaming h \<longrightarrow> JStr ''streaming'' \<in> C)"
  by (auto simp: required_capabilities_def Let_def)

lemma residency_disjoint_iff:
  "set (map JStr xs) \<inter> R = {} \<longleftrightarrow> (\<forall>j \<in> set xs. JStr j \<notin> R)"
  by auto

lemma pool_survivors_filter: "pool_survivors cfg h es = filter (admissible cfg h) es"
proof (induction es)
  case (Cons e es)
  show ?case
    unfolding pool_survivors.simps required_subset_iff residency_disjoint_iff
    by (simp add: Cons admissible_def not_less)
qed simp

lemma config_filter_eq: "config_filter cfg h = map to_candidate (filter (admissible cfg h) (rc_pool cfg))"
  by (simp add: config_filter_def pool_survivors_filter)

lemma config_filter_empty_iff: "config_filter cfg h = [] \<longleftrightarrow> (\<forall>e \<in> set (rc_pool cfg). \<not> admissible cfg h e)"
  by (simp add: config_filter_eq filter_empty_conv)

section \<open>What a strategy returns\<close>

lemma strategy_choose_spec:
  assumes "cs \<noteq> []"
  shows "\<exists>d. strategy_choose st cs = Inr d \<and> rd_strategy d = strategy_name st
    \<and> mset (rd_primary d # rd_fallback d) = mset cs
    \<and> sorted (map (strategy_key st) (rd_primary d # rd_fallback d))
    \<and> (\<forall>k. filter (\<lambda>c. strategy_key st c = k) (rd_primary d # rd_fallback d)
           = filter (\<lambda>c. strategy_key st c = k) cs)"
proof -
  let ?s = "sort_key (strategy_key st) cs"
  have "?s \<noteq> []" using assms by (metis length_0_conv length_sort)
  then obtain c rest where s: "?s = c # rest" by (cases ?s) auto
  let ?d = "\<lparr>rd_primary = c, rd_fallback = rest, rd_strategy = strategy_name st\<rparr>"
  have l: "rd_primary ?d # rd_fallback ?d = ?s" by (simp add: s)
  have "\<forall>k. filter (\<lambda>c. strategy_key st c = k) ?s = filter (\<lambda>c. strategy_key st c = k) cs"
    using sort_key_stable [of "strategy_key st" _ cs] by simp
  moreover have "mset ?s = mset cs" "sorted (map (strategy_key st) ?s)" by simp_all
  moreover have "strategy_choose st cs = Inr ?d" "rd_strategy ?d = strategy_name st"
    by (simp_all add: strategy_choose_def s)
  ultimately show ?thesis by (metis l)
qed

text \<open>
  The interface \<^verbatim>\<open>RoutingStrategy\<close>: a strategy ranks the candidates it is given by some key, best
  first, and answers with the first as primary and the others as fallbacks.
\<close>

locale candidate_ranking =
  fixes pick :: "candidate list \<Rightarrow> routing_decision result" and key :: "candidate \<Rightarrow> rat" and name :: string
  assumes ranks: "cs \<noteq> [] \<Longrightarrow> \<exists>d. pick cs = Inr d \<and> rd_strategy d = name
      \<and> mset (rd_primary d # rd_fallback d) = mset cs \<and> sorted (map key (rd_primary d # rd_fallback d))"
    and refuses_none: "pick cs = Inr d \<Longrightarrow> cs \<noteq> []"
begin

lemma decided:
  assumes "pick cs = Inr d"
  shows "rd_strategy d = name" "mset (rd_primary d # rd_fallback d) = mset cs"
    "sorted (map key (rd_primary d # rd_fallback d))"
  using ranks [OF refuses_none [OF assms]] assms by auto

lemma candidates: "pick cs = Inr d \<Longrightarrow> set cs = insert (rd_primary d) (set (rd_fallback d))"
  using decided(2) by (metis mset_eq_setD list.simps(15))

lemma primary_among: "pick cs = Inr d \<Longrightarrow> rd_primary d \<in> set cs"
  using candidates by blast

lemma fallback_among: "pick cs = Inr d \<Longrightarrow> set (rd_fallback d) \<subseteq> set cs"
  using candidates by blast

lemma fallback_length: "pick cs = Inr d \<Longrightarrow> length (rd_fallback d) = length cs - 1"
  using decided(2) by (metis diff_Suc_1 length_Cons size_mset)

lemma primary_best:
  assumes "pick cs = Inr d" "c \<in> set cs"
  shows "key (rd_primary d) \<le> key c"
  using decided(3) [OF assms(1)] assms(2) unfolding candidates [OF assms(1)] by auto

end

interpretation ranked: candidate_ranking "strategy_choose st" "strategy_key st" "strategy_name st" for st
proof
  show "\<exists>d. strategy_choose st cs = Inr d \<and> rd_strategy d = strategy_name st
      \<and> mset (rd_primary d # rd_fallback d) = mset cs \<and> sorted (map (strategy_key st) (rd_primary d # rd_fallback d))"
    if "cs \<noteq> []" for cs
    using strategy_choose_spec [OF that, of st] by blast
  show "cs \<noteq> []" if "strategy_choose st cs = Inr d" for cs d
    using that by (auto simp: strategy_choose_def)
qed

lemmas strategy_choose_min = ranked.primary_among ranked.fallback_among ranked.fallback_length ranked.primary_best

lemma default_registry_get:
  "registry_get default_registry (JStr (strategy_name st)) = Inr st"
  by (cases st) (simp_all add: default_registry_def strategy_registry_def)

lemma default_registry_only:
  "registry_get default_registry v = Inr st \<Longrightarrow> v = JStr (strategy_name st)"
  by (cases v) (auto simp: default_registry_def strategy_registry_def split: if_splits)

section \<open>Resolving a request\<close>

definition named :: "pool_entry \<Rightarrow> bool" where
  "named e \<longleftrightarrow> (\<exists>m p. pe_model e = JStr m \<and> pe_provider e = JStr p)"

definition target_of :: "pool_entry \<Rightarrow> string \<times> string \<Rightarrow> bool" where
  "target_of e t \<longleftrightarrow> pe_model e = JStr (fst t) \<and> pe_provider e = JStr (snd t)"

lemma length_py_take: "length (py_take n xs) = (if 0 \<le> n then min (nat n) (length xs) else nat (int (length xs) + n))"
  by (auto simp: py_take_def)

lemma set_py_take: "set (py_take n xs) \<subseteq> set xs"
  by (auto simp: py_take_def dest: in_set_takeD)

lemma list_all2_right: "list_all2 (\<lambda>x y. Q y) xs ys \<Longrightarrow> \<forall>y \<in> set ys. Q y"
  by (induction rule: list_all2_induct) simp_all

lemma resolve_sentinel:
  assumes "\<forall>e \<in> set (rc_pool cfg). \<not> admissible cfg h e"
  shows "ResolveModel reg file (Some h) (Some cfg)
    = (Inr \<lparr>rr_primary_model = sentinel_model, rr_primary_provider = sentinel_provider,
            rr_fallback_chain = [], rr_strategy_used = ''sentinel''\<rparr>, Some cfg)"
  using assms by (simp add: ResolveModel_def bind_def get_routing_config_def config_filter_empty_iff)

lemma resolve_model_spec:
  assumes names: "\<forall>e \<in> set (rc_pool cfg). named e"
    and st: "registry_get reg (rc_default_strategy cfg) = Inr st"
    and adm: "\<exists>e \<in> set (rc_pool cfg). admissible cfg h e"
  shows "\<exists>r e. ResolveModel reg file (Some h) (Some cfg) = (Inr r, Some cfg)
    \<and> e \<in> set (rc_pool cfg) \<and> admissible cfg h e
    \<and> target_of e (rr_primary_model r, rr_primary_provider r)
    \<and> (\<forall>e' \<in> set (rc_pool cfg). admissible cfg h e' \<longrightarrow>
         strategy_key st (to_candidate e) \<le> strategy_key st (to_candidate e'))
    \<and> (\<forall>t \<in> set (rr_fallback_chain r). \<exists>e' \<in> set (rc_pool cfg). admissible cfg h e' \<and> target_of e' t)
    \<and> length (rr_fallback_chain r) = length (py_take (rc_fallback_max cfg)
         (tl (filter (admissible cfg h) (rc_pool cfg))))
    \<and> rr_strategy_used r = strategy_name st"
proof -
  let ?cs = "config_filter cfg h"
  have ne: "?cs \<noteq> []" using adm by (simp add: config_filter_empty_iff)
  obtain d where d: "strategy_choose st ?cs = Inr d" "rd_strategy d = strategy_name st"
    using strategy_choose_spec [OF ne] by blast
  note dmin = strategy_choose_min [OF d(1)]
  have src: "\<exists>e \<in> set (rc_pool cfg). admissible cfg h e \<and> c = to_candidate e" if "c \<in> set ?cs" for c
    using that by (auto simp: config_filter_eq)
  have tgt: "\<exists>t. fallback_target c = Inr t \<and> (\<exists>e \<in> set (rc_pool cfg). admissible cfg h e \<and> target_of e t)"
    if c: "c \<in> set ?cs" for c
  proof -
    obtain e where e: "e \<in> set (rc_pool cfg)" "admissible cfg h e" "c = to_candidate e" using src [OF c] by blast
    then obtain m p where "pe_model e = JStr m" "pe_provider e = JStr p" using names by (auto simp: named_def)
    with e show ?thesis by (auto simp: fallback_target_def to_candidate_def target_of_def)
  qed
  obtain e where e: "e \<in> set (rc_pool cfg)" "admissible cfg h e" "rd_primary d = to_candidate e"
    using src [OF dmin(1)] by blast
  obtain m p where mp: "pe_model e = JStr m" "pe_provider e = JStr p" using names e(1) by (auto simp: named_def)
  let ?fb = "py_take (rc_fallback_max cfg) (rd_fallback d)"
  have "set ?fb \<subseteq> set ?cs" by (rule subset_trans [OF set_py_take dmin(2)])
  then have "\<exists>ts. map_result fallback_target ?fb = Inr ts
    \<and> list_all2 (\<lambda>c t. \<exists>e \<in> set (rc_pool cfg). admissible cfg h e \<and> target_of e t) ?fb ts"
    by (intro map_result_ok tgt) blast
  then obtain chain where chain: "map_result fallback_target ?fb = Inr chain"
    "list_all2 (\<lambda>c t. \<exists>e \<in> set (rc_pool cfg). admissible cfg h e \<and> target_of e t) ?fb chain"
    by blast
  let ?r = "\<lparr>rr_primary_model = m, rr_primary_provider = p, rr_fallback_chain = chain,
    rr_strategy_used = rd_strategy d\<rparr>"
  have "ResolveModel reg file (Some h) (Some cfg) = (Inr ?r, Some cfg)"
    using ne mp
    by (simp add: ResolveModel_def bind_def get_routing_config_def Let_def st d(1) chain(1) e(3)) (simp add: to_candidate_def)
  moreover have "length chain = length (py_take (rc_fallback_max cfg) (tl (filter (admissible cfg h) (rc_pool cfg))))"
  proof -
    have "length (rd_fallback d) = length (tl (filter (admissible cfg h) (rc_pool cfg)))"
      using dmin(3) by (simp add: config_filter_eq)
    then show ?thesis by (simp only: length_py_take flip: list_all2_lengthD [OF chain(2)])
  qed
  moreover have "\<forall>t \<in> set chain. \<exists>e' \<in> set (rc_pool cfg). admissible cfg h e' \<and> target_of e' t"
    using list_all2_right [OF chain(2)] .
  moreover have "\<forall>e' \<in> set (rc_pool cfg). admissible cfg h e' \<longrightarrow>
      strategy_key st (to_candidate e) \<le> strategy_key st (to_candidate e')"
    using dmin(4) e(3) by (simp add: config_filter_eq)
  moreover have "target_of e (m, p)" using mp by (simp add: target_of_def)
  ultimately show ?thesis using e(1,2) d(2)
    by (intro exI [of _ ?r] exI [of _ e] conjI) simp_all
qed

section \<open>Reloading\<close>

lemma reload_rejected: "res_bind file1 parse_config = Inl err \<Longrightarrow> reload_routing_config file1 file2 cache = (Inl err, cache)"
  by (simp add: reload_routing_config_def)

lemma same_entry_refl: "list_all2 same_entry es es"
  by (simp add: list_all2_same same_entry_def)

lemma reload_unchanged_file:
  "res_bind file parse_config = Inr cfg \<Longrightarrow> reload_routing_config file file cache = (Inr cfg, Some cfg)"
  by (simp add: reload_routing_config_def bind_def cache_clear_def get_routing_config_def same_entry_refl)

text \<open>The cache is cleared before the second read: when that read fails, nothing is served any more.\<close>

lemma reload_second_read:
  "res_bind file1 parse_config = Inr cfg \<Longrightarrow> res_bind file2 parse_config = Inl err \<Longrightarrow>
    reload_routing_config file1 file2 cache = (Inl err, None)"
  by (simp add: reload_routing_config_def bind_def cache_clear_def get_routing_config_def)

lemma latency_score_range: "0 \<le> latency_score l \<and> latency_score l \<le> 1"
  by (simp add: latency_score_def)

section \<open>The accuracy of a score\<close>

lemma py_float_rel: "\<exists>d. py_float x = x + d \<and> 2 ^ 53 * \<bar>d\<bar> \<le> \<bar>x\<bar>"
  using py_float_error [of x] by (intro exI [of _ "py_float x - x"]) (simp add: mult.commute)

lemma latency_score_slow:
  assumes "2001 \<le> l"
  shows "latency_score l = 0"
proof -
  obtain d where d: "py_float (l / 2000) = l / 2000 + d" "2 ^ 53 * \<bar>d\<bar> \<le> \<bar>l / 2000\<bar>"
    using py_float_rel by blast
  let ?x = "1 - py_float (l / 2000)"
  have "?x \<le> 0" using d assms by (simp add: abs_if split: if_splits)
  moreover obtain c where "py_float ?x = ?x + c" "2 ^ 53 * \<bar>c\<bar> \<le> \<bar>?x\<bar>" using py_float_rel by blast
  ultimately have "py_float ?x \<le> 0" by (simp add: abs_if split: if_splits)
  then show ?thesis by (simp add: latency_score_def)
qed

lemma clamp_close: "\<bar>max 0 (min 1 a) - max 0 (min 1 b)\<bar> \<le> \<bar>a - b\<bar>" for a b :: rat
  by linarith

lemma latency_score_close:
  assumes "0 \<le> l"
  shows "2 ^ 51 * \<bar>latency_score l - max 0 (min 1 (1 - l / 2000))\<bar> \<le> 1"
proof (cases "2001 \<le> l")
  case True
  then show ?thesis by (simp add: latency_score_slow)
next
  case False
  obtain d where d: "py_float (l / 2000) = l / 2000 + d" "2 ^ 53 * \<bar>d\<bar> \<le> \<bar>l / 2000\<bar>"
    using py_float_rel by blast
  let ?x = "1 - py_float (l / 2000)"
  obtain c where c: "py_float ?x = ?x + c" "2 ^ 53 * \<bar>c\<bar> \<le> \<bar>?x\<bar>" using py_float_rel by blast
  have "\<bar>l / 2000\<bar> \<le> 1001 / 1000" using assms False by simp
  with d(2) have "2 ^ 53 * \<bar>d\<bar> \<le> 1001 / 1000" by linarith
  moreover have "\<bar>?x\<bar> \<le> 101 / 100" using d assms False by (simp add: abs_if split: if_splits)
  with c(2) have "2 ^ 53 * \<bar>c\<bar> \<le> 101 / 100" by linarith
  ultimately have "2 ^ 51 * \<bar>py_float ?x - (1 - l / 2000)\<bar> \<le> 1" using c(1) d(1) abs_triangle_ineq4 [of c d] by simp
  moreover have "\<bar>latency_score l - max 0 (min 1 (1 - l / 2000))\<bar> \<le> \<bar>py_float ?x - (1 - l / 2000)\<bar>"
    unfolding latency_score_def by (rule clamp_close)
  ultimately show ?thesis by simp
qed

end
