(* ===== verification/Regex.thy ===== *)
theory Regex
  imports PyText
begin

text \<open>
  The fragment of Python's \<^verbatim>\<open>re\<close> module the code uses: a pattern is a sequence of character
  classes, each with its repetition bounds, matched greedily with backtracking, and
  \<^verbatim>\<open>re.sub\<close> replaces the leftmost matches from left to right. The lemmas show that matching is
  complete for the language of the pattern and that no match survives a substitution.
\<close>

datatype rx = Rx (rx_class: "char \<Rightarrow> bool") nat "nat option"

type_synonym pattern = "rx list"

fun first_some :: "('a \<Rightarrow> 'b option) \<Rightarrow> 'a list \<Rightarrow> 'b option" where
  "first_some f [] = None"
| "first_some f (x # xs) = (case f x of None \<Rightarrow> first_some f xs | Some y \<Rightarrow> Some y)"

definition greedy_counts :: "nat \<Rightarrow> nat option \<Rightarrow> nat \<Rightarrow> nat list" where
  "greedy_counts lo hi run =
     (let m = (case hi of None \<Rightarrow> run | Some h \<Rightarrow> min h run) in rev [lo..<Suc m])"

text \<open>The length of the match at the start of the text.\<close>

fun rx_match :: "pattern \<Rightarrow> string \<Rightarrow> nat option" where
  "rx_match [] s = Some 0"
| "rx_match (Rx P lo hi # rs) s =
     first_some (\<lambda>n. map_option (\<lambda>k. n + k) (rx_match rs (drop n s)))
       (greedy_counts lo hi (length (takeWhile P s)))"

text \<open>Every step consumes a character, so the length of the text is enough fuel.\<close>

fun rx_sub_fuel :: "nat \<Rightarrow> pattern \<Rightarrow> string \<Rightarrow> string \<Rightarrow> string" where
  "rx_sub_fuel 0 rs repl s = s"
| "rx_sub_fuel (Suc f) rs repl s =
     (case s of
        [] \<Rightarrow> []
      | c # t \<Rightarrow>
          (case rx_match rs s of
             Some (Suc n) \<Rightarrow> repl @ rx_sub_fuel f rs repl (drop (Suc n) s)
           | _ \<Rightarrow> c # rx_sub_fuel f rs repl t))"

definition rx_sub :: "pattern \<Rightarrow> string \<Rightarrow> string \<Rightarrow> string" where
  "rx_sub rs repl s = rx_sub_fuel (length s) rs repl s"

section \<open>The language of a pattern\<close>

fun rx_lang :: "pattern \<Rightarrow> string \<Rightarrow> bool" where
  "rx_lang [] w \<longleftrightarrow> w = []"
| "rx_lang (Rx P lo hi # rs) w \<longleftrightarrow>
     (\<exists>u v. w = u @ v \<and> list_all P u \<and> lo \<le> length u \<and> (\<forall>h. hi = Some h \<longrightarrow> length u \<le> h) \<and> rx_lang rs v)"

definition occurs :: "pattern \<Rightarrow> string \<Rightarrow> bool" where
  "occurs rs s \<longleftrightarrow> (\<exists>w. sublist w s \<and> rx_lang rs w)"

lemma first_some_Some: "first_some f xs = Some y \<Longrightarrow> \<exists>x \<in> set xs. f x = Some y"
  by (induction xs) (auto split: option.splits)

lemma first_some_None: "first_some f xs = None \<longleftrightarrow> (\<forall>x \<in> set xs. f x = None)"
  by (induction xs) (auto split: option.split)

lemma set_greedy_counts:
  "n \<in> set (greedy_counts lo hi run) \<longleftrightarrow> lo \<le> n \<and> n \<le> run \<and> (\<forall>h. hi = Some h \<longrightarrow> n \<le> h)"
  by (auto simp: greedy_counts_def Let_def simp del: upt_Suc split: option.split)

lemma takeWhile_count: "n \<le> length (takeWhile P s) \<longleftrightarrow> n \<le> length s \<and> list_all P (take n s)"
proof
  assume n: "n \<le> length (takeWhile P s)"
  have "take n s = take n (takeWhile P s)"
    using n by (metis take_append takeWhile_dropWhile_id diff_is_0_eq take_0 append_Nil2)
  moreover have "list_all P (takeWhile P s)" by (simp add: list_all_iff) (auto dest: set_takeWhileD)
  ultimately show "n \<le> length s \<and> list_all P (take n s)"
    using n length_takeWhile_le [of P s] by (auto simp: list_all_iff dest: in_set_takeD)
next
  assume "n \<le> length s \<and> list_all P (take n s)"
  then show "n \<le> length (takeWhile P s)"
    by (induction s arbitrary: n) (auto simp: take_Cons split: nat.splits)
qed

lemma rx_match_sound: "rx_match rs s = Some n \<Longrightarrow> n \<le> length s \<and> rx_lang rs (take n s)"
proof (induction rs arbitrary: s n)
  case (Cons r rs)
  obtain P lo hi where r: "r = Rx P lo hi" by (cases r)
  obtain i where i: "i \<in> set (greedy_counts lo hi (length (takeWhile P s)))"
    "map_option (\<lambda>k. i + k) (rx_match rs (drop i s)) = Some n"
    using first_some_Some Cons.prems r by fastforce
  then obtain k where k: "rx_match rs (drop i s) = Some k" "n = i + k" by auto
  have b: "lo \<le> i" "\<forall>h. hi = Some h \<longrightarrow> i \<le> h" "i \<le> length s" "list_all P (take i s)"
    using i(1) by (simp_all add: set_greedy_counts takeWhile_count)
  have IH: "k \<le> length (drop i s)" "rx_lang rs (take k (drop i s))" using Cons.IH [OF k(1)] by auto
  have "take n s = take i s @ take k (drop i s)" using k(2) by (simp add: take_add)
  then have "rx_lang (Rx P lo hi # rs) (take n s)"
    unfolding rx_lang.simps using b IH
    by (intro exI [of _ "take i s"] exI [of _ "take k (drop i s)"]) (simp add: min_absorb2)
  with r b(3) IH(1) k(2) show ?case by simp
qed simp

lemma rx_match_complete: "rx_lang rs u \<Longrightarrow> rx_match rs (u @ v) \<noteq> None"
proof (induction rs arbitrary: u)
  case (Cons r rs)
  obtain P lo hi where r: "r = Rx P lo hi" by (cases r)
  with Cons.prems obtain x y where x: "u = x @ y" "list_all P x" "lo \<le> length x"
    "\<forall>h. hi = Some h \<longrightarrow> length x \<le> h" "rx_lang rs y" by auto
  have "rx_match rs (y @ v) \<noteq> None" using x(5) by (rule Cons.IH)
  then have "map_option (\<lambda>k. length x + k) (rx_match rs (drop (length x) (u @ v))) \<noteq> None" using x(1) by simp
  moreover have "length x \<in> set (greedy_counts lo hi (length (takeWhile P (u @ v))))"
    using x by (simp add: set_greedy_counts takeWhile_count)
  ultimately show ?case
  proof (intro notI)
    assume "rx_match (r # rs) (u @ v) = None"
    then have "\<forall>n \<in> set (greedy_counts lo hi (length (takeWhile P (u @ v)))).
        map_option (\<lambda>k. n + k) (rx_match rs (drop n (u @ v))) = None"
      by (simp only: r rx_match.simps first_some_None)
    then show False
      using \<open>length x \<in> _\<close> \<open>map_option _ _ \<noteq> None\<close> by (rule notE [rotated, OF bspec])
  qed
qed simp

section \<open>Substitution\<close>

text \<open>Characters no class of the pattern accepts delimit its matches.\<close>

definition rejects :: "pattern \<Rightarrow> char \<Rightarrow> bool" where
  "rejects rs c \<longleftrightarrow> (\<forall>r \<in> set rs. \<not> rx_class r c)"

lemma rx_lang_rejects: "rx_lang rs w \<Longrightarrow> rejects rs c \<Longrightarrow> c \<notin> set w"
proof (induction rs arbitrary: w)
  case (Cons r rs)
  then show ?case by (cases r) (auto simp: rejects_def list_all_iff)
qed simp

lemma sublist_delimited:
  "sublist w (x @ c # y) \<Longrightarrow> c \<notin> set w \<Longrightarrow> sublist w x \<or> sublist w y"
proof -
  assume s: "sublist w (x @ c # y)" and c: "c \<notin> set w"
  have head: "prefix p (c # y) \<Longrightarrow> c \<notin> set p \<Longrightarrow> p = []" for p by (cases p) auto
  from s consider "sublist w x" | "sublist w (c # y)"
    | u v where "w = u @ v" "suffix u x" "prefix v (c # y)"
    unfolding sublist_append by blast
  then show ?thesis
  proof cases
    case 2
    then have "prefix w (c # y) \<or> sublist w y" by (simp add: sublist_Cons_right)
    then show ?thesis using head c by auto
  next
    case 3
    then have "v = []" using head c by auto
    with 3 show ?thesis by simp
  qed simp
qed

text \<open>A replacement in brackets.\<close>

definition bracketed :: "string \<Rightarrow> string" where
  "bracketed mid = CHR ''['' # mid @ '']''"

lemma sub_prefix:
  "prefix w (rx_sub_fuel f rs (bracketed mid) s) \<Longrightarrow> CHR ''['' \<notin> set w \<Longrightarrow> prefix w s"
proof (induction f arbitrary: s w)
  case (Suc f)
  show ?case
  proof (cases s)
    case Nil
    with Suc.prems show ?thesis by simp
  next
    case (Cons c t)
    show ?thesis
    proof (cases "\<exists>n. rx_match rs s = Some (Suc n)")
      case True
      with Suc.prems Cons show ?thesis by (cases w) (auto simp: bracketed_def)
    next
      case False
      then have "rx_sub_fuel (Suc f) rs (bracketed mid) s = c # rx_sub_fuel f rs (bracketed mid) t"
        using Cons by (auto split: option.split nat.split)
      with Suc Cons show ?thesis by (cases w) auto
    qed
  qed
qed simp

lemma sublist_bracketed:
  "sublist w (bracketed mid @ s) \<Longrightarrow> CHR ''['' \<notin> set w \<Longrightarrow> CHR '']'' \<notin> set w \<Longrightarrow>
    sublist w mid \<or> sublist w s"
  using sublist_delimited [of w "[]" "CHR ''[''" "mid @ CHR '']'' # s"]
    sublist_delimited [of w mid "CHR '']''" s]
  by (auto simp: bracketed_def)

lemma sublist_drop: "sublist w (drop n s) \<Longrightarrow> sublist w s"
  by (metis append_take_drop_id sublist_append)

lemma sub_step [consumes 1, case_names hit miss]:
  assumes "s = c # t"
  obtains n where "rx_match rs s = Some (Suc n)"
    "rx_sub_fuel (Suc f) rs repl s = repl @ rx_sub_fuel f rs repl (drop (Suc n) s)"
  | "\<nexists>n. rx_match rs s = Some (Suc n)" "rx_sub_fuel (Suc f) rs repl s = c # rx_sub_fuel f rs repl t"
proof (cases "\<exists>n. rx_match rs s = Some (Suc n)")
  case True
  then obtain n where n: "rx_match rs s = Some (Suc n)" by blast
  with assms have "rx_sub_fuel (Suc f) rs repl s = repl @ rx_sub_fuel f rs repl (drop (Suc n) s)" by simp
  with n that(1) show ?thesis by blast
next
  case False
  with assms have "rx_sub_fuel (Suc f) rs repl s = c # rx_sub_fuel f rs repl t"
    by (auto split: option.split nat.split)
  with False that(2) show ?thesis by blast
qed

lemma sub_factor:
  "sublist w (rx_sub_fuel f rs (bracketed mid) s) \<Longrightarrow> CHR ''['' \<notin> set w \<Longrightarrow> CHR '']'' \<notin> set w \<Longrightarrow>
    sublist w mid \<or> sublist w s"
proof (induction f arbitrary: s)
  case (Suc f)
  show ?case
  proof (cases s)
    case Nil
    with Suc.prems show ?thesis by simp
  next
    case (Cons c t)
    then show ?thesis
    proof (cases rule: sub_step [of s c t rs f "bracketed mid"])
      case (hit n)
      then have "sublist w mid \<or> sublist w (rx_sub_fuel f rs (bracketed mid) (drop (Suc n) s))"
        using Suc.prems sublist_bracketed by metis
      then show ?thesis using Suc sublist_drop by blast
    next
      case miss
      then have "prefix w (c # rx_sub_fuel f rs (bracketed mid) t) \<or> sublist w (rx_sub_fuel f rs (bracketed mid) t)"
        using Suc.prems(1) by (simp add: sublist_Cons_right)
      then show ?thesis
      proof
        assume "prefix w (c # rx_sub_fuel f rs (bracketed mid) t)"
        then have "prefix w s"
          using Suc.prems(2) Cons sub_prefix [of "tl w" f rs mid t] by (cases w) auto
        then show ?thesis by (simp add: prefix_imp_sublist)
      next
        assume "sublist w (rx_sub_fuel f rs (bracketed mid) t)"
        then have "sublist w mid \<or> sublist w t" using Suc by blast
        then show ?thesis using Cons by (auto simp: sublist_Cons_right)
      qed
    qed
  qed
qed simp

lemma rx_match_prefix: "rx_lang rs w \<Longrightarrow> prefix w s \<Longrightarrow> rx_match rs s \<noteq> None"
  using rx_match_complete by (auto simp: prefix_def)

text \<open>No match survives a substitution by a bracketed word without a match.\<close>

lemma sub_fuel_free:
  assumes rej: "rejects rs (CHR ''['')" "rejects rs (CHR '']'')"
    and ne: "\<not> rx_lang rs []" and mid: "\<not> occurs rs mid"
  shows "length s \<le> f \<Longrightarrow> \<not> occurs rs (rx_sub_fuel f rs (bracketed mid) s)"
proof (induction f arbitrary: s)
  case 0
  with ne show ?case by (auto simp: occurs_def)
next
  case (Suc f)
  show ?case
  proof (cases s)
    case Nil
    with ne show ?thesis by (auto simp: occurs_def)
  next
    case (Cons c t)
    show ?thesis
    proof
      assume "occurs rs (rx_sub_fuel (Suc f) rs (bracketed mid) s)"
      then obtain w where w: "sublist w (rx_sub_fuel (Suc f) rs (bracketed mid) s)" "rx_lang rs w"
        by (auto simp: occurs_def)
      then have br: "CHR ''['' \<notin> set w" "CHR '']'' \<notin> set w" using rej rx_lang_rejects by blast+
      from Cons show False
      proof (cases rule: sub_step [of s c t rs f "bracketed mid"])
        case (hit n)
        then have "sublist w mid \<or> sublist w (rx_sub_fuel f rs (bracketed mid) (drop (Suc n) s))"
          using w(1) br sublist_bracketed by metis
        moreover have "\<not> occurs rs (rx_sub_fuel f rs (bracketed mid) (drop (Suc n) s))"
          using Suc Cons by simp
        ultimately show False using w(2) mid by (auto simp: occurs_def)
      next
        case miss
        have "\<not> occurs rs (rx_sub_fuel f rs (bracketed mid) t)" using Suc Cons by simp
        then have "prefix w (c # rx_sub_fuel f rs (bracketed mid) t)"
          using w miss(2) by (auto simp: occurs_def sublist_Cons_right)
        then have "prefix w s"
          using br(1) Cons sub_prefix [of "tl w" f rs mid t] by (cases w) auto
        then have "rx_match rs s \<noteq> None" by (rule rx_match_prefix [OF w(2)])
        then have "rx_match rs s = Some 0" using miss(1) by (metis not0_implies_Suc option.exhaust)
        then show False using rx_match_sound ne by fastforce
      qed
    qed
  qed
qed

lemma sub_free:
  "rejects rs (CHR ''['') \<Longrightarrow> rejects rs (CHR '']'') \<Longrightarrow> \<not> rx_lang rs [] \<Longrightarrow> \<not> occurs rs mid \<Longrightarrow>
    \<not> occurs rs (rx_sub rs (bracketed mid) s)"
  by (simp add: rx_sub_def sub_fuel_free)

text \<open>Another pattern finds in the result only what it found before, or in the replacement.\<close>

lemma sub_other_free:
  assumes rej: "rejects qs (CHR ''['')" "rejects qs (CHR '']'')"
    and "\<not> occurs qs s" "\<not> occurs qs mid"
  shows "\<not> occurs qs (rx_sub rs (bracketed mid) s)"
  using assms sub_factor rx_lang_rejects unfolding occurs_def rx_sub_def by metis

lemma sub_fuel_id: "\<not> occurs rs s \<Longrightarrow> rx_sub_fuel f rs repl s = s"
proof (induction f arbitrary: s)
  case (Suc f)
  show ?case
  proof (cases s)
    case (Cons c t)
    then show ?thesis
    proof (cases rule: sub_step [of s c t rs f repl])
      case (hit n)
      then have "rx_lang rs (take (Suc n) s)" using rx_match_sound by blast
      moreover have "sublist (take (Suc n) s) s" by (metis append_take_drop_id sublist_appendI append_Nil)
      ultimately show ?thesis using Suc.prems by (auto simp: occurs_def)
    next
      case miss
      have "\<not> occurs rs t" using Suc.prems Cons by (auto simp: occurs_def sublist_Cons_right)
      with miss Suc Cons show ?thesis by simp
    qed
  qed simp
qed simp

lemma sub_id: "\<not> occurs rs s \<Longrightarrow> rx_sub rs repl s = s"
  by (simp add: rx_sub_def sub_fuel_id)

end
