(* ===== verification/Guardrails.thy ===== *)
theory Guardrails
  imports Regex
begin

text \<open>
  The guardrails of \<^verbatim>\<open>app/service/guardrails\<close>: the chain of responsibility (\<^verbatim>\<open>pipeline.py\<close>) and its
  three guards (\<^verbatim>\<open>guards.py\<close>). A guard is a function of the payload, as its interface says. The
  lemmas say when a chain blocks, what text it lets through, and what redaction guarantees.
\<close>

record guardrail_result =
  blocked :: bool
  rule :: "string option"
  detail :: "string option"
  redacted_text :: "string option"

definition passed :: guardrail_result where
  "passed = \<lparr>blocked = False, rule = None, detail = None, redacted_text = None\<rparr>"

definition redacted :: "string \<Rightarrow> guardrail_result" where
  "redacted t = \<lparr>blocked = False, rule = None, detail = None, redacted_text = Some t\<rparr>"

definition blocked_by :: "string \<Rightarrow> string \<Rightarrow> guardrail_result" where
  "blocked_by name msg = \<lparr>blocked = True, rule = Some name, detail = Some msg, redacted_text = None\<rparr>"

type_synonym guardrail = "string \<Rightarrow> guardrail_result"

section \<open>The pipeline\<close>

fun run_from :: "string \<Rightarrow> string \<Rightarrow> guardrail list \<Rightarrow> guardrail_result" where
  "run_from orig current [] = (if current \<noteq> orig then redacted current else passed)"
| "run_from orig current (guard # guards) =
     (let result = guard current in
      if blocked result then result
      else case redacted_text result of
          None \<Rightarrow> run_from orig current guards
        | Some t \<Rightarrow> run_from orig t guards)"

definition run_guards :: "string \<Rightarrow> guardrail list \<Rightarrow> guardrail_result" where
  "run_guards s guards = run_from s s guards"

record pipeline =
  input_guards :: "guardrail list"
  output_guards :: "guardrail list"

definition check_input :: "pipeline \<Rightarrow> string \<Rightarrow> guardrail_result" where
  "check_input p s = run_guards s (input_guards p)"

definition check_output :: "pipeline \<Rightarrow> string \<Rightarrow> guardrail_result" where
  "check_output p s = run_guards s (output_guards p)"

section \<open>The guards\<close>

definition token_limit_guard :: "int \<Rightarrow> guardrail" where
  "token_limit_guard max_tokens payload =
     (let approx = int (length payload) div 4
      in if max_tokens < approx
         then blocked_by ''token_limit''
                (''~'' @ show_int approx @ '' tokens exceeds limit '' @ show_int max_tokens)
         else passed)"

definition in_email_local :: "char \<Rightarrow> bool" where
  "in_email_local c \<longleftrightarrow> is_word_char c \<or> c \<in> {CHR ''.'', CHR ''+'', CHR ''-''}"

definition in_email_domain :: "char \<Rightarrow> bool" where
  "in_email_domain c \<longleftrightarrow> is_word_char c \<or> c = CHR ''-''"

definition in_email_tail :: "char \<Rightarrow> bool" where
  "in_email_tail c \<longleftrightarrow> is_word_char c \<or> c \<in> {CHR ''.'', CHR ''-''}"

definition email_re :: pattern where
  "email_re =
     [Rx in_email_local 1 None, Rx (\<lambda>c. c = CHR ''@'') 1 (Some 1), Rx in_email_domain 1 None,
      Rx (\<lambda>c. c = CHR ''.'') 1 (Some 1), Rx in_email_tail 1 None]"

definition in_phone_body :: "char \<Rightarrow> bool" where
  "in_phone_body c \<longleftrightarrow> is_digit c \<or> is_space c \<or> c \<in> {CHR ''('', CHR '')'', CHR ''.'', CHR ''-''}"

definition phone_re :: pattern where
  "phone_re =
     [Rx (\<lambda>c. c = CHR ''+'') 0 (Some 1), Rx is_digit 1 (Some 1), Rx in_phone_body 7 None,
      Rx is_digit 1 (Some 1)]"

definition redact :: "string \<Rightarrow> string" where
  "redact payload = rx_sub phone_re ''[PHONE]'' (rx_sub email_re ''[EMAIL]'' payload)"

definition pii_redaction_guard :: guardrail where
  "pii_redaction_guard payload =
     (if redact payload = payload then passed else redacted (redact payload))"

definition suspicious_phrases :: "string list" where
  "suspicious_phrases =
     [''ignore previous instructions'', ''ignore all prior'', ''you are now'', ''system prompt'']"

fun first_phrase :: "string \<Rightarrow> string list \<Rightarrow> guardrail_result" where
  "first_phrase lowered [] = passed"
| "first_phrase lowered (phrase # phrases) =
     (if py_contains phrase lowered
      then blocked_by ''prompt_injection''
             (''Suspicious phrase: '' @ [CHR 0x27] @ phrase @ [CHR 0x27])
      else first_phrase lowered phrases)"

definition prompt_injection_guard :: guardrail where
  "prompt_injection_guard payload = first_phrase (py_lower payload) suspicious_phrases"

section \<open>What a chain does\<close>

text \<open>The text a guard that does not block hands to the next one.\<close>

definition handed_on :: "guardrail \<Rightarrow> string \<Rightarrow> string" where
  "handed_on g t = (case redacted_text (g t) of None \<Rightarrow> t | Some t' \<Rightarrow> t')"

fun transparent :: "guardrail list \<Rightarrow> string \<Rightarrow> string option" where
  "transparent [] t = Some t"
| "transparent (g # gs) t = (if blocked (g t) then None else transparent gs (handed_on g t))"

lemma run_from_Cons:
  "run_from orig t (g # gs) = (if blocked (g t) then g t else run_from orig (handed_on g t) gs)"
  by (auto simp: Let_def handed_on_def split: option.split)

lemma transparent_append:
  "transparent (gs @ hs) t = (case transparent gs t of None \<Rightarrow> None | Some t' \<Rightarrow> transparent hs t')"
  by (induction gs arbitrary: t) auto

lemma run_from_passes:
  "transparent gs t = Some t' \<Longrightarrow> run_from orig t gs = (if t' \<noteq> orig then redacted t' else passed)"
  by (induction gs arbitrary: t) (auto simp: run_from_Cons simp del: run_from.simps(2) split: if_splits)

lemma run_from_blocks:
  "transparent gs t = None \<Longrightarrow>
    \<exists>pre g post t'. gs = pre @ g # post \<and> transparent pre t = Some t' \<and> blocked (g t') \<and> run_from orig t gs = g t'"
proof (induction gs arbitrary: t)
  case (Cons h gs)
  show ?case
  proof (cases "blocked (h t)")
    case True
    then show ?thesis
      by (intro exI [of _ "[]"] exI [of _ h] exI [of _ gs] exI [of _ t]) (simp add: run_from_Cons del: run_from.simps(2))
  next
    case False
    with Cons.prems have "transparent gs (handed_on h t) = None" by simp
    then obtain pre g post t' where "gs = pre @ g # post" "transparent pre (handed_on h t) = Some t'"
      "blocked (g t')" "run_from orig (handed_on h t) gs = g t'"
      using Cons.IH by blast
    with False show ?thesis
      by (intro exI [of _ "h # pre"] exI [of _ g] exI [of _ post] exI [of _ t'])
        (simp add: run_from_Cons del: run_from.simps(2))
  qed
qed simp

lemma blocked_simps [simp]: "\<not> blocked passed" "\<not> blocked (redacted t)" "blocked (blocked_by n m)"
  by (simp_all add: passed_def redacted_def blocked_by_def)

lemma pipeline_blocked_iff:
  "blocked (run_guards s gs) \<longleftrightarrow> transparent gs s = None"
proof (cases "transparent gs s")
  case None
  then show ?thesis using run_from_blocks [OF None, of s] by (auto simp: run_guards_def)
next
  case (Some t)
  then show ?thesis by (simp add: run_guards_def run_from_passes)
qed

section \<open>What redaction guarantees\<close>

lemma bracketed_labels: "''[EMAIL]'' = bracketed ''EMAIL''" "''[PHONE]'' = bracketed ''PHONE''"
  by (simp_all add: bracketed_def)

lemma email_needs_at: "rx_lang email_re w \<Longrightarrow> CHR ''@'' \<in> set w"
proof -
  assume "rx_lang email_re w"
  then obtain a b c where w: "w = a @ b @ c" "list_all (\<lambda>c. c = CHR ''@'') b" "1 \<le> length b"
    unfolding email_re_def rx_lang.simps by blast
  then obtain x b' where "b = x # b'" by (cases b) auto
  with w show ?thesis by auto
qed

lemma phone_needs_digit: "rx_lang phone_re w \<Longrightarrow> \<exists>c \<in> set w. is_digit c"
proof -
  assume "rx_lang phone_re w"
  then obtain a b c where w: "w = a @ b @ c" "list_all is_digit b" "1 \<le> length b"
    unfolding phone_re_def rx_lang.simps by blast
  then obtain x b' where "b = x # b'" by (cases b) auto
  with w show ?thesis by auto
qed

lemma re_rejects:
  "rejects email_re (CHR ''['')" "rejects email_re (CHR '']'')"
  "rejects phone_re (CHR ''['')" "rejects phone_re (CHR '']'')"
  by (simp_all add: rejects_def email_re_def phone_re_def in_email_local_def in_email_domain_def
      in_email_tail_def in_phone_body_def is_word_char_def is_digit_def is_space_def ord_def)

lemma re_nonempty: "\<not> rx_lang email_re []" "\<not> rx_lang phone_re []"
  using email_needs_at phone_needs_digit by fastforce+

lemma set_sublist: "sublist w s \<Longrightarrow> set w \<subseteq> set s"
  by (auto simp: sublist_def)

lemma labels_free:
  "\<not> occurs email_re ''EMAIL''" "\<not> occurs email_re ''PHONE''" "\<not> occurs phone_re ''PHONE''"
proof -
  show "\<not> occurs email_re ''EMAIL''" "\<not> occurs email_re ''PHONE''"
    using email_needs_at set_sublist by (fastforce simp: occurs_def)+
  have "\<forall>c \<in> set ''PHONE''. \<not> is_digit c" by (simp add: is_digit_def ord_def)
  then show "\<not> occurs phone_re ''PHONE''"
    using phone_needs_digit set_sublist unfolding occurs_def by blast
qed

lemma redact_free: "\<not> occurs email_re (redact s)" "\<not> occurs phone_re (redact s)"
proof -
  have "\<not> occurs email_re (rx_sub email_re ''[EMAIL]'' s)"
    unfolding bracketed_labels by (intro sub_free re_rejects re_nonempty labels_free)
  then show "\<not> occurs email_re (redact s)"
    unfolding redact_def bracketed_labels by (rule sub_other_free [OF re_rejects(1,2) _ labels_free(2)])
  show "\<not> occurs phone_re (redact s)"
    unfolding redact_def bracketed_labels by (intro sub_free re_rejects re_nonempty labels_free)
qed

lemma redact_clean: "\<not> occurs email_re s \<Longrightarrow> \<not> occurs phone_re s \<Longrightarrow> redact s = s"
  by (simp add: redact_def sub_id)

lemma pii_guard_hands_on: "handed_on pii_redaction_guard s = redact s" "\<not> blocked (pii_redaction_guard s)"
  by (auto simp: handed_on_def pii_redaction_guard_def) (auto simp: passed_def redacted_def)

lemma injection_blocked_iff:
  "blocked (prompt_injection_guard s) \<longleftrightarrow> (\<exists>p \<in> set suspicious_phrases. \<exists>u v. py_lower s = u @ p @ v)"
proof -
  have "blocked (first_phrase l ps) \<longleftrightarrow> (\<exists>p \<in> set ps. py_contains p l)" for l ps
    by (induction ps) auto
  then show ?thesis by (simp add: prompt_injection_guard_def py_contains_iff)
qed

lemma token_limit_blocked_iff: "blocked (token_limit_guard m s) \<longleftrightarrow> m < int (length s) div 4"
  by (simp add: token_limit_guard_def Let_def)

end
