(* ===== verification/Mcp.thy ===== *)
theory Mcp
  imports Json
begin

text \<open>
  The MCP layer of \<^verbatim>\<open>app/service/mcp\<close>: the tool server with its built-in tools (\<^verbatim>\<open>server.py\<close>), the
  registry of external tool servers (\<^verbatim>\<open>registry.py\<close>) and the client stub (\<^verbatim>\<open>client.py\<close>).
\<close>

section \<open>The tool server\<close>

record mcp_tool =
  tool_name :: string
  tool_description :: string
  tool_schema :: json
  tool_handler :: "json \<Rightarrow> json result"

type_synonym mcp_server = "(string \<times> mcp_tool) list"

definition phase4_stub :: "string \<Rightarrow> json \<Rightarrow> json result" where
  "phase4_stub name args =
     Inr (JObj [(''error'', JStr ''not_implemented''), (''tool'', JStr name), (''phase'', JInt 4)])"

definition mcp_register :: "mcp_tool \<Rightarrow> mcp_server \<Rightarrow> mcp_server" where
  "mcp_register t tools = AList.update (tool_name t) t tools"

definition mcp_call :: "mcp_server \<Rightarrow> string \<Rightarrow> json \<Rightarrow> json result" where
  "mcp_call tools name args =
     (case map_of tools name of
        None \<Rightarrow> Inl (KeyError (''Unknown MCP tool: '' @ name))
      | Some t \<Rightarrow> tool_handler t args)"

definition mcp_list_tools :: "mcp_server \<Rightarrow> mcp_tool list" where
  "mcp_list_tools tools = map snd tools"

definition typed :: "string \<Rightarrow> json" where
  "typed t = JObj [(''type'', JStr t)]"

definition builtin_tools :: "mcp_tool list" where
  "builtin_tools =
     [\<lparr>tool_name = ''chat_completion'', tool_description = ''Generate a chat completion via the gateway.'',
       tool_schema = JObj [(''type'', JStr ''object''), (''required'', JList [JStr ''model'', JStr ''messages'']),
         (''properties'', JObj [(''model'', typed ''string''), (''messages'', typed ''array''),
            (''stream'', typed ''boolean'')])],
       tool_handler = phase4_stub ''chat_completion''\<rparr>,
      \<lparr>tool_name = ''list_models'', tool_description = ''List available models with pricing.'',
       tool_schema = JObj [(''type'', JStr ''object''), (''properties'', JObj [])],
       tool_handler = phase4_stub ''list_models''\<rparr>,
      \<lparr>tool_name = ''generate_image'', tool_description = ''Generate an image from a prompt.'',
       tool_schema = JObj [(''type'', JStr ''object''), (''required'', JList [JStr ''model'', JStr ''prompt'']),
         (''properties'', JObj [(''model'', typed ''string''), (''prompt'', typed ''string''),
            (''size'', typed ''string'')])],
       tool_handler = phase4_stub ''generate_image''\<rparr>]"

definition mcp_init :: mcp_server where
  "mcp_init = fold mcp_register builtin_tools []"

lemma mcp_call_register:
  "mcp_call (mcp_register t tools) name args =
    (if name = tool_name t then tool_handler t args else mcp_call tools name args)"
  by (simp add: mcp_call_def mcp_register_def update_conv')

lemma mcp_register_keys:
  "distinct (map fst tools) \<Longrightarrow> distinct (map fst (mcp_register t tools))
    \<and> set (map fst (mcp_register t tools)) = insert (tool_name t) (set (map fst tools))"
  by (simp add: mcp_register_def distinct_update dom_update)

section \<open>Registered tool servers\<close>

record mcp_endpoint =
  ep_url :: string
  ep_transport :: string
  ep_oauth_token :: "string option"

record registered_server =
  rs_org_id :: uuid
  rs_name :: string
  rs_endpoint :: mcp_endpoint
  rs_allowed_for_keys :: "uuid set"

type_synonym tool_registry = "(uuid \<times> registered_server list) list"

text \<open>\<^verbatim>\<open>self._by_org.setdefault(server.org_id, []).append(server)\<close>\<close>

definition registry_register :: "registered_server \<Rightarrow> tool_registry \<Rightarrow> tool_registry" where
  "registry_register s reg =
     (let old = (case map_of reg (rs_org_id s) of None \<Rightarrow> [] | Some ss \<Rightarrow> ss)
      in AList.update (rs_org_id s) (old @ [s]) reg)"

definition list_for_key :: "tool_registry \<Rightarrow> uuid \<Rightarrow> uuid \<Rightarrow> registered_server list" where
  "list_for_key reg org key =
     (let servers = (case map_of reg org of None \<Rightarrow> [] | Some ss \<Rightarrow> ss)
      in filter (\<lambda>s. rs_allowed_for_keys s = {} \<or> key \<in> rs_allowed_for_keys s) servers)"

text \<open>The registry after a sequence of registrations.\<close>

definition registry_of :: "registered_server list \<Rightarrow> tool_registry" where
  "registry_of ss = fold registry_register ss []"

lemma registry_servers:
  "(case map_of (fold registry_register ss reg) org of None \<Rightarrow> [] | Some xs \<Rightarrow> xs)
    = (case map_of reg org of None \<Rightarrow> [] | Some xs \<Rightarrow> xs) @ filter (\<lambda>s. rs_org_id s = org) ss"
proof (induction ss arbitrary: reg)
  case (Cons s ss)
  show ?case by (simp add: Cons) (simp add: registry_register_def Let_def update_conv')
qed simp

text \<open>A key sees, in order of registration, exactly the servers of its organization open to it.\<close>

lemma list_for_key_spec:
  "list_for_key (registry_of ss) org key
    = filter (\<lambda>s. rs_org_id s = org \<and> (rs_allowed_for_keys s = {} \<or> key \<in> rs_allowed_for_keys s)) ss"
proof -
  have "(case map_of (registry_of ss) org of None \<Rightarrow> [] | Some xs \<Rightarrow> xs) = filter (\<lambda>s. rs_org_id s = org) ss"
    using registry_servers [of ss "[]" org] by (simp add: registry_of_def)
  then show ?thesis by (simp add: list_for_key_def conj_commute)
qed

section \<open>Client and token broker stubs\<close>

definition client_list_tools :: "mcp_endpoint \<Rightarrow> json list" where
  "client_list_tools ep = []"

definition client_call_tool :: "mcp_endpoint \<Rightarrow> string \<Rightarrow> json \<Rightarrow> json" where
  "client_call_tool ep tool args = JObj [(''error'', JStr ''not_implemented''), (''phase'', JInt 4)]"

definition acquire_token :: "uuid \<Rightarrow> string \<Rightarrow> uuid \<Rightarrow> string" where
  "acquire_token org server user = ''''"

end
