(* ===== verification/GrpcAuth.thy ===== *)
theory GrpcAuth
  imports AuthService BillingService
begin

text \<open>
  The gRPC servicer the Go gateway asks when it does not know a key
  (\<^verbatim>\<open>app/repository/grpc/auth_servicer.py\<close>): \<^verbatim>\<open>ValidateKey\<close> and \<^verbatim>\<open>RevokeKey\<close>. A protobuf message is a
  record with the defaults of proto3 for the fields the code leaves out.
\<close>

record budget_policy =
  bp_remaining_credits :: pyfloat
  bp_daily_cap :: pyfloat
  bp_monthly_cap :: pyfloat
  bp_hard_stop :: bool

record validate_key_response =
  vk_valid :: bool
  vk_key_id :: string
  vk_org_id :: string
  vk_user_id :: string
  vk_allowed_models :: "string list"
  vk_denied_models :: "string list"
  vk_budget :: "budget_policy option"
  vk_revocation_reason :: string

definition key_refused :: "string \<Rightarrow> validate_key_response" where
  "key_refused reason =
     \<lparr>vk_valid = False, vk_key_id = [], vk_org_id = [], vk_user_id = [], vk_allowed_models = [],
      vk_denied_models = [], vk_budget = None, vk_revocation_reason = reason\<rparr>"

text \<open>\<^verbatim>\<open>str(exc)\<close> of the domain errors that \<^verbatim>\<open>assert_usable\<close> raises, the only ones that reach it.\<close>

fun exn_text :: "exn \<Rightarrow> string" where
  "exn_text (Domain k m) = m"
| "exn_text e = []"

text \<open>\<^verbatim>\<open>float(cap or 0)\<close>\<close>

definition cap_float :: "decimal option \<Rightarrow> pyfloat" where
  "cap_float cap = (case cap of None \<Rightarrow> 0 | Some d \<Rightarrow> py_float (dec_val d))"

definition budget_of :: "credit_balance \<Rightarrow> budget_policy result" where
  "budget_of b =
     res_bind (usable b) (\<lambda>m.
       Inr \<lparr>bp_remaining_credits = py_float (dec_val (amount m)), bp_daily_cap = cap_float (daily_cap b),
            bp_monthly_cap = cap_float (monthly_cap b), bp_hard_stop = hard_stop b\<rparr>)"

text \<open>
  The block either returns a refusal or goes on with the key and the balance. The balance is read
  inside the block but its usable part is computed after it, outside of any handler.
\<close>

definition ValidateKey :: "db_env \<Rightarrow> datetime \<Rightarrow> string \<Rightarrow> validate_key_response uow_action" where
  "ValidateKey env now request_key_hash =
     bind (with_uow (in_session
       (bind (keys_find_by_lookup_hash request_key_hash) (\<lambda>key.
          case key of
            None \<Rightarrow> return (Inl (key_refused ''unknown_key''))
          | Some k \<Rightarrow>
              (case assert_usable now k of
                 Inl e \<Rightarrow> return (Inl (key_refused (exn_text e)))
               | Inr _ \<Rightarrow> bind (credits_get_for_update env (key_org_id k)) (\<lambda>b. return (Inr (k, b))))))))
       (\<lambda>x. case x of
          Inl refusal \<Rightarrow> return refusal
        | Inr (k, b) \<Rightarrow>
            bind (lift (budget_of b)) (\<lambda>budget. return
              \<lparr>vk_valid = True, vk_key_id = uuid_str (key_id k), vk_org_id = uuid_str (key_org_id k),
               vk_user_id = uuid_str (key_user_id k), vk_allowed_models = allowed_models k,
               vk_denied_models = denied_models k, vk_budget = Some budget, vk_revocation_reason = []\<rparr>))"

text \<open>The response carries \<^verbatim>\<open>ok=True\<close>; \<open>now\<close> is the clock of the revocation.\<close>

definition RevokeKey :: "datetime \<Rightarrow> string \<Rightarrow> string \<Rightarrow> bool uow_action" where
  "RevokeKey now request_key_id request_reason =
     bind (with_uow (committing
       (bind (lift (uuid_parse request_key_id)) (\<lambda>i.
          keys_revoke now i (if request_reason \<noteq> [] then request_reason else ''rpc_revoke'')))))
       (\<lambda>_. return True)"

section \<open>What the gateway is told\<close>

lemma ValidateKey_unknown:
  assumes db: "db_ok (committed u)" and n: "\<And>i k. sql_view (committed u) i = Some k \<Longrightarrow> key_lookup k \<noteq> h"
  shows "ValidateKey env now h u = (Inr (key_refused ''unknown_key''), u\<lparr>session := None\<rparr>)"
proof -
  obtain x where x: "keys_find_by_lookup_hash h (committed u) = (Inr x, committed u)"
    "\<forall>k. x = Some k \<longleftrightarrow> (\<exists>i. sql_view (committed u) i = Some k) \<and> key_lookup k = h"
    using keys_find_result [OF db] by blast
  have "x = None" using n x(2) by (metis not_None_eq)
  with x(1) show ?thesis by (simp add: ValidateKey_def bind_def with_reading)
qed

text \<open>The answer for a stored key, case by case.\<close>

lemma ValidateKey_known:
  assumes db: "db_ok (committed u)" and k: "sql_view (committed u) i = Some k" "key_lookup k = h"
  shows "ValidateKey env now h u =
    (if \<not> usable_at now k
     then (Inr (key_refused (case assert_usable now k of Inl e \<Rightarrow> exn_text e | Inr _ \<Rightarrow> [])), u\<lparr>session := None\<rparr>)
     else (res_bind (fst (credits_get_for_update env (key_org_id k) (committed u))) (\<lambda>b.
             res_bind (budget_of b) (\<lambda>budget. Inr
              \<lparr>vk_valid = True, vk_key_id = uuid_str (key_id k), vk_org_id = uuid_str (key_org_id k),
               vk_user_id = uuid_str (key_user_id k), vk_allowed_models = allowed_models k,
               vk_denied_models = denied_models k, vk_budget = Some budget, vk_revocation_reason = []\<rparr>)),
           u\<lparr>session := None\<rparr>))"
proof -
  obtain x where x: "keys_find_by_lookup_hash h (committed u) = (Inr x, committed u)"
    "\<forall>k. x = Some k \<longleftrightarrow> (\<exists>i. sql_view (committed u) i = Some k) \<and> key_lookup k = h"
    using keys_find_result [OF db] by blast
  with k have "x = Some k" by blast
  with x(1) show ?thesis
    using assert_usable_iff [of now k]
    by (cases "assert_usable now k") (auto simp: ValidateKey_def bind_def with_reading split: sum.split prod.split)
qed

text \<open>
  A row that has more reserved than available, which metering can leave behind since the atomic
  deduction does not look at reservations, makes the call fail for a key that is perfectly valid.
\<close>

lemma ValidateKey_outcome:
  assumes db: "db_ok (committed u)" and k: "sql_view (committed u) i = Some k" "key_lookup k = h" "usable_at now k"
    and r: "by_key c_org_id (key_org_id k) (credit_balances (committed u)) = Some r"
  shows "if dec_val (c_reserved r) \<le> dec_val (c_available r)
    then \<exists>v p. fst (ValidateKey env now h u) = Inr v \<and> vk_valid v \<and> vk_key_id v = uuid_str (key_id k)
           \<and> vk_budget v = Some p
           \<and> bp_remaining_credits p = py_float (dec_val (c_available r) - dec_val (c_reserved r))
    else \<exists>m. fst (ValidateKey env now h u) = Inl (ValueError m)"
proof -
  have "cents_ok (c_available r)" "cents_ok (c_reserved r)"
    using db by_key_SomeD [OF r] by (auto simp: db_ok_def credits_ok_def)
  then have s: "dec_val (dec_sub (c_available r) (c_reserved r)) = dec_val (c_available r) - dec_val (c_reserved r)"
    by (rule cents_sub)
  show ?thesis
    by (simp add: ValidateKey_known [OF db k(1,2)] k(3) credits_get_for_update_def r budget_of_def usable_def
        credit_of_row_def Money_def dec_order s not_less)
qed

lemma RevokeKey_unknown:
  assumes db: "db_ok (committed u)" and i: "sql_view (committed u) i = None" and r: "length reason \<le> 500"
  shows "\<exists>u'. RevokeKey now (uuid_str i) reason u = (Inr True, u') \<and> sql_view (committed u') = sql_view (committed u)"
proof -
  have "varchar 500 (if reason \<noteq> [] then reason else ''rpc_revoke'')" using r by (simp add: varchar_def)
  then obtain db' where db': "keys_revoke now i (if reason \<noteq> [] then reason else ''rpc_revoke'') (committed u) = (Inr (), db')"
    by (simp add: keys_revoke_def)
  have "sql_view db' = sql_view (committed u)"
    using keys_revoke_result(2) [OF db db'] i by (simp add: fun_upd_idem)
  with db' show ?thesis
    by (simp add: RevokeKey_def bind_def with_committing uuid_parse_str)
qed

lemma RevokeKey_ok: "db_ok (committed u) \<Longrightarrow> db_ok (committed (snd (RevokeKey now i reason u)))"
proof -
  assume db: "db_ok (committed u)"
  have "keeps db_ok (bind (lift (uuid_parse i)) (\<lambda>j. keys_revoke now j (if reason \<noteq> [] then reason else ''rpc_revoke'')))"
    by (intro inv_intros)
  from committing_keeps [OF this db] show ?thesis
    by (auto simp: RevokeKey_def bind_def split: sum.split prod.split)
qed

end
