(* ===== verification/Migrations.thy ===== *)
theory Migrations
  imports Schema
begin

text \<open>
  The migrations of \<^verbatim>\<open>alembic/versions\<close> as data, and what PostgreSQL does with each statement: a
  catalog of tables with their columns, indexes and extensions, and the rows of \<^verbatim>\<open>model_pricing\<close>,
  the one table a migration fills. The declarative models of \<^verbatim>\<open>orm_models.py\<close> are described in the
  same terms, so that the two can be compared, and so can the record model of \<open>Schema\<close>.
\<close>

section \<open>Columns and tables\<close>

datatype col_type = PgUuid | Varchar nat | PgText | TimestampTz | Numeric nat nat | Integer | Boolean | Jsonb | Json

datatype on_delete = Cascade | SetNull

record column_def =
  col_name :: string
  col_type :: col_type
  col_primary :: bool
  col_nullable :: bool
  col_unique :: bool
  col_fk :: "(string \<times> string \<times> on_delete) option"
  col_default :: "string option"

definition nullable :: "string \<Rightarrow> col_type \<Rightarrow> column_def" where
  "nullable n t =
     \<lparr>col_name = n, col_type = t, col_primary = False, col_nullable = True, col_unique = False,
      col_fk = None, col_default = None\<rparr>"

definition required :: "string \<Rightarrow> col_type \<Rightarrow> column_def" where
  "required n t = (nullable n t)\<lparr>col_nullable := False\<rparr>"

definition primary :: "string \<Rightarrow> col_type \<Rightarrow> column_def" where
  "primary n t = (required n t)\<lparr>col_primary := True\<rparr>"

definition unique :: "column_def \<Rightarrow> column_def" where
  "unique c = c\<lparr>col_unique := True\<rparr>"

definition defaulted :: "string \<Rightarrow> column_def \<Rightarrow> column_def" where
  "defaulted d c = c\<lparr>col_default := Some d\<rparr>"

definition references :: "string \<Rightarrow> string \<Rightarrow> on_delete \<Rightarrow> column_def \<Rightarrow> column_def" where
  "references t k act c = c\<lparr>col_fk := Some (t, k, act)\<rparr>"

lemmas column_defs = nullable_def required_def primary_def unique_def defaulted_def references_def

record pricing_row =
  p_model_key :: string
  p_provider :: string
  p_input :: decimal
  p_output :: decimal
  p_cached :: "decimal option"
  p_reasoning :: "decimal option"
  p_context_window :: "int option"
  p_modalities :: string
  p_active :: bool

text \<open>The text of one row of the seed, as the statement interpolates it.\<close>

record pricing_seed =
  s_model_key :: string
  s_provider :: string
  s_input :: string
  s_output :: string
  s_context_window :: int
  s_modalities :: string

datatype ddl =
    CreateExtension string
  | CreateTable string "column_def list"
  | CreateIndex string string "string list"
  | DropTable string
  | SeedPricing pricing_seed
  | DeletePricing "string list"

section \<open>The initial schema\<close>

definition created_at_column :: column_def where
  "created_at_column = defaulted ''now()'' (required ''created_at'' TimestampTz)"

definition org_column :: column_def where
  "org_column = references ''organizations'' ''id'' Cascade (required ''org_id'' PgUuid)"

definition organizations_table :: "column_def list" where
  "organizations_table =
     [primary ''id'' PgUuid, required ''name'' (Varchar 200), unique (required ''slug'' (Varchar 100)),
      created_at_column]"

definition users_table :: "column_def list" where
  "users_table =
     [primary ''id'' PgUuid, org_column, unique (required ''email'' (Varchar 320)),
      defaulted ''member'' (required ''role'' (Varchar 20)), created_at_column]"

definition api_keys_table :: "column_def list" where
  "api_keys_table =
     [primary ''id'' PgUuid, org_column,
      references ''users'' ''id'' Cascade (required ''user_id'' PgUuid),
      required ''name'' (Varchar 200),
      defaulted ''personal'' (required ''scope'' (Varchar 20)),
      required ''key_hash'' (Varchar 200),
      unique (required ''key_lookup'' (Varchar 64)),
      defaulted ''[]'' (required ''allowed_models'' Jsonb),
      defaulted ''[]'' (required ''denied_models'' Jsonb),
      nullable ''expires_at'' TimestampTz, nullable ''revoked_at'' TimestampTz,
      nullable ''revocation_reason'' (Varchar 500), created_at_column]"

definition credit_balances_table :: "column_def list" where
  "credit_balances_table =
     [references ''organizations'' ''id'' Cascade (primary ''org_id'' PgUuid),
      defaulted ''0'' (required ''available'' (Numeric 14 6)),
      defaulted ''0'' (required ''reserved'' (Numeric 14 6)),
      nullable ''monthly_cap'' (Numeric 14 6), nullable ''daily_cap'' (Numeric 14 6),
      defaulted ''true'' (required ''hard_stop'' Boolean),
      defaulted ''now()'' (required ''updated_at'' TimestampTz)]"

definition usage_records_table :: "column_def list" where
  "usage_records_table =
     [primary ''id'' PgUuid, org_column,
      references ''api_keys'' ''id'' SetNull (nullable ''key_id'' PgUuid),
      required ''model'' (Varchar 200), required ''provider'' (Varchar 100),
      defaulted ''0'' (required ''input_tokens'' Integer),
      defaulted ''0'' (required ''output_tokens'' Integer),
      defaulted ''0'' (required ''cached_input_tokens'' Integer),
      defaulted ''0'' (required ''reasoning_tokens'' Integer),
      required ''cost_usd'' (Numeric 14 6), required ''latency_ms'' Integer,
      defaulted ''false'' (required ''cache_hit'' Boolean), created_at_column]"

definition video_jobs_table :: "column_def list" where
  "video_jobs_table =
     [primary ''id'' PgUuid, org_column,
      references ''api_keys'' ''id'' SetNull (nullable ''key_id'' PgUuid),
      required ''model'' (Varchar 200), required ''prompt'' PgText,
      defaulted ''pending'' (required ''status'' (Varchar 20)),
      defaulted ''[]'' (required ''output_urls'' Jsonb),
      defaulted ''0'' (required ''cost_usd'' (Numeric 14 6)),
      nullable ''error'' PgText, created_at_column, nullable ''completed_at'' TimestampTz]"

definition audit_logs_table :: "column_def list" where
  "audit_logs_table =
     [primary ''id'' PgUuid, nullable ''org_id'' PgUuid, nullable ''actor_user_id'' PgUuid,
      required ''action'' (Varchar 100), required ''target_type'' (Varchar 100),
      required ''target_id'' (Varchar 200),
      defaulted ''{}'' (required ''metadata_json'' Jsonb), created_at_column]"

definition model_pricing_table :: "column_def list" where
  "model_pricing_table =
     [primary ''model_key'' (Varchar 200), required ''provider'' (Varchar 100),
      required ''input_per_million'' (Numeric 14 6), required ''output_per_million'' (Numeric 14 6),
      nullable ''cached_input_per_million'' (Numeric 14 6), nullable ''reasoning_per_million'' (Numeric 14 6),
      nullable ''context_window'' Integer,
      defaulted ''[]'' (required ''modalities'' Jsonb),
      defaulted ''true'' (required ''active'' Boolean),
      defaulted ''now()'' (required ''updated_at'' TimestampTz)]"

definition initial_upgrade :: "ddl list" where
  "initial_upgrade =
     [CreateExtension ''vector'', CreateExtension ''uuid-ossp'',
      CreateTable ''organizations'' organizations_table,
      CreateTable ''users'' users_table,
      CreateIndex ''ix_users_email'' ''users'' [''email''],
      CreateTable ''api_keys'' api_keys_table,
      CreateIndex ''ix_api_keys_key_lookup'' ''api_keys'' [''key_lookup''],
      CreateIndex ''ix_api_keys_org_id'' ''api_keys'' [''org_id''],
      CreateTable ''credit_balances'' credit_balances_table,
      CreateTable ''usage_records'' usage_records_table,
      CreateIndex ''ix_usage_records_org_id'' ''usage_records'' [''org_id''],
      CreateIndex ''ix_usage_records_key_id'' ''usage_records'' [''key_id''],
      CreateIndex ''ix_usage_records_model'' ''usage_records'' [''model''],
      CreateIndex ''ix_usage_records_provider'' ''usage_records'' [''provider''],
      CreateIndex ''ix_usage_records_created_at'' ''usage_records'' [''created_at''],
      CreateTable ''video_jobs'' video_jobs_table,
      CreateIndex ''ix_video_jobs_status'' ''video_jobs'' [''status''],
      CreateTable ''audit_logs'' audit_logs_table,
      CreateIndex ''ix_audit_logs_org_id'' ''audit_logs'' [''org_id''],
      CreateIndex ''ix_audit_logs_action'' ''audit_logs'' [''action''],
      CreateIndex ''ix_audit_logs_created_at'' ''audit_logs'' [''created_at''],
      CreateTable ''model_pricing'' model_pricing_table,
      CreateIndex ''ix_model_pricing_provider'' ''model_pricing'' [''provider''],
      CreateIndex ''ix_model_pricing_active'' ''model_pricing'' [''active'']]"

definition initial_downgrade :: "ddl list" where
  "initial_downgrade = map DropTable
     [''model_pricing'', ''audit_logs'', ''video_jobs'', ''usage_records'', ''credit_balances'', ''api_keys'',
      ''users'', ''organizations'']"

section \<open>The pricing seed\<close>

definition seed :: "string \<Rightarrow> string \<Rightarrow> string \<Rightarrow> string \<Rightarrow> int \<Rightarrow> string \<Rightarrow> pricing_seed" where
  "seed k p i out w m =
     \<lparr>s_model_key = k, s_provider = p, s_input = i, s_output = out, s_context_window = w, s_modalities = m\<rparr>"

definition seed_rows :: "pricing_seed list" where
  "seed_rows =
     [seed ''google/gemma-4-31b'' ''gemma'' ''0.30'' ''0.50'' 256000
        ''[\"text\",\"image\",\"audio\",\"video\",\"tools\"]'',
      seed ''google/gemma-4-26b-moe'' ''gemma'' ''0.20'' ''0.40'' 256000
        ''[\"text\",\"image\",\"audio\",\"video\",\"tools\"]'',
      seed ''google/gemma-4-e4b'' ''gemma'' ''0.05'' ''0.10'' 128000 ''[\"text\",\"image\"]'',
      seed ''google/gemma-4-e2b'' ''gemma'' ''0.02'' ''0.05'' 128000 ''[\"text\"]'',
      seed ''qwen/qwen3.6-27b'' ''qwen'' ''0.20'' ''0.60'' 128000 ''[\"text\",\"tools\"]'',
      seed ''qwen/qwen3.6-35b-a3b'' ''qwen'' ''0.27'' ''0.85'' 128000 ''[\"text\",\"tools\"]'',
      seed ''qwen/qwen3.5-35b-a3b'' ''qwen'' ''0.27'' ''0.85'' 128000 ''[\"text\",\"tools\"]'',
      seed ''qwen/qwen3.5-122b-a10b'' ''qwen'' ''0.60'' ''1.80'' 128000 ''[\"text\",\"tools\"]'']"

definition pricing_upgrade :: "ddl list" where
  "pricing_upgrade = map SeedPricing seed_rows"

definition pricing_downgrade :: "ddl list" where
  "pricing_downgrade = [DeletePricing (map s_model_key seed_rows)]"

section \<open>What a statement does\<close>

record catalog =
  extensions :: "string list"
  tables :: "(string \<times> column_def list) list"
  indexes :: "(string \<times> string \<times> string list) list"
  pricing_rows :: "pricing_row list"

definition empty_catalog :: catalog where
  "empty_catalog = \<lparr>extensions = [], tables = [], indexes = [], pricing_rows = []\<rparr>"

type_synonym catalog_action = "(catalog, exn, unit) action"

text \<open>A foreign key must point to a primary or unique column of an existing table.\<close>

definition keyed :: "(string \<times> column_def list) list \<Rightarrow> string \<Rightarrow> string \<Rightarrow> bool" where
  "keyed ts t k =
     (case map_of ts t of
        None \<Rightarrow> False
      | Some cols \<Rightarrow> list_ex (\<lambda>c. col_name c = k \<and> (col_primary c \<or> col_unique c)) cols)"

definition fk_ok :: "(string \<times> column_def list) list \<Rightarrow> column_def \<Rightarrow> bool" where
  "fk_ok ts c = (case col_fk c of None \<Rightarrow> True | Some (t, k, _) \<Rightarrow> keyed ts t k)"

definition refers_to :: "string \<Rightarrow> column_def \<Rightarrow> bool" where
  "refers_to t c = (case col_fk c of None \<Rightarrow> False | Some (t', _, _) \<Rightarrow> t' = t)"

definition has_columns :: "(string \<times> column_def list) list \<Rightarrow> string \<Rightarrow> string list \<Rightarrow> bool" where
  "has_columns ts t cs =
     (case map_of ts t of None \<Rightarrow> False | Some cols \<Rightarrow> list_all (\<lambda>c. c \<in> col_name ` set cols) cs)"

text \<open>\<^verbatim>\<open>INSERT ... ON CONFLICT (model_key) DO NOTHING\<close>; the numbers are literals of the statement.\<close>

definition sql_literal :: "(decimal \<Rightarrow> decimal result) \<Rightarrow> string \<Rightarrow> decimal result" where
  "sql_literal num s = (case dec_parse s of None \<Rightarrow> Inl (DbError ''syntax error'') | Some d \<Rightarrow> num d)"

definition seed_row :: "(decimal \<Rightarrow> decimal result) \<Rightarrow> pricing_seed \<Rightarrow> pricing_row result" where
  "seed_row num s =
     res_bind (sql_literal num (s_input s)) (\<lambda>i.
     res_bind (sql_literal num (s_output s)) (\<lambda>out.
       if varchar 200 (s_model_key s) \<and> varchar 100 (s_provider s) \<and> int4 (s_context_window s)
       then Inr \<lparr>p_model_key = s_model_key s, p_provider = s_provider s, p_input = i, p_output = out,
              p_cached = None, p_reasoning = None, p_context_window = Some (s_context_window s),
              p_modalities = s_modalities s, p_active = True\<rparr>
       else Inl (DbError ''value does not fit its column'')))"

definition insert_unless_present :: "pricing_row \<Rightarrow> pricing_row list \<Rightarrow> pricing_row list" where
  "insert_unless_present r rows = (if p_model_key r \<in> p_model_key ` set rows then rows else rows @ [r])"

fun exec_ddl :: "(decimal \<Rightarrow> decimal result) \<Rightarrow> ddl \<Rightarrow> catalog_action" where
  "exec_ddl num (CreateExtension e) c =
     (Inr (), if e \<in> set (extensions c) then c else c\<lparr>extensions := extensions c @ [e]\<rparr>)"
| "exec_ddl num (CreateTable t cols) c =
     (if t \<in> fst ` set (tables c) \<or> t \<in> fst ` set (indexes c) then (Inl (DbError ''relation already exists''), c)
      else if \<not> distinct (map col_name cols) then (Inl (DbError ''column specified more than once''), c)
      else if \<not> list_all (fk_ok ((t, cols) # tables c)) cols
      then (Inl (DbError ''referenced relation or key does not exist''), c)
      else (Inr (), c\<lparr>tables := (t, cols) # tables c\<rparr>))"
| "exec_ddl num (CreateIndex i t cs) c =
     (if i \<in> fst ` set (tables c) \<or> i \<in> fst ` set (indexes c) then (Inl (DbError ''relation already exists''), c)
      else if \<not> has_columns (tables c) t cs then (Inl (DbError ''relation or column does not exist''), c)
      else (Inr (), c\<lparr>indexes := (i, t, cs) # indexes c\<rparr>))"
| "exec_ddl num (DropTable t) c =
     (if t \<notin> fst ` set (tables c) then (Inl (DbError ''table does not exist''), c)
      else if list_ex (\<lambda>(t', cols). t' \<noteq> t \<and> list_ex (refers_to t) cols) (tables c)
      then (Inl (DbError ''other objects depend on it''), c)
      else (Inr (), c\<lparr>tables := filter (\<lambda>x. fst x \<noteq> t) (tables c),
              indexes := filter (\<lambda>x. fst (snd x) \<noteq> t) (indexes c),
              pricing_rows := (if t = ''model_pricing'' then [] else pricing_rows c)\<rparr>))"
| "exec_ddl num (SeedPricing s) c =
     (if ''model_pricing'' \<notin> fst ` set (tables c) then (Inl (DbError ''relation does not exist''), c)
      else case seed_row num s of
          Inl e \<Rightarrow> (Inl e, c)
        | Inr r \<Rightarrow> (Inr (), c\<lparr>pricing_rows := insert_unless_present r (pricing_rows c)\<rparr>))"
| "exec_ddl num (DeletePricing ks) c =
     (if ''model_pricing'' \<notin> fst ` set (tables c) then (Inl (DbError ''relation does not exist''), c)
      else (Inr (), c\<lparr>pricing_rows := filter (\<lambda>r. p_model_key r \<notin> set ks) (pricing_rows c)\<rparr>))"

fun exec_all :: "(decimal \<Rightarrow> decimal result) \<Rightarrow> ddl list \<Rightarrow> catalog_action" where
  "exec_all num [] = return ()"
| "exec_all num (d # ds) = bind (exec_ddl num d) (\<lambda>_. exec_all num ds)"

text \<open>\<^verbatim>\<open>with context.begin_transaction(): context.run_migrations()\<close>\<close>

definition run_migration :: "(decimal \<Rightarrow> decimal result) \<Rightarrow> ddl list \<Rightarrow> catalog_action" where
  "run_migration num ds c =
     (case exec_all num ds c of (Inl e, _) \<Rightarrow> (Inl e, c) | (Inr x, c') \<Rightarrow> (Inr x, c'))"

section \<open>A well-formed catalog\<close>

definition catalog_ok :: "catalog \<Rightarrow> bool" where
  "catalog_ok c \<longleftrightarrow> distinct (map fst (tables c)) \<and> distinct (map fst (indexes c))
     \<and> (\<forall>(t, cols) \<in> set (tables c). distinct (map col_name cols) \<and> list_all (fk_ok (tables c)) cols)
     \<and> (\<forall>(i, t, cs) \<in> set (indexes c). has_columns (tables c) t cs)
     \<and> distinct (map p_model_key (pricing_rows c))
     \<and> (pricing_rows c \<noteq> [] \<longrightarrow> ''model_pricing'' \<in> fst ` set (tables c))
     \<and> (\<forall>r \<in> set (pricing_rows c). cents_ok (p_input r) \<and> cents_ok (p_output r))"

lemma empty_catalog_ok: "catalog_ok empty_catalog"
  by (simp add: catalog_ok_def empty_catalog_def)

lemma exec_all_append: "exec_all num (xs @ ys) = bind (exec_all num xs) (\<lambda>_. exec_all num ys)"
  by (induction xs) (simp_all add: fun_eq_iff bind_def split: sum.split prod.split)

lemma map_of_filter_other: "t' \<noteq> t \<Longrightarrow> map_of (filter (\<lambda>x. fst x \<noteq> t) ts) t' = map_of ts t'"
  by (induction ts) auto

lemma map_of_Cons_fresh: "t \<notin> fst ` set ts \<Longrightarrow> map_of ts t' = Some x \<Longrightarrow> map_of ((t, cols) # ts) t' = Some x"
  by (cases "t' = t") (auto simp flip: map_of_eq_None_iff)

lemma keyed_mono: "t \<notin> fst ` set ts \<Longrightarrow> keyed ts t' k \<Longrightarrow> keyed ((t, cols) # ts) t' k"
  by (cases "map_of ts t'") (simp_all add: keyed_def map_of_Cons_fresh del: map_of.simps)

lemma fk_ok_mono: "t \<notin> fst ` set ts \<Longrightarrow> fk_ok ts c \<Longrightarrow> fk_ok ((t, cols) # ts) c"
  by (cases "col_fk c") (auto simp: fk_ok_def keyed_mono)

lemma has_columns_mono: "t \<notin> fst ` set ts \<Longrightarrow> has_columns ts t' cs \<Longrightarrow> has_columns ((t, cols) # ts) t' cs"
  by (cases "map_of ts t'") (simp_all add: has_columns_def map_of_Cons_fresh del: map_of.simps)

lemma sql_literal_cents: "numeric_column num \<Longrightarrow> sql_literal num s = Inr d \<Longrightarrow> cents_ok d"
  by (auto simp: sql_literal_def numeric_column.num_range split: option.splits)

lemma exec_ddl_ok:
  assumes "numeric_column num" "catalog_ok c"
  shows "catalog_ok (snd (exec_ddl num d c))"
proof (cases d)
  case (CreateExtension e)
  with assms(2) show ?thesis by (simp add: catalog_ok_def)
next
  case (CreateTable t cols)
  with assms(2) show ?thesis
    using fk_ok_mono [of t "tables c"] has_columns_mono [of t "tables c"]
    by (auto simp: catalog_ok_def list_all_iff split: if_splits)
next
  case (CreateIndex i t cs)
  with assms(2) show ?thesis by (auto simp: catalog_ok_def)
next
  case (DropTable t)
  show ?thesis
  proof (cases "t \<in> fst ` set (tables c) \<and> \<not> list_ex (\<lambda>(t', cols). t' \<noteq> t \<and> list_ex (refers_to t) cols) (tables c)")
    case True
    let ?ts = "filter (\<lambda>x. fst x \<noteq> t) (tables c)"
    have nr: "\<not> refers_to t x" if "(t', cols) \<in> set (tables c)" "t' \<noteq> t" "x \<in> set cols" for t' cols x
      using True that by (auto simp: list_ex_iff)
    have fk: "fk_ok ?ts x" if "(t', cols) \<in> set (tables c)" "t' \<noteq> t" "x \<in> set cols" "fk_ok (tables c) x" for t' cols x
      using nr [OF that(1-3)] that(4)
      by (auto simp: fk_ok_def refers_to_def keyed_def map_of_filter_other split: option.splits)
    have ix: "has_columns ?ts t' cs" if "has_columns (tables c) t' cs" "t' \<noteq> t" for t' cs
      using that by (auto simp: has_columns_def map_of_filter_other split: option.splits)
    have p: "''model_pricing'' \<in> fst ` set ?ts" if "''model_pricing'' \<in> fst ` set (tables c)" "t \<noteq> ''model_pricing''"
      using that by auto
    have "\<forall>(t', cols) \<in> set ?ts. distinct (map col_name cols) \<and> list_all (fk_ok ?ts) cols"
      using assms(2) fk by (fastforce simp: catalog_ok_def list_all_iff)
    moreover have "\<forall>(i, t', cs) \<in> set (filter (\<lambda>x. fst (snd x) \<noteq> t) (indexes c)). has_columns ?ts t' cs"
      using assms(2) ix by (fastforce simp: catalog_ok_def)
    moreover have "distinct (map fst ?ts)" "distinct (map fst (filter (\<lambda>x. fst (snd x) \<noteq> t) (indexes c)))"
      using assms(2) by (simp_all add: catalog_ok_def distinct_map_filter)
    moreover have "pricing_rows c \<noteq> [] \<Longrightarrow> t \<noteq> ''model_pricing'' \<Longrightarrow> ''model_pricing'' \<in> fst ` set ?ts"
      using assms(2) p by (simp add: catalog_ok_def)
    ultimately show ?thesis using assms(2) True DropTable by (auto simp: catalog_ok_def)
  next
    case False
    with assms(2) DropTable show ?thesis by auto
  qed
next
  case (SeedPricing s)
  show ?thesis
  proof (cases "''model_pricing'' \<in> fst ` set (tables c) \<and> is_ok (seed_row num s)")
    case True
    then obtain r where r: "seed_row num s = Inr r" by (auto simp: is_ok_iff)
    then have "cents_ok (p_input r)" "cents_ok (p_output r)"
      using sql_literal_cents [OF assms(1)] by (auto simp: seed_row_def res_bind_Inr_iff split: if_splits)
    with assms(2) True r SeedPricing show ?thesis
      by (auto simp: catalog_ok_def insert_unless_present_def)
  next
    case False
    with assms(2) SeedPricing show ?thesis by (auto split: sum.split)
  qed
next
  case (DeletePricing ks)
  with assms(2) show ?thesis by (auto simp: catalog_ok_def distinct_map_filter)
qed

lemma exec_all_ok: "numeric_column num \<Longrightarrow> catalog_ok c \<Longrightarrow> catalog_ok (snd (exec_all num ds c))"
proof (induction ds arbitrary: c)
  case (Cons d ds)
  from exec_ddl_ok [OF Cons.prems, of d] Cons.IH [OF Cons.prems(1)] show ?case
    by (cases "exec_ddl num d c") (auto simp: bind_def split: sum.split)
qed simp

lemma run_migration_ok: "numeric_column num \<Longrightarrow> catalog_ok c \<Longrightarrow> catalog_ok (snd (run_migration num ds c))"
  using exec_all_ok [of num c ds] by (auto simp: run_migration_def split: sum.split prod.split)

section \<open>The shipped migrations\<close>

text \<open>From an empty database the initial schema goes through, whatever the numeric conversion.\<close>

definition initial_catalog :: catalog where
  "initial_catalog =
     \<lparr>extensions = [''vector'', ''uuid-ossp''],
      tables = [(''model_pricing'', model_pricing_table), (''audit_logs'', audit_logs_table),
        (''video_jobs'', video_jobs_table), (''usage_records'', usage_records_table),
        (''credit_balances'', credit_balances_table), (''api_keys'', api_keys_table),
        (''users'', users_table), (''organizations'', organizations_table)],
      indexes = rev (concat (map (\<lambda>d. case d of CreateIndex i t cs \<Rightarrow> [(i, t, cs)] | _ \<Rightarrow> []) initial_upgrade)),
      pricing_rows = []\<rparr>"

lemmas table_defs = organizations_table_def users_table_def api_keys_table_def credit_balances_table_def
  usage_records_table_def video_jobs_table_def audit_logs_table_def model_pricing_table_def
  created_at_column_def org_column_def column_defs

lemma initial_upgrade_result: "exec_all num initial_upgrade empty_catalog = (Inr (), initial_catalog)"
  by code_simp

lemma initial_downgrade_result:
  "exec_all num initial_downgrade (initial_catalog\<lparr>pricing_rows := rows\<rparr>)
    = (Inr (), empty_catalog\<lparr>extensions := [''vector'', ''uuid-ossp'']\<rparr>)"
  by code_simp

subsection \<open>The seed\<close>

lemma insert_present: "p_model_key r \<in> p_model_key ` set rows \<Longrightarrow> insert_unless_present r rows = rows"
  by (simp add: insert_unless_present_def)

lemma insert_keys: "p_model_key ` set (insert_unless_present r rows) = insert (p_model_key r) (p_model_key ` set rows)"
  by (auto simp: insert_unless_present_def)

text \<open>The rows the seed statements insert, when they can be evaluated.\<close>

fun seeds_into :: "pricing_row list \<Rightarrow> pricing_row list \<Rightarrow> pricing_row list" where
  "seeds_into [] rows = rows"
| "seeds_into (r # rs) rows = seeds_into rs (insert_unless_present r rows)"

lemma seed_row_key: "seed_row num s = Inr r \<Longrightarrow> p_model_key r = s_model_key s"
  by (auto simp: seed_row_def res_bind_Inr_iff split: if_splits)

lemma exec_seeds:
  "''model_pricing'' \<in> fst ` set (tables c) \<Longrightarrow> map_result (seed_row num) ss = Inr rs \<Longrightarrow>
    exec_all num (map SeedPricing ss) c = (Inr (), c\<lparr>pricing_rows := seeds_into rs (pricing_rows c)\<rparr>)"
proof (induction ss arbitrary: c rs)
  case (Cons s ss)
  from Cons.prems(2) obtain r rs' where r: "seed_row num s = Inr r" "map_result (seed_row num) ss = Inr rs'" "rs = r # rs'"
    by (auto simp: res_bind_Inr_iff)
  let ?c = "c\<lparr>pricing_rows := insert_unless_present r (pricing_rows c)\<rparr>"
  have "exec_ddl num (SeedPricing s) c = (Inr (), ?c)" using Cons.prems(1) r(1) by simp
  moreover have "exec_all num (map SeedPricing ss) ?c = (Inr (), ?c\<lparr>pricing_rows := seeds_into rs' (pricing_rows ?c)\<rparr>)"
    using Cons.prems(1) by (intro Cons.IH r(2)) simp
  ultimately show ?case using r(3) by (simp add: bind_def del: exec_ddl.simps)
qed simp

lemma seeds_into_present:
  "p_model_key ` set rs \<subseteq> p_model_key ` set rows \<Longrightarrow> seeds_into rs rows = rows"
  by (induction rs) (simp_all add: insert_present)

lemma seeds_into_keys: "p_model_key ` set (seeds_into rs rows) = p_model_key ` set rs \<union> p_model_key ` set rows"
  by (induction rs arbitrary: rows) (auto simp: insert_keys)

lemma seeds_into_keeps: "set rows \<subseteq> set (seeds_into rs rows)"
proof (induction rs arbitrary: rows)
  case (Cons r rs)
  have "set rows \<subseteq> set (insert_unless_present r rows)" by (auto simp: insert_unless_present_def)
  also have "\<dots> \<subseteq> set (seeds_into rs (insert_unless_present r rows))" by (rule Cons)
  finally show ?case by simp
qed simp

lemma seeds_into_delete:
  assumes "p_model_key ` set rs \<subseteq> K" "p_model_key ` set rows \<inter> K = {}"
  shows "filter (\<lambda>r. p_model_key r \<notin> K) (seeds_into rs rows) = rows"
proof -
  have "filter (\<lambda>r. p_model_key r \<notin> K) (seeds_into rs rows) = filter (\<lambda>r. p_model_key r \<notin> K) rows"
    using assms(1)
  proof (induction rs arbitrary: rows)
    case (Cons r rs)
    then show ?case by (simp add: insert_unless_present_def)
  qed simp
  also have "\<dots> = rows" using assms(2) by (auto simp: filter_id_conv)
  finally show ?thesis .
qed

text \<open>Every literal of the seed fits its column, for any conversion that is exact on cents.\<close>

lemma seed_literals:
  "list_all (\<lambda>s. (case dec_parse (s_input s) of None \<Rightarrow> False | Some d \<Rightarrow> expo d = - 2 \<and> 0 \<le> coeff d \<and> coeff d < 1000)
    \<and> (case dec_parse (s_output s) of None \<Rightarrow> False | Some d \<Rightarrow> expo d = - 2 \<and> 0 \<le> coeff d \<and> coeff d < 1000)
    \<and> length (s_model_key s) \<le> 200 \<and> length (s_provider s) \<le> 100 \<and> int4 (s_context_window s)) seed_rows"
  by code_simp

lemma small_cents: "expo d = - 2 \<Longrightarrow> 0 \<le> coeff d \<Longrightarrow> coeff d < 1000 \<Longrightarrow> cents_ok d"
proof -
  assume d: "expo d = - 2" "0 \<le> coeff d" "coeff d < 1000"
  have v: "dec_val d = of_int (coeff d) / 10 ^ 2" using d by (simp add: dec_val_def)
  have "(of_int (coeff d) :: rat) < of_int 1000" using d(3) by (simp only: of_int_less_iff)
  moreover have "of_int (coeff d) / 10 ^ 2 * 10 ^ 6 = (of_int (coeff d * 10 ^ 4) :: rat)" by simp
  then have "of_int (coeff d) / 10 ^ 2 * 10 ^ 6 \<in> (\<int> :: rat set)" by (metis Ints_of_int)
  ultimately show ?thesis using d(2) by (simp add: cents_ok_def on_grid_def v)
qed

lemma seed_rows_total:
  assumes "numeric_column num"
  shows "\<exists>rs. map_result (seed_row num) seed_rows = Inr rs \<and> map p_model_key rs = map s_model_key seed_rows"
proof -
  have lit: "\<exists>i. sql_literal num x = Inr i"
    if "case dec_parse x of None \<Rightarrow> False | Some d \<Rightarrow> expo d = - 2 \<and> 0 \<le> coeff d \<and> coeff d < 1000" for x
    using that small_cents numeric_column.num_exact [OF assms]
    by (auto simp: sql_literal_def split: option.splits)
  have "\<exists>r. seed_row num s = Inr r \<and> p_model_key r = s_model_key s" if "s \<in> set seed_rows" for s
    using seed_literals that lit [of "s_input s"] lit [of "s_output s"]
    by (auto simp: seed_row_def list_all_iff varchar_def split: option.splits)
  then obtain rs where rs: "map_result (seed_row num) seed_rows = Inr rs"
    "list_all2 (\<lambda>s r. p_model_key r = s_model_key s) seed_rows rs"
    using map_result_ok [of seed_rows "seed_row num" "\<lambda>s r. p_model_key r = s_model_key s"] by blast
  from rs(2) have "map p_model_key rs = map s_model_key seed_rows" by (induction rule: list_all2_induct) simp_all
  with rs(1) show ?thesis by blast
qed

lemma migrate_empty:
  assumes "numeric_column num"
  shows "\<exists>rs. run_migration num (initial_upgrade @ pricing_upgrade) empty_catalog
      = (Inr (), initial_catalog\<lparr>pricing_rows := rs\<rparr>)
    \<and> map p_model_key rs = map s_model_key seed_rows"
proof -
  obtain rs where rs: "map_result (seed_row num) seed_rows = Inr rs" "map p_model_key rs = map s_model_key seed_rows"
    using seed_rows_total [OF assms] by blast
  have "''model_pricing'' \<in> fst ` set (tables initial_catalog)" by (simp add: initial_catalog_def)
  from exec_seeds [OF this rs(1)] have "exec_all num pricing_upgrade initial_catalog
    = (Inr (), initial_catalog\<lparr>pricing_rows := seeds_into rs []\<rparr>)"
    by (simp add: pricing_upgrade_def) (simp add: initial_catalog_def)
  moreover have "seeds_into rs' rows = rows @ rs'" if "distinct (map p_model_key (rows @ rs'))" for rs' rows
    using that by (induction rs' arbitrary: rows) (auto simp: insert_unless_present_def image_iff)
  moreover have "distinct (map s_model_key seed_rows)" by code_simp
  ultimately show ?thesis
    using rs(2) by (simp add: run_migration_def exec_all_append bind_def initial_upgrade_result) blast
qed

lemma migrated_steps:
  assumes num: "numeric_column num" and keys: "map p_model_key rs = map s_model_key seed_rows"
  shows "run_migration num pricing_upgrade (initial_catalog\<lparr>pricing_rows := rs\<rparr>) = (Inr (), initial_catalog\<lparr>pricing_rows := rs\<rparr>)"
    and "run_migration num pricing_downgrade (initial_catalog\<lparr>pricing_rows := rs\<rparr>) = (Inr (), initial_catalog)"
    and "run_migration num (pricing_downgrade @ initial_downgrade) (initial_catalog\<lparr>pricing_rows := rs\<rparr>)
      = (Inr (), empty_catalog\<lparr>extensions := [''vector'', ''uuid-ossp'']\<rparr>)"
proof -
  let ?c = "initial_catalog\<lparr>pricing_rows := rs\<rparr>"
  have t: "''model_pricing'' \<in> fst ` set (tables ?c)" by (simp add: initial_catalog_def)
  have k: "p_model_key ` set rs = s_model_key ` set seed_rows" using keys by (metis list.set_map)
  obtain qs where qs: "map_result (seed_row num) seed_rows = Inr qs" "map p_model_key qs = map s_model_key seed_rows"
    using seed_rows_total [OF num] by blast
  have "seeds_into qs rs = rs"
    by (rule seeds_into_present) (use k qs(2) in \<open>metis list.set_map order_refl\<close>)
  with exec_seeds [OF t qs(1)]
  show "run_migration num pricing_upgrade ?c = (Inr (), ?c)" by (simp add: run_migration_def pricing_upgrade_def)
  have "filter (\<lambda>r. p_model_key r \<notin> s_model_key ` set seed_rows) rs = []" using k by (auto simp: filter_empty_conv)
  then have d: "exec_all num pricing_downgrade ?c = (Inr (), initial_catalog)"
    using t by (simp add: pricing_downgrade_def bind_def) (simp add: initial_catalog_def)
  then show "run_migration num pricing_downgrade ?c = (Inr (), initial_catalog)" by (simp add: run_migration_def)
  have "initial_catalog\<lparr>pricing_rows := []\<rparr> = initial_catalog" by (simp add: initial_catalog_def)
  with d initial_downgrade_result [of num "[]"]
  show "run_migration num (pricing_downgrade @ initial_downgrade) ?c
      = (Inr (), empty_catalog\<lparr>extensions := [''vector'', ''uuid-ossp'']\<rparr>)"
    by (simp add: run_migration_def exec_all_append bind_def)
qed

lemma seed_idempotent:
  assumes "numeric_column num" "''model_pricing'' \<in> fst ` set (tables c)"
  shows "\<exists>c'. run_migration num pricing_upgrade c = (Inr (), c') \<and> run_migration num pricing_upgrade c' = (Inr (), c')
    \<and> set (pricing_rows c) \<subseteq> set (pricing_rows c')
    \<and> p_model_key ` set (pricing_rows c') = p_model_key ` set (pricing_rows c) \<union> s_model_key ` set seed_rows"
proof -
  obtain rs where rs: "map_result (seed_row num) seed_rows = Inr rs" "map p_model_key rs = map s_model_key seed_rows"
    using seed_rows_total [OF assms(1)] by blast
  have k: "p_model_key ` set rs = s_model_key ` set seed_rows" using rs(2) by (metis list.set_map)
  let ?c = "c\<lparr>pricing_rows := seeds_into rs (pricing_rows c)\<rparr>"
  have "exec_all num pricing_upgrade c = (Inr (), ?c)"
    using exec_seeds [OF assms(2) rs(1)] by (simp add: pricing_upgrade_def)
  moreover have "exec_all num pricing_upgrade ?c = (Inr (), ?c)"
    using exec_seeds [of ?c num seed_rows rs] assms(2) rs(1)
      seeds_into_present [of rs "seeds_into rs (pricing_rows c)"] by (simp add: pricing_upgrade_def seeds_into_keys)
  ultimately show ?thesis
    using seeds_into_keeps [of "pricing_rows c" rs] seeds_into_keys [of rs "pricing_rows c"]
    by (auto simp: run_migration_def k)
qed

lemma seed_roundtrip:
  assumes "numeric_column num" "''model_pricing'' \<in> fst ` set (tables c)"
    and "p_model_key ` set (pricing_rows c) \<inter> s_model_key ` set seed_rows = {}"
  shows "run_migration num (pricing_upgrade @ pricing_downgrade) c = (Inr (), c)"
proof -
  obtain rs where rs: "map_result (seed_row num) seed_rows = Inr rs" "map p_model_key rs = map s_model_key seed_rows"
    using seed_rows_total [OF assms(1)] by blast
  have k: "p_model_key ` set rs = s_model_key ` set seed_rows" using rs(2) by (metis list.set_map)
  have "filter (\<lambda>r. p_model_key r \<notin> s_model_key ` set seed_rows) (seeds_into rs (pricing_rows c)) = pricing_rows c"
    using assms(3) k by (intro seeds_into_delete) auto
  with exec_seeds [OF assms(2) rs(1)] assms(2) show ?thesis
    by (simp add: run_migration_def exec_all_append bind_def pricing_upgrade_def pricing_downgrade_def)
qed

section \<open>The declarative models\<close>

text \<open>
  \<^verbatim>\<open>mapped_column\<close>: a column is nullable when its annotation is optional; \<^verbatim>\<open>index=True\<close> asks for an
  index of its own. Defaults on the Python side are not part of the schema.
\<close>

record orm_column =
  oc_column :: column_def
  oc_index :: bool

definition mapped :: "column_def \<Rightarrow> orm_column" where
  "mapped c = \<lparr>oc_column = c, oc_index = False\<rparr>"

definition indexed :: "column_def \<Rightarrow> orm_column" where
  "indexed c = \<lparr>oc_column = c, oc_index = True\<rparr>"

definition orm_created_at :: column_def where
  "orm_created_at = defaulted ''now()'' (required ''created_at'' TimestampTz)"

definition orm_org_id :: column_def where
  "orm_org_id = references ''organizations'' ''id'' Cascade (required ''org_id'' PgUuid)"

definition orm_organization :: "orm_column list" where
  "orm_organization =
     [mapped (primary ''id'' PgUuid), mapped (required ''name'' (Varchar 200)),
      mapped (unique (required ''slug'' (Varchar 100))), mapped orm_created_at]"

definition orm_user :: "orm_column list" where
  "orm_user =
     [mapped (primary ''id'' PgUuid), mapped orm_org_id,
      indexed (unique (required ''email'' (Varchar 320))), mapped (required ''role'' (Varchar 20)),
      mapped orm_created_at]"

definition orm_api_key :: "orm_column list" where
  "orm_api_key =
     [mapped (primary ''id'' PgUuid), mapped orm_org_id,
      mapped (references ''users'' ''id'' Cascade (required ''user_id'' PgUuid)),
      mapped (required ''name'' (Varchar 200)), mapped (required ''scope'' (Varchar 20)),
      mapped (required ''key_hash'' (Varchar 200)), indexed (unique (required ''key_lookup'' (Varchar 64))),
      mapped (required ''allowed_models'' Json), mapped (required ''denied_models'' Json),
      mapped (nullable ''expires_at'' TimestampTz), mapped (nullable ''revoked_at'' TimestampTz),
      mapped (nullable ''revocation_reason'' (Varchar 500)), mapped orm_created_at]"

definition orm_credit_balance :: "orm_column list" where
  "orm_credit_balance =
     [mapped (references ''organizations'' ''id'' Cascade (primary ''org_id'' PgUuid)),
      mapped (required ''available'' (Numeric 14 6)), mapped (required ''reserved'' (Numeric 14 6)),
      mapped (nullable ''monthly_cap'' (Numeric 14 6)), mapped (nullable ''daily_cap'' (Numeric 14 6)),
      mapped (required ''hard_stop'' Boolean),
      mapped (defaulted ''now()'' (required ''updated_at'' TimestampTz))]"

definition orm_usage_record :: "orm_column list" where
  "orm_usage_record =
     [mapped (primary ''id'' PgUuid), indexed orm_org_id,
      indexed (references ''api_keys'' ''id'' SetNull (required ''key_id'' PgUuid)),
      indexed (required ''model'' (Varchar 200)), indexed (required ''provider'' (Varchar 100)),
      mapped (required ''input_tokens'' Integer), mapped (required ''output_tokens'' Integer),
      mapped (required ''cached_input_tokens'' Integer), mapped (required ''reasoning_tokens'' Integer),
      mapped (required ''cost_usd'' (Numeric 14 6)), mapped (required ''latency_ms'' Integer),
      mapped (required ''cache_hit'' Boolean), indexed orm_created_at]"

definition orm_video_job :: "orm_column list" where
  "orm_video_job =
     [mapped (primary ''id'' PgUuid), mapped orm_org_id,
      mapped (references ''api_keys'' ''id'' SetNull (required ''key_id'' PgUuid)),
      mapped (required ''model'' (Varchar 200)), mapped (required ''prompt'' PgText),
      indexed (required ''status'' (Varchar 20)), mapped (required ''output_urls'' Json),
      mapped (required ''cost_usd'' (Numeric 14 6)), mapped (nullable ''error'' PgText),
      mapped orm_created_at, mapped (nullable ''completed_at'' TimestampTz)]"

definition orm_audit_log :: "orm_column list" where
  "orm_audit_log =
     [mapped (primary ''id'' PgUuid), indexed (required ''org_id'' PgUuid),
      mapped (nullable ''actor_user_id'' PgUuid), indexed (required ''action'' (Varchar 100)),
      mapped (required ''target_type'' (Varchar 100)), mapped (required ''target_id'' (Varchar 200)),
      mapped (required ''metadata_json'' Json), indexed orm_created_at]"

definition orm_models :: "(string \<times> orm_column list) list" where
  "orm_models =
     [(''organizations'', orm_organization), (''users'', orm_user), (''api_keys'', orm_api_key),
      (''credit_balances'', orm_credit_balance), (''usage_records'', orm_usage_record),
      (''video_jobs'', orm_video_job), (''audit_logs'', orm_audit_log)]"

text \<open>
  What two descriptions of a column disagree on. A column that is both unique and indexed gets a
  unique index and no constraint of its own; indexes are named by table and column.
\<close>

datatype mismatch =
    NoSuchTable
  | NoSuchColumn
  | TypeDiffers col_type col_type
  | NullabilityDiffers bool bool
  | KeyDiffers
  | UniqueConstraint bool bool
  | DefaultDiffers "string option" "string option"
  | NoIndex
  | UniqueIndex bool bool

definition index_name :: "string \<Rightarrow> string \<Rightarrow> string" where
  "index_name t k = ''ix_'' @ t @ ''_'' @ k"

definition differs :: "('a \<Rightarrow> 'a \<Rightarrow> mismatch) \<Rightarrow> 'a \<Rightarrow> 'a \<Rightarrow> mismatch list" where
  "differs f x y = (if x = y then [] else [f x y])"

text \<open>The model's side comes first. An index of a migration is never unique.\<close>

definition column_mismatches :: "catalog \<Rightarrow> string \<Rightarrow> orm_column \<Rightarrow> mismatch list" where
  "column_mismatches c t oc =
     (let m = oc_column oc in
      case map_of (tables c) t of
        None \<Rightarrow> [NoSuchTable]
      | Some cols \<Rightarrow>
          (case find (\<lambda>d. col_name d = col_name m) cols of
             None \<Rightarrow> [NoSuchColumn]
           | Some d \<Rightarrow>
               differs TypeDiffers (col_type m) (col_type d)
               @ differs NullabilityDiffers (col_nullable m) (col_nullable d)
               @ (if col_primary m = col_primary d \<and> col_fk m = col_fk d then [] else [KeyDiffers])
               @ differs UniqueConstraint (col_unique m \<and> \<not> oc_index oc) (col_unique d)
               @ differs DefaultDiffers (col_default m) (col_default d)
               @ (if \<not> oc_index oc then []
                  else if (index_name t (col_name m), t, [col_name m]) \<in> set (indexes c)
                  then differs UniqueIndex (col_unique m) False
                  else [NoIndex])))"

definition model_mismatches :: "catalog \<Rightarrow> (string \<times> orm_column list) list \<Rightarrow> (string \<times> string \<times> mismatch) list" where
  "model_mismatches c models =
     concat (map (\<lambda>(t, ocs). concat (map (\<lambda>oc.
       map (\<lambda>m. (t, col_name (oc_column oc), m)) (column_mismatches c t oc)) ocs)) models)"

text \<open>The other way round: what only the migration has.\<close>

datatype unmodelled = Table string | Column string string | Index string

definition model_indexes :: "(string \<times> orm_column list) list \<Rightarrow> string list" where
  "model_indexes models =
     concat (map (\<lambda>(t, ocs). map (\<lambda>oc. index_name t (col_name (oc_column oc))) (filter oc_index ocs)) models)"

definition only_migrated :: "catalog \<Rightarrow> (string \<times> orm_column list) list \<Rightarrow> unmodelled list" where
  "only_migrated c models =
     concat (map (\<lambda>(t, cols). case map_of models t of
         None \<Rightarrow> [Table t]
       | Some ocs \<Rightarrow> map (Column t) (filter (\<lambda>k. k \<notin> set (map (\<lambda>oc. col_name (oc_column oc)) ocs)) (map col_name cols)))
       (rev (tables c)))
     @ map Index (filter (\<lambda>i. i \<notin> set (model_indexes models)) (map fst (rev (indexes c))))"

text \<open>Every difference between the models and the database the migration makes.\<close>

definition known_mismatches :: "(string \<times> string \<times> mismatch) list" where
  "known_mismatches =
     [(''users'', ''email'', UniqueConstraint False True), (''users'', ''email'', UniqueIndex True False),
      (''users'', ''role'', DefaultDiffers None (Some ''member'')),
      (''api_keys'', ''scope'', DefaultDiffers None (Some ''personal'')),
      (''api_keys'', ''key_lookup'', UniqueConstraint False True),
      (''api_keys'', ''key_lookup'', UniqueIndex True False),
      (''api_keys'', ''allowed_models'', TypeDiffers Json Jsonb),
      (''api_keys'', ''allowed_models'', DefaultDiffers None (Some ''[]'')),
      (''api_keys'', ''denied_models'', TypeDiffers Json Jsonb),
      (''api_keys'', ''denied_models'', DefaultDiffers None (Some ''[]'')),
      (''credit_balances'', ''available'', DefaultDiffers None (Some ''0'')),
      (''credit_balances'', ''reserved'', DefaultDiffers None (Some ''0'')),
      (''credit_balances'', ''hard_stop'', DefaultDiffers None (Some ''true'')),
      (''usage_records'', ''key_id'', NullabilityDiffers False True),
      (''usage_records'', ''input_tokens'', DefaultDiffers None (Some ''0'')),
      (''usage_records'', ''output_tokens'', DefaultDiffers None (Some ''0'')),
      (''usage_records'', ''cached_input_tokens'', DefaultDiffers None (Some ''0'')),
      (''usage_records'', ''reasoning_tokens'', DefaultDiffers None (Some ''0'')),
      (''usage_records'', ''cache_hit'', DefaultDiffers None (Some ''false'')),
      (''video_jobs'', ''key_id'', NullabilityDiffers False True),
      (''video_jobs'', ''status'', DefaultDiffers None (Some ''pending'')),
      (''video_jobs'', ''output_urls'', TypeDiffers Json Jsonb),
      (''video_jobs'', ''output_urls'', DefaultDiffers None (Some ''[]'')),
      (''video_jobs'', ''cost_usd'', DefaultDiffers None (Some ''0'')),
      (''audit_logs'', ''org_id'', NullabilityDiffers False True),
      (''audit_logs'', ''metadata_json'', TypeDiffers Json Jsonb),
      (''audit_logs'', ''metadata_json'', DefaultDiffers None (Some ''{}''))]"

lemma orm_mismatches: "model_mismatches initial_catalog orm_models = known_mismatches"
  by code_simp

lemma orm_unmodelled:
  "only_migrated initial_catalog orm_models =
    [Table ''model_pricing'', Index ''ix_api_keys_org_id'', Index ''ix_model_pricing_provider'',
     Index ''ix_model_pricing_active'']"
  by code_simp

section \<open>The record model of the tables\<close>

datatype sql_value = VNull | VUuid uuid | VStr string | VTime datetime | VNum decimal | VInt int | VBool bool | VJson

fun opt_value :: "('a \<Rightarrow> sql_value) \<Rightarrow> 'a option \<Rightarrow> sql_value" where
  "opt_value f None = VNull"
| "opt_value f (Some x) = f x"

fun fits_type :: "col_type \<Rightarrow> sql_value \<Rightarrow> bool" where
  "fits_type PgUuid (VUuid u) = True"
| "fits_type (Varchar n) (VStr s) = varchar n s"
| "fits_type PgText (VStr s) = True"
| "fits_type TimestampTz (VTime t) = True"
| "fits_type (Numeric p s) (VNum d) = (on_grid s (dec_val d) \<and> \<bar>dec_val d\<bar> < 10 ^ (p - s))"
| "fits_type Integer (VInt n) = int4 n"
| "fits_type Boolean (VBool b) = True"
| "fits_type Jsonb VJson = True"
| "fits_type t v = False"

definition fits :: "column_def \<Rightarrow> sql_value \<Rightarrow> bool" where
  "fits c v \<longleftrightarrow> (if v = VNull then col_nullable c else fits_type (col_type c) v)"

definition organization_values :: "organization_row \<Rightarrow> sql_value list" where
  "organization_values r = [VUuid (o_id r), VStr (o_name r), VStr (o_slug r), VTime (o_created_at r)]"

definition user_values :: "user_row \<Rightarrow> sql_value list" where
  "user_values r = [VUuid (u_id r), VUuid (u_org_id r), VStr (u_email r), VStr (u_role r), VTime (u_created_at r)]"

definition api_key_values :: "api_key_row \<Rightarrow> sql_value list" where
  "api_key_values r =
     [VUuid (k_id r), VUuid (k_org_id r), VUuid (k_user_id r), VStr (k_name r), VStr (k_scope r),
      VStr (k_key_hash r), VStr (k_key_lookup r), VJson, VJson, opt_value VTime (k_expires_at r),
      opt_value VTime (k_revoked_at r), opt_value VStr (k_revocation_reason r), VTime (k_created_at r)]"

definition credit_values :: "credit_row \<Rightarrow> sql_value list" where
  "credit_values r =
     [VUuid (c_org_id r), VNum (c_available r), VNum (c_reserved r), opt_value VNum (c_monthly_cap r),
      opt_value VNum (c_daily_cap r), VBool (c_hard_stop r), VTime (c_updated_at r)]"

definition usage_values :: "usage_row \<Rightarrow> sql_value list" where
  "usage_values r =
     [VUuid (r_id r), VUuid (r_org_id r), VUuid (r_key_id r), VStr (r_model r), VStr (r_provider r),
      VInt (r_input_tokens r), VInt (r_output_tokens r), VInt (r_cached_input_tokens r),
      VInt (r_reasoning_tokens r), VNum (r_cost_usd r), VInt (r_latency_ms r), VBool (r_cache_hit r),
      VTime (r_created_at r)]"

definition video_values :: "video_row \<Rightarrow> sql_value list" where
  "video_values r =
     [VUuid (v_id r), VUuid (v_org_id r), VUuid (v_key_id r), VStr (v_model r), VStr (v_prompt r),
      VStr (v_status r), VJson, VNum (v_cost_usd r), opt_value VStr (v_error r), VTime (v_created_at r),
      opt_value VTime (v_completed_at r)]"

definition audit_values :: "audit_row \<Rightarrow> sql_value list" where
  "audit_values r =
     [VUuid (a_id r), opt_value VUuid (a_org_id r), opt_value VUuid (a_actor_user_id r), VStr (a_action r),
      VStr (a_target_type r), VStr (a_target_id r), VJson, VTime (a_created_at r)]"

lemmas value_defs = organization_values_def user_values_def api_key_values_def credit_values_def
  usage_values_def video_values_def audit_values_def

lemma fits_opt [simp]: "fits c (opt_value f x) \<longleftrightarrow> (case x of None \<Rightarrow> col_nullable c | Some y \<Rightarrow> fits c (f y))"
  by (cases x) (simp_all add: fits_def)

lemma fits_value [simp]:
  "fits c (VUuid u) = fits_type (col_type c) (VUuid u)" "fits c (VStr s) = fits_type (col_type c) (VStr s)"
  "fits c (VTime t) = fits_type (col_type c) (VTime t)" "fits c (VNum d) = fits_type (col_type c) (VNum d)"
  "fits c (VInt n) = fits_type (col_type c) (VInt n)" "fits c (VBool b) = fits_type (col_type c) (VBool b)"
  "fits c VJson = fits_type (col_type c) VJson"
  by (simp_all add: fits_def)

text \<open>The checks the record model makes on insertion are those of the migrated columns.\<close>

lemma schema_row_checks:
  "list_all2 fits organizations_table (organization_values o1) \<longleftrightarrow> varchar 200 (o_name o1) \<and> varchar 100 (o_slug o1)"
  "list_all2 fits users_table (user_values u1) \<longleftrightarrow> varchar 320 (u_email u1) \<and> varchar 20 (u_role u1)"
  "list_all2 fits api_keys_table (api_key_values k1) \<longleftrightarrow> varchar 200 (k_name k1) \<and> varchar 20 (k_scope k1)
     \<and> varchar 200 (k_key_hash k1) \<and> varchar 64 (k_key_lookup k1) \<and> pred_option (varchar 500) (k_revocation_reason k1)"
  "list_all2 fits credit_balances_table (credit_values c1) \<longleftrightarrow> cents_ok (c_available c1) \<and> cents_ok (c_reserved c1)
     \<and> pred_option cents_ok (c_monthly_cap c1) \<and> pred_option cents_ok (c_daily_cap c1)"
  "list_all2 fits usage_records_table (usage_values r1) \<longleftrightarrow> varchar 200 (r_model r1) \<and> varchar 100 (r_provider r1)
     \<and> int4 (r_input_tokens r1) \<and> int4 (r_output_tokens r1) \<and> int4 (r_cached_input_tokens r1)
     \<and> int4 (r_reasoning_tokens r1) \<and> cents_ok (r_cost_usd r1) \<and> int4 (r_latency_ms r1)"
  "list_all2 fits video_jobs_table (video_values v1) \<longleftrightarrow> varchar 200 (v_model v1) \<and> varchar 20 (v_status v1)
     \<and> cents_ok (v_cost_usd v1)"
  "list_all2 fits audit_logs_table (audit_values a1) \<longleftrightarrow> varchar 100 (a_action a1) \<and> varchar 100 (a_target_type a1)
     \<and> varchar 200 (a_target_id a1)"
  by (auto simp: table_defs value_defs cents_ok_def split: option.split)

end
