(* ===== verification/PyRepr.thy ===== *)
theory PyRepr
  imports Json
begin

text \<open>
  \<^verbatim>\<open>str()\<close> and \<^verbatim>\<open>repr()\<close> of decoded documents, which the code applies to message contents that need
  not be text. Characters are Latin-1; the printable ones are those Python shows unescaped.
\<close>

section \<open>Strings\<close>

definition hex_char :: "nat \<Rightarrow> char" where
  "hex_char n = (if n < 10 then char_of (48 + n) else char_of (87 + n))"

definition printable :: "char \<Rightarrow> bool" where
  "printable c \<longleftrightarrow> (32 \<le> ord c \<and> ord c < 127) \<or> (160 < ord c \<and> ord c \<noteq> 173)"

definition repr_char :: "char \<Rightarrow> char \<Rightarrow> string" where
  "repr_char q c =
     (if c = q \<or> ord c = 92 then [char_of (92 :: nat), c]
      else if ord c = 10 then [char_of (92 :: nat), CHR ''n'']
      else if ord c = 13 then [char_of (92 :: nat), CHR ''r'']
      else if ord c = 9 then [char_of (92 :: nat), CHR ''t'']
      else if printable c then [c]
      else [char_of (92 :: nat), CHR ''x'', hex_char (ord c div 16), hex_char (ord c mod 16)])"

definition repr_quote :: "string \<Rightarrow> char" where
  "repr_quote s = (if CHR 0x27 \<in> set s \<and> CHR 0x22 \<notin> set s then CHR 0x22 else CHR 0x27)"

definition repr_str :: "string \<Rightarrow> string" where
  "repr_str s = [repr_quote s] @ concat (map (repr_char (repr_quote s)) s) @ [repr_quote s]"

section \<open>Floats\<close>

text \<open>The shortest digits that read back, in positional notation for moderate exponents.\<close>

definition float_digits :: "nat \<Rightarrow> string" where
  "float_digits n = rev (dropWhile (\<lambda>c. c = CHR ''0'') (rev (show_nat n)))"

definition repr_float :: "pyfloat \<Rightarrow> string" where
  "repr_float x =
     (if x = 0 then ''0.0''
      else let d = dec_of_float_text x;
               ds = float_digits (nat \<bar>coeff d\<bar>);
               point = int (length (show_nat (nat \<bar>coeff d\<bar>))) + expo d;
               body =
                 (if -4 < point \<and> point \<le> 16
                  then if point \<le> 0 then ''0.'' @ replicate (nat (- point)) (CHR ''0'') @ ds
                       else if int (length ds) \<le> point
                       then ds @ replicate (nat (point - int (length ds))) (CHR ''0'') @ ''.0''
                       else take (nat point) ds @ ''.'' @ drop (nat point) ds
                  else let e = point - 1;
                           es = show_nat (nat \<bar>e\<bar>)
                       in take 1 ds @ (if 1 < length ds then ''.'' @ drop 1 ds else []) @ ''e''
                          @ (if e < 0 then ''-'' else ''+'') @ (if length es < 2 then ''0'' @ es else es))
           in (if x < 0 then ''-'' else []) @ body)"

section \<open>Documents\<close>

fun py_repr :: "json \<Rightarrow> string" where
  "py_repr JNull = ''None''"
| "py_repr (JBool b) = (if b then ''True'' else ''False'')"
| "py_repr (JInt n) = show_int n"
| "py_repr (JFloat x) = repr_float x"
| "py_repr (JStr s) = repr_str s"
| "py_repr (JList xs) = ''['' @ py_join '', '' (map py_repr xs) @ '']''"
| "py_repr (JObj d) = ''{'' @ py_join '', '' (map (\<lambda>kv. repr_str (fst kv) @ '': '' @ py_repr (snd kv)) d) @ ''}''"

definition py_str :: "json \<Rightarrow> string" where
  "py_str v = (case v of JStr s \<Rightarrow> s | _ \<Rightarrow> py_repr v)"

section \<open>Encoding as JSON text\<close>

text \<open>\<^verbatim>\<open>json.dumps\<close> with its defaults: characters outside ASCII and control characters are escaped.\<close>

definition json_char :: "char \<Rightarrow> string" where
  "json_char c =
     (if ord c = 34 \<or> ord c = 92 then [char_of (92 :: nat), c]
      else if ord c = 8 then [char_of (92 :: nat), CHR ''b'']
      else if ord c = 9 then [char_of (92 :: nat), CHR ''t'']
      else if ord c = 10 then [char_of (92 :: nat), CHR ''n'']
      else if ord c = 12 then [char_of (92 :: nat), CHR ''f'']
      else if ord c = 13 then [char_of (92 :: nat), CHR ''r'']
      else if 32 \<le> ord c \<and> ord c < 127 then [c]
      else [char_of (92 :: nat)] @ ''u00'' @ [hex_char (ord c div 16), hex_char (ord c mod 16)])"

definition json_text :: "string \<Rightarrow> string" where
  "json_text s = [char_of (34 :: nat)] @ concat (map json_char s) @ [char_of (34 :: nat)]"

fun json_dumps :: "json \<Rightarrow> string" where
  "json_dumps JNull = ''null''"
| "json_dumps (JBool b) = (if b then ''true'' else ''false'')"
| "json_dumps (JInt n) = show_int n"
| "json_dumps (JFloat x) = repr_float x"
| "json_dumps (JStr s) = json_text s"
| "json_dumps (JList xs) = ''['' @ py_join '', '' (map json_dumps xs) @ '']''"
| "json_dumps (JObj d) = ''{'' @ py_join '', '' (map (\<lambda>kv. json_text (fst kv) @ '': '' @ json_dumps (snd kv)) d) @ ''}''"

lemma py_str_JStr [simp]: "py_str (JStr s) = s"
  by (simp add: py_str_def)

end
