(* ===== verification/Providers.thy ===== *)
theory Providers
  imports PyRepr Migrations
begin

text \<open>
  The provider adapters of \<^verbatim>\<open>app/repository/providers\<close>: the unified request and response
  (\<^verbatim>\<open>base.py\<close>), the OpenAI adapter with its Gemma and Qwen subclasses, the Anthropic adapter, the
  registry with its bootstrap, and the catalog route \<^verbatim>\<open>app/api/routes/models.py\<close> that reads them.
  The SDK clients are parameters: a call takes the keyword arguments and answers with the fields
  of the response the adapters read, or raises.
\<close>

section \<open>The unified shapes\<close>

record unified_request =
  uq_model :: string
  uq_messages :: "json list"
  uq_stream :: bool
  uq_max_tokens :: "int option"
  uq_temperature :: "pyfloat option"
  uq_top_p :: "pyfloat option"
  uq_tools :: "json list option"
  uq_response_format :: "(string \<times> json) list option"
  uq_reasoning_effort :: "string option"
  uq_extras :: "(string \<times> json) list option"

record token_count =
  tk_input :: int
  tk_output :: int
  tk_cached_input :: int
  tk_reasoning :: int

record unified_response =
  us_id :: string
  us_model :: string
  us_content :: string
  us_finish_reason :: string
  us_tool_calls :: "json list option"
  us_usage :: token_count
  us_raw :: json

record unified_chunk =
  uc_delta_text :: string
  uc_delta_tool_calls :: "json list option"
  uc_finish_reason :: "string option"

record pricing_tier =
  pt_input :: decimal
  pt_output :: decimal
  pt_cached_input :: "decimal option"
  pt_reasoning :: "decimal option"

record health_status =
  hs_healthy :: bool
  hs_latency_ms :: int
  hs_last_error :: "string option"

type_synonym kwargs = "(string \<times> json) list"

text \<open>\<^verbatim>\<open>if x is not None: kwargs[k] = x\<close> and \<^verbatim>\<open>if x: kwargs[k] = x\<close>\<close>

definition when_given :: "string \<Rightarrow> ('a \<Rightarrow> json) \<Rightarrow> 'a option \<Rightarrow> kwargs" where
  "when_given k f x = (case x of None \<Rightarrow> [] | Some v \<Rightarrow> [(k, f v)])"

definition when_truthy :: "string \<Rightarrow> ('a list \<Rightarrow> json) \<Rightarrow> 'a list option \<Rightarrow> kwargs" where
  "when_truthy k f x = (case x of None \<Rightarrow> [] | Some v \<Rightarrow> if v = [] then [] else [(k, f v)])"

text \<open>\<^verbatim>\<open>[...] or None\<close>\<close>

definition or_none :: "'a list \<Rightarrow> 'a list option" where
  "or_none xs = (if xs = [] then None else Some xs)"

section \<open>The OpenAI adapter\<close>

text \<open>A response of the SDK: its choices (text, finish reason, dumped tool calls) and its usage.\<close>

record openai_choice =
  ch_content :: "string option"
  ch_finish_reason :: "string option"
  ch_tool_calls :: "json list option"

record openai_usage =
  ou_prompt_tokens :: int
  ou_completion_tokens :: int
  ou_prompt_details :: "int option option"

record openai_response =
  op_id :: string
  op_model :: string
  op_choices :: "openai_choice list"
  op_usage :: "openai_usage option"
  op_dump :: json

type_synonym openai_client = "kwargs \<Rightarrow> openai_response result"

definition openai_pricing :: "(string \<times> pricing_tier) list" where
  "openai_pricing =
     [(''gpt-4o'', \<lparr>pt_input = Dec 250 (- 2), pt_output = Dec 1000 (- 2), pt_cached_input = Some (Dec 125 (- 2)),
        pt_reasoning = None\<rparr>),
      (''gpt-4o-mini'', \<lparr>pt_input = Dec 15 (- 2), pt_output = Dec 60 (- 2), pt_cached_input = None,
        pt_reasoning = None\<rparr>)]"

definition openai_complete_kwargs :: "unified_request \<Rightarrow> kwargs" where
  "openai_complete_kwargs req =
     [(''model'', JStr (uq_model req)), (''messages'', JList (uq_messages req)), (''stream'', JBool False)]
     @ when_given ''max_tokens'' JInt (uq_max_tokens req)
     @ when_given ''temperature'' JFloat (uq_temperature req)
     @ when_truthy ''tools'' JList (uq_tools req)
     @ when_truthy ''response_format'' JObj (uq_response_format req)
     @ when_truthy ''reasoning_effort'' JStr (uq_reasoning_effort req)"

text \<open>
  \<^verbatim>\<open>choice = resp.choices[0]\<close> comes first, the usage is read last; usage and its details may be absent,
  and so may the count of cached tokens.
\<close>

definition openai_usage_of :: "openai_usage option \<Rightarrow> token_count result" where
  "openai_usage_of u =
     (case u of
        None \<Rightarrow> Inl (AttributeError ''prompt_tokens'')
      | Some v \<Rightarrow> Inr \<lparr>tk_input = ou_prompt_tokens v, tk_output = ou_completion_tokens v,
          tk_cached_input = (case ou_prompt_details v of Some (Some n) \<Rightarrow> n | _ \<Rightarrow> 0), tk_reasoning = 0\<rparr>)"

definition openai_complete :: "openai_client \<Rightarrow> unified_request \<Rightarrow> unified_response result" where
  "openai_complete create req =
     res_bind (create (openai_complete_kwargs req)) (\<lambda>resp.
       case op_choices resp of
         [] \<Rightarrow> Inl IndexError
       | choice # _ \<Rightarrow>
           res_bind (openai_usage_of (op_usage resp)) (\<lambda>usage. Inr
             \<lparr>us_id = op_id resp, us_model = op_model resp,
              us_content = (case ch_content choice of None \<Rightarrow> [] | Some s \<Rightarrow> s),
              us_finish_reason = (case ch_finish_reason choice of None \<Rightarrow> ''stop''
                | Some s \<Rightarrow> if s = [] then ''stop'' else s),
              us_tool_calls = or_none (case ch_tool_calls choice of None \<Rightarrow> [] | Some xs \<Rightarrow> xs),
              us_usage = usage, us_raw = op_dump resp\<rparr>))"

definition openai_stream_kwargs :: "unified_request \<Rightarrow> kwargs" where
  "openai_stream_kwargs req =
     [(''model'', JStr (uq_model req)), (''messages'', JList (uq_messages req)), (''stream'', JBool True)]
     @ when_given ''max_tokens'' JInt (uq_max_tokens req)"

text \<open>The generator yields a chunk per element, until one has no choice.\<close>

fun openai_chunks :: "openai_choice list list \<Rightarrow> unified_chunk list \<times> unit result" where
  "openai_chunks [] = ([], Inr ())"
| "openai_chunks ([] # rest) = ([], Inl IndexError)"
| "openai_chunks ((choice # _) # rest) =
     (let (cs, r) = openai_chunks rest
      in (\<lparr>uc_delta_text = (case ch_content choice of None \<Rightarrow> [] | Some s \<Rightarrow> s),
           uc_delta_tool_calls = or_none (case ch_tool_calls choice of None \<Rightarrow> [] | Some xs \<Rightarrow> xs),
           uc_finish_reason = ch_finish_reason choice\<rparr> # cs, r))"

definition openai_stream :: "(kwargs \<Rightarrow> openai_choice list list result) \<Rightarrow> unified_request
    \<Rightarrow> unified_chunk list \<times> unit result" where
  "openai_stream create req =
     (case create (openai_stream_kwargs req) of Inl e \<Rightarrow> ([], Inl e) | Inr chunks \<Rightarrow> openai_chunks chunks)"

text \<open>\<open>encode m\<close> is the tokenizer of a model, \<open>None\<close> where \<^verbatim>\<open>encoding_for_model\<close> raises \<^verbatim>\<open>KeyError\<close>.\<close>

definition message_text :: "json \<Rightarrow> string result" where
  "message_text m = res_bind (json_get m ''content'' (JStr [])) (\<lambda>c. Inr (py_str c))"

definition openai_count_tokens :: "(string \<Rightarrow> (string \<Rightarrow> nat) option) \<Rightarrow> (string \<Rightarrow> nat) \<Rightarrow> string \<Rightarrow> json list \<Rightarrow> nat result" where
  "openai_count_tokens encoding cl100k_base model messages =
     (let enc = (case encoding model of None \<Rightarrow> cl100k_base | Some e \<Rightarrow> e)
      in res_bind (map_result message_text messages) (\<lambda>texts. Inr (sum_list (map enc texts))))"

definition health_check :: "'a result \<Rightarrow> (exn \<Rightarrow> string) \<Rightarrow> int \<Rightarrow> health_status" where
  "health_check probe show_exn elapsed =
     (case probe of
        Inr _ \<Rightarrow> \<lparr>hs_healthy = True, hs_latency_ms = elapsed, hs_last_error = None\<rparr>
      | Inl e \<Rightarrow> \<lparr>hs_healthy = False, hs_latency_ms = elapsed, hs_last_error = Some (show_exn e)\<rparr>)"

section \<open>Gemma and Qwen\<close>

definition tier :: "int \<Rightarrow> int \<Rightarrow> pricing_tier" where
  "tier i out = \<lparr>pt_input = Dec i (- 2), pt_output = Dec out (- 2), pt_cached_input = None, pt_reasoning = None\<rparr>"

definition gemma_pricing :: "(string \<times> pricing_tier) list" where
  "gemma_pricing =
     [(''google/gemma-4-31b'', tier 30 50), (''google/gemma-4-26b-moe'', tier 20 40),
      (''google/gemma-4-e4b'', tier 5 10), (''google/gemma-4-e2b'', tier 2 5)]"

definition qwen_pricing :: "(string \<times> pricing_tier) list" where
  "qwen_pricing =
     [(''qwen/qwen3.6-27b'', tier 20 60), (''qwen/qwen3.6-35b-a3b'', tier 27 85),
      (''qwen/qwen3.5-35b-a3b'', tier 27 85), (''qwen/qwen3.5-122b-a10b'', tier 60 180)]"

section \<open>The Anthropic adapter\<close>

definition anthropic_pricing :: "(string \<times> pricing_tier) list" where
  "anthropic_pricing =
     [(''claude-sonnet-4-20250514'', \<lparr>pt_input = Dec 300 (- 2), pt_output = Dec 1500 (- 2),
        pt_cached_input = Some (Dec 30 (- 2)), pt_reasoning = None\<rparr>),
      (''claude-opus-4-20250514'', tier 1500 7500), (''claude-haiku-4-20250514'', tier 80 400)]"

definition strip_prefix :: "string \<Rightarrow> string" where
  "strip_prefix model = (if CHR ''/'' \<in> set model then split_once (CHR ''/'') model ! 1 else model)"

definition map_stop_reason :: "string \<Rightarrow> string" where
  "map_stop_reason s =
     (case map_of [(''end_turn'', ''stop''), (''max_tokens'', ''length''), (''tool_use'', ''tool_calls''),
                   (''stop_sequence'', ''stop'')] s of None \<Rightarrow> ''stop'' | Some r \<Rightarrow> r)"

text \<open>The messages with role \<^verbatim>\<open>system\<close> go to a field of their own, joined by blank lines.\<close>

fun split_messages :: "json list \<Rightarrow> (string list \<times> json list) result" where
  "split_messages [] = Inr ([], [])"
| "split_messages (m # ms) =
     res_bind (json_get m ''role'' JNull) (\<lambda>role.
       if role = JStr ''system''
       then res_bind (message_text m) (\<lambda>t. res_bind (split_messages ms) (\<lambda>(sys, rest). Inr (t # sys, rest)))
       else res_bind (split_messages ms) (\<lambda>(sys, rest). Inr (sys, m # rest)))"

definition split_system :: "json list \<Rightarrow> (string option \<times> json list) result" where
  "split_system ms =
     res_bind (split_messages ms) (\<lambda>(sys, rest).
       Inr (if sys \<noteq> [] then Some (py_join [char_of (10 :: nat), char_of (10 :: nat)] sys) else None, rest))"

definition anthropic_base_kwargs :: "unified_request \<Rightarrow> string option \<Rightarrow> json list \<Rightarrow> kwargs" where
  "anthropic_base_kwargs req system messages =
     [(''model'', JStr (strip_prefix (uq_model req))), (''messages'', JList messages),
      (''max_tokens'', JInt (case uq_max_tokens req of None \<Rightarrow> 4096 | Some n \<Rightarrow> if n = 0 then 4096 else n))]
     @ when_truthy ''system'' JStr system"

definition anthropic_complete_kwargs :: "unified_request \<Rightarrow> kwargs result" where
  "anthropic_complete_kwargs req =
     res_bind (split_system (uq_messages req)) (\<lambda>(system, messages). Inr
       (anthropic_base_kwargs req system messages
        @ when_given ''temperature'' JFloat (uq_temperature req)
        @ when_truthy ''tools'' JList (uq_tools req)))"

definition anthropic_stream_kwargs :: "unified_request \<Rightarrow> kwargs result" where
  "anthropic_stream_kwargs req =
     res_bind (split_system (uq_messages req)) (\<lambda>(system, messages). Inr (anthropic_base_kwargs req system messages))"

text \<open>A content block of the SDK: text, or a tool use with its id, name and input, or anything else.\<close>

datatype content_block = TextBlock string | ToolUseBlock string string json | OtherBlock

record anthropic_response =
  an_id :: string
  an_model :: string
  an_content :: "content_block list"
  an_stop_reason :: "string option"
  an_input_tokens :: int
  an_output_tokens :: int
  an_cache_read :: "int option"
  an_dump :: json

type_synonym anthropic_client = "kwargs \<Rightarrow> anthropic_response result"

fun block_text :: "content_block \<Rightarrow> string" where
  "block_text (TextBlock s) = s"
| "block_text b = []"

fun block_tool_call :: "content_block \<Rightarrow> json list" where
  "block_tool_call (ToolUseBlock i n inp) =
     [JObj [(''id'', JStr i), (''type'', JStr ''function''),
            (''function'', JObj [(''name'', JStr n), (''arguments'', inp)])]]"
| "block_tool_call b = []"

definition anthropic_complete :: "anthropic_client \<Rightarrow> unified_request \<Rightarrow> unified_response result" where
  "anthropic_complete create req =
     res_bind (anthropic_complete_kwargs req) (\<lambda>kw.
     res_bind (create kw) (\<lambda>resp. Inr
       \<lparr>us_id = an_id resp, us_model = an_model resp,
        us_content = concat (map block_text (an_content resp)),
        us_finish_reason = map_stop_reason (case an_stop_reason resp of None \<Rightarrow> ''end_turn''
          | Some s \<Rightarrow> if s = [] then ''end_turn'' else s),
        us_tool_calls = or_none (concat (map block_tool_call (an_content resp))),
        us_usage = \<lparr>tk_input = an_input_tokens resp, tk_output = an_output_tokens resp,
          tk_cached_input = (case an_cache_read resp of None \<Rightarrow> 0 | Some n \<Rightarrow> n), tk_reasoning = 0\<rparr>,
        us_raw = an_dump resp\<rparr>))"

text \<open>A stream event: a text delta, the end of the message, or one the adapter drops.\<close>

datatype stream_event = TextDelta string | MessageStop | OtherEvent

fun anthropic_event :: "stream_event \<Rightarrow> unified_chunk list" where
  "anthropic_event (TextDelta s) = [\<lparr>uc_delta_text = s, uc_delta_tool_calls = None, uc_finish_reason = None\<rparr>]"
| "anthropic_event MessageStop = [\<lparr>uc_delta_text = [], uc_delta_tool_calls = None, uc_finish_reason = Some ''stop''\<rparr>]"
| "anthropic_event OtherEvent = []"

definition anthropic_stream :: "(kwargs \<Rightarrow> stream_event list result) \<Rightarrow> unified_request \<Rightarrow> unified_chunk list result" where
  "anthropic_stream create req =
     res_bind (anthropic_stream_kwargs req) (\<lambda>kw. res_bind (create kw) (\<lambda>evs. Inr (concat (map anthropic_event evs))))"

definition anthropic_count_tokens :: "json list \<Rightarrow> nat result" where
  "anthropic_count_tokens messages =
     res_bind (map_result message_text messages) (\<lambda>texts. Inr (sum_list (map length texts) div 4))"

section \<open>The adapters and their registry\<close>

datatype adapter = OpenAIAdapter | AnthropicAdapter | GemmaAdapter | QwenAdapter

fun adapter_name :: "adapter \<Rightarrow> string" where
  "adapter_name OpenAIAdapter = ''openai''"
| "adapter_name AnthropicAdapter = ''anthropic''"
| "adapter_name GemmaAdapter = ''gemma''"
| "adapter_name QwenAdapter = ''qwen''"

fun supported_modalities :: "adapter \<Rightarrow> string list" where
  "supported_modalities OpenAIAdapter = [''text'', ''image'', ''audio'', ''embeddings'']"
| "supported_modalities AnthropicAdapter = [''text'', ''image'']"
| "supported_modalities GemmaAdapter = [''text'', ''image'', ''audio'', ''video'']"
| "supported_modalities QwenAdapter = [''text'']"

text \<open>The table \<^verbatim>\<open>_PRICING\<close> of an adapter's module, and its lookup.\<close>

fun pricing_table :: "adapter \<Rightarrow> (string \<times> pricing_tier) list" where
  "pricing_table OpenAIAdapter = openai_pricing"
| "pricing_table AnthropicAdapter = anthropic_pricing"
| "pricing_table GemmaAdapter = gemma_pricing"
| "pricing_table QwenAdapter = qwen_pricing"

fun pricing_key :: "adapter \<Rightarrow> string \<Rightarrow> string" where
  "pricing_key AnthropicAdapter model = strip_prefix model"
| "pricing_key a model = model"

definition adapter_pricing :: "adapter \<Rightarrow> string \<Rightarrow> pricing_tier result" where
  "adapter_pricing a model =
     (case map_of (pricing_table a) (pricing_key a model) of
        None \<Rightarrow> Inl (KeyError ((case a of GemmaAdapter \<Rightarrow> ''Unknown Gemma model: ''
          | QwenAdapter \<Rightarrow> ''Unknown Qwen model: '' | _ \<Rightarrow> ''Unknown model: '') @ model))
      | Some t \<Rightarrow> Inr t)"

type_synonym provider_registry = "(string \<times> adapter) list"

definition provider_register :: "adapter \<Rightarrow> provider_registry \<Rightarrow> provider_registry" where
  "provider_register a reg = AList.update (adapter_name a) a reg"

definition provider_get :: "provider_registry \<Rightarrow> string \<Rightarrow> adapter result" where
  "provider_get reg name =
     (case map_of reg name of
        None \<Rightarrow> Inl (KeyError (''Provider not registered: '' @ name))
      | Some a \<Rightarrow> Inr a)"

text \<open>Python orders strings by code points.\<close>

fun str_le :: "string \<Rightarrow> string \<Rightarrow> bool" where
  "str_le [] t = True"
| "str_le (c # s) [] = False"
| "str_le (c # s) (d # t) = (ord c < ord d \<or> (ord c = ord d \<and> str_le s t))"

fun insert_sorted :: "string \<Rightarrow> string list \<Rightarrow> string list" where
  "insert_sorted x [] = [x]"
| "insert_sorted x (y # ys) = (if str_le x y then x # y # ys else y # insert_sorted x ys)"

definition provider_names :: "provider_registry \<Rightarrow> string list" where
  "provider_names reg = foldr insert_sorted (map fst reg) []"

definition register_providers :: "provider_registry \<Rightarrow> provider_registry" where
  "register_providers reg =
     provider_register QwenAdapter (provider_register GemmaAdapter
       (provider_register AnthropicAdapter (provider_register OpenAIAdapter reg)))"

section \<open>The catalog route\<close>

record model_view =
  mv_id :: string
  mv_provider :: string
  mv_modalities :: "string list"
  mv_input_per_million :: pyfloat
  mv_output_per_million :: pyfloat
  mv_cached_input_per_million :: "pyfloat option"

definition model_view_of :: "string \<Rightarrow> adapter \<Rightarrow> string \<times> pricing_tier \<Rightarrow> model_view" where
  "model_view_of provider_name a row =
     \<lparr>mv_id = provider_name @ ''/'' @ fst row, mv_provider = provider_name,
      mv_modalities = supported_modalities a,
      mv_input_per_million = py_float (dec_val (pt_input (snd row))),
      mv_output_per_million = py_float (dec_val (pt_output (snd row))),
      mv_cached_input_per_million = map_option (\<lambda>d. py_float (dec_val d)) (pt_cached_input (snd row))\<rparr>"

definition list_models :: "provider_registry \<Rightarrow> model_view list result" where
  "list_models reg =
     res_bind (map_result (\<lambda>n. res_bind (provider_get reg n) (\<lambda>a. Inr (map (model_view_of n a) (pricing_table a))))
         (provider_names reg))
       (\<lambda>vss. Inr (concat vss))"

section \<open>Requests\<close>

text \<open>On messages that are objects, splitting never raises.\<close>

definition is_message :: "json \<Rightarrow> bool" where
  "is_message m = (case m of JObj d \<Rightarrow> True | _ \<Rightarrow> False)"

definition message_role :: "json \<Rightarrow> json" where
  "message_role m = (case m of JObj d \<Rightarrow> (case map_of d ''role'' of None \<Rightarrow> JNull | Some r \<Rightarrow> r) | _ \<Rightarrow> JNull)"

definition is_system :: "json \<Rightarrow> bool" where
  "is_system m \<longleftrightarrow> message_role m = JStr ''system''"

definition content_text :: "json \<Rightarrow> string" where
  "content_text m = (case m of JObj d \<Rightarrow> py_str (case map_of d ''content'' of None \<Rightarrow> JStr [] | Some c \<Rightarrow> c) | _ \<Rightarrow> [])"

lemma split_messages_result:
  "list_all is_message ms \<Longrightarrow>
    split_messages ms = Inr (map content_text (filter is_system ms), filter (\<lambda>m. \<not> is_system m) ms)"
proof (induction ms)
  case (Cons m ms)
  then obtain d where "m = JObj d" by (cases m) (auto simp: is_message_def)
  with Cons show ?case by (simp add: is_system_def message_role_def content_text_def message_text_def)
qed simp

definition system_prompt :: "json list \<Rightarrow> string option" where
  "system_prompt ms = (let parts = map content_text (filter is_system ms) in
     if parts = [] then None else Some (py_join [char_of (10 :: nat), char_of (10 :: nat)] parts))"

lemma split_system_result:
  "list_all is_message ms \<Longrightarrow> split_system ms = Inr (system_prompt ms, filter (\<lambda>m. \<not> is_system m) ms)"
  by (simp add: split_system_def split_messages_result system_prompt_def)

lemma anthropic_kwargs_result:
  assumes "list_all is_message (uq_messages req)"
  shows "anthropic_complete_kwargs req = Inr
    ([(''model'', JStr (strip_prefix (uq_model req))),
      (''messages'', JList (filter (\<lambda>m. \<not> is_system m) (uq_messages req))),
      (''max_tokens'', JInt (if uq_max_tokens req \<in> {None, Some 0} then 4096 else the (uq_max_tokens req)))]
     @ when_truthy ''system'' JStr (system_prompt (uq_messages req))
     @ when_given ''temperature'' JFloat (uq_temperature req)
     @ when_truthy ''tools'' JList (uq_tools req))"
  by (auto simp: anthropic_complete_kwargs_def split_system_result [OF assms] anthropic_base_kwargs_def split: option.split)

text \<open>What the adapters do not pass on.\<close>

definition without_sampling :: "unified_request \<Rightarrow> unified_request" where
  "without_sampling req = req\<lparr>uq_top_p := None, uq_extras := None\<rparr>"

definition model_and_messages :: "unified_request \<Rightarrow> unified_request" where
  "model_and_messages req =
     \<lparr>uq_model = uq_model req, uq_messages = uq_messages req, uq_stream = True, uq_max_tokens = uq_max_tokens req,
      uq_temperature = None, uq_top_p = None, uq_tools = None, uq_response_format = None,
      uq_reasoning_effort = None, uq_extras = None\<rparr>"

lemma dropped_parameters:
  "openai_complete create req = openai_complete create (without_sampling req)"
  "anthropic_complete create' req = anthropic_complete create' (without_sampling req)"
  "openai_stream create_s req = openai_stream create_s (model_and_messages req)"
  "anthropic_stream create_a req = anthropic_stream create_a (model_and_messages req)"
  by (simp_all add: openai_complete_def openai_complete_kwargs_def anthropic_complete_def anthropic_complete_kwargs_def
      anthropic_base_kwargs_def openai_stream_def openai_stream_kwargs_def anthropic_stream_def
      anthropic_stream_kwargs_def without_sampling_def model_and_messages_def)

section \<open>Responses\<close>

definition finish_reasons :: "string set" where
  "finish_reasons = {''stop'', ''length'', ''tool_calls''}"

lemma map_stop_reason_range: "map_stop_reason s \<in> finish_reasons"
  by (auto simp: map_stop_reason_def finish_reasons_def split: option.split dest!: map_of_SomeD)

lemma or_none_nonempty [simp]: "or_none xs \<noteq> Some []"
  by (simp add: or_none_def)

lemma anthropic_answer:
  assumes "anthropic_complete create req = Inr r"
  shows "us_finish_reason r \<in> finish_reasons" "us_tool_calls r \<noteq> Some []"
  using assms by (auto simp: anthropic_complete_def res_bind_Inr_iff map_stop_reason_range)

lemma openai_answer:
  assumes "openai_complete create req = Inr r"
  shows "us_finish_reason r \<noteq> []" "us_tool_calls r \<noteq> Some []"
proof -
  obtain resp where resp: "create (openai_complete_kwargs req) = Inr resp" "op_choices resp \<noteq> []"
    using assms by (cases "create (openai_complete_kwargs req)") (auto simp: openai_complete_def split: list.splits)
  obtain choice rest where c: "op_choices resp = choice # rest" using resp(2) by (cases "op_choices resp") auto
  have "\<exists>usage. r = \<lparr>us_id = op_id resp, us_model = op_model resp,
      us_content = (case ch_content choice of None \<Rightarrow> [] | Some s \<Rightarrow> s),
      us_finish_reason = (case ch_finish_reason choice of None \<Rightarrow> ''stop'' | Some s \<Rightarrow> if s = [] then ''stop'' else s),
      us_tool_calls = or_none (case ch_tool_calls choice of None \<Rightarrow> [] | Some xs \<Rightarrow> xs),
      us_usage = usage, us_raw = op_dump resp\<rparr>"
    using assms resp(1) c by (auto simp: openai_complete_def res_bind_Inr_iff)
  then show "us_finish_reason r \<noteq> []" "us_tool_calls r \<noteq> Some []"
    by (auto split: option.splits if_splits)
qed

text \<open>A stream that ends without an error has yielded one chunk per element.\<close>

lemma openai_chunks_complete:
  "openai_chunks xs = (cs, Inr ()) \<Longrightarrow> list_all (\<lambda>x. x \<noteq> []) xs \<and> length cs = length xs"
  by (induction xs arbitrary: cs rule: openai_chunks.induct) (auto split: prod.splits)

lemma openai_chunks_fails: "list_ex (\<lambda>x. x = []) xs \<longleftrightarrow> snd (openai_chunks xs) = Inl IndexError"
  by (induction xs rule: openai_chunks.induct) (auto split: prod.splits)

lemma openai_chunks_prefix:
  "fst (openai_chunks (xs @ [] # ys)) = fst (openai_chunks (takeWhile (\<lambda>x. x \<noteq> []) xs))"
  by (induction xs rule: openai_chunks.induct) (auto split: prod.splits)

section \<open>The registry and the catalog\<close>

lemma strip_prefix_plain: "CHR ''/'' \<notin> set m \<Longrightarrow> strip_prefix (p @ ''/'' @ m) = m" if "CHR ''/'' \<notin> set p"
  using that split_once_append [of "CHR ''/''" p m] by (simp add: strip_prefix_def)

lemma register_get: "provider_get (provider_register a reg) (adapter_name a) = Inr a"
  by (simp add: provider_get_def provider_register_def update_conv')

lemma register_get_other:
  "n \<noteq> adapter_name a \<Longrightarrow> provider_get (provider_register a reg) n = provider_get reg n"
  by (simp add: provider_get_def provider_register_def update_conv')

lemma registered: "register_providers [] = map (\<lambda>a. (adapter_name a, a))
    [OpenAIAdapter, AnthropicAdapter, GemmaAdapter, QwenAdapter]"
  by code_simp

lemma registered_names: "provider_names (register_providers []) = [''anthropic'', ''gemma'', ''openai'', ''qwen'']"
  by code_simp

text \<open>The route lists the price tables of the adapters, in the order of their names.\<close>

lemma catalog:
  "list_models (register_providers []) = Inr (concat (map (\<lambda>a. map (model_view_of (adapter_name a) a) (pricing_table a))
     [AnthropicAdapter, GemmaAdapter, OpenAIAdapter, QwenAdapter]))"
proof -
  have "provider_get (register_providers []) (adapter_name a) = Inr a" for a
    by (cases a) (simp_all add: registered provider_get_def)
  then have "map_result (\<lambda>n. res_bind (provider_get (register_providers []) n) (\<lambda>a. Inr (map (model_view_of n a) (pricing_table a))))
      (map adapter_name as) = Inr (map (\<lambda>a. map (model_view_of (adapter_name a) a) (pricing_table a)) as)" for as
    by (induction as) simp_all
  from this [of "[AnthropicAdapter, GemmaAdapter, OpenAIAdapter, QwenAdapter]"]
  show ?thesis by (simp add: list_models_def registered_names)
qed

definition adapters :: "adapter list" where
  "adapters = [OpenAIAdapter, AnthropicAdapter, GemmaAdapter, QwenAdapter]"

lemma adapters_all [simp]: "a \<in> set adapters"
  by (cases a) (simp_all add: adapters_def)

text \<open>A model of a table has its price under its own name; under its listed id only with Anthropic.\<close>

lemma own_price: "(m, t) \<in> set (pricing_table a) \<Longrightarrow> adapter_pricing a m = Inr t"
proof -
  have "list_all (\<lambda>a. list_all (\<lambda>(m, t). map_of (pricing_table a) (pricing_key a m) = Some t) (pricing_table a)) adapters"
    by code_simp
  then have "list_all (\<lambda>(m, t). map_of (pricing_table a) (pricing_key a m) = Some t) (pricing_table a)"
    using adapters_all [of a] unfolding list_all_iff by blast
  then show "(m, t) \<in> set (pricing_table a) \<Longrightarrow> adapter_pricing a m = Inr t"
    by (auto simp: list_all_iff adapter_pricing_def)
qed

lemma listed_price:
  "(m, t) \<in> set (pricing_table a) \<Longrightarrow>
    is_ok (adapter_pricing a (adapter_name a @ ''/'' @ m)) \<longleftrightarrow> a = AnthropicAdapter"
proof -
  have "list_all (\<lambda>a. list_all (\<lambda>(m, t). (map_of (pricing_table a) (pricing_key a (adapter_name a @ ''/'' @ m)) \<noteq> None)
      = (a = AnthropicAdapter)) (pricing_table a)) adapters" by code_simp
  then have "list_all (\<lambda>(m, t). (map_of (pricing_table a) (pricing_key a (adapter_name a @ ''/'' @ m)) \<noteq> None)
      = (a = AnthropicAdapter)) (pricing_table a)" using adapters_all [of a] unfolding list_all_iff by blast
  then show "(m, t) \<in> set (pricing_table a) \<Longrightarrow>
      is_ok (adapter_pricing a (adapter_name a @ ''/'' @ m)) \<longleftrightarrow> a = AnthropicAdapter"
    by (auto simp: list_all_iff adapter_pricing_def split: option.splits)
qed

end
