(* ===== verification/PricingCache.thy ===== *)
theory PricingCache
  imports Migrations Json
begin

text \<open>
  The cache-aside price lookup of \<^verbatim>\<open>app/repository/billing/pricing_repository.py\<close>: Redis holds, per
  model, a document and the time it expires; the table \<^verbatim>\<open>model_pricing\<close> is the source of truth. The
  documents are kept decoded: \<^verbatim>\<open>json.dumps\<close> and \<^verbatim>\<open>json.loads\<close> are inverse on objects of strings and
  nulls, all that is ever stored.
\<close>

record pricing_state =
  ps_redis :: "string \<Rightarrow> (json \<times> datetime) option"
  ps_table :: "pricing_row list"

type_synonym 'a pricing_action = "(pricing_state, exn, 'a) action"

definition cache_ns :: string where
  "cache_ns = ''pricing:''"

text \<open>Sixty seconds, in the microseconds of a datetime.\<close>

definition cache_ttl :: int where
  "cache_ttl = 60 * 1000000"

definition optional_price :: "json \<Rightarrow> string \<Rightarrow> decimal option result" where
  "optional_price data k =
     res_bind (json_get data k JNull) (\<lambda>v.
       if v \<noteq> JNull then res_bind (res_bind (json_item data k) dec_of_json) (\<lambda>d. Inr (Some d)) else Inr None)"

definition parse_pricing :: "json \<Rightarrow> model_pricing result" where
  "parse_pricing data =
     res_bind (res_bind (json_item data ''input_per_million'') dec_of_json) (\<lambda>i.
     res_bind (res_bind (json_item data ''output_per_million'') dec_of_json) (\<lambda>out.
     res_bind (optional_price data ''cached_input_per_million'') (\<lambda>c.
     res_bind (optional_price data ''reasoning_per_million'') (\<lambda>r. Inr
       \<lparr>input_per_million = i, output_per_million = out, cached_input_per_million = c,
        reasoning_per_million = r\<rparr>))))"

text \<open>A key whose time is up is gone.\<close>

definition redis_get :: "datetime \<Rightarrow> string \<Rightarrow> pricing_state \<Rightarrow> json option" where
  "redis_get now k s = (case ps_redis s k of None \<Rightarrow> None | Some (doc, t) \<Rightarrow> if now < t then Some doc else None)"

definition cache_get :: "datetime \<Rightarrow> string \<Rightarrow> model_pricing option pricing_action" where
  "cache_get now model_key s =
     (case redis_get now (cache_ns @ model_key) s of
        None \<Rightarrow> (Inr None, s)
      | Some data \<Rightarrow> (res_bind (parse_pricing data) (\<lambda>p. Inr (Some p)), s))"

definition json_price :: "decimal option \<Rightarrow> json" where
  "json_price d = (case d of None \<Rightarrow> JNull | Some x \<Rightarrow> JStr (dec_str x))"

definition pricing_body :: "model_pricing \<Rightarrow> json" where
  "pricing_body p = JObj
     [(''input_per_million'', JStr (dec_str (input_per_million p))),
      (''output_per_million'', JStr (dec_str (output_per_million p))),
      (''cached_input_per_million'', json_price (cached_input_per_million p)),
      (''reasoning_per_million'', json_price (reasoning_per_million p))]"

definition cache_set :: "datetime \<Rightarrow> string \<Rightarrow> model_pricing \<Rightarrow> unit pricing_action" where
  "cache_set now model_key p s =
     (Inr (), s\<lparr>ps_redis := (ps_redis s)(cache_ns @ model_key := Some (pricing_body p, now + cache_ttl))\<rparr>)"

definition row_pricing :: "pricing_row \<Rightarrow> model_pricing" where
  "row_pricing r =
     \<lparr>input_per_million = p_input r, output_per_million = p_output r, cached_input_per_million = p_cached r,
      reasoning_per_million = p_reasoning r\<rparr>"

text \<open>\<^verbatim>\<open>one_or_none\<close> raises when there are several rows; the primary key rules that out.\<close>

definition db_get :: "string \<Rightarrow> model_pricing option pricing_action" where
  "db_get model_key s =
     (case filter (\<lambda>r. p_model_key r = model_key \<and> p_active r) (ps_table s) of
        [] \<Rightarrow> (Inr None, s)
      | [r] \<Rightarrow> (Inr (Some (row_pricing r)), s)
      | _ \<Rightarrow> (Inl (DbError ''multiple rows''), s))"

definition pricing_get :: "datetime \<Rightarrow> string \<Rightarrow> model_pricing option pricing_action" where
  "pricing_get now model_key =
     bind (cache_get now model_key) (\<lambda>cached.
       if cached \<noteq> None then return cached
       else bind (db_get model_key) (\<lambda>loaded.
              case loaded of
                None \<Rightarrow> return None
              | Some p \<Rightarrow> bind (cache_set now model_key p) (\<lambda>_. return loaded)))"

definition invalidate :: "string \<Rightarrow> unit pricing_action" where
  "invalidate model_key s = (Inr (), s\<lparr>ps_redis := (ps_redis s)(cache_ns @ model_key := None)\<rparr>)"

section \<open>The stored text loses nothing\<close>

lemma parse_pricing_body: "parse_pricing (pricing_body p) = Inr p"
  by (cases "cached_input_per_million p"; cases "reasoning_per_million p")
    (simp_all add: parse_pricing_def pricing_body_def optional_price_def json_price_def dec_parse_str)

section \<open>What a lookup answers\<close>

text \<open>Only this code writes the cache, and the table has a primary key.\<close>

definition pricing_ok_state :: "pricing_state \<Rightarrow> bool" where
  "pricing_ok_state s \<longleftrightarrow> (\<forall>k doc t. ps_redis s k = Some (doc, t) \<longrightarrow> (\<exists>p. doc = pricing_body p))
     \<and> distinct (map p_model_key (ps_table s))"

definition table_price :: "string \<Rightarrow> pricing_state \<Rightarrow> model_pricing option" where
  "table_price m s = map_option row_pricing (find (\<lambda>r. p_model_key r = m \<and> p_active r) (ps_table s))"

lemma filter_key_active:
  "distinct (map p_model_key rs) \<Longrightarrow>
    filter (\<lambda>r. p_model_key r = m \<and> p_active r) rs
      = (case find (\<lambda>r. p_model_key r = m \<and> p_active r) rs of None \<Rightarrow> [] | Some r \<Rightarrow> [r])"
proof (induction rs)
  case (Cons r rs)
  have "filter (\<lambda>x. p_model_key x = m \<and> p_active x) rs = []" if "p_model_key r = m"
    using Cons.prems that by (auto simp: filter_empty_conv image_iff)
  with Cons show ?case by auto
qed simp

lemma db_get_table: "pricing_ok_state s \<Longrightarrow> db_get m s = (Inr (table_price m s), s)"
  by (simp add: db_get_def pricing_ok_state_def filter_key_active table_price_def split: option.split)

lemma pricing_get_hit:
  "redis_get now (cache_ns @ m) s = Some (pricing_body p) \<Longrightarrow> pricing_get now m s = (Inr (Some p), s)"
  by (simp add: pricing_get_def cache_get_def bind_def parse_pricing_body)

lemma pricing_get_miss:
  assumes "pricing_ok_state s" "redis_get now (cache_ns @ m) s = None"
  shows "pricing_get now m s = (Inr (table_price m s),
    case table_price m s of None \<Rightarrow> s
    | Some p \<Rightarrow> s\<lparr>ps_redis := (ps_redis s)(cache_ns @ m := Some (pricing_body p, now + cache_ttl))\<rparr>)"
  using db_get_table [OF assms(1), of m]
  by (simp add: pricing_get_def cache_get_def bind_def assms(2) cache_set_def split: option.split)

lemma redis_get_body:
  "pricing_ok_state s \<Longrightarrow> redis_get now k s = Some doc \<Longrightarrow> \<exists>p. doc = pricing_body p"
  by (auto simp: redis_get_def pricing_ok_state_def split: option.splits if_splits) blast

text \<open>A lookup answers with the cached price while it lives, else with the price in the table.\<close>

lemma pricing_get_cases:
  assumes ok: "pricing_ok_state s"
  obtains (hit) p where "redis_get now (cache_ns @ m) s = Some (pricing_body p)"
    "pricing_get now m s = (Inr (Some p), s)"
  | (miss) "redis_get now (cache_ns @ m) s = None" "fst (pricing_get now m s) = Inr (table_price m s)"
proof (cases "redis_get now (cache_ns @ m) s")
  case None
  with pricing_get_miss [OF ok] show ?thesis by (intro miss) simp_all
next
  case (Some doc)
  then obtain p where "doc = pricing_body p" using redis_get_body [OF ok] by blast
  with Some show ?thesis using hit [of p] pricing_get_hit [of now m s p] by simp
qed

lemma pricing_get_ok: "pricing_ok_state s \<Longrightarrow> pricing_ok_state (snd (pricing_get now m s))"
proof (cases "redis_get now (cache_ns @ m) s")
  case None
  assume "pricing_ok_state s"
  with None show ?thesis by (simp add: pricing_get_miss) (auto simp: pricing_ok_state_def split: option.split)
next
  case (Some doc)
  assume ok: "pricing_ok_state s"
  then obtain p where "doc = pricing_body p" using redis_get_body Some by blast
  with Some ok show ?thesis by (simp add: pricing_get_hit)
qed

text \<open>How stale an answer can be: whatever happens to the table, for at most the time to live.\<close>

lemma pricing_staleness:
  assumes ok: "pricing_ok_state s" and miss: "redis_get t0 (cache_ns @ m) s = None"
    and p: "pricing_get t0 m s = (Inr (Some p), s1)"
    and same: "ps_redis s2 (cache_ns @ m) = ps_redis s1 (cache_ns @ m)" and ok2: "pricing_ok_state s2"
  shows "fst (pricing_get t m s2) = Inr (if t < t0 + cache_ttl then Some p else table_price m s2)"
proof -
  have "ps_redis s1 (cache_ns @ m) = Some (pricing_body p, t0 + cache_ttl)"
    using p pricing_get_miss [OF ok miss] by (auto split: option.splits)
  with same have r: "redis_get t (cache_ns @ m) s2 = (if t < t0 + cache_ttl then Some (pricing_body p) else None)"
    by (simp add: redis_get_def)
  show ?thesis
  proof (cases "t < t0 + cache_ttl")
    case True
    with r pricing_get_hit [of t m s2 p] show ?thesis by simp
  next
    case False
    with r pricing_get_miss [OF ok2, of t m] show ?thesis by simp
  qed
qed

lemma invalidate_then_get:
  assumes "pricing_ok_state s"
  shows "fst (bind (invalidate m) (\<lambda>_. pricing_get now m) s) = Inr (table_price m s)"
proof -
  let ?s = "s\<lparr>ps_redis := (ps_redis s)(cache_ns @ m := None)\<rparr>"
  have "pricing_ok_state ?s" using assms by (auto simp: pricing_ok_state_def)
  moreover have "redis_get now (cache_ns @ m) ?s = None" by (simp add: redis_get_def)
  ultimately have "fst (pricing_get now m ?s) = Inr (table_price m ?s)" by (simp add: pricing_get_miss)
  then show ?thesis by (simp add: bind_def invalidate_def table_price_def)
qed

end
