(* ===== verification/SystemRuns.thy ===== *)
theory SystemRuns
  imports ApiRoutes GrpcAuth
begin

text \<open>
  Runs of the backend: any sequence of requests over HTTP and gRPC, metering calls and Stripe
  webhooks, each against the database its predecessors committed. Every step reports what it means
  to an abstract ledger: a charge to an organization, a credit, or nothing. The theory shows that
  the committed database keeps its invariant, that its balances and usage records follow the
  ledger, and that a revoked key stays revoked.
\<close>

section \<open>Two-state properties of an action\<close>

definition evolves :: "('s \<Rightarrow> 's \<Rightarrow> bool) \<Rightarrow> ('s, 'e, 'a) action \<Rightarrow> bool" where
  "evolves R m \<longleftrightarrow> (\<forall>s. R s (snd (m s)))"

named_theorems evolves_intros \<open>how an action relates the store before and after\<close>

lemma evolvesI: "(\<And>s. R s (snd (m s))) \<Longrightarrow> evolves R m"
  by (simp add: evolves_def)

lemma evolvesD: "evolves R m \<Longrightarrow> R s (snd (m s))"
  by (simp add: evolves_def)

text \<open>What a step outside billing does to the database: books untouched, revocations kept.\<close>

definition key_dead :: "database \<Rightarrow> uuid \<Rightarrow> string \<Rightarrow> string \<Rightarrow> bool" where
  "key_dead db i lookup hash \<longleftrightarrow>
     (\<exists>k. sql_view db i = Some k \<and> revoked_at k \<noteq> None \<and> key_lookup k = lookup \<and> key_hash k = hash)"

definition keeps_dead :: "database \<Rightarrow> database \<Rightarrow> bool" where
  "keeps_dead db db' \<longleftrightarrow> (\<forall>i lookup hash. key_dead db i lookup hash \<longrightarrow> key_dead db' i lookup hash)"

definition benign :: "database \<Rightarrow> database \<Rightarrow> bool" where
  "benign db db' \<longleftrightarrow> (db_ok db \<longrightarrow> db_ok db' \<and> credit_balances db' = credit_balances db
     \<and> usage_records db' = usage_records db \<and> keeps_dead db db')"

definition benign_uow :: "uow \<Rightarrow> uow \<Rightarrow> bool" where
  "benign_uow u u' \<longleftrightarrow> benign (committed u) (committed u')"

lemma keeps_dead_refl [simp]: "keeps_dead db db"
  by (simp add: keeps_dead_def)

lemma benign_refl [simp]: "benign db db"
  by (simp add: benign_def)

lemma benign_trans: "benign a b \<Longrightarrow> benign b c \<Longrightarrow> benign a c"
  by (auto simp: benign_def keeps_dead_def)

lemma benign_uow_refl [simp]: "benign_uow u u"
  by (simp add: benign_uow_def)

lemma benign_uow_trans: "benign_uow a b \<Longrightarrow> benign_uow b c \<Longrightarrow> benign_uow a c"
  by (auto simp: benign_uow_def intro: benign_trans)

lemma evolves_bind_gen:
  assumes "\<And>a b c. R a b \<Longrightarrow> R b c \<Longrightarrow> R a c" "evolves R m" "\<And>x. evolves R (f x)"
  shows "evolves R (bind m f)"
proof (rule evolvesI)
  fix s
  have "R s (snd (m s))" using assms(2) by (rule evolvesD)
  moreover have "R t (snd (f x t))" for x t using assms(3) by (rule evolvesD)
  ultimately show "R s (snd (bind m f s))"
    using assms(1) by (cases "m s") (auto simp: bind_def split: sum.split)
qed

lemma evolves_bind [evolves_intros]:
  "evolves benign m \<Longrightarrow> (\<And>x. evolves benign (f x)) \<Longrightarrow> evolves benign (bind m f)"
  "evolves benign_uow m' \<Longrightarrow> (\<And>x. evolves benign_uow (g x)) \<Longrightarrow> evolves benign_uow (bind m' g)"
  by (blast intro: evolves_bind_gen benign_trans benign_uow_trans)+

lemma evolves_pure [evolves_intros]:
  "evolves benign (return x)" "evolves benign (throw e)" "evolves benign (lift r)"
  "evolves benign_uow (return x)" "evolves benign_uow (throw e)" "evolves benign_uow (lift r)"
  by (simp_all add: evolves_def)

lemma evolves_if [evolves_intros]: "evolves R m \<Longrightarrow> evolves R n \<Longrightarrow> evolves R (if b then m else n)"
  by simp

lemma evolves_option [evolves_intros]:
  "evolves R m \<Longrightarrow> (\<And>x. evolves R (f x)) \<Longrightarrow> evolves R (case opt of None \<Rightarrow> m | Some x \<Rightarrow> f x)"
  by (cases opt) simp_all

lemma evolves_committing [evolves_intros]: "evolves benign m \<Longrightarrow> evolves benign_uow (with_uow (committing m))"
proof (rule evolvesI)
  fix u :: uow
  assume "evolves benign m"
  then have "benign (committed u) (snd (m (committed u)))" by (rule evolvesD)
  then show "benign_uow u (snd (with_uow (committing m) u))"
    by (auto simp: with_committing benign_uow_def split: sum.split prod.split)
qed

lemma evolves_reading [evolves_intros]: "evolves benign_uow (with_uow (in_session m))"
  by (rule evolvesI) (simp add: with_reading benign_uow_def)

lemma evolves_pair [evolves_intros]: "(\<And>x y. evolves R (f x y)) \<Longrightarrow> evolves R (case p of (x, y) \<Rightarrow> f x y)"
  by (cases p) simp

lemma evolves_readonly: "(\<And>s. snd (m s) = s) \<Longrightarrow> evolves benign m"
  by (simp add: evolves_def)

section \<open>Repository operations outside billing\<close>

lemma keeps_dead_same_keys: "api_keys db' = api_keys db \<Longrightarrow> keeps_dead db db'"
  by (simp add: keeps_dead_def key_dead_def sql_view_def)

lemma keys_add_benign [evolves_intros]: "evolves benign (keys_add env k)"
proof (rule evolvesI)
  fix db
  show "benign db (snd (keys_add env k db))"
  proof (cases "keys_add env k db")
    case (Pair r db')
    show ?thesis
    proof (cases r)
      case (Inl e)
      with Pair keys_add_error [of env k db] show ?thesis by simp
    next
      case (Inr x)
      have "keeps_dead db db'" if ok: "db_ok db"
      proof -
        have add: "keys_add env k db = (Inr x, db')" using Pair Inr by simp
        have fresh: "sql_view db (key_id k) = None"
          using keys_add_result(5) [OF ok add] by (simp add: sql_view_def by_key_None_iff [THEN iffD2])
        show ?thesis unfolding keeps_dead_def
        proof (intro allI impI)
          fix i lookup hash assume "key_dead db i lookup hash"
          then show "key_dead db' i lookup hash"
            using fresh by (auto simp: key_dead_def keys_add_result(3) [OF ok add])
        qed
      qed
      with Pair Inr keys_add_result(1,4) show ?thesis by (fastforce simp: benign_def)
    qed
  qed
qed

lemma keys_revoke_benign [evolves_intros]: "evolves benign (keys_revoke t i reason)"
proof (rule evolvesI)
  fix db
  show "benign db (snd (keys_revoke t i reason db))"
  proof (cases "keys_revoke t i reason db")
    case (Pair r db')
    show ?thesis
    proof (cases r)
      case (Inl e)
      with Pair have "db' = db" by (auto simp: keys_revoke_def split: if_splits)
      with Pair show ?thesis by simp
    next
      case (Inr x)
      have "keeps_dead db db'" if ok: "db_ok db"
      proof -
        have rv: "keys_revoke t i reason db = (Inr x, db')" using Pair Inr by simp
        show ?thesis unfolding keeps_dead_def
        proof (intro allI impI)
          fix j lookup hash assume "key_dead db j lookup hash"
          then show "key_dead db' j lookup hash"
            by (auto simp: key_dead_def keys_revoke_result(2) [OF ok rv])
        qed
      qed
      moreover have "credit_balances db' = credit_balances db" "usage_records db' = usage_records db"
        using Pair by (auto simp: keys_revoke_def split: if_splits)
      ultimately show ?thesis using Pair Inr keys_revoke_result(1) by (fastforce simp: benign_def)
    qed
  qed
qed

lemma insert_user_benign [evolves_intros]: "is_ok (UserRole (u_role r)) \<Longrightarrow> evolves benign (insert_user r)"
  using keepsD [OF insert_user_ok]
  by (intro evolvesI) (auto simp: benign_def insert_user_def checked_insert_def keeps_dead_same_keys split: if_splits)

lemma insert_organization_benign [evolves_intros]: "evolves benign (insert_organization r)"
  using keepsD [OF insert_organization_ok]
  by (intro evolvesI)
    (auto simp: benign_def insert_organization_def checked_insert_def keeps_dead_same_keys split: if_splits)

lemma users_add_benign [evolves_intros]: "evolves benign (users_add env u)"
  unfolding users_add_def by (intro evolves_intros) (simp add: UserRole_value del: role_value.simps)

lemma organizations_add_benign [evolves_intros]: "evolves benign (organizations_add env g)"
  unfolding organizations_add_def by (intro evolves_intros)

lemma reads_benign [evolves_intros]:
  "evolves benign (users_get i)" "evolves benign (users_find_by_email e)" "evolves benign (keys_get i)"
  "evolves benign (keys_list_for_org org)" "evolves benign (usage_aggregate_for_period env org start stop)"
  by (simp_all add: evolves_def users_get_def users_find_by_email_def keys_get_def keys_list_for_org_def
      usage_aggregate_for_period_def)

lemma find_or_provision_benign [evolves_intros]: "evolves benign (find_or_provision env e email)"
  unfolding find_or_provision_def provision_user_def by (intro evolves_intros)

lemma revoke_user_keys_benign [evolves_intros]: "evolves benign (revoke_user_keys clock n user ks)"
  by (induction ks arbitrary: n) (auto intro!: evolves_intros)

section \<open>Requests outside billing\<close>

lemma get_current_auth_benign [evolves_intros]: "evolves benign_uow (get_current_auth c now h)"
  by (rule evolvesI) (simp add: benign_uow_def get_current_auth_readonly)

lemma write_audit_benign: "benign_uow u (snd (write_audit row u))"
  using write_audit_ok [of u row]
  by (auto simp: benign_uow_def benign_def write_audit_def insert_audit_log_def checked_insert_def
      keeps_dead_same_keys split: if_splits)

lemma audit_log_benign [evolves_intros]:
  "evolves benign_uow handler \<Longrightarrow> evolves benign_uow (audit_log env e action tt target auth handler)"
  unfolding audit_log_def by (intro evolves_intros) (auto intro!: evolvesI simp: write_audit_benign)

lemma require_permission_benign [evolves_intros]:
  "evolves benign_uow handler \<Longrightarrow> evolves benign_uow (require_permission p auth handler)"
  unfolding require_permission_def by (intro evolves_intros)

lemma create_key_benign [evolves_intros]: "evolves benign_uow (create_key env c key_prefix e cmd)"
proof (rule evolvesI)
  fix u :: uow
  have "benign (committed u) (snd (keys_add env (issue_key c key_prefix e cmd) (committed u)))"
    by (rule evolvesD [OF keys_add_benign])
  then show "benign_uow u (snd (create_key env c key_prefix e cmd u))"
    by (auto simp: create_key_committing benign_uow_def split: sum.split prod.split)
qed

lemma revoke_key_benign [evolves_intros]: "evolves benign_uow (revoke_key t i reason)"
  unfolding revoke_key_def by (intro evolves_intros)

lemma exchange_benign [evolves_intros]: "evolves benign_uow (exchange env http sign e cmd)"
proof -
  have "evolves benign (case email of JStr s \<Rightarrow> find_or_provision env e s
      | _ \<Rightarrow> throw (DbError ''invalid input for query argument''))" for email
    by (cases email) (simp_all add: evolves_intros)
  then show ?thesis unfolding exchange_def by (intro evolves_intros)
qed

lemma routes_benign:
  "evolves benign_uow (create_key_route e key_prefix ke body)"
  "evolves benign_uow (list_keys_route e)"
  "evolves benign_uow (revoke_key_route e t i)"
  "evolves benign_uow (suspend_user_route e clock i)"
  "evolves benign_uow (get_balance_route e)"
  "evolves benign_uow (get_usage_route e tm start stop)"
  "evolves benign_uow (purchase_credits_route e stripe amount_usd)"
  "evolves benign_uow (exchange_route env http sign oe b)"
  "evolves benign_uow (validate_for_request c now p model)"
  "evolves benign_uow (ValidateKey env now h)"
  "evolves benign_uow (RevokeKey now key_text reason)"
  unfolding create_key_route_def list_keys_route_def revoke_key_route_def suspend_user_route_def suspend_user_def
    get_balance_route_def get_usage_route_def Let_def purchase_credits_route_def exchange_route_def validate_for_request_def
    ValidateKey_def RevokeKey_def
  by (intro evolves_intros; auto intro!: evolves_intros split: sum.split)+

section \<open>Metering and credits as ledger entries\<close>

datatype ledger_event = Charge uuid | Credit uuid rat | Quiet

definition worth :: "uuid \<Rightarrow> database \<Rightarrow> rat" where
  "worth org db = balance_of org db + spent org db"

definition good_db :: "database \<Rightarrow> bool" where
  "good_db db \<longleftrightarrow> db_ok db \<and> solvent db"

definition entry_amount :: "uuid \<Rightarrow> ledger_event \<Rightarrow> rat" where
  "entry_amount org l = (case l of Credit o' x \<Rightarrow> if o' = org then x else 0 | _ \<Rightarrow> 0)"

definition entry_charges :: "uuid \<Rightarrow> ledger_event \<Rightarrow> rat" where
  "entry_charges org l = (case l of Charge o' \<Rightarrow> if o' = org then 1 else 0 | _ \<Rightarrow> 0)"

text \<open>
  What one entry may do: a credit adds its amount, a charge moves money from the balance to the
  usage records up to a millionth of a dollar of rounding, anything else moves nothing.
\<close>

definition ledger_step :: "database \<Rightarrow> ledger_event \<Rightarrow> database \<Rightarrow> bool" where
  "ledger_step db l db' \<longleftrightarrow> good_db db' \<and> keeps_dead db db' \<and> (case l of Credit _ x \<Rightarrow> 0 \<le> x | _ \<Rightarrow> True)
     \<and> (\<forall>org. 10 ^ 6 * \<bar>worth org db' - worth org db - entry_amount org l\<bar> \<le> entry_charges org l)"

lemma balance_of_credit: "credit_balances db' = credit_balances db \<Longrightarrow> balance_of org db' = balance_of org db"
  by (simp add: balance_of_def avail_def)

lemma benign_ledger_step: "benign db db' \<Longrightarrow> good_db db \<Longrightarrow> ledger_step db Quiet db'"
proof -
  assume b: "benign db db'" and g: "good_db db"
  then have "db_ok db" by (simp add: good_db_def)
  with b have s: "db_ok db'" "credit_balances db' = credit_balances db" "usage_records db' = usage_records db"
    "keeps_dead db db'" by (simp_all add: benign_def)
  have "avail org db' = avail org db" for org using s(2) by (simp add: avail_def)
  then have "solvent db' = solvent db" by (simp add: solvent_def)
  moreover have "worth org db' = worth org db" for org
    using s(3) balance_of_credit [OF s(2)] by (simp add: worth_def spent_def)
  ultimately show ?thesis
    unfolding ledger_step_def using s(1,4) g by (simp add: good_db_def entry_amount_def entry_charges_def)
qed

lemma meter_worth:
  assumes num: "numeric_column (db_numeric env)" and db: "db_ok (committed u)"
    and m: "meter env i now cmd u = (Inr r, u')"
  shows "10 ^ 6 * \<bar>worth org (committed u') - worth org (committed u)\<bar> \<le> (if org = mu_org_id cmd then 1 else 0)"
proof -
  obtain c where c: "money_ok c" "meter_work env i now cmd c (committed u) = (Inr r, committed u')"
    using meter_success [OF m] by blast
  obtain cn where cn: "db_numeric env (amount c) = Inr cn"
    "spent org (committed u') = (if org = mu_org_id cmd then spent org (committed u) + dec_val cn
       else spent org (committed u))"
    using meter_work_spent [OF num db c] by blast
  note av = meter_work_avail [OF num db c, of org]
  show ?thesis
  proof (cases "org = mu_org_id cmd")
    case False
    with av cn(2) show ?thesis by (simp add: worth_def balance_of_def)
  next
    case True
    show ?thesis
    proof (cases "avail org (committed u)")
      case (Some v)
      with True meter_drift [OF num db m, of v] show ?thesis
        by (auto simp: worth_def balance_of_def)
    next
      case None
      with av True have z: "\<not> dec_zero < amount c" "avail org (committed u') = None"
        by (auto split: if_splits)
      then have "dec_val (amount c) = 0" using c(1) by (simp add: dec_order money_ok_def)
      moreover from this have "cents_ok (amount c)" by (simp add: cents_ok_def on_grid_def)
      ultimately have "dec_val cn = 0" using numeric_column.num_cents [OF num _ cn(1)] by simp
      with z(2) None cn(2) True show ?thesis by (simp add: worth_def balance_of_def)
    qed
  qed
qed

lemma meter_keys:
  assumes num: "numeric_column (db_numeric env)" and db: "db_ok (committed u)"
  shows "api_keys (committed (snd (meter env i now cmd u))) = api_keys (committed u)"
proof (cases "meter env i now cmd u")
  case (Pair res u')
  show ?thesis
  proof (cases res)
    case (Inl e)
    with Pair meter_failure_keeps_database [of env i now cmd u e] show ?thesis by simp
  next
    case (Inr r)
    then obtain c where c: "money_ok c" "meter_work env i now cmd c (committed u) = (Inr r, committed u')"
      using meter_success Pair by blast
    obtain cn db1 where *: "if dec_zero < amount c
       then covers (mu_org_id cmd) c (committed u) \<and> credits_deduct_atomic env (mu_org_id cmd) c (committed u) = (Inr True, db1)
       else db1 = committed u"
      "committed u' = db1\<lparr>usage_records := usage_records db1 @ [usage_to_row (db_now env) cn r]\<rparr>"
      using meter_work_Inr [OF num db c] by blast
    have "api_keys db1 = api_keys (committed u)"
    proof (cases "dec_zero < amount c")
      case True
      with *(1) show ?thesis by (auto simp: credits_deduct_atomic_def split: sum.splits)
    next
      case False
      with *(1) show ?thesis by simp
    qed
    with * Pair show ?thesis by simp
  qed
qed

definition meter_event :: "meter_usage_command \<Rightarrow> usage_record result \<Rightarrow> ledger_event" where
  "meter_event cmd res = (if is_ok res then Charge (mu_org_id cmd) else Quiet)"

lemma meter_ledger_step:
  assumes num: "numeric_column (db_numeric env)" and good: "good_db (committed u)"
    and m: "meter env i now cmd u = (res, u')"
  shows "ledger_step (committed u) (meter_event cmd res) (committed u')"
proof -
  have ok: "db_ok (committed u)" "solvent (committed u)" using good by (simp_all add: good_db_def)
  have "good_db (committed u')"
    using meter_ok [OF num ok(1), of i now cmd] meter_solvent [OF num ok, of i now cmd] m by (simp add: good_db_def)
  moreover have "keeps_dead (committed u) (committed u')"
    using meter_keys [OF num ok(1), of i now cmd] m by (simp add: keeps_dead_same_keys)
  moreover have "10 ^ 6 * \<bar>worth org (committed u') - worth org (committed u)\<bar>
      \<le> entry_charges org (meter_event cmd res)" for org
  proof (cases res)
    case (Inl e)
    with m meter_failure_keeps_database [of env i now cmd u e] show ?thesis
      by (simp add: entry_charges_def meter_event_def)
  next
    case (Inr r)
    with m have "meter env i now cmd u = (Inr r, u')" by simp
    from meter_worth [OF num ok(1) this, of org] Inr show ?thesis
      by (auto simp: entry_charges_def meter_event_def)
  qed
  ultimately show ?thesis by (auto simp: ledger_step_def meter_event_def entry_amount_def)
qed

section \<open>Webhooks as ledger entries\<close>

text \<open>The organization and the amount a payment names, when handling it gets that far.\<close>

definition intent_credit :: "json \<Rightarrow> (uuid \<times> json) option result" where
  "intent_credit obj =
     res_bind (json_get obj ''metadata'' JNull) (\<lambda>m.
     res_bind (json_get (json_or m (JObj [])) ''org_id'' JNull) (\<lambda>org_id_str.
       if \<not> truthy org_id_str then Inr None
       else res_bind (uuid_of_json org_id_str) (\<lambda>org.
            res_bind (json_get obj ''amount'' (JInt 0)) (\<lambda>a. Inr (Some (org, a))))))"

definition event_credit :: "json \<Rightarrow> (uuid \<times> json) option" where
  "event_credit event =
     (case res_bind (json_get event ''type'' (JStr [])) (\<lambda>event_type.
           res_bind (json_get event ''data'' (JObj [])) (\<lambda>data.
           res_bind (json_get data ''object'' (JObj [])) (\<lambda>obj.
             if event_type = JStr ''payment_intent.succeeded'' then intent_credit obj else Inr None))) of
        Inl e \<Rightarrow> None
      | Inr x \<Rightarrow> x)"

text \<open>Stripe documents amounts as whole cents of at most eight digits.\<close>

definition event_ok :: "json \<Rightarrow> bool" where
  "event_ok event =
     (case event_credit event of
        Some (org, JInt n) \<Rightarrow> 0 \<le> n \<and> n < 10 ^ 8
      | Some _ \<Rightarrow> False
      | None \<Rightarrow> True)"

definition webhook_event :: "json \<Rightarrow> 'a result \<Rightarrow> ledger_event" where
  "webhook_event event res =
     (case event_credit event of
        Some (org, JInt n) \<Rightarrow> if is_ok res then Credit org (of_int n / 100) else Quiet
      | _ \<Rightarrow> Quiet)"

lemma credit_org_cases:
  "case intent_credit obj of
     Inr (Some (org, a)) \<Rightarrow> credit_org env obj db
       = bind (lift (dec_of_json a)) (\<lambda>d.
         bind (lift (case dec_div d cents_per_dollar of None \<Rightarrow> Inl DivisionByZero | Some x \<Rightarrow> Inr x))
           (\<lambda>x. apply_credit env org x)) db
   | _ \<Rightarrow> snd (credit_org env obj db) = db"
  by (simp add: intent_credit_def credit_org_def res_bind_def split: sum.split)

lemma handle_webhook_other:
  assumes "json_get event ''type'' (JStr []) = Inr ty" "ty \<noteq> JStr ''payment_intent.succeeded''"
  shows "snd (handle_webhook env event db) = db"
  using assms by (simp add: handle_webhook_def split: sum.split)

lemma handle_webhook_reads:
  assumes "json_get event ''type'' (JStr []) = Inr (JStr ''payment_intent.succeeded'')"
  shows "handle_webhook env event db
    = (case res_bind (json_get event ''data'' (JObj [])) (\<lambda>data. json_get data ''object'' (JObj [])) of
         Inl e \<Rightarrow> (Inl e, db)
       | Inr obj \<Rightarrow> credit_org env obj db)"
  using assms by (simp add: handle_webhook_def res_bind_def split: sum.split)

lemma handle_webhook_cases:
  "case event_credit event of
     Some (org, a) \<Rightarrow> handle_webhook env event db
       = bind (lift (dec_of_json a)) (\<lambda>d.
         bind (lift (case dec_div d cents_per_dollar of None \<Rightarrow> Inl DivisionByZero | Some x \<Rightarrow> Inr x))
           (\<lambda>x. apply_credit env org x)) db
   | None \<Rightarrow> snd (handle_webhook env event db) = db"
proof (cases "json_get event ''type'' (JStr [])")
  case (Inl e)
  then show ?thesis by (simp add: event_credit_def handle_webhook_def)
next
  case (Inr ty)
  show ?thesis
  proof (cases "ty = JStr ''payment_intent.succeeded''")
    case False
    moreover have "event_credit event = None"
      using Inr False by (simp add: event_credit_def res_bind_def split: sum.split)
    ultimately show ?thesis using handle_webhook_other [OF Inr] by simp
  next
    case True
    let ?o = "res_bind (json_get event ''data'' (JObj [])) (\<lambda>data. json_get data ''object'' (JObj []))"
    have e: "event_credit event = (case res_bind ?o intent_credit of Inl e \<Rightarrow> None | Inr x \<Rightarrow> x)"
      using Inr True by (auto simp: event_credit_def res_bind_def split: sum.splits)
    show ?thesis
    proof (cases ?o)
      case (Inl err)
      with e handle_webhook_reads [of event env db] Inr True show ?thesis by simp
    next
      case (Inr obj)
      with handle_webhook_reads [of event env db] True \<open>json_get event ''type'' (JStr []) = Inr ty\<close>
      have "handle_webhook env event db = credit_org env obj db" by simp
      moreover have "event_credit event = (case intent_credit obj of Inl e \<Rightarrow> None | Inr x \<Rightarrow> x)"
        unfolding e Inr by simp
      ultimately show ?thesis using credit_org_cases [where obj = obj and env = env and db = db] by (auto split: sum.splits option.splits)
    qed
  qed
qed

text \<open>A value too large for the column is refused.\<close>

lemma numeric_overflow:
  assumes num: "numeric_column num" and d: "num d = Inr d'" and grid: "on_grid 6 (dec_val d)"
  shows "\<bar>dec_val d\<bar> < 10 ^ 8"
proof -
  have r: "on_grid 6 (dec_val d')" "\<bar>dec_val d'\<bar> < 10 ^ 8"
    using numeric_column.num_range [OF num d] by (simp_all add: cents_ok_def)
  obtain m where m: "(dec_val d' - dec_val d) * 10 ^ 6 = of_int m"
    using on_grid_diff [OF r(1) grid] by (auto simp: on_grid_def elim: Ints_cases)
  have "2 * \<bar>(dec_val d' - dec_val d) * 10 ^ 6\<bar> \<le> 1"
    using numeric_column.num_close [OF num d] unfolding abs_mult by simp
  then have "2 * \<bar>of_int m\<bar> \<le> (1 :: rat)" unfolding m .
  then have "of_int (2 * \<bar>m\<bar>) \<le> (of_int 1 :: rat)" by simp
  then have "2 * \<bar>m\<bar> \<le> 1" by (simp only: of_int_le_iff)
  then have "m = 0" by linarith
  with m have "dec_val d' = dec_val d" by simp
  with r(2) show ?thesis by simp
qed

lemma apply_credit_error: "apply_credit env org x db = (Inl e, db') \<Longrightarrow> db' = db"
  by (auto simp: apply_credit_def bind_def insert_credit_def checked_insert_def Let_def
      split: option.splits sum.splits if_splits)

lemma apply_credit_fits:
  assumes num: "numeric_column (db_numeric env)" and good: "good_db db"
    and x: "on_grid 6 (dec_val x)" "0 \<le> dec_val x" "dec_val x < 10 ^ 8"
    and ok: "apply_credit env org x db = (Inr (), db')"
  shows "org \<in> o_id ` set (organizations db)" "balance_of org db + dec_val x < 10 ^ 8" "0 \<le> balance_of org db"
proof -
  have db: "db_ok db" using good by (simp add: good_db_def)
  show pos: "0 \<le> balance_of org db"
    using good by (auto simp: good_db_def solvent_def balance_of_def split: option.split)
  show "org \<in> o_id ` set (organizations db)"
  proof (cases "by_key c_org_id org (credit_balances db)")
    case None
    with ok show ?thesis
      by (auto simp: apply_credit_def bind_def insert_credit_def checked_insert_def new_credit_row_def
          split: sum.splits if_splits)
  next
    case (Some r)
    with db show ?thesis by (auto simp: db_ok_def credits_ok_def dest!: by_key_SomeD)
  qed
  show "balance_of org db + dec_val x < 10 ^ 8"
  proof (cases "by_key c_org_id org (credit_balances db)")
    case None
    with x show ?thesis by (simp add: balance_of_def avail_def)
  next
    case (Some r)
    then have c: "cents_ok (c_available r)" using db by (auto simp: db_ok_def credits_ok_def dest!: by_key_SomeD)
    have b: "balance_of org db = dec_val (c_available r)" using Some by (simp add: balance_of_def avail_def)
    have s: "dec_val (dec_add (c_available r) x) = dec_val (c_available r) + dec_val x"
      by (intro dec_add_exact grid6_repr on_grid_add x) (use c x pos b in \<open>auto simp: cents_ok_def\<close>)
    show ?thesis
    proof (cases "dec_val x = 0")
      case True
      with c b show ?thesis by (simp add: cents_ok_def abs_less_iff)
    next
      case False
      with ok Some s obtain av where "db_numeric env (dec_add (c_available r) x) = Inr av"
        by (auto simp: apply_credit_def Let_def split: sum.splits)
      then have "\<bar>dec_val (dec_add (c_available r) x)\<bar> < 10 ^ 8"
        by (rule numeric_overflow [OF num]) (use c x s in \<open>auto simp: cents_ok_def on_grid_add\<close>)
      with s b show ?thesis by (simp add: abs_less_iff)
    qed
  qed
qed

lemma apply_credit_tables:
  "usage_records (snd (apply_credit env org x db)) = usage_records db"
  "api_keys (snd (apply_credit env org x db)) = api_keys db"
  by (auto simp: apply_credit_def bind_def insert_credit_def checked_insert_def Let_def
      split: option.splits sum.splits if_splits)

lemma credit_ledger_step:
  assumes num: "numeric_column (db_numeric env)" and good: "good_db db"
    and x: "on_grid 6 (dec_val x)" "0 \<le> dec_val x" "dec_val x < 10 ^ 8"
    and ok: "apply_credit env org x db = (Inr (), db')"
  shows "ledger_step db (Credit org (dec_val x)) db'"
proof -
  have db: "db_ok db" and sol: "solvent db" using good by (simp_all add: good_db_def)
  note fits = apply_credit_fits [OF num good x ok]
  have b: "balance_of o' db' = balance_of o' db + (if o' = org then dec_val x else 0)" and db': "db_ok db'" for o'
    using apply_credit_spec [OF num db fits(1) x(1,2) fits(2,3), of o'] ok by auto
  have "usage_records db' = usage_records db" "api_keys db' = api_keys db"
    using apply_credit_tables [of env org x db] ok by simp_all
  then have w: "spent o' db' = spent o' db" and k: "keeps_dead db db'" for o'
    by (simp_all add: spent_def keeps_dead_same_keys)
  have "0 \<le> balance_of o' db'" for o'
    using b [of o'] x(2) sol by (auto simp: solvent_def balance_of_def split: option.splits)
  then have "solvent db'" by (fastforce simp: solvent_def balance_of_def split: option.splits)
  with db' k x(2) show ?thesis
    by (simp add: ledger_step_def good_db_def worth_def w b entry_amount_def entry_charges_def)
qed

lemma webhook_ledger_step:
  assumes num: "numeric_column (db_numeric env)" and good: "good_db db" and ev: "event_ok event"
    and run: "stripe_webhook_route env (Inr event) db = (res, db')"
  shows "ledger_step db (webhook_event event res) db'"
proof -
  obtain r where h: "handle_webhook env event db = (r, db')" and ok: "is_ok r = is_ok res"
    using run by (cases "handle_webhook env event db")
      (auto simp: stripe_webhook_route_def verify_webhook_def bind_def split: sum.splits)
  show ?thesis
  proof (cases "event_credit event")
    case None
    with handle_webhook_cases [where event = event and env = env and db = db] h good show ?thesis
      by (simp add: webhook_event_def benign_ledger_step)
  next
    case (Some p)
    then obtain org n where p: "p = (org, JInt n)" and n: "0 \<le> n" "n < 10 ^ 8"
      using ev by (cases p) (auto simp: event_ok_def split: json.splits)
    obtain x where x: "dec_div (dec_of_int n) cents_per_dollar = Some x" "dec_val x = of_int n / 100"
      using cents_division [of n] n by auto
    have a: "apply_credit env org x db = (r, db')"
      using h handle_webhook_cases [where event = event and env = env and db = db] Some p x(1) by simp
    show ?thesis
    proof (cases r)
      case (Inl e)
      with a have "db' = db" using apply_credit_error by blast
      with Inl ok Some p good show ?thesis by (auto simp: webhook_event_def intro!: benign_ledger_step)
    next
      case (Inr v)
      have "(of_int n :: rat) < of_int (10 ^ 8)" using n(2) by (simp only: of_int_less_iff)
      then have "ledger_step db (Credit org (dec_val x)) db'"
        using a Inr n(1) by (intro credit_ledger_step [OF num good]) (simp_all add: x(2) cents_grid)
      then have "ledger_step db (Credit org (of_int n / 100)) db'" unfolding x(2) .
      with Inr ok Some p show ?thesis by (simp add: webhook_event_def)
    qed
  qed
qed

section \<open>Runs\<close>

abbreviation fresh_uow :: "database \<Rightarrow> uow" where
  "fresh_uow db \<equiv> \<lparr>committed = db, session = None\<rparr>"

text \<open>One request against the committed database, each in a transaction with its own time, and its ledger entry.\<close>

abbreviation at_time :: "db_env \<Rightarrow> datetime \<Rightarrow> db_env" where
  "at_time env ts \<equiv> env\<lparr>db_now := ts\<rparr>"

inductive backend_step :: "db_env \<Rightarrow> database \<Rightarrow> ledger_event \<Rightarrow> database \<Rightarrow> bool" for env where
  step_meter: "meter (at_time env ts) i now cmd (fresh_uow db) = (res, u) \<Longrightarrow>
    backend_step env db (meter_event cmd res) (committed u)"
| step_webhook: "event_ok event \<Longrightarrow> stripe_webhook_route (at_time env ts) (Inr event) db = (res, db') \<Longrightarrow>
    backend_step env db (webhook_event event res) db'"
| step_bad_signature: "backend_step env db Quiet (snd (stripe_webhook_route (at_time env ts) (Inl err) db))"
| step_create_key: "backend_step env db Quiet (committed (snd (create_key_route e key_prefix ke body (fresh_uow db))))"
| step_list_keys: "backend_step env db Quiet (committed (snd (list_keys_route e (fresh_uow db))))"
| step_revoke_key: "backend_step env db Quiet (committed (snd (revoke_key_route e t i (fresh_uow db))))"
| step_suspend: "backend_step env db Quiet (committed (snd (suspend_user_route e clock i (fresh_uow db))))"
| step_balance: "backend_step env db Quiet (committed (snd (get_balance_route e (fresh_uow db))))"
| step_usage: "backend_step env db Quiet (committed (snd (get_usage_route e tm start stop (fresh_uow db))))"
| step_purchase: "backend_step env db Quiet (committed (snd (purchase_credits_route e stripe amount_usd (fresh_uow db))))"
| step_exchange: "backend_step env db Quiet (committed (snd (exchange_route (at_time env ts) http sign oe ob (fresh_uow db))))"
| step_validate: "backend_step env db Quiet (committed (snd (validate_for_request c now p model (fresh_uow db))))"
| step_validate_rpc: "backend_step env db Quiet (committed (snd (ValidateKey (at_time env ts) now h (fresh_uow db))))"
| step_revoke_rpc: "backend_step env db Quiet (committed (snd (RevokeKey now key_text reason (fresh_uow db))))"

inductive backend_run :: "db_env \<Rightarrow> database \<Rightarrow> ledger_event list \<Rightarrow> database \<Rightarrow> bool" for env db0 where
  run_start: "backend_run env db0 [] db0"
| run_step: "backend_run env db0 ls db \<Longrightarrow> backend_step env db l db' \<Longrightarrow> backend_run env db0 (ls @ [l]) db'"

lemma route_ledger_step: "evolves benign_uow m \<Longrightarrow> good_db db \<Longrightarrow> ledger_step db Quiet (committed (snd (m (fresh_uow db))))"
proof -
  assume m: "evolves benign_uow m" and g: "good_db db"
  have "benign_uow (fresh_uow db) (snd (m (fresh_uow db)))" using m by (rule evolvesD)
  then have "benign db (committed (snd (m (fresh_uow db))))" by (simp add: benign_uow_def)
  then show ?thesis using g by (rule benign_ledger_step)
qed

lemma bad_signature_silent: "snd (stripe_webhook_route env (Inl err) db) = db"
  by (cases err) (simp_all add: stripe_webhook_route_def verify_webhook_def)

lemma backend_ledger_step:
  assumes num: "numeric_column (db_numeric env)" and good: "good_db db" and st: "backend_step env db l db'"
  shows "ledger_step db l db'"
  using st
proof cases
  case (step_meter ts i now cmd res u)
  then show ?thesis using meter_ledger_step [of "at_time env ts" "fresh_uow db" i now cmd res u] num good by simp
next
  case (step_webhook event ts res)
  then show ?thesis using webhook_ledger_step [of "at_time env ts" db event res db'] num good by simp
next
  case (step_bad_signature ts err)
  then show ?thesis using good by (simp add: bad_signature_silent benign_ledger_step)
qed (use good in \<open>simp_all add: route_ledger_step routes_benign\<close>)

text \<open>What a run has credited to an organization, and how often it charged it.\<close>

definition credited :: "uuid \<Rightarrow> ledger_event list \<Rightarrow> rat" where
  "credited org ls = sum_list (map (entry_amount org) ls)"

definition charges :: "uuid \<Rightarrow> ledger_event list \<Rightarrow> rat" where
  "charges org ls = sum_list (map (entry_charges org) ls)"

lemma run_invariant:
  assumes num: "numeric_column (db_numeric env)" and good: "good_db db0" and run: "backend_run env db0 ls db"
  shows "good_db db \<and> keeps_dead db0 db
    \<and> (\<forall>org. 10 ^ 6 * \<bar>worth org db - worth org db0 - credited org ls\<bar> \<le> charges org ls)"
  using run
proof induction
  case run_start
  show ?case using good by (simp add: credited_def charges_def)
next
  case (run_step ls db l db')
  then have st: "ledger_step db l db'" using backend_ledger_step [OF num] by blast
  have "10 ^ 6 * \<bar>worth org db' - worth org db0 - credited org (ls @ [l])\<bar> \<le> charges org (ls @ [l])" for org
  proof -
    let ?a = "worth org db - worth org db0 - credited org ls" and ?b = "worth org db' - worth org db - entry_amount org l"
    have "\<bar>?a + ?b\<bar> \<le> \<bar>?a\<bar> + \<bar>?b\<bar>" by (rule abs_triangle_ineq)
    moreover have "10 ^ 6 * \<bar>?a\<bar> \<le> charges org ls" using run_step.IH by simp
    moreover have "10 ^ 6 * \<bar>?b\<bar> \<le> entry_charges org l" using st by (simp add: ledger_step_def)
    ultimately have "10 ^ 6 * \<bar>?a + ?b\<bar> \<le> charges org ls + entry_charges org l" by simp
    moreover have "worth org db' - worth org db0 - credited org (ls @ [l]) = ?a + ?b" by (simp add: credited_def)
    ultimately show ?thesis by (simp only:) (simp add: charges_def)
  qed
  with run_step.IH st show ?case by (auto simp: ledger_step_def keeps_dead_def)
qed

lemma balance_nonneg: "solvent db \<Longrightarrow> 0 \<le> balance_of org db"
  by (auto simp: solvent_def balance_of_def split: option.split)

text \<open>
  Since balances never go below zero, usage is covered by what an organization had and what was
  credited to it, up to the rounding of each charge.
\<close>

lemma run_covered:
  assumes "numeric_column (db_numeric env)" "good_db db0" "backend_run env db0 ls db"
  shows "10 ^ 6 * (spent org db - spent org db0 - (balance_of org db0 + credited org ls)) \<le> charges org ls"
proof -
  note inv = run_invariant [OF assms]
  let ?d = "worth org db - worth org db0 - credited org ls"
  have "spent org db - spent org db0 - (balance_of org db0 + credited org ls) \<le> \<bar>?d\<bar>"
    using inv balance_nonneg [of db org] by (simp add: good_db_def worth_def)
  then have "10 ^ 6 * (spent org db - spent org db0 - (balance_of org db0 + credited org ls)) \<le> 10 ^ 6 * \<bar>?d\<bar>"
    by (simp only: mult_le_cancel_left_pos zero_less_power zero_less_numeral)
  also have "\<dots> \<le> charges org ls" using inv by blast
  finally show ?thesis .
qed

section \<open>A revoked key stays revoked\<close>

lemma revoke_kills:
  assumes db: "db_ok (committed u)" and rv: "revoke_key t i reason u = (Inr (), u1)"
    and k: "sql_view (committed u) i = Some k"
  shows "key_dead (committed u1) i (key_lookup k) (key_hash k)"
proof -
  have "keys_revoke t i reason (committed u) = (Inr (), committed u1)"
    using rv k by (auto simp: revoke_key_cases [OF db] split: prod.splits sum.splits if_splits)
  from keys_revoke_result(2) [OF db this] k show ?thesis by (simp add: key_dead_def)
qed

lemma dead_key_rejected:
  assumes db: "db_ok (committed u)" and d: "key_dead (committed u) i (sha256_lookup c p) hash"
    and v: "is_ok (verify_api_key c p hash)"
  shows "\<exists>msg. fst (validate_for_request c now p model u) = Inl (Domain InvalidApiKey msg)"
proof -
  obtain k where k: "sql_view (committed u) i = Some k" "revoked_at k \<noteq> None" "key_lookup k = sha256_lookup c p"
    "key_hash k = hash" using d by (auto simp: key_dead_def)
  then have "keys_find_by_lookup_hash (sha256_lookup c p) (committed u) = (Inr (Some k), committed u)"
    using sql_keys.find_Some_iff [OF db] by blast
  then have "fst (validate_for_request c now p model u) = check_key c now p model (Some k)"
    by (simp add: validate_lookup [OF db])
  then show ?thesis using v k by (auto simp: check_key_def is_ok_iff assert_usable_def)
qed

lemma revoked_for_good:
  assumes num: "numeric_column (db_numeric env)" and good: "good_db (committed u)"
    and rv: "revoke_key t i reason u = (Inr (), u1)"
    and k: "sql_view (committed u) i = Some k" "key_lookup k = sha256_lookup c p"
    and v: "is_ok (verify_api_key c p (key_hash k))" and run: "backend_run env (committed u1) ls db"
  shows "\<exists>msg. fst (validate_for_request c now p model (fresh_uow db)) = Inl (Domain InvalidApiKey msg)"
proof -
  have ok: "db_ok (committed u)" using good by (simp add: good_db_def)
  have "benign_uow u u1" using evolvesD [OF revoke_key_benign, of u t i reason] rv by simp
  then have "good_db (committed u1)"
    using benign_ledger_step good by (auto simp: benign_uow_def ledger_step_def)
  from run_invariant [OF num this run] revoke_kills [OF ok rv k(1)]
  have "key_dead db i (sha256_lookup c p) (key_hash k)" "db_ok db"
    by (simp_all add: keeps_dead_def k(2) good_db_def)
  then show ?thesis using dead_key_rejected [of "fresh_uow db"] v by simp
qed

end
