(* ===== verification/MockEngine.thy ===== *)
theory MockEngine
  imports PyRepr PyUuid
begin

text \<open>
  The scenario engine of the mock provider server (\<^verbatim>\<open>tools/mock-providers/src/scenarios\<close>): overrides per
  provider and route, counters, error injection, latency, the event stream, and the control plane
  of \<^verbatim>\<open>src/control\<close> that mutates them. Draws of \<^verbatim>\<open>random.random()\<close> are arguments, in the order the code
  makes them. The lock only makes each operation atomic, which every action here is.
\<close>

section \<open>Settings (\<^verbatim>\<open>config.py\<close>)\<close>

record model_entry =
  me_id :: string
  me_provider :: string
  me_context_window :: int
  me_supports_tools :: bool
  me_supports_streaming :: bool

record mock_settings =
  ms_port :: int
  ms_log_level :: string
  ms_latency_ms :: pyfloat
  ms_error_rate :: pyfloat
  ms_rate_limit_rate :: pyfloat
  ms_stream_chunk_delay_ms :: pyfloat
  ms_models :: "model_entry list"

definition env_float :: "(string \<Rightarrow> string option) \<Rightarrow> string \<Rightarrow> pyfloat \<Rightarrow> pyfloat result" where
  "env_float environ key dflt = (case environ key of None \<Rightarrow> Inr dflt | Some raw \<Rightarrow> float_of_json (JStr raw))"

definition env_int :: "(string \<Rightarrow> string option) \<Rightarrow> string \<Rightarrow> int \<Rightarrow> int result" where
  "env_int environ key dflt = (case environ key of None \<Rightarrow> Inr dflt | Some raw \<Rightarrow> int_of_json (JStr raw))"

definition model_entry_of :: "string \<Rightarrow> string \<Rightarrow> int \<Rightarrow> model_entry" where
  "model_entry_of i p w =
     \<lparr>me_id = i, me_provider = p, me_context_window = w, me_supports_tools = True, me_supports_streaming = True\<rparr>"

definition mock_models :: "model_entry list" where
  "mock_models =
     [model_entry_of ''gpt-4o-mini'' ''openai'' 128000, model_entry_of ''gpt-4o'' ''openai'' 128000,
      (model_entry_of ''text-embedding-3-small'' ''openai'' 8191)\<lparr>me_supports_tools := False\<rparr>,
      (model_entry_of ''dall-e-3'' ''openai'' 0)\<lparr>me_supports_tools := False, me_supports_streaming := False\<rparr>,
      model_entry_of ''claude-3-5-sonnet-20241022'' ''anthropic'' 200000,
      model_entry_of ''claude-3-5-haiku-20241022'' ''anthropic'' 200000,
      model_entry_of ''gemini-1.5-pro'' ''google'' 2000000, model_entry_of ''gemini-1.5-flash'' ''google'' 1000000,
      model_entry_of ''google/gemma-4-31b'' ''fireworks'' 256000,
      model_entry_of ''google/gemma-4-26b-moe'' ''fireworks'' 256000,
      model_entry_of ''google/gemma-4-e4b'' ''ollama'' 128000, model_entry_of ''google/gemma-4-e2b'' ''ollama'' 128000,
      model_entry_of ''qwen/qwen3.6-27b'' ''together'' 128000,
      model_entry_of ''qwen/qwen3.6-35b-a3b'' ''together'' 128000,
      model_entry_of ''qwen/qwen3.5-35b-a3b'' ''together'' 128000,
      model_entry_of ''qwen/qwen3.5-122b-a10b'' ''fireworks'' 128000]"

text \<open>The fields are filled in the order of the class.\<close>

definition load_settings :: "(string \<Rightarrow> string option) \<Rightarrow> mock_settings result" where
  "load_settings environ =
     res_bind (env_int environ ''MOCK_PORT'' 9100) (\<lambda>port.
     res_bind (env_float environ ''MOCK_DEFAULT_LATENCY_MS'' 5) (\<lambda>latency.
     res_bind (env_float environ ''MOCK_DEFAULT_ERROR_RATE'' 0) (\<lambda>err.
     res_bind (env_float environ ''MOCK_DEFAULT_RATE_LIMIT_RATE'' 0) (\<lambda>rate.
     res_bind (env_float environ ''MOCK_STREAM_CHUNK_DELAY_MS'' 20) (\<lambda>delay. Inr
       \<lparr>ms_port = port,
        ms_log_level = (case environ ''MOCK_LOG_LEVEL'' of None \<Rightarrow> ''info'' | Some l \<Rightarrow> l),
        ms_latency_ms = latency, ms_error_rate = err, ms_rate_limit_rate = rate,
        ms_stream_chunk_delay_ms = delay, ms_models = mock_models\<rparr>)))))"

section \<open>The engine\<close>

record scenario_state =
  sc_latency_ms :: "pyfloat option"
  sc_error_rate :: "pyfloat option"
  sc_rate_limit_rate :: "pyfloat option"
  sc_stream_chunk_delay_ms :: "pyfloat option"
  sc_force_status :: "int option"

definition fresh_scenario :: scenario_state where
  "fresh_scenario = \<lparr>sc_latency_ms = None, sc_error_rate = None, sc_rate_limit_rate = None,
     sc_stream_chunk_delay_ms = None, sc_force_status = None\<rparr>"

record engine_stats =
  st_requests :: int
  st_errors_injected :: int
  st_rate_limits_injected :: int
  st_latency_total_ms :: pyfloat

definition fresh_stats :: engine_stats where
  "fresh_stats = \<lparr>st_requests = 0, st_errors_injected = 0, st_rate_limits_injected = 0, st_latency_total_ms = 0\<rparr>"

record engine =
  en_overrides :: "((string \<times> string) \<times> scenario_state) list"
  en_stats :: engine_stats

definition fresh_engine :: engine where
  "fresh_engine = \<lparr>en_overrides = [], en_stats = fresh_stats\<rparr>"

text \<open>A keyword argument of \<^verbatim>\<open>set\<close>: one of the fields, or a name the state does not have.\<close>

datatype setting =
    LatencyMs "pyfloat option"
  | ErrorRate "pyfloat option"
  | RateLimitRate "pyfloat option"
  | StreamChunkDelayMs "pyfloat option"
  | ForceStatus "int option"
  | OtherSetting string

fun set_attr :: "setting \<Rightarrow> scenario_state \<Rightarrow> scenario_state" where
  "set_attr (LatencyMs v) s = s\<lparr>sc_latency_ms := v\<rparr>"
| "set_attr (ErrorRate v) s = s\<lparr>sc_error_rate := v\<rparr>"
| "set_attr (RateLimitRate v) s = s\<lparr>sc_rate_limit_rate := v\<rparr>"
| "set_attr (StreamChunkDelayMs v) s = s\<lparr>sc_stream_chunk_delay_ms := v\<rparr>"
| "set_attr (ForceStatus v) s = s\<lparr>sc_force_status := v\<rparr>"
| "set_attr (OtherSetting k) s = s"

definition scenario_at :: "string \<Rightarrow> string \<Rightarrow> engine \<Rightarrow> scenario_state" where
  "scenario_at p r en = (case map_of (en_overrides en) (p, r) of None \<Rightarrow> fresh_scenario | Some s \<Rightarrow> s)"

definition put_scenario :: "string \<Rightarrow> string \<Rightarrow> scenario_state \<Rightarrow> engine \<Rightarrow> engine" where
  "put_scenario p r s en = en\<lparr>en_overrides := AList.update (p, r) s (en_overrides en)\<rparr>"

definition engine_set :: "string \<Rightarrow> string \<Rightarrow> setting list \<Rightarrow> engine \<Rightarrow> scenario_state \<times> engine" where
  "engine_set p r kwargs en =
     (let s = fold set_attr kwargs (scenario_at p r en) in (s, put_scenario p r s en))"

definition engine_reset :: "engine \<Rightarrow> engine" where
  "engine_reset en = \<lparr>en_overrides = [], en_stats = fresh_stats\<rparr>"

definition engine_latency_ms :: "mock_settings \<Rightarrow> string \<Rightarrow> string \<Rightarrow> engine \<Rightarrow> pyfloat" where
  "engine_latency_ms cfg p r en =
     (case sc_latency_ms (scenario_at p r en) of None \<Rightarrow> ms_latency_ms cfg | Some v \<Rightarrow> v)"

definition engine_error_rate :: "mock_settings \<Rightarrow> string \<Rightarrow> string \<Rightarrow> engine \<Rightarrow> pyfloat" where
  "engine_error_rate cfg p r en =
     (case sc_error_rate (scenario_at p r en) of None \<Rightarrow> ms_error_rate cfg | Some v \<Rightarrow> v)"

definition engine_rate_limit_rate :: "mock_settings \<Rightarrow> string \<Rightarrow> string \<Rightarrow> engine \<Rightarrow> pyfloat" where
  "engine_rate_limit_rate cfg p r en =
     (case sc_rate_limit_rate (scenario_at p r en) of None \<Rightarrow> ms_rate_limit_rate cfg | Some v \<Rightarrow> v)"

definition engine_stream_chunk_delay_ms :: "mock_settings \<Rightarrow> string \<Rightarrow> string \<Rightarrow> engine \<Rightarrow> pyfloat" where
  "engine_stream_chunk_delay_ms cfg p r en =
     (case sc_stream_chunk_delay_ms (scenario_at p r en) of None \<Rightarrow> ms_stream_chunk_delay_ms cfg | Some v \<Rightarrow> v)"

text \<open>The forced status is read and cleared; without an override nothing is stored.\<close>

definition take_force_status :: "string \<Rightarrow> string \<Rightarrow> engine \<Rightarrow> int option \<times> engine" where
  "take_force_status p r en =
     (case map_of (en_overrides en) (p, r) of
        None \<Rightarrow> (None, en)
      | Some s \<Rightarrow> (sc_force_status s, put_scenario p r (s\<lparr>sc_force_status := None\<rparr>) en))"

definition record_call :: "pyfloat \<Rightarrow> bool \<Rightarrow> bool \<Rightarrow> engine \<Rightarrow> engine" where
  "record_call latency err rate_limit en =
     (let st = en_stats en in
      en\<lparr>en_stats := \<lparr>st_requests = st_requests st + 1,
        st_errors_injected = st_errors_injected st + (if err then 1 else 0),
        st_rate_limits_injected = st_rate_limits_injected st + (if rate_limit then 1 else 0),
        st_latency_total_ms = py_float (st_latency_total_ms st + latency)\<rparr>\<rparr>)"

definition json_of_opt :: "('a \<Rightarrow> json) \<Rightarrow> 'a option \<Rightarrow> json" where
  "json_of_opt f x = (case x of None \<Rightarrow> JNull | Some v \<Rightarrow> f v)"

definition scenario_vars :: "scenario_state \<Rightarrow> json" where
  "scenario_vars s = JObj
     [(''latency_ms'', json_of_opt JFloat (sc_latency_ms s)), (''error_rate'', json_of_opt JFloat (sc_error_rate s)),
      (''rate_limit_rate'', json_of_opt JFloat (sc_rate_limit_rate s)),
      (''stream_chunk_delay_ms'', json_of_opt JFloat (sc_stream_chunk_delay_ms s)),
      (''force_status'', json_of_opt JInt (sc_force_status s))]"

definition engine_stats_view :: "engine \<Rightarrow> json" where
  "engine_stats_view en =
     (let st = en_stats en in JObj
        [(''requests'', JInt (st_requests st)), (''errors_injected'', JInt (st_errors_injected st)),
         (''rate_limits_injected'', JInt (st_rate_limits_injected st)),
         (''avg_latency_ms'', JFloat (if st_requests st \<noteq> 0
            then py_float (st_latency_total_ms st / of_int (st_requests st)) else 0)),
         (''overrides'', JObj (fold (\<lambda>((p, r), s). AList.update (p @ '':'' @ r) (scenario_vars s)) (en_overrides en) []))])"

section \<open>Error injection (\<^verbatim>\<open>errors.py\<close>)\<close>

datatype mock_exn = HTTPException int json "(string \<times> string) list" | MockRaised exn

type_synonym 'a mock_action = "(engine, mock_exn, 'a) action"

definition make_openai_error :: "string \<Rightarrow> string \<Rightarrow> int \<Rightarrow> mock_exn" where
  "make_openai_error message code status =
     HTTPException status
       (JObj [(''error'', JObj [(''message'', JStr message), (''type'', JStr code), (''param'', JNull),
          (''code'', JStr code)])])
       (if status = 429 then [(''Retry-After'', ''1'')] else [])"

record draws =
  dr_rate :: pyfloat
  dr_error :: pyfloat
  dr_mix :: pyfloat
  dr_jitter :: pyfloat

definition inject_random :: "mock_settings \<Rightarrow> draws \<Rightarrow> string \<Rightarrow> string \<Rightarrow> unit mock_action" where
  "inject_random cfg d p r en =
     (if dr_rate d < engine_rate_limit_rate cfg p r en
      then (Inl (make_openai_error ''Rate limit reached for requests'' ''rate_limit_exceeded'' 429),
            record_call 0 False True en)
      else if dr_error d < engine_error_rate cfg p r en
      then (Inl (make_openai_error ''The server had an error processing your request'' ''server_error''
              (if dr_mix d < 1 / 2 then 503 else 500)),
            record_call 0 True False en)
      else (Inr (), en))"

definition maybe_inject_error :: "mock_settings \<Rightarrow> draws \<Rightarrow> string \<Rightarrow> string \<Rightarrow> unit mock_action" where
  "maybe_inject_error cfg d p r en =
     (case take_force_status p r en of
        (Some forced, en') \<Rightarrow>
          if forced = 429
          then (Inl (make_openai_error ''Rate limit exceeded (forced)'' ''rate_limit_exceeded'' 429),
                record_call 0 False True en')
          else if 500 \<le> forced
          then (Inl (make_openai_error ''Forced server error'' ''server_error'' forced), record_call 0 True False en')
          else inject_random cfg d p r en'
      | (None, en') \<Rightarrow> inject_random cfg d p r en')"

section \<open>Fallback helpers (\<^verbatim>\<open>fallback.py\<close>)\<close>

definition break_provider :: "string \<Rightarrow> string \<Rightarrow> int \<Rightarrow> engine \<Rightarrow> engine" where
  "break_provider p r status en = snd (engine_set p r [ForceStatus (Some status)] en)"

definition heal_provider :: "string \<Rightarrow> string \<Rightarrow> engine \<Rightarrow> engine" where
  "heal_provider p r en = snd (engine_set p r [ForceStatus None] en)"

definition degrade_provider :: "string \<Rightarrow> string \<Rightarrow> pyfloat \<Rightarrow> engine \<Rightarrow> engine" where
  "degrade_provider p r latency en = snd (engine_set p r [LatencyMs (Some latency)] en)"

definition stop_all :: "engine \<Rightarrow> engine" where
  "stop_all en = engine_reset en"

section \<open>Latency and the event stream (\<^verbatim>\<open>latency.py\<close>, \<^verbatim>\<open>streaming.py\<close>)\<close>

text \<open>\<^verbatim>\<open>random.uniform(a, b)\<close> is \<^verbatim>\<open>a + (b - a) * random()\<close>; every operation rounds.\<close>

definition uniform :: "pyfloat \<Rightarrow> pyfloat \<Rightarrow> pyfloat \<Rightarrow> pyfloat" where
  "uniform u a b = py_float (a + py_float (py_float (b - a) * u))"

definition sleep_with_jitter :: "pyfloat \<Rightarrow> pyfloat \<Rightarrow> pyfloat \<Rightarrow> pyfloat" where
  "sleep_with_jitter u base_ms jitter_ratio =
     (if base_ms \<le> 0 then 0
      else let jitter = py_float (base_ms * jitter_ratio)
           in max 0 (py_float (base_ms + uniform u (- jitter) jitter)))"

definition default_jitter :: pyfloat where
  "default_jitter = py_float (1 / 5)"

datatype stream_step = Sleep pyfloat | Yield string

definition sse_event :: "string \<Rightarrow> string" where
  "sse_event data = ''data: '' @ data @ [char_of (10 :: nat), char_of (10 :: nat)]"

definition stream_chunks :: "mock_settings \<Rightarrow> string \<Rightarrow> string \<Rightarrow> json list \<Rightarrow> engine \<Rightarrow> stream_step list" where
  "stream_chunks cfg p r chunks en =
     (let delay = engine_stream_chunk_delay_ms cfg p r en
      in concat (map (\<lambda>c. (if 0 < delay then [Sleep (py_float (delay / 1000))] else []) @ [Yield (sse_event (json_dumps c))])
           chunks)
         @ [Yield (sse_event ''[DONE]'')])"

section \<open>The control plane (\<^verbatim>\<open>src/control\<close>)\<close>

record snapshot =
  sn_response :: "(string \<times> json) list"
  sn_status_code :: int

type_synonym snapshot_store = "(string \<times> snapshot) list"

definition snapshot_add :: "string \<Rightarrow> (string \<times> json) list \<Rightarrow> int \<Rightarrow> snapshot_store \<Rightarrow> snapshot_store" where
  "snapshot_add key response status st = AList.update key \<lparr>sn_response = response, sn_status_code = status\<rparr> st"

definition snapshot_get :: "string \<Rightarrow> snapshot_store \<Rightarrow> snapshot option" where
  "snapshot_get key st = map_of st key"

definition snapshot_clear :: "snapshot_store \<Rightarrow> snapshot_store" where
  "snapshot_clear st = []"

definition snapshot_len :: "snapshot_store \<Rightarrow> nat" where
  "snapshot_len st = length st"

record mock_server =
  sv_engine :: engine
  sv_snapshots :: snapshot_store

record scenario_request =
  rq_provider :: string
  rq_route :: string
  rq_latency_ms :: "pyfloat option"
  rq_error_rate :: "pyfloat option"
  rq_rate_limit_rate :: "pyfloat option"
  rq_stream_chunk_delay_ms :: "pyfloat option"
  rq_force_status :: "int option"

text \<open>The constraints pydantic enforces on a body before the handler runs.\<close>

definition opt_ge0 :: "pyfloat option \<Rightarrow> bool" where
  "opt_ge0 x = (case x of None \<Rightarrow> True | Some v \<Rightarrow> 0 \<le> v)"

definition opt_le1 :: "pyfloat option \<Rightarrow> bool" where
  "opt_le1 x = (case x of None \<Rightarrow> True | Some v \<Rightarrow> v \<le> 1)"

definition scenario_request_valid :: "scenario_request \<Rightarrow> bool" where
  "scenario_request_valid q \<longleftrightarrow>
     rq_provider q \<in> set [''openai'', ''anthropic'', ''google'', ''together'', ''fireworks'', ''ollama'']
     \<and> opt_ge0 (rq_latency_ms q) \<and> opt_ge0 (rq_error_rate q) \<and> opt_le1 (rq_error_rate q)
     \<and> opt_ge0 (rq_rate_limit_rate q) \<and> opt_le1 (rq_rate_limit_rate q) \<and> opt_ge0 (rq_stream_chunk_delay_ms q)"

text \<open>\<^verbatim>\<open>model_dump(exclude_none=True)\<close>: a field left out, or sent as null, is not passed on.\<close>

definition given :: "('a option \<Rightarrow> setting) \<Rightarrow> 'a option \<Rightarrow> setting list" where
  "given f x = (case x of None \<Rightarrow> [] | Some v \<Rightarrow> [f (Some v)])"

definition scenario_payload :: "scenario_request \<Rightarrow> setting list" where
  "scenario_payload q =
     given LatencyMs (rq_latency_ms q) @ given ErrorRate (rq_error_rate q)
     @ given RateLimitRate (rq_rate_limit_rate q) @ given StreamChunkDelayMs (rq_stream_chunk_delay_ms q)
     @ given ForceStatus (rq_force_status q)"

definition set_scenario :: "scenario_request \<Rightarrow> (mock_server, mock_exn, json) action" where
  "set_scenario q sv =
     (if \<not> scenario_request_valid q then (Inl (HTTPException 422 JNull []), sv)
      else case engine_set (rq_provider q) (rq_route q) (scenario_payload q) (sv_engine sv) of
             (state, en) \<Rightarrow> (Inr (JObj [(''ok'', JBool True), (''state'', scenario_vars state)]), sv\<lparr>sv_engine := en\<rparr>))"

definition reset_route :: "(mock_server, mock_exn, json) action" where
  "reset_route sv =
     (Inr (JObj [(''ok'', JBool True)]),
      \<lparr>sv_engine = engine_reset (sv_engine sv), sv_snapshots = snapshot_clear (sv_snapshots sv)\<rparr>)"

definition get_stats :: "(mock_server, mock_exn, json) action" where
  "get_stats sv = (Inr (engine_stats_view (sv_engine sv)), sv)"

definition add_snapshot :: "string \<Rightarrow> (string \<times> json) list \<Rightarrow> int \<Rightarrow> (mock_server, mock_exn, json) action" where
  "add_snapshot key response status sv =
     (Inr (JObj [(''ok'', JBool True)]), sv\<lparr>sv_snapshots := snapshot_add key response status (sv_snapshots sv)\<rparr>)"

definition get_snapshot :: "string \<Rightarrow> (mock_server, mock_exn, json) action" where
  "get_snapshot key sv =
     (case snapshot_get key (sv_snapshots sv) of
        None \<Rightarrow> (Inl (HTTPException 404 (JObj [(''error'', JObj [(''message'', JStr ''snapshot not found'')])]) []), sv)
      | Some snap \<Rightarrow> (Inr (JObj [(''key'', JStr key), (''response'', JObj (sn_response snap)),
          (''status_code'', JInt (sn_status_code snap))]), sv))"

section \<open>Overrides\<close>

lemma scenario_at_put [simp]:
  "scenario_at p r (put_scenario p r s en) = s"
  "(p', r') \<noteq> (p, r) \<Longrightarrow> scenario_at p' r' (put_scenario p r s en) = scenario_at p' r' en"
  by (auto simp: scenario_at_def put_scenario_def update_conv')

lemma put_scenario_again [simp]: "put_scenario p r s (put_scenario p r t en) = put_scenario p r s en"
  by (simp add: put_scenario_def)

lemma record_call_overrides [simp]:
  "en_overrides (record_call l e rl en) = en_overrides en"
  "scenario_at p r (record_call l e rl en) = scenario_at p r en"
  by (simp_all add: record_call_def scenario_at_def Let_def)

text \<open>A forced status is handed out once; what is left is the provider healed.\<close>

lemma take_after_break: "take_force_status p r (break_provider p r status en) = (Some status, heal_provider p r en)"
proof -
  have "map_of (en_overrides (put_scenario p r s en)) (p, r) = Some s" for s
    by (simp add: put_scenario_def update_conv')
  then show ?thesis by (simp add: take_force_status_def break_provider_def heal_provider_def engine_set_def Let_def)
qed

lemma take_after_heal: "take_force_status p r (record_call l e rl (heal_provider p r en))
    = (None, record_call l e rl (heal_provider p r en))"
proof -
  let ?s = "(scenario_at p r en)\<lparr>sc_force_status := None\<rparr>" and ?en = "record_call l e rl (heal_provider p r en)"
  have "en_overrides ?en = AList.update (p, r) ?s (en_overrides en)"
    by (simp add: heal_provider_def engine_set_def Let_def put_scenario_def)
  moreover from this have "put_scenario p r ?s ?en = ?en" by (simp add: put_scenario_def)
  ultimately show ?thesis by (simp add: take_force_status_def update_conv')
qed

lemma inject_after_break:
  "maybe_inject_error cfg d p r (break_provider p r status en) =
     (if status = 429
      then (Inl (make_openai_error ''Rate limit exceeded (forced)'' ''rate_limit_exceeded'' 429),
            record_call 0 False True (heal_provider p r en))
      else if 500 \<le> status
      then (Inl (make_openai_error ''Forced server error'' ''server_error'' status),
            record_call 0 True False (heal_provider p r en))
      else inject_random cfg d p r (heal_provider p r en))"
  by (simp add: maybe_inject_error_def take_after_break)

lemma inject_after_heal:
  "maybe_inject_error cfg d p r (record_call l e rl (heal_provider p r en))
     = inject_random cfg d p r (record_call l e rl (heal_provider p r en))"
  by (simp add: maybe_inject_error_def take_after_heal)

lemma inject_after_plain_heal:
  "maybe_inject_error cfg d p r (heal_provider p r en) = inject_random cfg d p r (heal_provider p r en)"
proof -
  let ?s = "(scenario_at p r en)\<lparr>sc_force_status := None\<rparr>" and ?en = "heal_provider p r en"
  have "?en = put_scenario p r ?s en" by (simp add: heal_provider_def engine_set_def Let_def)
  then have "take_force_status p r ?en = (None, ?en)"
    by (simp add: take_force_status_def put_scenario_def update_conv')
  then show ?thesis by (simp add: maybe_inject_error_def)
qed

section \<open>The invariant of the engine\<close>

definition rate_ok :: "pyfloat option \<Rightarrow> bool" where
  "rate_ok x \<longleftrightarrow> opt_ge0 x \<and> opt_le1 x"

definition scenario_ok :: "scenario_state \<Rightarrow> bool" where
  "scenario_ok s \<longleftrightarrow> rate_ok (sc_error_rate s) \<and> rate_ok (sc_rate_limit_rate s)
     \<and> opt_ge0 (sc_latency_ms s) \<and> opt_ge0 (sc_stream_chunk_delay_ms s)"

definition engine_ok :: "engine \<Rightarrow> bool" where
  "engine_ok en \<longleftrightarrow> distinct (map fst (en_overrides en)) \<and> (\<forall>(k, s) \<in> set (en_overrides en). scenario_ok s)
     \<and> 0 \<le> st_errors_injected (en_stats en) \<and> 0 \<le> st_rate_limits_injected (en_stats en)
     \<and> st_errors_injected (en_stats en) + st_rate_limits_injected (en_stats en) \<le> st_requests (en_stats en)
     \<and> 0 \<le> st_latency_total_ms (en_stats en)"

lemma py_float_nonneg: "0 \<le> x \<Longrightarrow> 0 \<le> py_float x"
proof -
  assume "0 \<le> x"
  have "(x - py_float x) * 2 ^ 53 \<le> \<bar>py_float x - x\<bar> * 2 ^ 53" by (rule mult_right_mono) simp_all
  also have "\<dots> \<le> x" using py_float_error [of x] \<open>0 \<le> x\<close> by simp
  finally show ?thesis using \<open>0 \<le> x\<close> by simp
qed

lemma opt_None [simp]: "opt_ge0 None" "opt_le1 None"
  by (simp_all add: opt_ge0_def opt_le1_def)

lemma fresh_scenario_ok: "scenario_ok fresh_scenario"
  by (simp add: scenario_ok_def fresh_scenario_def rate_ok_def)

lemma scenario_at_ok: "engine_ok en \<Longrightarrow> scenario_ok (scenario_at p r en)"
  by (auto simp: engine_ok_def scenario_at_def fresh_scenario_ok split: option.split dest!: map_of_SomeD)

lemma put_scenario_ok:
  assumes "engine_ok en" "scenario_ok s"
  shows "engine_ok (put_scenario p r s en)"
proof -
  have "scenario_ok t" if "(k, t) \<in> set (AList.update (p, r) s (en_overrides en))" for k t
  proof -
    have "distinct (map fst (AList.update (p, r) s (en_overrides en)))"
      using assms(1) by (simp add: engine_ok_def distinct_update)
    with that have "map_of (AList.update (p, r) s (en_overrides en)) k = Some t" by simp
    then have "(if k = (p, r) then Some s else map_of (en_overrides en) k) = Some t" by (simp add: update_conv')
    with assms show ?thesis by (auto simp: engine_ok_def dest: map_of_SomeD split: if_splits)
  qed
  with assms(1) show ?thesis by (auto simp: engine_ok_def put_scenario_def distinct_update)
qed

lemma record_call_ok:
  assumes "engine_ok en" "0 \<le> l" "\<not> (e \<and> rl)"
  shows "engine_ok (record_call l e rl en)"
  using assms py_float_nonneg [of "st_latency_total_ms (en_stats en) + l"]
  by (auto simp: engine_ok_def record_call_def Let_def)

lemma fresh_engine_ok: "engine_ok fresh_engine"
  by (simp add: engine_ok_def fresh_engine_def fresh_stats_def)

lemma engine_reset_ok: "engine_ok (engine_reset en)"
  by (simp add: engine_ok_def engine_reset_def fresh_stats_def)

text \<open>A setting of the control plane stays within the declared ranges.\<close>

fun setting_ok :: "setting \<Rightarrow> bool" where
  "setting_ok (ErrorRate v) = rate_ok v"
| "setting_ok (RateLimitRate v) = rate_ok v"
| "setting_ok (LatencyMs v) = opt_ge0 v"
| "setting_ok (StreamChunkDelayMs v) = opt_ge0 v"
| "setting_ok x = True"

lemma set_attr_ok: "scenario_ok s \<Longrightarrow> setting_ok x \<Longrightarrow> scenario_ok (set_attr x s)"
  by (cases x) (auto simp: scenario_ok_def)

lemma fold_set_attr_ok: "scenario_ok s \<Longrightarrow> list_all setting_ok xs \<Longrightarrow> scenario_ok (fold set_attr xs s)"
  by (induction xs arbitrary: s) (simp_all add: set_attr_ok)

lemma engine_set_ok: "engine_ok en \<Longrightarrow> list_all setting_ok xs \<Longrightarrow> engine_ok (snd (engine_set p r xs en))"
  by (simp add: engine_set_def Let_def put_scenario_ok fold_set_attr_ok scenario_at_ok)

lemma given_ok: "setting_ok (f x) \<Longrightarrow> list_all setting_ok (given f x)"
  by (cases x) (simp_all add: given_def)

lemma payload_ok: "scenario_request_valid q \<Longrightarrow> list_all setting_ok (scenario_payload q)"
  by (simp add: scenario_payload_def scenario_request_valid_def given_ok rate_ok_def)

lemma set_scenario_ok: "engine_ok (sv_engine sv) \<Longrightarrow> engine_ok (sv_engine (snd (set_scenario q sv)))"
  using engine_set_ok [OF _ payload_ok [of q], of "sv_engine sv" "rq_provider q" "rq_route q"]
  by (simp add: set_scenario_def split: prod.split) (metis snd_conv)

lemma take_force_status_ok: "engine_ok en \<Longrightarrow> engine_ok (snd (take_force_status p r en))"
proof -
  assume ok: "engine_ok en"
  have "scenario_ok (s\<lparr>sc_force_status := None\<rparr>)" if "map_of (en_overrides en) (p, r) = Some s" for s
    using scenario_at_ok [OF ok, of p r] that by (simp add: scenario_at_def scenario_ok_def)
  with ok show ?thesis by (simp add: take_force_status_def put_scenario_ok split: option.split)
qed

lemma inject_random_ok: "engine_ok en \<Longrightarrow> engine_ok (snd (inject_random cfg d p r en))"
  by (simp add: inject_random_def record_call_ok)

lemma inject_ok: "engine_ok en \<Longrightarrow> engine_ok (snd (maybe_inject_error cfg d p r en))"
  using take_force_status_ok [of en p r]
  by (cases "take_force_status p r en")
    (simp add: maybe_inject_error_def record_call_ok inject_random_ok split: option.split)

section \<open>How far the jitter goes\<close>

lemma py_float_between:
  assumes "0 \<le> x"
  shows "py_float x \<le> x + x / 2 ^ 53" "x - x / 2 ^ 53 \<le> py_float x"
proof -
  have "(py_float x - x) * 2 ^ 53 \<le> \<bar>py_float x - x\<bar> * 2 ^ 53"
    "(x - py_float x) * 2 ^ 53 \<le> \<bar>py_float x - x\<bar> * 2 ^ 53" by (rule mult_right_mono; simp)+
  moreover have "\<bar>py_float x - x\<bar> * 2 ^ 53 \<le> x" using py_float_error [of x] assms by simp
  ultimately show "py_float x \<le> x + x / 2 ^ 53" "x - x / 2 ^ 53 \<le> py_float x" by simp_all
qed

lemma abs_near:
  assumes "\<bar>x - y\<bar> * 2 ^ 53 \<le> c" "\<bar>y\<bar> \<le> b" "b + c / 2 ^ 53 \<le> e"
  shows "\<bar>x\<bar> \<le> (e :: rat)"
proof -
  have "\<bar>x\<bar> \<le> \<bar>x - y\<bar> + \<bar>y\<bar>" using abs_triangle_ineq [of "x - y" y] by simp
  with assms show ?thesis by simp
qed

lemma uniform_bound:
  assumes u: "0 \<le> u" "u < 1" and j: "0 \<le> j"
  shows "\<bar>uniform u (- j) j\<bar> \<le> j + j / 2 ^ 50"
proof -
  define w where "w = py_float (j - - j)"
  define v where "v = w * u"
  define x where "x = py_float v"
  have w: "0 \<le> w" "w \<le> 2 * j + 2 * j / 2 ^ 53"
    using py_float_between [of "j - - j"] py_float_nonneg [of "j - - j"] j by (simp_all add: w_def)
  have wu: "0 \<le> v" "v \<le> w" using u w(1) by (simp_all add: v_def mult_left_le)
  have x: "0 \<le> x" "x \<le> w + w / 2 ^ 53"
    using py_float_between [OF wu(1)] py_float_nonneg [OF wu(1)] wu by (simp_all add: x_def)
  have "x \<le> 2 * j + 5 * j / 2 ^ 53" using x w j by simp
  then have y: "\<bar>- j + x\<bar> \<le> j + 5 * j / 2 ^ 53" using x(1) j unfolding abs_le_iff by simp
  have "\<bar>uniform u (- j) j - (- j + x)\<bar> * 2 ^ 53 \<le> \<bar>- j + x\<bar>"
    using py_float_error [of "- j + x"] by (simp add: uniform_def x_def v_def w_def)
  also note y
  finally show ?thesis by (rule abs_near [OF _ y]) (use j in simp)
qed

lemma jitter_bound:
  assumes u: "0 \<le> u" "u < 1" and base: "0 < base"
  shows "\<bar>sleep_with_jitter u base default_jitter - base\<bar> \<le> base / 5 + base / 2 ^ 50"
proof -
  define t where "t = base * default_jitter"
  define j where "j = py_float t"
  define y where "y = uniform u (- j) j"
  have r: "0 \<le> default_jitter" "default_jitter \<le> 1 / 5 + 1 / 5 / 2 ^ 53"
    using py_float_between [of "1 / 5"] py_float_nonneg [of "1 / 5"] by (simp_all add: default_jitter_def)
  have "t \<le> base * (1 / 5 + 1 / 5 / 2 ^ 53)" unfolding t_def using r base by (intro mult_left_mono) simp_all
  then have br: "0 \<le> t" "t \<le> base / 5 + base / 5 / 2 ^ 53" using r base by (simp_all add: t_def field_simps)
  have j: "0 \<le> j" "j \<le> base / 5 + base / 2 ^ 54"
    using py_float_between [OF br(1)] py_float_nonneg [OF br(1)] br(2) base by (simp_all add: j_def)
  have y: "\<bar>y\<bar> \<le> base / 5 + 2 * base / 2 ^ 52"
    using uniform_bound [OF u j(1)] j base by (simp add: y_def)
  have s: "0 \<le> base + y" "base + y \<le> 2 * base" using y base unfolding abs_le_iff by simp_all
  have "\<bar>(py_float (base + y) - base) - y\<bar> * 2 ^ 53 \<le> base + y"
    using py_float_error [of "base + y"] s(1) by (simp add: algebra_simps)
  also note s(2)
  finally have "\<bar>py_float (base + y) - base\<bar> \<le> base / 5 + base / 2 ^ 50"
    by (rule abs_near [OF _ y]) (use base in simp)
  then show ?thesis
    using base py_float_nonneg [OF s(1)] by (simp add: sleep_with_jitter_def t_def j_def y_def Let_def)
qed

lemma sleep_nonneg: "0 \<le> sleep_with_jitter u base r"
  by (simp add: sleep_with_jitter_def Let_def)

end
