(* ===== verification/MockProviders.thy ===== *)
theory MockProviders
  imports MockEngine
begin

text \<open>
  The three provider mocks of \<^verbatim>\<open>tools/mock-providers/src/providers\<close>. A request body is any JSON document:
  every access the code makes to it can raise. Fresh identifiers and the clock are arguments.
\<close>

section \<open>Dynamic access\<close>

text \<open>\<^verbatim>\<open>reversed(x)\<close>, \<^verbatim>\<open>x[0]\<close>, \<^verbatim>\<open>x[:80]\<close> and \<^verbatim>\<open>len(x)\<close> on a decoded document\<close>

definition json_reversed :: "json \<Rightarrow> json list result" where
  "json_reversed v = res_bind (json_iter v) (\<lambda>xs. Inr (rev xs))"

fun json_first :: "json \<Rightarrow> json result" where
  "json_first (JList xs) = (case xs of [] \<Rightarrow> Inl IndexError | x # _ \<Rightarrow> Inr x)"
| "json_first (JStr s) = (case s of [] \<Rightarrow> Inl IndexError | c # _ \<Rightarrow> Inr (JStr [c]))"
| "json_first (JObj d) = Inl (KeyError ''0'')"
| "json_first v = Inl (TypeError ''object is not subscriptable'')"

fun json_prefix :: "nat \<Rightarrow> json \<Rightarrow> json result" where
  "json_prefix n (JStr s) = Inr (JStr (take n s))"
| "json_prefix n (JList xs) = Inr (JList (take n xs))"
| "json_prefix n (JObj d) = Inl (KeyError ''slice'')"
| "json_prefix n v = Inl (TypeError ''object is not subscriptable'')"

fun json_len :: "json \<Rightarrow> nat result" where
  "json_len (JStr s) = Inr (length s)"
| "json_len (JList xs) = Inr (length xs)"
| "json_len (JObj d) = Inr (length d)"
| "json_len v = Inl (TypeError ''object has no len()'')"

fun is_str :: "json \<Rightarrow> bool" where
  "is_str (JStr s) = True"
| "is_str v = False"

fun is_obj :: "json \<Rightarrow> bool" where
  "is_obj (JObj d) = True"
| "is_obj v = False"

text \<open>\<^verbatim>\<open>"text" in x\<close>\<close>

fun json_has :: "string \<Rightarrow> json \<Rightarrow> bool result" where
  "json_has k (JObj d) = Inr (k \<in> set (map fst d))"
| "json_has k (JList xs) = Inr (JStr k \<in> set xs)"
| "json_has k (JStr s) = Inr (py_contains k s)"
| "json_has k v = Inl (TypeError ''argument is not iterable'')"

definition lift_raised :: "'a result \<Rightarrow> 'a mock_action" where
  "lift_raised r en = (case r of Inl e \<Rightarrow> (Inl (MockRaised e), en) | Inr x \<Rightarrow> (Inr x, en))"

text \<open>What a handler returns: a JSON body, or an event stream produced after it has returned.\<close>

datatype mock_reply = Body json | Events "json list"

definition short_id :: "nat \<Rightarrow> uuid \<Rightarrow> string" where
  "short_id n u = take n (uuid_hex u)"

text \<open>Characters of the text, or of the length a document has.\<close>

definition approx_tokens :: "nat \<Rightarrow> int" where
  "approx_tokens len = max 1 (int len div 4)"

definition text_tokens :: "json \<Rightarrow> int result" where
  "text_tokens m = res_bind (json_get m ''content'' (JStr [])) (\<lambda>c. Inr (approx_tokens (length (py_str c))))"

text \<open>Each handler starts alike: a possible error, then the latency.\<close>

definition begin_call :: "mock_settings \<Rightarrow> draws \<Rightarrow> string \<Rightarrow> string \<Rightarrow> pyfloat mock_action" where
  "begin_call cfg d p r =
     bind (maybe_inject_error cfg d p r) (\<lambda>_ en.
       (Inr (sleep_with_jitter (dr_jitter d) (engine_latency_ms cfg p r en) default_jitter), en))"

definition record_ok :: "pyfloat \<Rightarrow> unit mock_action" where
  "record_ok slept en = (Inr (), record_call slept False False en)"

section \<open>OpenAI (\<^verbatim>\<open>openai_mock.py\<close>)\<close>

definition openai_provider :: string where
  "openai_provider = ''openai''"

definition tiny_png :: string where
  "tiny_png = ''iVBORw0KGgoAAAANSUhEUgAAAAEAAAABCAQAAAC1HAwCAAAAC0lEQVR42mNkYAAAAAYAAjCB0C8AAAAASUVORK5CYII=''"

text \<open>\<^verbatim>\<open>next((m for m in reversed(messages) if m.get("role") == "user"), {})\<close>\<close>

fun first_user :: "json list \<Rightarrow> json option result" where
  "first_user [] = Inr None"
| "first_user (m # ms) =
     res_bind (json_get m ''role'' JNull) (\<lambda>role. if role = JStr ''user'' then Inr (Some m) else first_user ms)"

definition user_text :: "json \<Rightarrow> string result" where
  "user_text messages =
     res_bind (json_reversed messages) (\<lambda>ms.
     res_bind (first_user ms) (\<lambda>u.
     res_bind (json_get (case u of None \<Rightarrow> JObj [] | Some m \<Rightarrow> m) ''content'' JNull) (\<lambda>c.
       Inr (case c of JStr s \<Rightarrow> s | _ \<Rightarrow> []))))"

definition chat_message :: "uuid \<Rightarrow> json \<Rightarrow> json \<Rightarrow> string \<Rightarrow> (json \<times> string) result" where
  "chat_message call_id tools response_format text =
     (if truthy tools
      then res_bind (json_first tools) (\<lambda>tool.
           res_bind (json_get tool ''function'' (JObj [])) (\<lambda>f.
           res_bind (json_get f ''name'' (JStr ''do_something'')) (\<lambda>name. Inr
             (JObj [(''role'', JStr ''assistant''), (''content'', JNull),
                (''tool_calls'', JList [JObj [(''id'', JStr (''call-'' @ short_id 24 call_id)), (''type'', JStr ''function''),
                   (''function'', JObj [(''name'', name), (''arguments'', JStr ''{\"query\":\"mock\"}'')])]])],
              ''tool_calls''))))
      else res_bind (json_get response_format ''type'' JNull) (\<lambda>t.
             if t = JStr ''json_schema''
             then Inr (JObj [(''role'', JStr ''assistant''),
                  (''content'', JStr ''{\"answer\": \"mocked\", \"confidence\": 0.42}'')], ''stop'')
             else Inr (JObj [(''role'', JStr ''assistant''),
                  (''content'', JStr (''Mocked reply to: '' @ take 80 text))], ''stop'')))"

text \<open>\<^verbatim>\<open>str(message.get("content") or "tool_call")\<close>\<close>

definition completion_text :: "json \<Rightarrow> string result" where
  "completion_text message =
     res_bind (json_get message ''content'' JNull) (\<lambda>c. Inr (py_str (json_or c (JStr ''tool_call''))))"

definition build_chat_response :: "datetime \<Rightarrow> uuid \<Rightarrow> uuid \<Rightarrow> json \<Rightarrow> json result" where
  "build_chat_response now call_id cmpl_id req =
     res_bind (json_get req ''model'' (JStr ''gpt-4o-mini'')) (\<lambda>model.
     res_bind (json_get req ''messages'' (JList [])) (\<lambda>messages.
     res_bind (user_text messages) (\<lambda>text.
     res_bind (json_get req ''tools'' JNull) (\<lambda>tools.
     res_bind (json_get req ''response_format'' JNull) (\<lambda>fmt.
     res_bind (chat_message call_id tools (json_or fmt (JObj [])) text) (\<lambda>(message, finish_reason).
     res_bind (json_iter messages) (\<lambda>ms.
     res_bind (map_result text_tokens ms) (\<lambda>counts.
     res_bind (completion_text message) (\<lambda>out.
       let prompt_tokens = sum_list counts; completion_tokens = approx_tokens (length out)
       in Inr (JObj
         [(''id'', JStr (''chatcmpl-'' @ short_id 24 cmpl_id)), (''object'', JStr ''chat.completion''),
          (''created'', JInt (now div 1000000)), (''model'', model),
          (''choices'', JList [JObj [(''index'', JInt 0), (''message'', message),
             (''finish_reason'', JStr finish_reason), (''logprobs'', JNull)]]),
          (''usage'', JObj [(''prompt_tokens'', JInt prompt_tokens), (''completion_tokens'', JInt completion_tokens),
             (''total_tokens'', JInt (prompt_tokens + completion_tokens))]),
          (''system_fingerprint'', JStr ''fp_mock'')]))))))))))"

text \<open>A role-only opener, a delta per word, then the finish reason.\<close>

definition stream_text :: string where
  "stream_text = ''Mocked streaming reply.''"

definition stream_chunks_for :: "datetime \<Rightarrow> uuid \<Rightarrow> json \<Rightarrow> json list result" where
  "stream_chunks_for now cmpl_id req =
     res_bind (json_get req ''model'' (JStr ''gpt-4o-mini'')) (\<lambda>model.
       let chunk = (\<lambda>delta finish. JObj
             [(''id'', JStr (''chatcmpl-'' @ short_id 24 cmpl_id)), (''object'', JStr ''chat.completion.chunk''),
              (''created'', JInt (now div 1000000)), (''model'', model),
              (''choices'', JList [JObj [(''index'', JInt 0), (''delta'', JObj delta), (''finish_reason'', finish)]])])
       in Inr ([chunk [(''role'', JStr ''assistant'')] JNull]
               @ map (\<lambda>w. chunk [(''content'', JStr (w @ '' ''))] JNull) (py_split (CHR '' '') stream_text)
               @ [chunk [] (JStr ''stop'')]))"

definition chat_work :: "datetime \<Rightarrow> uuid \<Rightarrow> uuid \<Rightarrow> json \<Rightarrow> pyfloat \<Rightarrow> mock_reply mock_action" where
  "chat_work now call_id cmpl_id body slept =
     bind (lift_raised (json_get body ''stream'' JNull)) (\<lambda>stream.
       if truthy stream
       then bind (lift_raised (stream_chunks_for now cmpl_id body)) (\<lambda>chunks.
            bind (record_ok slept) (\<lambda>_. return (Events chunks)))
       else bind (record_ok slept) (\<lambda>_.
            bind (lift_raised (build_chat_response now call_id cmpl_id body)) (\<lambda>r. return (Body r))))"

definition chat_completions :: "mock_settings \<Rightarrow> draws \<Rightarrow> datetime \<Rightarrow> uuid \<Rightarrow> uuid \<Rightarrow> json \<Rightarrow> mock_reply mock_action" where
  "chat_completions cfg d now call_id cmpl_id body =
     bind (begin_call cfg d openai_provider ''chat'') (chat_work now call_id cmpl_id body)"

definition embedding_of :: "nat \<Rightarrow> int \<Rightarrow> json" where
  "embedding_of i dims = JObj
     [(''object'', JStr ''embedding''), (''index'', JInt (int i)),
      (''embedding'', JList (map (\<lambda>j. JFloat (py_float (of_int ((int i + j) mod 100) / 100))) [0..dims - 1]))]"

definition embeddings_work :: "json \<Rightarrow> pyfloat \<Rightarrow> mock_reply mock_action" where
  "embeddings_work body slept =
     bind (lift_raised (json_get body ''input'' (JStr []))) (\<lambda>given_inputs.
     bind (lift_raised (res_bind (json_get body ''dimensions'' (JInt 1536)) int_of_json)) (\<lambda>dims.
     bind (lift_raised (json_iter (if is_str given_inputs then JList [given_inputs] else given_inputs))) (\<lambda>inputs.
     bind (record_ok slept) (\<lambda>_.
     bind (lift_raised (json_get body ''model'' (JStr ''text-embedding-3-small''))) (\<lambda>model.
       let prompt_tokens = sum_list (map (\<lambda>t. approx_tokens (length (py_str t))) inputs)
       in return (Body (JObj
            [(''object'', JStr ''list''),
             (''data'', JList (map (\<lambda>i. embedding_of i dims) [0..<length inputs])), (''model'', model),
             (''usage'', JObj [(''prompt_tokens'', JInt prompt_tokens), (''total_tokens'', JInt prompt_tokens)])])))))))"

definition embeddings :: "mock_settings \<Rightarrow> draws \<Rightarrow> json \<Rightarrow> mock_reply mock_action" where
  "embeddings cfg d body = bind (begin_call cfg d openai_provider ''embeddings'') (embeddings_work body)"

definition images_work :: "datetime \<Rightarrow> json \<Rightarrow> pyfloat \<Rightarrow> mock_reply mock_action" where
  "images_work now body slept =
     bind (lift_raised (res_bind (json_get body ''n'' (JInt 1)) int_of_json)) (\<lambda>n.
     bind (lift_raised (json_get body ''response_format'' (JStr ''url''))) (\<lambda>fmt.
     bind (record_ok slept) (\<lambda>_.
       return (Body (JObj
         [(''created'', JInt (now div 1000000)),
          (''data'', JList (replicate (nat n)
             (if fmt = JStr ''b64_json'' then JObj [(''b64_json'', JStr tiny_png)]
              else JObj [(''url'', JStr ''https://mock.local/openrouter/mock-image.png'')])))])))))"

definition images_generations :: "mock_settings \<Rightarrow> draws \<Rightarrow> datetime \<Rightarrow> json \<Rightarrow> mock_reply mock_action" where
  "images_generations cfg d now body = bind (begin_call cfg d openai_provider ''images'') (images_work now body)"

section \<open>Anthropic (\<^verbatim>\<open>anthropic_mock.py\<close>)\<close>

definition anthropic_provider :: string where
  "anthropic_provider = ''anthropic''"

text \<open>The first text block of a list content, kept as it is, text or not.\<close>

fun first_text_block :: "json list \<Rightarrow> json" where
  "first_text_block [] = JStr []"
| "first_text_block (b # bs) =
     (case b of
        JObj d \<Rightarrow> if map_of d ''type'' = Some (JStr ''text'')
                  then (case map_of d ''text'' of None \<Rightarrow> JStr [] | Some t \<Rightarrow> t) else first_text_block bs
      | _ \<Rightarrow> first_text_block bs)"

definition anthropic_user_text :: "json \<Rightarrow> json result" where
  "anthropic_user_text messages =
     res_bind (json_reversed messages) (\<lambda>ms.
     res_bind (first_user ms) (\<lambda>u. case u of
        None \<Rightarrow> Inr (JStr [])
      | Some m \<Rightarrow> res_bind (json_get m ''content'' JNull) (\<lambda>c. Inr
          (case c of JStr s \<Rightarrow> JStr s | JList bs \<Rightarrow> first_text_block bs | _ \<Rightarrow> JStr []))))"

definition anthropic_blocks :: "uuid \<Rightarrow> json \<Rightarrow> json \<Rightarrow> (json \<times> string) result" where
  "anthropic_blocks tool_id tools text =
     (if truthy tools
      then res_bind (json_first tools) (\<lambda>tool.
           res_bind (json_get tool ''name'' (JStr ''do_something'')) (\<lambda>name. Inr
             (JObj [(''type'', JStr ''tool_use''), (''id'', JStr (''toolu_'' @ short_id 16 tool_id)), (''name'', name),
                (''input'', JObj [(''query'', JStr ''mock'')])], ''tool_use'')))
      else res_bind (json_prefix 80 text) (\<lambda>t. Inr
             (JObj [(''type'', JStr ''text''), (''text'', JStr (''Mocked reply to: '' @ py_str t))], ''end_turn'')))"

text \<open>\<^verbatim>\<open>b.get("text", b.get("name", ""))\<close>\<close>

definition block_output :: "json \<Rightarrow> json result" where
  "block_output b = res_bind (json_get b ''name'' (JStr [])) (\<lambda>n. json_get b ''text'' n)"

definition build_response :: "uuid \<Rightarrow> uuid \<Rightarrow> json \<Rightarrow> json result" where
  "build_response tool_id msg_id req =
     res_bind (json_get req ''model'' (JStr ''claude-3-5-sonnet-20241022'')) (\<lambda>model.
     res_bind (json_get req ''messages'' (JList [])) (\<lambda>messages.
     res_bind (anthropic_user_text messages) (\<lambda>text.
     res_bind (json_get req ''tools'' JNull) (\<lambda>tools.
     res_bind (anthropic_blocks tool_id tools text) (\<lambda>(block, stop_reason).
     res_bind (json_iter messages) (\<lambda>ms.
     res_bind (map_result text_tokens (filter is_obj ms)) (\<lambda>counts.
     res_bind (block_output block) (\<lambda>out. Inr (JObj
       [(''id'', JStr (''msg_'' @ short_id 24 msg_id)), (''type'', JStr ''message''), (''role'', JStr ''assistant''),
        (''model'', model), (''content'', JList [block]), (''stop_reason'', JStr stop_reason),
        (''stop_sequence'', JNull),
        (''usage'', JObj [(''input_tokens'', JInt (sum_list counts)),
           (''output_tokens'', JInt (approx_tokens (length (py_str out))))])])))))))))"

definition stream_events :: "uuid \<Rightarrow> json \<Rightarrow> json list result" where
  "stream_events msg_id req =
     res_bind (json_get req ''model'' (JStr ''claude-3-5-sonnet-20241022'')) (\<lambda>model. Inr
       ([JObj [(''type'', JStr ''message_start''), (''message'', JObj
           [(''id'', JStr (''msg_'' @ short_id 24 msg_id)), (''type'', JStr ''message''), (''role'', JStr ''assistant''),
            (''content'', JList []), (''model'', model), (''stop_reason'', JNull),
            (''usage'', JObj [(''input_tokens'', JInt 1), (''output_tokens'', JInt 0)])])],
         JObj [(''type'', JStr ''content_block_start''), (''index'', JInt 0),
           (''content_block'', JObj [(''type'', JStr ''text''), (''text'', JStr [])])]]
        @ map (\<lambda>w. JObj [(''type'', JStr ''content_block_delta''), (''index'', JInt 0),
             (''delta'', JObj [(''type'', JStr ''text_delta''), (''text'', JStr (w @ '' ''))])])
            (py_split (CHR '' '') stream_text)
        @ [JObj [(''type'', JStr ''content_block_stop''), (''index'', JInt 0)],
           JObj [(''type'', JStr ''message_delta''),
             (''delta'', JObj [(''stop_reason'', JStr ''end_turn''), (''stop_sequence'', JNull)]),
             (''usage'', JObj [(''output_tokens'', JInt (approx_tokens (length stream_text)))])],
           JObj [(''type'', JStr ''message_stop'')]]))"

definition messages_work :: "uuid \<Rightarrow> uuid \<Rightarrow> json \<Rightarrow> pyfloat \<Rightarrow> mock_reply mock_action" where
  "messages_work tool_id msg_id body slept =
     bind (lift_raised (json_get body ''stream'' JNull)) (\<lambda>stream.
       if truthy stream
       then bind (lift_raised (stream_events msg_id body)) (\<lambda>events.
            bind (record_ok slept) (\<lambda>_. return (Events events)))
       else bind (record_ok slept) (\<lambda>_.
            bind (lift_raised (build_response tool_id msg_id body)) (\<lambda>r. return (Body r))))"

definition anthropic_messages :: "mock_settings \<Rightarrow> draws \<Rightarrow> uuid \<Rightarrow> uuid \<Rightarrow> json \<Rightarrow> mock_reply mock_action" where
  "anthropic_messages cfg d tool_id msg_id body =
     bind (begin_call cfg d anthropic_provider ''messages'') (messages_work tool_id msg_id body)"

section \<open>Google (\<^verbatim>\<open>google_mock.py\<close>)\<close>

definition google_provider :: string where
  "google_provider = ''google''"

text \<open>The parts of a content, and the text of the first part that has one.\<close>

definition parts_of :: "json \<Rightarrow> json list result" where
  "parts_of c = res_bind (json_get c ''parts'' (JList [])) json_iter"

fun find_part_text :: "json list \<Rightarrow> string option result" where
  "find_part_text [] = Inr None"
| "find_part_text (p # ps) =
     res_bind (json_has ''text'' p) (\<lambda>b.
       if b then res_bind (json_item p ''text'') (\<lambda>t. Inr (Some (py_str t))) else find_part_text ps)"

fun find_user_text :: "json list \<Rightarrow> string result" where
  "find_user_text [] = Inr []"
| "find_user_text (c # cs) =
     res_bind (parts_of c) (\<lambda>ps.
     res_bind (find_part_text ps) (\<lambda>t. case t of Some s \<Rightarrow> Inr s | None \<Rightarrow> find_user_text cs))"

definition extract_user_text :: "json \<Rightarrow> string result" where
  "extract_user_text req =
     res_bind (json_get req ''contents'' (JList [])) (\<lambda>contents.
     res_bind (json_reversed contents) find_user_text)"

definition part_tokens :: "json \<Rightarrow> int result" where
  "part_tokens p =
     res_bind (json_get p ''text'' (JStr [])) (\<lambda>t. res_bind (json_len t) (\<lambda>n. Inr (approx_tokens n)))"

definition google_prompt_tokens :: "json \<Rightarrow> int result" where
  "google_prompt_tokens body =
     res_bind (json_get body ''contents'' (JList [])) (\<lambda>contents.
     res_bind (json_iter contents) (\<lambda>cs.
     res_bind (map_result (\<lambda>c. res_bind (parts_of c) (\<lambda>ps. map_result part_tokens ps)) cs) (\<lambda>counts.
       Inr (sum_list (concat counts)))))"

definition generate_work :: "string \<Rightarrow> json \<Rightarrow> pyfloat \<Rightarrow> mock_reply mock_action" where
  "generate_work model body slept =
     bind (lift_raised (extract_user_text body)) (\<lambda>user.
     bind (lift_raised (google_prompt_tokens body)) (\<lambda>prompt_tokens.
     bind (record_ok slept) (\<lambda>_.
       let text = ''Mocked Gemini reply to: '' @ take 80 user;
           candidates_tokens = approx_tokens (length text)
       in return (Body (JObj
         [(''candidates'', JList [JObj [(''content'', JObj [(''role'', JStr ''model''),
             (''parts'', JList [JObj [(''text'', JStr text)]])]), (''finishReason'', JStr ''STOP''), (''index'', JInt 0),
             (''safetyRatings'', JList [])]]),
          (''usageMetadata'', JObj [(''promptTokenCount'', JInt prompt_tokens),
             (''candidatesTokenCount'', JInt candidates_tokens),
             (''totalTokenCount'', JInt (prompt_tokens + candidates_tokens))]),
          (''modelVersion'', JStr model)])))))"

definition generate_content :: "mock_settings \<Rightarrow> draws \<Rightarrow> string \<Rightarrow> json \<Rightarrow> mock_reply mock_action" where
  "generate_content cfg d model body =
     bind (begin_call cfg d google_provider ''generateContent'') (generate_work model body)"

definition stream_generate_content :: "mock_settings \<Rightarrow> draws \<Rightarrow> string \<Rightarrow> json \<Rightarrow> mock_reply mock_action" where
  "stream_generate_content cfg d model body = generate_content cfg d model body"

section \<open>What every handler promises\<close>

text \<open>
  A handler starts with \<^const>\<open>begin_call\<close>; the rest of it counts the call at most once, as a success,
  and touches nothing else of the engine; when it answers, the call is counted.
\<close>

locale mock_route =
  fixes p r :: string and handler :: "mock_settings \<Rightarrow> draws \<Rightarrow> json \<Rightarrow> mock_reply mock_action"
    and work :: "json \<Rightarrow> pyfloat \<Rightarrow> mock_reply mock_action"
  assumes starts: "handler cfg d body = bind (begin_call cfg d p r) (work body)"
    and counts: "snd (work body slept en) \<in> {en, record_call slept False False en}"
    and answers: "work body slept en = (Inr reply, en') \<Longrightarrow> en' = record_call slept False False en"
begin

lemma refused:
  "maybe_inject_error cfg d p r en = (Inl e, en') \<Longrightarrow> handler cfg d body en = (Inl e, en')"
  by (simp add: starts begin_call_def bind_def)

lemma proceeds:
  "maybe_inject_error cfg d p r en = (Inr (), en') \<Longrightarrow> handler cfg d body en
    = work body (sleep_with_jitter (dr_jitter d) (engine_latency_ms cfg p r en') default_jitter) en'"
  by (simp add: starts begin_call_def bind_def)

lemma same_injection:
  "maybe_inject_error cfg d p r en = maybe_inject_error cfg d p r en' \<Longrightarrow> handler cfg d body en = handler cfg d body en'"
  by (simp add: starts begin_call_def bind_def)

lemma forced:
  "status = 429 \<or> 500 \<le> status \<Longrightarrow> handler cfg d body (break_provider p r status en)
     = (Inl (make_openai_error (if status = 429 then ''Rate limit exceeded (forced)'' else ''Forced server error'')
             (if status = 429 then ''rate_limit_exceeded'' else ''server_error'') status),
        record_call 0 (status \<noteq> 429) (status = 429) (heal_provider p r en))"
  by (auto intro!: refused simp: inject_after_break)

lemma keeps_ok:
  assumes "engine_ok en"
  shows "engine_ok (snd (handler cfg d body en))"
proof (cases "maybe_inject_error cfg d p r en")
  case (Pair res en')
  have en': "engine_ok en'" using inject_ok [OF assms, of cfg d p r] Pair by simp
  show ?thesis
  proof (cases res)
    case (Inl e)
    with Pair en' show ?thesis by (simp add: refused)
  next
    case (Inr x)
    with Pair have "handler cfg d body en
        = work body (sleep_with_jitter (dr_jitter d) (engine_latency_ms cfg p r en') default_jitter) en'"
      by (simp add: proceeds)
    with counts [of body "sleep_with_jitter (dr_jitter d) (engine_latency_ms cfg p r en') default_jitter" en'] en'
    show ?thesis by (auto simp: record_call_ok sleep_nonneg)
  qed
qed

end

lemma snd_lift_raised [simp]: "snd (lift_raised x en) = en"
  by (simp add: lift_raised_def split: sum.split)

lemma lift_raised_eqs [simp]: "lift_raised (Inl e) en = (Inl (MockRaised e), en)" "lift_raised (Inr x) en = (Inr x, en)"
  by (simp_all add: lift_raised_def)

lemma bind_lift_raised: "bind (lift_raised x) f en = (case x of Inl e \<Rightarrow> (Inl (MockRaised e), en) | Inr y \<Rightarrow> f y en)"
  by (simp add: bind_def split: sum.split)

lemma bind_record_ok: "bind (record_ok l) f en = f () (record_call l False False en)"
  by (simp add: bind_def record_ok_def)

lemmas work_steps = bind_lift_raised bind_record_ok Let_def

interpretation chat: mock_route openai_provider "''chat''"
  "\<lambda>cfg d. chat_completions cfg d now call_id cmpl_id" "chat_work now call_id cmpl_id" for now call_id cmpl_id
  by unfold_locales (auto simp: chat_completions_def chat_work_def work_steps split: sum.splits if_splits)

interpretation embed: mock_route openai_provider "''embeddings''" embeddings embeddings_work
  by unfold_locales (auto simp: embeddings_def embeddings_work_def work_steps split: sum.splits if_splits)

interpretation images: mock_route openai_provider "''images''" "\<lambda>cfg d. images_generations cfg d now" "images_work now" for now
  by unfold_locales (auto simp: images_generations_def images_work_def work_steps split: sum.splits if_splits)

interpretation messages: mock_route anthropic_provider "''messages''"
  "\<lambda>cfg d. anthropic_messages cfg d tool_id msg_id" "messages_work tool_id msg_id" for tool_id msg_id
  by unfold_locales (auto simp: anthropic_messages_def messages_work_def work_steps split: sum.splits if_splits)

interpretation generate: mock_route google_provider "''generateContent''"
  "\<lambda>cfg d. generate_content cfg d model" "generate_work model" for model
  by unfold_locales (auto simp: generate_content_def generate_work_def work_steps split: sum.splits if_splits)

section \<open>Runs of the server\<close>

text \<open>Any interleaving of provider calls and control calls, each with its own draws.\<close>

inductive mock_step :: "mock_settings \<Rightarrow> mock_server \<Rightarrow> mock_server \<Rightarrow> bool" for cfg where
  step_chat: "mock_step cfg sv (sv\<lparr>sv_engine := snd (chat_completions cfg d now u v body (sv_engine sv))\<rparr>)"
| step_embed: "mock_step cfg sv (sv\<lparr>sv_engine := snd (embeddings cfg d body (sv_engine sv))\<rparr>)"
| step_images: "mock_step cfg sv (sv\<lparr>sv_engine := snd (images_generations cfg d now body (sv_engine sv))\<rparr>)"
| step_messages: "mock_step cfg sv (sv\<lparr>sv_engine := snd (anthropic_messages cfg d u v body (sv_engine sv))\<rparr>)"
| step_generate: "mock_step cfg sv (sv\<lparr>sv_engine := snd (generate_content cfg d model body (sv_engine sv))\<rparr>)"
| step_scenario: "mock_step cfg sv (snd (set_scenario q sv))"
| step_reset: "mock_step cfg sv (snd (reset_route sv))"
| step_snapshot: "mock_step cfg sv (snd (add_snapshot key response status sv))"

inductive mock_reachable :: "mock_settings \<Rightarrow> mock_server \<Rightarrow> bool" for cfg where
  mock_start: "mock_reachable cfg \<lparr>sv_engine = fresh_engine, sv_snapshots = []\<rparr>"
| mock_more: "mock_reachable cfg sv \<Longrightarrow> mock_step cfg sv sv' \<Longrightarrow> mock_reachable cfg sv'"

lemma mock_step_ok: "mock_step cfg sv sv' \<Longrightarrow> engine_ok (sv_engine sv) \<Longrightarrow> engine_ok (sv_engine sv')"
  by (induction rule: mock_step.induct)
    (simp_all add: chat.keeps_ok embed.keeps_ok images.keeps_ok messages.keeps_ok generate.keeps_ok set_scenario_ok
      reset_route_def add_snapshot_def engine_reset_ok)

lemma mock_reachable_ok: "mock_reachable cfg sv \<Longrightarrow> engine_ok (sv_engine sv)"
  by (induction rule: mock_reachable.induct) (simp_all add: fresh_engine_ok mock_step_ok)

end
