(* ===== verification/Storage.thy ===== *)
theory Storage
  imports PyRepr
begin

text \<open>
  Object storage (\<^verbatim>\<open>app/repository/storage/s3_client.py\<close>). The S3 service is a parameter: it is asked to
  store an object and to sign a URL. \<open>AsyncIterReader\<close> adapts an asynchronous iterator of byte
  chunks (finite, and never raising) to the file interface the upload reads from; its refinement to a plain byte sequence with
  a read position is the contract the upload relies on.
\<close>

type_synonym bytes = "8 word list"

section \<open>The reader\<close>

record reader =
  rd_source :: "bytes list"
  rd_buffer :: bytes

definition AsyncIterReader :: "bytes list \<Rightarrow> reader" where
  "AsyncIterReader source = \<lparr>rd_source = source, rd_buffer = []\<rparr>"

text \<open>\<^verbatim>\<open>while len(self._buffer) < size\<close>: a chunk per turn, until the source is exhausted.\<close>

fun fill :: "nat \<Rightarrow> bytes \<Rightarrow> bytes list \<Rightarrow> bytes \<times> bytes list" where
  "fill n buf [] = (buf, [])"
| "fill n buf (chunk # source) =
     (if length buf < n then fill n (buf @ chunk) source else (buf, chunk # source))"

definition reader_read :: "int \<Rightarrow> reader \<Rightarrow> bytes \<times> reader" where
  "reader_read n r =
     (if n < 0 then (rd_buffer r @ concat (rd_source r), \<lparr>rd_source = [], rd_buffer = []\<rparr>)
      else case fill (nat n) (rd_buffer r) (rd_source r) of
        (buf, source) \<Rightarrow> (take (nat n) buf, \<lparr>rd_source = source, rd_buffer = drop (nat n) buf\<rparr>))"

section \<open>A plain byte sequence\<close>

definition contents :: "reader \<Rightarrow> bytes" where
  "contents r = rd_buffer r @ concat (rd_source r)"

definition plain_read :: "int \<Rightarrow> bytes \<Rightarrow> bytes \<times> bytes" where
  "plain_read n bs = (if n < 0 then (bs, []) else (take (nat n) bs, drop (nat n) bs))"

lemma fill_contents: "fill n buf source = (buf', source') \<Longrightarrow> buf' @ concat source' = buf @ concat source"
  by (induction n buf source rule: fill.induct) (auto split: if_splits)

lemma fill_enough: "fill n buf source = (buf', source') \<Longrightarrow> n \<le> length buf' \<or> source' = []"
  by (induction n buf source rule: fill.induct) (auto split: if_splits)

text \<open>Reading never looks past the chunk that completes the request.\<close>

lemma fill_lazy: "fill n buf source = (buf', source') \<Longrightarrow> \<exists>used. source = used @ source'
    \<and> (used = [] \<or> length (buf @ concat (butlast used)) < n)"
proof (induction n buf source rule: fill.induct)
  case (2 n buf chunk source)
  show ?case
  proof (cases "length buf < n")
    case True
    with 2 obtain used where u: "source = used @ source'"
      "used = [] \<or> length ((buf @ chunk) @ concat (butlast used)) < n" by auto
    then have "chunk # source = (chunk # used) @ source'" by simp
    moreover have "length (buf @ concat (butlast (chunk # used))) < n"
      using u True by (cases "used = []") simp_all
    ultimately show ?thesis by blast
  qed (use 2 in simp)
qed simp

lemma take_filled: "n \<le> length buf \<or> rest = [] \<Longrightarrow> take n (buf @ rest) = take n buf"
  and drop_filled: "n \<le> length buf \<or> rest = [] \<Longrightarrow> drop n (buf @ rest) = drop n buf @ rest"
  by auto

lemma read_refines:
  "fst (reader_read n r) = fst (plain_read n (contents r))"
  "contents (snd (reader_read n r)) = snd (plain_read n (contents r))"
proof -
  obtain buf source where f: "fill (nat n) (rd_buffer r) (rd_source r) = (buf, source)" by force
  have c: "contents r = buf @ concat source" using fill_contents [OF f] by (simp add: contents_def)
  have e: "nat n \<le> length buf \<or> concat source = []" using fill_enough [OF f] by auto
  show "fst (reader_read n r) = fst (plain_read n (contents r))"
  proof (cases "n < 0")
    case False
    with e show ?thesis by (simp only: reader_read_def plain_read_def f c take_filled split: prod.split) simp
  qed (simp add: reader_read_def plain_read_def contents_def)
  show "contents (snd (reader_read n r)) = snd (plain_read n (contents r))"
  proof (cases "n < 0")
    case False
    have "contents (snd (reader_read n r)) = drop (nat n) buf @ concat source"
      using False f by (simp add: reader_read_def contents_def)
    with False e show ?thesis by (simp only: plain_read_def c drop_filled) simp
  qed (simp add: reader_read_def plain_read_def contents_def)
qed

text \<open>A client that reads blocks of a fixed size until it gets an empty one.\<close>

function read_all :: "nat \<Rightarrow> reader \<Rightarrow> bytes" where
  "read_all n r =
     (case reader_read (int n) r of (block, r') \<Rightarrow> if block = [] then [] else block @ read_all n r')"
  by pat_completeness auto

lemma read_shrinks:
  assumes "reader_read (int n) r = (block, r')" "block \<noteq> []"
  shows "length (contents r') < length (contents r)"
proof -
  have "contents r' = drop n (contents r)" "block = take n (contents r)"
    using read_refines [of "int n" r] assms(1) by (simp_all add: plain_read_def)
  with assms(2) show ?thesis by auto
qed

termination read_all
  by (relation "measure (\<lambda>(n, r). length (contents r))") (auto intro: read_shrinks [OF sym])

declare read_all.simps [simp del]

lemma read_all_contents: "0 < n \<Longrightarrow> read_all n r = contents r"
proof (induction n r rule: read_all.induct)
  case (1 n r)
  obtain block r' where b: "reader_read (int n) r = (block, r')" by force
  have c: "contents r' = drop n (contents r)" "block = take n (contents r)"
    using read_refines [of "int n" r] b by (simp_all add: plain_read_def)
  show ?case
  proof (cases "block = []")
    case True
    with c(2) 1 b show ?thesis by (simp add: read_all.simps)
  next
    case False
    then have "read_all n r' = contents r'" using 1 b by auto
    with b False c show ?thesis by (simp add: read_all.simps [of n r])
  qed
qed

text \<open>Any sequence of reads.\<close>

fun reader_reads :: "int list \<Rightarrow> reader \<Rightarrow> bytes list" where
  "reader_reads [] r = []"
| "reader_reads (n # ns) r = (case reader_read n r of (b, r') \<Rightarrow> b # reader_reads ns r')"

fun plain_reads :: "int list \<Rightarrow> bytes \<Rightarrow> bytes list" where
  "plain_reads [] bs = []"
| "plain_reads (n # ns) bs = (case plain_read n bs of (b, bs') \<Rightarrow> b # plain_reads ns bs')"

lemma reads_refine: "reader_reads ns r = plain_reads ns (contents r)"
proof (induction ns arbitrary: r)
  case (Cons n ns)
  show ?case using read_refines [of n r] Cons.IH by (simp add: case_prod_beta)
qed simp

section \<open>The client\<close>

record s3_settings =
  s3_endpoint :: string
  s3_access_key :: string
  s3_secret_key :: string
  s3_bucket :: string
  s3_region :: string

record client_kwargs =
  ck_endpoint_url :: "string option"
  ck_access_key_id :: string
  ck_secret_access_key :: string
  ck_region_name :: string

definition s3_client_bucket :: "s3_settings \<Rightarrow> string option \<Rightarrow> string" where
  "s3_client_bucket cfg bucket = (case bucket of None \<Rightarrow> s3_bucket cfg | Some b \<Rightarrow> if b = [] then s3_bucket cfg else b)"

definition client_kwargs :: "s3_settings \<Rightarrow> client_kwargs" where
  "client_kwargs cfg =
     \<lparr>ck_endpoint_url = (if s3_endpoint cfg = [] then None else Some (s3_endpoint cfg)),
      ck_access_key_id = s3_access_key cfg, ck_secret_access_key = s3_secret_key cfg, ck_region_name = s3_region cfg\<rparr>"

text \<open>What the service is asked: an object given whole, or read from a reader. It may refuse.\<close>

datatype upload_body = Whole bytes | Streamed "bytes list"

record put_request =
  pu_client :: client_kwargs
  pu_bucket :: string
  pu_key :: string
  pu_content_type :: "string option"

definition upload_video :: "s3_settings \<Rightarrow> string \<Rightarrow> (put_request \<Rightarrow> bytes \<Rightarrow> unit result)
    \<Rightarrow> (put_request \<Rightarrow> reader \<Rightarrow> unit result) \<Rightarrow> string \<Rightarrow> upload_body \<Rightarrow> string \<Rightarrow> string result" where
  "upload_video cfg bucket put_object upload_fileobj key body content_type =
     (let q = \<lparr>pu_client = client_kwargs cfg, pu_bucket = bucket, pu_key = key, pu_content_type = None\<rparr>
      in res_bind (case body of
           Whole bs \<Rightarrow> put_object (q\<lparr>pu_content_type := Some content_type\<rparr>) bs
         | Streamed source \<Rightarrow> upload_fileobj q (AsyncIterReader source))
         (\<lambda>_. Inr (''s3://'' @ bucket @ ''/'' @ key)))"

definition default_signed_url_ttl :: int where
  "default_signed_url_ttl = 86400"

definition generate_signed_url :: "s3_settings \<Rightarrow> string \<Rightarrow> (client_kwargs \<Rightarrow> string \<Rightarrow> string \<Rightarrow> string \<Rightarrow> int \<Rightarrow> string result)
    \<Rightarrow> string \<Rightarrow> int \<Rightarrow> string result" where
  "generate_signed_url cfg bucket presign key expires_in =
     presign (client_kwargs cfg) ''get_object'' bucket key expires_in"

text \<open>
  Whichever form the body has, a service that reads a stream in blocks to its end receives the same
  bytes. The content type is only sent with a whole body.
\<close>

definition block_upload :: "nat \<Rightarrow> (put_request \<Rightarrow> bytes \<Rightarrow> unit result) \<Rightarrow> put_request \<Rightarrow> reader \<Rightarrow> unit result" where
  "block_upload n store q r = store q (read_all n r)"

lemma upload_forms_agree:
  assumes "0 < n"
  shows "upload_video cfg bucket store (block_upload n store) key (Streamed source) ct
    = upload_video cfg bucket (\<lambda>q. store (q\<lparr>pu_content_type := None\<rparr>)) (block_upload n store) key (Whole (concat source)) ct"
  using read_all_contents [OF assms, of "AsyncIterReader source"]
  by (simp add: upload_video_def block_upload_def contents_def AsyncIterReader_def Let_def)

end
