(* ===== verification/Lifecycle.thy ===== *)
theory Lifecycle
  imports Routing PyUuid
begin

text \<open>
  Process life cycle: the module-level clients of \<^verbatim>\<open>database.py\<close>, \<^verbatim>\<open>redis_client.py\<close> and \<^verbatim>\<open>events/bus.py\<close>,
  the lifespan of the HTTP application (\<^verbatim>\<open>main.py\<close>), the gRPC process (\<^verbatim>\<open>grpc_main.py\<close>,
  \<^verbatim>\<open>grpc/server.py\<close>), the request middleware and the scrubbing of log events. What the outside world
  answers to a connection attempt is a parameter.
\<close>

section \<open>The module-level clients\<close>

datatype connection = Live | Released

record clients =
  cl_db :: "connection option"
  cl_redis :: "connection option"
  cl_bus :: "connection option"

definition no_clients :: clients where
  "no_clients = \<lparr>cl_db = None, cl_redis = None, cl_bus = None\<rparr>"

type_synonym 'a life = "(clients, exn, 'a) action"

text \<open>Creating the engine opens no connection yet.\<close>

definition init_db :: "unit life" where
  "init_db c = (Inr (), c\<lparr>cl_db := Some Live\<rparr>)"

definition close_db :: "unit life" where
  "close_db c = (Inr (), case cl_db c of None \<Rightarrow> c | Some _ \<Rightarrow> c\<lparr>cl_db := Some Released\<rparr>)"

definition get_session_factory :: "connection life" where
  "get_session_factory c = (case cl_db c of
     None \<Rightarrow> (Inl (RuntimeError ''DB not initialized''), c) | Some x \<Rightarrow> (Inr x, c))"

text \<open>The client is stored before the ping that may fail.\<close>

definition init_redis :: "unit result \<Rightarrow> unit life" where
  "init_redis ping c = (ping, c\<lparr>cl_redis := Some Live\<rparr>)"

definition close_redis :: "unit life" where
  "close_redis c = (Inr (), case cl_redis c of None \<Rightarrow> c | Some _ \<Rightarrow> c\<lparr>cl_redis := Some Released\<rparr>)"

definition get_redis :: "connection life" where
  "get_redis c = (case cl_redis c of
     None \<Rightarrow> (Inl (RuntimeError ''Redis not initialized''), c) | Some x \<Rightarrow> (Inr x, c))"

text \<open>\<open>stream\<close>: \<open>Inr True\<close> the stream exists, \<open>Inr False\<close> not found, \<open>Inl\<close> any other error.\<close>

definition init_event_bus :: "unit result \<Rightarrow> bool result \<Rightarrow> unit result \<Rightarrow> unit life" where
  "init_event_bus connect stream add_stream c =
     (case connect of
        Inl e \<Rightarrow> (Inl e, c)
      | Inr _ \<Rightarrow> (res_bind stream (\<lambda>found. if found then Inr () else add_stream), c\<lparr>cl_bus := Some Live\<rparr>))"

definition close_event_bus :: "unit result \<Rightarrow> unit life" where
  "close_event_bus drain c =
     (case cl_bus c of
        None \<Rightarrow> (Inr (), c)
      | Some _ \<Rightarrow> (case drain of Inl e \<Rightarrow> (Inl e, c) | Inr _ \<Rightarrow> (Inr (), c\<lparr>cl_bus := Some Released\<rparr>)))"

definition get_nats :: "connection life" where
  "get_nats c = (case cl_bus c of
     None \<Rightarrow> (Inl (RuntimeError ''Event bus not initialized''), c) | Some x \<Rightarrow> (Inr x, c))"

definition publish :: "(connection \<Rightarrow> unit result) \<Rightarrow> unit life" where
  "publish js = bind get_nats (\<lambda>nc. lift (js nc))"

section \<open>Start and stop\<close>

record outside =
  ow_ping :: "unit result"
  ow_connect :: "unit result"
  ow_stream :: "bool result"
  ow_add_stream :: "unit result"
  ow_drain :: "unit result"

definition lifespan_start :: "outside \<Rightarrow> unit life" where
  "lifespan_start w =
     bind init_db (\<lambda>_. bind (init_redis (ow_ping w)) (\<lambda>_.
       init_event_bus (ow_connect w) (ow_stream w) (ow_add_stream w)))"

definition lifespan_stop :: "outside \<Rightarrow> unit life" where
  "lifespan_stop w = bind (close_event_bus (ow_drain w)) (\<lambda>_. bind close_redis (\<lambda>_. close_db))"

text \<open>
  The gRPC process opens the database and Redis only; once the server runs, \<^verbatim>\<open>finally\<close> closes them
  whatever ends the wait. \<open>start\<close> covers creating and starting the server.
\<close>

definition serve :: "outside \<Rightarrow> unit result \<Rightarrow> unit result \<Rightarrow> unit result \<Rightarrow> unit life" where
  "serve w start wait stop =
     bind init_db (\<lambda>_. bind (init_redis (ow_ping w)) (\<lambda>_. bind (lift start) (\<lambda>_ c.
       (case bind (lift stop) (\<lambda>_. bind close_redis (\<lambda>_. close_db)) c of
          (Inl e, c') \<Rightarrow> (Inl e, c')
        | (Inr _, c') \<Rightarrow> (wait, c')))))"

text \<open>The SIGHUP handler: reload the routing configuration, log the outcome, raise nothing.\<close>

datatype sighup_log = Reloaded nat | ReloadFailed exn

definition sighup_handler :: "json result \<Rightarrow> json result \<Rightarrow> sighup_log config_action" where
  "sighup_handler file1 file2 cache =
     (case reload_routing_config file1 file2 cache of
        (Inr cfg, cache') \<Rightarrow> (Inr (Reloaded (length (rc_pool cfg))), cache')
      | (Inl e, cache') \<Rightarrow> (Inr (ReloadFailed e), cache'))"

section \<open>The request middleware\<close>

record request_log =
  rl_request_id :: string
  rl_method :: string
  rl_path :: string

text \<open>
  A handler gets the bound context and answers with a status, headers and a body, or raises; the context
  of an earlier request is gone.
\<close>

definition dispatch :: "uuid \<Rightarrow> string option \<Rightarrow> string \<Rightarrow> string \<Rightarrow> (request_log \<Rightarrow> (int \<times> (string \<times> string) list \<times> 'b) result)
    \<Rightarrow> request_log \<Rightarrow> (int \<times> (string \<times> string) list \<times> 'b) result \<times> request_log" where
  "dispatch fresh header meth path call_next previous =
     (let request_id = (case header of None \<Rightarrow> uuid_str fresh | Some h \<Rightarrow> if h = [] then uuid_str fresh else h);
          context = \<lparr>rl_request_id = request_id, rl_method = meth, rl_path = path\<rparr>
      in (res_bind (call_next context) (\<lambda>(status, headers, body).
            Inr (status, AList.update ''x-request-id'' request_id headers, body)), context))"

section \<open>Log events\<close>

datatype processor = MergeContextvars | AddLogLevel | TimeStamper | StackInfo | FormatExcInfo
  | ConsoleRenderer | ScrubSensitive | JSONRenderer

definition log_processors :: "string \<Rightarrow> processor list" where
  "log_processors environment =
     [MergeContextvars, AddLogLevel, TimeStamper, StackInfo, FormatExcInfo]
     @ (if environment = ''dev'' then [ConsoleRenderer] else [ScrubSensitive, JSONRenderer])"

definition sensitive_keys :: "string list" where
  "sensitive_keys = [''api_key'', ''password'', ''secret'', ''token'', ''authorization'', ''x-api-key'', ''stripe_api_key'']"

definition scrub_sensitive_fields :: "(string \<times> json) list \<Rightarrow> (string \<times> json) list" where
  "scrub_sensitive_fields event_dict =
     fold (\<lambda>key d. if py_lower key \<in> set sensitive_keys then AList.update key (JStr ''***REDACTED***'') d else d)
       (map fst event_dict) event_dict"

section \<open>What holds\<close>

lemma start_ok:
  assumes "lifespan_start w c = (Inr (), c')"
  shows "get_session_factory c' = (Inr Live, c')" "get_redis c' = (Inr Live, c')" "get_nats c' = (Inr Live, c')"
  using assms
  by (auto simp: lifespan_start_def bind_def init_db_def init_redis_def init_event_bus_def get_session_factory_def
      get_redis_def get_nats_def split: sum.splits)

lemma stop_releases:
  assumes "lifespan_start w c = (Inr (), c1)" "lifespan_stop w c1 = (Inr (), c2)"
  shows "c2 = c1\<lparr>cl_db := Some Released, cl_redis := Some Released, cl_bus := Some Released\<rparr>"
  using assms
  by (auto simp: lifespan_start_def lifespan_stop_def bind_def init_db_def init_redis_def init_event_bus_def
      close_event_bus_def close_redis_def close_db_def split: sum.splits)

text \<open>A start that fails leaves the connections it had opened; so does a stop whose drain fails.\<close>

lemma failed_start_leaks:
  assumes "lifespan_start w c = (Inl e, c')"
  shows "cl_db c' = Some Live" "cl_redis c' = Some Live"
  using assms
  by (auto simp: lifespan_start_def bind_def init_db_def init_redis_def init_event_bus_def split: sum.splits)

lemma failed_drain_leaks:
  assumes "lifespan_start w c = (Inr (), c1)" "ow_drain w = Inl e"
  shows "lifespan_stop w c1 = (Inl e, c1)"
  using assms
  by (auto simp: lifespan_start_def lifespan_stop_def bind_def init_db_def init_redis_def init_event_bus_def
      close_event_bus_def split: sum.splits)

lemma serve_releases:
  assumes "ow_ping w = Inr ()" "start = Inr ()" "stop = Inr ()"
  shows "snd (serve w start wait stop c) = c\<lparr>cl_db := Some Released, cl_redis := Some Released\<rparr>"
    and "fst (serve w start wait stop c) = wait"
  using assms by (simp_all add: serve_def bind_def init_db_def init_redis_def close_redis_def close_db_def)

lemma getters_before_start:
  "\<exists>m. get_session_factory no_clients = (Inl (RuntimeError m), no_clients)"
  "\<exists>m. get_redis no_clients = (Inl (RuntimeError m), no_clients)"
  "\<exists>m. publish js no_clients = (Inl (RuntimeError m), no_clients)"
  by (simp_all add: get_session_factory_def get_redis_def publish_def get_nats_def no_clients_def bind_def)

lemma dispatch_stamps:
  assumes "dispatch fresh header meth path call_next previous = (Inr (status, headers, body), context)"
  shows "map_of headers ''x-request-id'' = Some (rl_request_id context)"
    and "header = Some h \<Longrightarrow> h \<noteq> [] \<Longrightarrow> rl_request_id context = h"
  using assms by (auto simp: dispatch_def Let_def res_bind_Inr_iff update_conv' split: option.splits if_splits)

lemma scrub_fold:
  "map_of (fold (\<lambda>key d. if py_lower key \<in> set sensitive_keys then AList.update key v d else d) ks d) k
    = (if k \<in> set ks \<and> py_lower k \<in> set sensitive_keys then Some v else map_of d k)"
  by (induction ks arbitrary: d) (auto simp: update_conv')

lemma scrub_result:
  "map_of (scrub_sensitive_fields d) k
    = (if k \<in> set (map fst d) \<and> py_lower k \<in> set sensitive_keys then Some (JStr ''***REDACTED***'') else map_of d k)"
  by (simp add: scrub_sensitive_fields_def scrub_fold)

end
