(* ===== verification/Tasks.thy ===== *)
theory Tasks
  imports Repositories PyRepr PyDatetime Lifecycle
begin

text \<open>
  The Celery task bodies of \<^verbatim>\<open>app/repository/tasks\<close>: daily aggregation and low-balance alerts
  (\<^verbatim>\<open>billing.py\<close>), the three stages of video generation (\<^verbatim>\<open>video.py\<close>) and outbound webhook delivery
  (\<^verbatim>\<open>webhooks.py\<close>). Queueing and retrying are Celery's. HMAC and the HTTP client are parameters.
\<close>

section \<open>Billing\<close>

text \<open>
  A day is its number in the calendar (\<^verbatim>\<open>date.toordinal\<close>): the one asked for by its ISO text, or the day
  before today. One row per organization with usage on that day: the length of a \<^verbatim>\<open>GROUP BY\<close>. The
  query needs the database client of the process the task runs in, which is taken to work on the event
  loop \<^verbatim>\<open>asyncio.run\<close> starts. The day after the last of the calendar raises before the client is asked for.
\<close>

definition target_day :: "datetime \<Rightarrow> string option \<Rightarrow> int result" where
  "target_day now day_iso =
     (let yesterday = now div day_us + epoch_ordinal - 1
      in case day_iso of
           Some (c # s) \<Rightarrow> date_fromisoformat (c # s)
         | _ \<Rightarrow> if 1 \<le> yesterday then Inr yesterday else Inl (OverflowError ''date value out of range''))"

definition usage_orgs :: "datetime \<Rightarrow> datetime \<Rightarrow> database \<Rightarrow> uuid list" where
  "usage_orgs start stop db =
     remdups (map r_org_id (filter (\<lambda>r. start \<le> r_created_at r \<and> r_created_at r < stop) (usage_records db)))"

definition aggregate_daily_usage :: "clients \<Rightarrow> datetime \<Rightarrow> string option \<Rightarrow> database \<Rightarrow> nat result" where
  "aggregate_daily_usage c now day_iso db =
     res_bind (target_day now day_iso) (\<lambda>day.
       if day = max_ordinal then Inl (OverflowError ''date value out of range'')
       else
         let start = (day - epoch_ordinal) * day_us; stop = start + day_us
         in res_bind (fst (get_session_factory c)) (\<lambda>_. Inr (length (usage_orgs start stop db))))"

lemma in_day_iff:
  assumes "0 < (w :: int)"
  shows "d * w \<le> t \<and> t < d * w + w \<longleftrightarrow> t div w = d"
proof
  assume "d * w \<le> t \<and> t < d * w + w"
  then show "t div w = d" by (intro int_div_pos_eq [where r = "t - d * w"]) (simp_all add: algebra_simps)
next
  assume "t div w = d"
  then show "d * w \<le> t \<and> t < d * w + w"
    using div_mult_mod_eq [of t w] pos_mod_bound [OF assms, of t] pos_mod_sign [OF assms, of t] by auto
qed

lemma usage_orgs_of_day:
  "length (usage_orgs (k * day_us) (k * day_us + day_us) db)
    = card {org. \<exists>r \<in> set (usage_records db). r_org_id r = org \<and> r_created_at r div day_us = k}"
proof -
  have pos: "0 < day_us" by (simp add: day_us_def second_us_def)
  have "set (map r_org_id (filter (\<lambda>r. r_created_at r div day_us = k) (usage_records db)))
      = {org. \<exists>r \<in> set (usage_records db). r_org_id r = org \<and> r_created_at r div day_us = k}"
    by auto
  then show ?thesis
    by (simp only: usage_orgs_def in_day_iff [OF pos] length_remdups_card_conv)
qed

lemma aggregate_of_day:
  assumes "target_day now day_iso = Inr n" "n < max_ordinal"
  shows "aggregate_daily_usage c now day_iso db =
    (case cl_db c of
       None \<Rightarrow> Inl (RuntimeError ''DB not initialized'')
     | Some _ \<Rightarrow> Inr (card {org. \<exists>r \<in> set (usage_records db). r_org_id r = org
           \<and> r_created_at r div day_us + epoch_ordinal = n}))"
  using assms usage_orgs_of_day [of "n - epoch_ordinal" db]
  by (simp add: aggregate_daily_usage_def get_session_factory_def Let_def eq_diff_eq split: option.split)

lemma target_day_text:
  assumes "1 \<le> n" "n \<le> max_ordinal"
  shows "target_day now (Some (date_isoformat n)) = Inr n"
proof -
  have "date_isoformat n \<noteq> []" by (simp add: date_isoformat_def split: prod.split)
  then show ?thesis
    using date_round_trip [OF assms] by (cases "date_isoformat n") (simp_all add: target_day_def)
qed

definition low_balance_usd :: pyfloat where
  "low_balance_usd = 5"

definition send_low_balance_alert :: "string \<Rightarrow> pyfloat \<Rightarrow> bool" where
  "send_low_balance_alert org available_usd = (if low_balance_usd \<le> available_usd then False else True)"

section \<open>Video\<close>

record poll_result =
  po_job_id :: string
  po_status :: string
  po_provider_urls :: "string list"

definition submit_video_generation :: "string \<Rightarrow> string \<Rightarrow> string \<Rightarrow> json \<Rightarrow> string" where
  "submit_video_generation job_id model prompt options = ''provider-job-'' @ job_id"

definition poll_video_status :: "string \<Rightarrow> string \<Rightarrow> poll_result" where
  "poll_video_status job_id provider_job_id = \<lparr>po_job_id = job_id, po_status = ''completed'', po_provider_urls = []\<rparr>"

definition finalize_video :: "string \<Rightarrow> string list \<Rightarrow> string list" where
  "finalize_video job_id provider_urls =
     map (\<lambda>i. ''s3://openrouter-media/videos/'' @ job_id @ ''/'' @ show_nat i @ ''.mp4'') [0..<length provider_urls]"

definition video_pipeline :: "string \<Rightarrow> string \<Rightarrow> string \<Rightarrow> json \<Rightarrow> string list" where
  "video_pipeline job_id model prompt options =
     finalize_video job_id (po_provider_urls (poll_video_status job_id (submit_video_generation job_id model prompt options)))"

lemma show_nat_inj: "show_nat m = show_nat n \<longleftrightarrow> m = n"
  by (metis digits_val_show_nat)

lemma finalize_distinct: "distinct (finalize_video job urls)" "length (finalize_video job urls) = length urls"
  by (auto simp: finalize_video_def distinct_map inj_on_def show_nat_inj)

text \<open>As the polling stage stands, a job completes with no output.\<close>

lemma pipeline_empty: "video_pipeline job_id model prompt options = []"
  by (simp add: video_pipeline_def poll_video_status_def finalize_video_def)

section \<open>Outbound webhooks\<close>

record webhook_post =
  wp_url :: string
  wp_content :: string
  wp_headers :: "(string \<times> string) list"

definition webhook_body :: "datetime \<Rightarrow> string \<Rightarrow> (string \<times> json) list \<Rightarrow> string" where
  "webhook_body now event_type payload =
     json_dumps (JObj [(''type'', JStr event_type), (''data'', JObj payload), (''ts'', JInt (now div 1000000))])"

text \<open>\<open>hmac key body\<close> is the hexadecimal HMAC-SHA256; the client answers with a status, or raises.\<close>

definition webhook_request :: "(string \<Rightarrow> string \<Rightarrow> string) \<Rightarrow> string \<Rightarrow> datetime \<Rightarrow> string \<Rightarrow> string
    \<Rightarrow> (string \<times> json) list \<Rightarrow> string option \<Rightarrow> webhook_post" where
  "webhook_request hmac secret_key now url event_type payload secret =
     (let body = webhook_body now event_type payload;
          sign_key = (case secret of None \<Rightarrow> secret_key | Some s \<Rightarrow> if s = [] then secret_key else s)
      in \<lparr>wp_url = url, wp_content = body,
          wp_headers = [(''content-type'', ''application/json''), (''x-or-event'', event_type),
            (''x-or-signature'', hmac sign_key body)]\<rparr>)"

text \<open>
  What escapes a task: an error of the HTTP client, a time-out and a status that
  \<^verbatim>\<open>raise_for_status\<close> rejects among them, or anything else.
\<close>

datatype task_error = HttpxError string | TaskError exn

definition raise_for_status :: "int \<Rightarrow> task_error + int" where
  "raise_for_status status = (if 200 \<le> status \<and> status < 300 then Inr status else Inl (HttpxError ''HTTPStatusError''))"

definition deliver_webhook :: "(string \<Rightarrow> string \<Rightarrow> string) \<Rightarrow> string \<Rightarrow> (webhook_post \<Rightarrow> task_error + int) \<Rightarrow> datetime
    \<Rightarrow> string \<Rightarrow> string \<Rightarrow> (string \<times> json) list \<Rightarrow> string option \<Rightarrow> task_error + int" where
  "deliver_webhook hmac secret_key post now url event_type payload secret =
     (case post (webhook_request hmac secret_key now url event_type payload secret) of
        Inl e \<Rightarrow> Inl e
      | Inr status \<Rightarrow> raise_for_status status)"

text \<open>A receiver that knows the key can check the signature on the bytes it got.\<close>

lemma webhook_signed:
  "map_of (wp_headers (webhook_request hmac sk now url ev payload secret)) ''x-or-signature''
    = Some (hmac (case secret of None \<Rightarrow> sk | Some s \<Rightarrow> if s = [] then sk else s)
        (wp_content (webhook_request hmac sk now url ev payload secret)))"
  by (simp add: webhook_request_def Let_def)

section \<open>Retries\<close>

text \<open>
  The options of a task's decorator, with Celery's defaults where the source gives none. Retrying
  is Celery's: \<open>celery_contract\<close> is what its documentation says of a task that is run, where
  \<open>body n\<close> is the outcome of attempt \<open>n\<close>: the first attempt that succeeds, fails for good or is the
  last one allowed decides. The pause before retry \<open>k\<close> is at most \<open>backoff_ceiling\<close>, and exactly
  that without jitter.
\<close>

record task_options =
  to_name :: string
  to_autoretry_for :: "task_error \<Rightarrow> bool"
  to_backoff_max :: nat
  to_jitter :: bool
  to_max_retries :: nat

definition default_backoff_max :: nat where
  "default_backoff_max = 600"

fun is_httpx :: "task_error \<Rightarrow> bool" where
  "is_httpx (HttpxError m) = True"
| "is_httpx (TaskError e) = False"

definition submit_options :: task_options where
  "submit_options = \<lparr>to_name = ''video.submit_video_generation'', to_autoretry_for = (\<lambda>_. True),
     to_backoff_max = 600, to_jitter = True, to_max_retries = 5\<rparr>"

definition poll_options :: task_options where
  "poll_options = \<lparr>to_name = ''video.poll_video_status'', to_autoretry_for = (\<lambda>_. True),
     to_backoff_max = default_backoff_max, to_jitter = True, to_max_retries = 120\<rparr>"

definition finalize_options :: task_options where
  "finalize_options = \<lparr>to_name = ''video.finalize_video'', to_autoretry_for = (\<lambda>_. True),
     to_backoff_max = default_backoff_max, to_jitter = True, to_max_retries = 5\<rparr>"

definition deliver_options :: task_options where
  "deliver_options = \<lparr>to_name = ''webhooks.deliver'', to_autoretry_for = is_httpx,
     to_backoff_max = 3600, to_jitter = True, to_max_retries = 10\<rparr>"

definition aggregate_options :: task_options where
  "aggregate_options = \<lparr>to_name = ''billing.aggregate_daily_usage'', to_autoretry_for = (\<lambda>_. False),
     to_backoff_max = default_backoff_max, to_jitter = True, to_max_retries = 3\<rparr>"

definition alert_options :: task_options where
  "alert_options = \<lparr>to_name = ''billing.send_low_balance_alert'', to_autoretry_for = (\<lambda>_. False),
     to_backoff_max = default_backoff_max, to_jitter = True, to_max_retries = 3\<rparr>"

definition decides :: "task_options \<Rightarrow> (nat \<Rightarrow> task_error + 'a) \<Rightarrow> nat \<Rightarrow> bool" where
  "decides opts body n \<longleftrightarrow>
     n = to_max_retries opts \<or> (case body n of Inr _ \<Rightarrow> True | Inl e \<Rightarrow> \<not> to_autoretry_for opts e)"

definition celery_contract :: "(task_options \<Rightarrow> (nat \<Rightarrow> task_error + 'a) \<Rightarrow> (task_error + 'a) \<times> nat) \<Rightarrow> bool" where
  "celery_contract run \<longleftrightarrow>
     (\<forall>opts body n. n \<le> to_max_retries opts \<longrightarrow> decides opts body n \<longrightarrow> (\<forall>m < n. \<not> decides opts body m)
        \<longrightarrow> run opts body = (body n, n + 1))"

definition backoff_ceiling :: "task_options \<Rightarrow> nat \<Rightarrow> nat" where
  "backoff_ceiling opts k = min (to_backoff_max opts) (2 ^ k)"

definition total_ceiling :: "task_options \<Rightarrow> nat" where
  "total_ceiling opts = sum_list (map (backoff_ceiling opts) [0..<to_max_retries opts])"

text \<open>A run that satisfies the contract, for the witnesses.\<close>

fun attempts :: "task_options \<Rightarrow> (nat \<Rightarrow> task_error + 'a) \<Rightarrow> nat \<Rightarrow> nat \<Rightarrow> (task_error + 'a) \<times> nat" where
  "attempts opts body 0 n = (body n, n + 1)"
| "attempts opts body (Suc left) n = (if decides opts body n then (body n, n + 1) else attempts opts body left (Suc n))"

definition run_attempts :: "task_options \<Rightarrow> (nat \<Rightarrow> task_error + 'a) \<Rightarrow> (task_error + 'a) \<times> nat" where
  "run_attempts opts body = attempts opts body (to_max_retries opts) 0"

lemma attempts_decide:
  "decides opts body (n + j) \<Longrightarrow> \<forall>m < j. \<not> decides opts body (n + m) \<Longrightarrow> j \<le> left
    \<Longrightarrow> attempts opts body left n = (body (n + j), n + j + 1)"
proof (induction left arbitrary: n j)
  case (Suc left)
  show ?case
  proof (cases j)
    case (Suc i)
    have "decides opts body (Suc n + i)" "\<forall>m < i. \<not> decides opts body (Suc n + m)"
      using Suc.prems(1) spec [OF Suc.prems(2), of "Suc _"] Suc by auto
    with Suc.IH [of "Suc n" i] Suc Suc.prems show ?thesis by auto
  qed (use Suc.prems in simp)
qed simp

lemma run_attempts_contract: "celery_contract run_attempts"
  using attempts_decide [where n = 0] by (auto simp: celery_contract_def run_attempts_def)

lemma first_decides:
  obtains n where "n \<le> to_max_retries opts" "decides opts body n" "\<forall>m < n. \<not> decides opts body m"
proof
  have d: "decides opts body (to_max_retries opts)" by (simp add: decides_def)
  show "decides opts body (LEAST n. decides opts body n)" using d by (rule LeastI)
  show "(LEAST n. decides opts body n) \<le> to_max_retries opts" using d by (rule Least_le)
  show "\<forall>m < (LEAST n. decides opts body n). \<not> decides opts body m" by (blast dest: not_less_Least)
qed

text \<open>Every task ends after at most one attempt more than its retries, and without a retry when none is asked for.\<close>

lemma task_ends: "celery_contract run \<Longrightarrow> \<exists>n \<le> to_max_retries opts. run opts body = (body n, n + 1)"
  using first_decides [of opts body] by (metis celery_contract_def)

lemma never_retried:
  assumes "celery_contract run" "\<And>e. \<not> to_autoretry_for opts e"
  shows "run opts body = (body 0, 1)"
proof -
  have "decides opts body 0" using assms(2) by (simp add: decides_def split: sum.split)
  with assms(1) show ?thesis by (simp add: celery_contract_def)
qed

lemma deliver_decides:
  "decides deliver_options (\<lambda>n. deliver_webhook hmac sk (post n) (now n) url ev payload secret) n
    \<longleftrightarrow> n = 10 \<or> (case post n (webhook_request hmac sk (now n) url ev payload secret) of
         Inl e \<Rightarrow> \<not> is_httpx e | Inr status \<Rightarrow> 200 \<le> status \<and> status < 300)"
  by (auto simp: decides_def deliver_options_def deliver_webhook_def raise_for_status_def split: sum.split)

text \<open>An outage of the receiver shorter than the retries does not lose the event.\<close>

lemma webhook_delivered:
  assumes run: "celery_contract run" and n: "n \<le> 10"
    and up: "post n (webhook_request hmac sk (now n) url ev payload secret) = Inr status" "200 \<le> status" "status < 300"
    and down: "\<forall>m < n. case post m (webhook_request hmac sk (now m) url ev payload secret) of
      Inl e \<Rightarrow> is_httpx e | Inr s \<Rightarrow> s < 200 \<or> 300 \<le> s"
  shows "run deliver_options (\<lambda>m. deliver_webhook hmac sk (post m) (now m) url ev payload secret) = (Inr status, n + 1)"
proof -
  let ?body = "\<lambda>m. deliver_webhook hmac sk (post m) (now m) url ev payload secret"
  have "decides deliver_options ?body n" using up by (simp add: deliver_decides)
  moreover have "\<forall>m < n. \<not> decides deliver_options ?body m"
    using down n by (fastforce simp: deliver_decides split: sum.splits)
  moreover have "?body n = Inr status" using up by (simp add: deliver_webhook_def raise_for_status_def)
  ultimately show ?thesis using run n by (simp add: celery_contract_def deliver_options_def)
qed

section \<open>Pauses\<close>

text \<open>
  A run together with the pauses it made, in order. Celery's documentation bounds the pause before
  retry \<open>k\<close> by \<open>backoff_ceiling\<close>; with jitter it is drawn below the bound.
\<close>

definition timed_contract :: "(task_options \<Rightarrow> (nat \<Rightarrow> task_error + 'a) \<Rightarrow> (task_error + 'a) \<times> nat list) \<Rightarrow> bool" where
  "timed_contract run \<longleftrightarrow>
     celery_contract (\<lambda>opts body. (fst (run opts body), length (snd (run opts body)) + 1))
     \<and> (\<forall>opts body k. k < length (snd (run opts body)) \<longrightarrow> snd (run opts body) ! k \<le> backoff_ceiling opts k)"

text \<open>A run that draws the pause before retry \<open>k\<close> as \<open>draw k\<close>, cut off at the ceiling.\<close>

definition run_pausing :: "(nat \<Rightarrow> nat) \<Rightarrow> task_options \<Rightarrow> (nat \<Rightarrow> task_error + 'a) \<Rightarrow> (task_error + 'a) \<times> nat list" where
  "run_pausing draw opts body =
     (case run_attempts opts body of
        (r, n) \<Rightarrow> (r, map (\<lambda>k. min (draw k) (backoff_ceiling opts k)) [0..<n - 1]))"

lemma run_pausing_contract: "timed_contract (run_pausing draw)"
proof -
  have pos: "0 < snd (run_attempts opts body)" for opts and body :: "nat \<Rightarrow> task_error + 'a"
    using task_ends [OF run_attempts_contract, of opts body] by auto
  have "(\<lambda>opts body. (fst (run_pausing draw opts body), length (snd (run_pausing draw opts body)) + 1))
      = (run_attempts :: task_options \<Rightarrow> (nat \<Rightarrow> task_error + 'a) \<Rightarrow> _)"
  proof (intro ext)
    fix opts and body :: "nat \<Rightarrow> task_error + 'a"
    show "(fst (run_pausing draw opts body), length (snd (run_pausing draw opts body)) + 1) = run_attempts opts body"
      using pos [of opts body] by (cases "run_attempts opts body") (simp add: run_pausing_def)
  qed
  then show ?thesis
    using run_attempts_contract by (auto simp: timed_contract_def run_pausing_def split: prod.split)
qed

lemma timed_run_ends:
  assumes "timed_contract run"
  shows "\<exists>n \<le> to_max_retries opts. fst (run opts body) = body n \<and> length (snd (run opts body)) = n
    \<and> decides opts body n"
proof -
  have c: "celery_contract (\<lambda>opts body. (fst (run opts body), length (snd (run opts body)) + 1))"
    using assms by (simp add: timed_contract_def)
  obtain n where n: "n \<le> to_max_retries opts" "decides opts body n" "\<forall>m < n. \<not> decides opts body m"
    by (rule first_decides)
  with c have "(fst (run opts body), length (snd (run opts body)) + 1) = (body n, n + 1)"
    unfolding celery_contract_def by blast
  with n show ?thesis by auto
qed

lemma timed_once:
  assumes "timed_contract run" "decides opts body 0"
  shows "run opts body = (body 0, [])"
proof -
  have "celery_contract (\<lambda>opts body. (fst (run opts body), length (snd (run opts body)) + 1))"
    using assms(1) by (simp add: timed_contract_def)
  with assms(2) have "(fst (run opts body), length (snd (run opts body)) + 1) = (body 0, 0 + 1)"
    unfolding celery_contract_def by blast
  then show ?thesis by (cases "run opts body") simp
qed

lemma pauses_bounded:
  assumes "timed_contract run"
  shows "sum_list (snd (run opts body)) \<le> total_ceiling opts"
proof -
  let ?ps = "snd (run opts body)"
  have len: "length ?ps \<le> to_max_retries opts" using timed_run_ends [OF assms, of opts body] by auto
  have "sum_list ?ps = (\<Sum>k < length ?ps. ?ps ! k)" by (simp add: sum_list_sum_nth atLeast0LessThan)
  also have "\<dots> \<le> (\<Sum>k < length ?ps. backoff_ceiling opts k)"
    using assms by (intro sum_mono) (simp add: timed_contract_def)
  also have "\<dots> \<le> (\<Sum>k < to_max_retries opts. backoff_ceiling opts k)" using len by (intro sum_mono2) auto
  also have "\<dots> = total_ceiling opts"
    by (simp add: total_ceiling_def interv_sum_list_conv_sum_set_nat atLeast0LessThan)
  finally show ?thesis .
qed

lemma deliver_ceiling: "total_ceiling deliver_options = 1023"
  by (simp add: total_ceiling_def backoff_ceiling_def deliver_options_def upt_rec)

text \<open>A webhook is given up only when its last attempt met an error that is not retried, or was the eleventh.\<close>

lemma delivery_given_up:
  assumes "timed_contract run"
    and "fst (run deliver_options (\<lambda>n. deliver_webhook hmac sk (post n) (now n) url ev payload secret)) = Inl e" "is_httpx e"
  shows "length (snd (run deliver_options (\<lambda>n. deliver_webhook hmac sk (post n) (now n) url ev payload secret))) = 10"
  using timed_run_ends [OF assms(1), of deliver_options "\<lambda>n. deliver_webhook hmac sk (post n) (now n) url ev payload secret"]
    assms(2,3)
  by (auto simp: decides_def deliver_options_def)

lemma delivery_window:
  assumes "timed_contract run"
  shows "case run deliver_options (\<lambda>n. deliver_webhook hmac sk (post n) (now n) url ev payload secret) of
      (outcome, pauses) \<Rightarrow> length pauses \<le> 10 \<and> sum_list pauses \<le> 1023
        \<and> (\<forall>m. outcome = Inl (HttpxError m) \<longrightarrow> length pauses = 10)"
proof -
  let ?body = "\<lambda>n. deliver_webhook hmac sk (post n) (now n) url ev payload secret"
  let ?r = "run deliver_options ?body"
  obtain n where "n \<le> to_max_retries deliver_options" "length (snd ?r) = n"
    using timed_run_ends [OF assms, of deliver_options ?body] by blast
  then have "length (snd ?r) \<le> 10" by (simp add: deliver_options_def)
  moreover have "sum_list (snd ?r) \<le> 1023"
    using pauses_bounded [OF assms, of deliver_options ?body] by (simp only: deliver_ceiling)
  moreover have "length (snd ?r) = 10" if "fst ?r = Inl (HttpxError m)" for m
    using delivery_given_up [OF assms that] by simp
  ultimately show ?thesis by (cases ?r) auto
qed

text \<open>The longest run: the receiver stays down and every pause is as long as it may be.\<close>

lemma attempts_fail:
  "\<forall>m < n + left. \<exists>e. body m = Inl e \<and> to_autoretry_for opts e \<Longrightarrow> n + left = to_max_retries opts
    \<Longrightarrow> attempts opts body left n = (body (n + left), n + left + 1)"
proof (induction left arbitrary: n)
  case (Suc left)
  have "\<exists>e. body n = Inl e \<and> to_autoretry_for opts e" using Suc.prems(1) by simp
  then obtain e where "body n = Inl e" "to_autoretry_for opts e" by blast
  with Suc.prems(2) have "\<not> decides opts body n" by (simp add: decides_def)
  with Suc show ?case by simp
qed simp

lemma outage_waits:
  "sum_list (snd (run_pausing (backoff_ceiling deliver_options) deliver_options
      (\<lambda>n. deliver_webhook hmac sk (\<lambda>_. Inl (HttpxError m)) (now n) url ev payload secret))) = 1023"
proof -
  let ?body = "\<lambda>n. deliver_webhook hmac sk (\<lambda>_. Inl (HttpxError m)) (now n) url ev payload secret"
  have "run_attempts deliver_options ?body = (?body 10, 11)"
    using attempts_fail [of 0 10 ?body deliver_options]
    by (simp add: run_attempts_def deliver_webhook_def) (simp add: deliver_options_def)
  then have "snd (run_pausing (backoff_ceiling deliver_options) deliver_options ?body)
      = map (backoff_ceiling deliver_options) [0..<to_max_retries deliver_options]"
    by (simp add: run_pausing_def deliver_options_def)
  then show ?thesis using deliver_ceiling by (simp add: total_ceiling_def)
qed

text \<open>What a task of its own makes of a result of the backend.\<close>

definition task_result :: "'a result \<Rightarrow> task_error + 'a" where
  "task_result r = (case r of Inl e \<Rightarrow> Inl (TaskError e) | Inr x \<Rightarrow> Inr x)"

lemma aggregation_runs_once:
  "timed_contract run \<Longrightarrow> run aggregate_options (\<lambda>n. task_result (aggregate_daily_usage (c n) (now n) day (db n)))
    = (task_result (aggregate_daily_usage (c 0) (now 0) day (db 0)), [])"
  by (rule timed_once) (simp_all add: decides_def aggregate_options_def split: sum.split)

lemma polling_runs_once:
  "timed_contract run \<Longrightarrow> run poll_options (\<lambda>n. Inr (poll_video_status job provider_job))
    = (Inr (poll_video_status job provider_job), [])"
  by (rule timed_once) (simp_all add: decides_def)

end
