(* ===== verification/Catalog.thy ===== *)
theory Catalog
  imports Providers PricingCache
begin
text \<open>
  The three places a price lives: the tables of the adapters, the rows the migrations seed and the
  cached lookup over them.
  The rows the second migration inserts carry the prices of the Gemma and Qwen adapters under the
  same model names, so the lookup in the database agrees with the tables in the process.
\<close>

definition tier_close :: "pricing_tier \<Rightarrow> model_pricing \<Rightarrow> bool" where
  "tier_close t p \<longleftrightarrow> dec_val (input_per_million p) = dec_val (pt_input t)
     \<and> dec_val (output_per_million p) = dec_val (pt_output t)
     \<and> cached_input_per_million p = None \<and> pt_cached_input t = None
     \<and> reasoning_per_million p = None \<and> pt_reasoning t = None"

lemma seeds_are_tiers:
  "list_all2 (\<lambda>s (m, t). s_model_key s = m \<and> dec_parse (s_input s) = Some (pt_input t)
      \<and> dec_parse (s_output s) = Some (pt_output t) \<and> pt_cached_input t = None \<and> pt_reasoning t = None)
    seed_rows (gemma_pricing @ qwen_pricing)"
  by code_simp

lemma seed_tiers_small: "list_all (\<lambda>(m, t). expo (pt_input t) = - 2 \<and> 0 \<le> coeff (pt_input t) \<and> coeff (pt_input t) < 1000
    \<and> expo (pt_output t) = - 2 \<and> 0 \<le> coeff (pt_output t) \<and> coeff (pt_output t) < 1000) (gemma_pricing @ qwen_pricing)"
  by code_simp

lemma seed_row_tier:
  assumes num: "numeric_column num" and r: "seed_row num s = Inr r"
    and s: "s_model_key s = m" "dec_parse (s_input s) = Some (pt_input t)" "dec_parse (s_output s) = Some (pt_output t)"
      "pt_cached_input t = None" "pt_reasoning t = None"
    and c: "cents_ok (pt_input t)" "cents_ok (pt_output t)"
  shows "p_model_key r = m \<and> p_active r \<and> tier_close t (row_pricing r)"
proof -
  obtain i out where n: "num (pt_input t) = Inr i" "num (pt_output t) = Inr out"
    "r = \<lparr>p_model_key = s_model_key s, p_provider = s_provider s, p_input = i, p_output = out,
      p_cached = None, p_reasoning = None, p_context_window = Some (s_context_window s),
      p_modalities = s_modalities s, p_active = True\<rparr>"
    using r s(2,3) by (auto simp: seed_row_def sql_literal_def res_bind_Inr_iff split: if_splits)
  have "dec_val i = dec_val (pt_input t)" "dec_val out = dec_val (pt_output t)"
    using numeric_column.num_cents [OF num c(1) n(1)] numeric_column.num_cents [OF num c(2) n(2)] by simp_all
  with n(3) s show ?thesis by (simp add: tier_close_def row_pricing_def)
qed

lemma seeded_rows_tiers:
  assumes num: "numeric_column num" and rs: "map_result (seed_row num) seed_rows = Inr rs"
  shows "list_all2 (\<lambda>r (m, t). p_model_key r = m \<and> p_active r \<and> tier_close t (row_pricing r)) rs (gemma_pricing @ qwen_pricing)"
proof -
  have "list_all2 (\<lambda>r (m, t). p_model_key r = m \<and> p_active r \<and> tier_close t (row_pricing r)) rs ts"
    if "map_result (seed_row num) ss = Inr rs"
      "list_all2 (\<lambda>s (m, t). s_model_key s = m \<and> dec_parse (s_input s) = Some (pt_input t)
         \<and> dec_parse (s_output s) = Some (pt_output t) \<and> pt_cached_input t = None \<and> pt_reasoning t = None) ss ts"
      "list_all (\<lambda>(m, t). expo (pt_input t) = - 2 \<and> 0 \<le> coeff (pt_input t) \<and> coeff (pt_input t) < 1000
         \<and> expo (pt_output t) = - 2 \<and> 0 \<le> coeff (pt_output t) \<and> coeff (pt_output t) < 1000) ts" for ss rs ts
    using that(2,1,3)
  proof (induction arbitrary: rs rule: list_all2_induct)
    case (Cons s ss mt ts)
    obtain m t where mt: "mt = (m, t)" by force
    obtain r rs' where r: "seed_row num s = Inr r" "map_result (seed_row num) ss = Inr rs'" "rs = r # rs'"
      using Cons.prems(1) by (auto simp: res_bind_Inr_iff)
    have "p_model_key r = m \<and> p_active r \<and> tier_close t (row_pricing r)"
      by (rule seed_row_tier [OF num r(1)]) (use Cons.hyps(1) Cons.prems(2) mt in \<open>auto intro: small_cents\<close>)
    moreover have "list_all2 (\<lambda>r (m, t). p_model_key r = m \<and> p_active r \<and> tier_close t (row_pricing r)) rs' ts"
      using Cons.IH r(2) Cons.prems(2) by simp
    ultimately show ?case by (simp add: r(3) mt)
  qed simp
  from this [OF rs seeds_are_tiers seed_tiers_small] show ?thesis .
qed

lemma seed_keys_distinct: "distinct (map s_model_key seed_rows)"
  by code_simp

lemma seeds_into_fresh: "distinct (map p_model_key (rows @ rs)) \<Longrightarrow> seeds_into rs rows = rows @ rs"
  by (induction rs arbitrary: rows) (auto simp: insert_unless_present_def image_iff)

lemma migrated_rows:
  assumes rs: "map_result (seed_row num) seed_rows = Inr rs" "map p_model_key rs = map s_model_key seed_rows"
  shows "run_migration num (initial_upgrade @ pricing_upgrade) empty_catalog = (Inr (), initial_catalog\<lparr>pricing_rows := rs\<rparr>)"
proof -
  have t: "''model_pricing'' \<in> fst ` set (tables initial_catalog)" "pricing_rows initial_catalog = []"
    by (simp_all add: initial_catalog_def)
  have "seeds_into rs [] = rs" using seeds_into_fresh [of "[]" rs] seed_keys_distinct rs(2) by simp
  then have "exec_all num pricing_upgrade initial_catalog = (Inr (), initial_catalog\<lparr>pricing_rows := rs\<rparr>)"
    using exec_seeds [OF t(1) rs(1)] by (simp add: pricing_upgrade_def t(2))
  then show ?thesis by (simp add: run_migration_def exec_all_append bind_def initial_upgrade_result)
qed

lemma tier_row:
  assumes "list_all2 (\<lambda>r (m, t). p_model_key r = m \<and> p_active r \<and> tier_close t (row_pricing r)) rs ts" "(m, t) \<in> set ts"
  obtains r where "r \<in> set rs" "p_model_key r = m" "p_active r" "tier_close t (row_pricing r)"
  using assms by (induction arbitrary: thesis rule: list_all2_induct) auto

lemma find_only:
  assumes "distinct (map p_model_key rs)" "r \<in> set rs" "p_model_key r = m" "p_active r"
  shows "find (\<lambda>r. p_model_key r = m \<and> p_active r) rs = Some r"
  using assms by (induction rs) (auto simp: image_iff)

text \<open>After both migrations of an empty database, with a cold cache.\<close>

lemma seeded_lookup:
  assumes num: "numeric_column num"
    and mig: "run_migration num (initial_upgrade @ pricing_upgrade) empty_catalog = (Inr (), c)"
    and a: "a = GemmaAdapter \<or> a = QwenAdapter" and m: "adapter_pricing a m = Inr t"
  shows "\<exists>p. fst (pricing_get now m \<lparr>ps_redis = Map.empty, ps_table = pricing_rows c\<rparr>) = Inr (Some p) \<and> tier_close t p"
proof -
  obtain rs where rs: "map_result (seed_row num) seed_rows = Inr rs" "map p_model_key rs = map s_model_key seed_rows"
    using seed_rows_total [OF num] by blast
  have c: "pricing_rows c = rs" using mig migrated_rows [OF rs] by auto
  have d: "distinct (map p_model_key rs)" unfolding rs(2) by (rule seed_keys_distinct)
  have "map_of (gemma_pricing @ qwen_pricing) m = Some t"
  proof -
    have "list_all (\<lambda>m. map_of gemma_pricing m = None) (map fst qwen_pricing)" by code_simp
    then have "map_of qwen_pricing m = Some t \<Longrightarrow> map_of gemma_pricing m = None"
      by (force simp: list_all_iff dest: map_of_SomeD)
    with a m show ?thesis by (auto simp: adapter_pricing_def map_add_def split: option.splits)
  qed
  then obtain r where r: "r \<in> set rs" "p_model_key r = m" "p_active r" "tier_close t (row_pricing r)"
    using tier_row [OF seeded_rows_tiers [OF num rs(1)]] map_of_SomeD by metis
  let ?s = "\<lparr>ps_redis = Map.empty, ps_table = pricing_rows c\<rparr>"
  have ok: "pricing_ok_state ?s" using d by (simp add: pricing_ok_state_def c)
  have "table_price m ?s = Some (row_pricing r)" using find_only [OF d r(1-3)] by (simp add: table_price_def c)
  moreover have "redis_get now (cache_ns @ m) ?s = None" by (simp add: redis_get_def)
  ultimately show ?thesis using pricing_get_miss [OF ok] r(4) by simp
qed

end
