(* ===== verification/HttpApp.thy ===== *)
theory HttpApp
  imports Lifecycle ApiRoutes Providers
begin

text \<open>
  The assembled HTTP application (\<^verbatim>\<open>app/main.py\<close>, \<^verbatim>\<open>app/api/routes/__init__.py\<close>): the routers under their
  prefixes, and a request going through the request middleware, the exception handlers and the
  handler of its route. An endpoint is a request whose path parameters and body have passed
  validation.
\<close>

section \<open>Routers\<close>

type_synonym route = "string \<times> string \<times> string"

definition include_router :: "string \<Rightarrow> route list \<Rightarrow> route list" where
  "include_router pre rs = map (\<lambda>(m, p, h). (m, pre @ p, h)) rs"

definition health_router :: "route list" where
  "health_router = [(''GET'', ''/health'', ''health''), (''GET'', ''/ready'', ''ready'')]"

definition auth_router :: "route list" where
  "auth_router = [(''POST'', ''/keys'', ''create_key''), (''GET'', ''/keys'', ''list_keys''),
     (''DELETE'', ''/keys/{key_id}'', ''revoke_key'')]"

definition oauth_router :: "route list" where
  "oauth_router = [(''POST'', ''/exchange'', ''exchange'')]"

definition billing_router :: "route list" where
  "billing_router = [(''GET'', ''/balance'', ''get_balance''), (''POST'', ''/credits/purchase'', ''purchase_credits''),
     (''GET'', ''/usage'', ''get_usage'')]"

definition models_router :: "route list" where
  "models_router = [(''GET'', ''/models'', ''list_models'')]"

definition admin_router :: "route list" where
  "admin_router = [(''POST'', ''/users/{user_id}/suspend'', ''suspend_user'')]"

definition webhooks_router :: "route list" where
  "webhooks_router = [(''POST'', ''/stripe'', ''stripe_webhook'')]"

definition registered_routes :: "route list" where
  "registered_routes =
     include_router '''' health_router @ include_router ''/v1'' auth_router
     @ include_router ''/v1/oauth'' oauth_router @ include_router ''/v1/billing'' billing_router
     @ include_router ''/v1'' models_router @ include_router ''/v1/admin'' admin_router
     @ include_router ''/v1/webhooks'' webhooks_router"

text \<open>A parameter in braces stands for one nonempty segment; the first route that fits is taken.\<close>

definition is_param :: "string \<Rightarrow> bool" where
  "is_param seg = py_startswith seg ''{''"

definition seg_matches :: "string \<Rightarrow> string \<Rightarrow> bool" where
  "seg_matches seg s = (if is_param seg then s \<noteq> [] else s = seg)"

definition path_matches :: "string \<Rightarrow> string \<Rightarrow> bool" where
  "path_matches template path = list_all2 seg_matches (py_split (CHR ''/'') template) (py_split (CHR ''/'') path)"

definition fits_route :: "string \<Rightarrow> string \<Rightarrow> route \<Rightarrow> bool" where
  "fits_route meth path = (\<lambda>(m, p, h). m = meth \<and> path_matches p path)"

definition resolve_route :: "string \<Rightarrow> string \<Rightarrow> string option" where
  "resolve_route meth path = map_option (\<lambda>(m, p, h). h) (find (fits_route meth path) registered_routes)"

text \<open>Outside production the application also serves its generated documentation.\<close>

definition docs_urls :: "string \<Rightarrow> string option \<times> string option" where
  "docs_urls env = (if env \<noteq> ''prod'' then Some ''/docs'' else None, if env \<noteq> ''prod'' then Some ''/redoc'' else None)"

section \<open>Endpoints\<close>

record app_deps =
  ad_version :: string
  ad_key_prefix :: string
  ad_registry :: provider_registry
  ad_stripe :: "payment_request \<Rightarrow> (string \<times> string) result"
  ad_http :: http_get
  ad_sign :: "(string \<times> claim) list \<Rightarrow> string"

datatype endpoint =
    GetHealth
  | GetReady "unit result" int "unit result" int
  | PostKeys key_entropy create_key_body
  | GetKeys
  | DeleteKey datetime uuid
  | PostExchange oauth_entropy oauth_body
  | GetBalance
  | PostPurchase decimal
  | GetUsage datetime "py_datetime option" "py_datetime option"
  | GetModels
  | PostSuspend "nat \<Rightarrow> datetime" uuid
  | PostStripe "webhook_error + json"

datatype reply =
    HealthReply health_response
  | CreatedReply created_key_view
  | KeysReply "key_view list"
  | NoContent
  | TokenReply oauth_response
  | BalanceReply balance_view
  | PurchaseReply purchase_response
  | UsageReply usage_view
  | ModelsReply "model_view list"
  | JsonReply json

fun endpoint_name :: "endpoint \<Rightarrow> string" where
  "endpoint_name GetHealth = ''health''"
| "endpoint_name (GetReady p t1 r t2) = ''ready''"
| "endpoint_name (PostKeys ke b) = ''create_key''"
| "endpoint_name GetKeys = ''list_keys''"
| "endpoint_name (DeleteKey t i) = ''revoke_key''"
| "endpoint_name (PostExchange oe b) = ''exchange''"
| "endpoint_name GetBalance = ''get_balance''"
| "endpoint_name (PostPurchase d) = ''purchase_credits''"
| "endpoint_name (GetUsage t a b) = ''get_usage''"
| "endpoint_name GetModels = ''list_models''"
| "endpoint_name (PostSuspend clock i) = ''suspend_user''"
| "endpoint_name (PostStripe ev) = ''stripe_webhook''"

fun endpoint_method :: "endpoint \<Rightarrow> string" where
  "endpoint_method (PostKeys ke b) = ''POST''"
| "endpoint_method (DeleteKey t i) = ''DELETE''"
| "endpoint_method (PostExchange oe b) = ''POST''"
| "endpoint_method (PostPurchase d) = ''POST''"
| "endpoint_method (PostSuspend clock i) = ''POST''"
| "endpoint_method (PostStripe ev) = ''POST''"
| "endpoint_method ep = ''GET''"

fun endpoint_path :: "endpoint \<Rightarrow> string" where
  "endpoint_path GetHealth = ''/health''"
| "endpoint_path (GetReady p t1 r t2) = ''/ready''"
| "endpoint_path (PostKeys ke b) = ''/v1/keys''"
| "endpoint_path GetKeys = ''/v1/keys''"
| "endpoint_path (DeleteKey t i) = ''/v1/keys/'' @ uuid_str i"
| "endpoint_path (PostExchange oe b) = ''/v1/oauth/exchange''"
| "endpoint_path GetBalance = ''/v1/billing/balance''"
| "endpoint_path (PostPurchase d) = ''/v1/billing/credits/purchase''"
| "endpoint_path (GetUsage t a b) = ''/v1/billing/usage''"
| "endpoint_path GetModels = ''/v1/models''"
| "endpoint_path (PostSuspend clock i) = ''/v1/admin/users/'' @ uuid_str i @ ''/suspend''"
| "endpoint_path (PostStripe ev) = ''/v1/webhooks/stripe''"

text \<open>The webhook works on a session of its own, which the model runs on the committed database.\<close>

definition on_committed :: "'a db_action \<Rightarrow> 'a uow_action" where
  "on_committed act u = (case act (committed u) of (r, db) \<Rightarrow> (r, u\<lparr>committed := db\<rparr>))"

fun endpoint_run :: "app_deps \<Rightarrow> request_env \<Rightarrow> endpoint \<Rightarrow> (int \<times> reply) uow_action" where
  "endpoint_run app e GetHealth = return (200, HealthReply (health (ad_version app)))"
| "endpoint_run app e (GetReady p t1 r t2) =
     (case ready (ad_version app) p t1 r t2 of (status, x) \<Rightarrow> return (status, HealthReply x))"
| "endpoint_run app e (PostKeys ke b) =
     bind (create_key_route e (ad_key_prefix app) ke b) (\<lambda>v. return (201, CreatedReply v))"
| "endpoint_run app e GetKeys = bind (list_keys_route e) (\<lambda>vs. return (200, KeysReply vs))"
| "endpoint_run app e (DeleteKey t i) = bind (revoke_key_route e t i) (\<lambda>_. return (204, NoContent))"
| "endpoint_run app e (PostExchange oe b) =
     bind (exchange_route (re_db e) (ad_http app) (ad_sign app) oe b) (\<lambda>x. return (200, TokenReply x))"
| "endpoint_run app e GetBalance = bind (get_balance_route e) (\<lambda>v. return (200, BalanceReply v))"
| "endpoint_run app e (PostPurchase d) =
     bind (purchase_credits_route e (ad_stripe app) d) (\<lambda>v. return (200, PurchaseReply v))"
| "endpoint_run app e (GetUsage t a b) = bind (get_usage_route e t a b) (\<lambda>v. return (200, UsageReply v))"
| "endpoint_run app e GetModels = bind (lift (list_models (ad_registry app))) (\<lambda>v. return (200, ModelsReply v))"
| "endpoint_run app e (PostSuspend clock i) = bind (suspend_user_route e clock i) (\<lambda>_. return (204, NoContent))"
| "endpoint_run app e (PostStripe ev) =
     bind (on_committed (stripe_webhook_route (re_db e) ev)) (\<lambda>r. return (resp_status r, JsonReply (resp_body r)))"

section \<open>From a request to an answer\<close>

record answer =
  ans_status :: int
  ans_headers :: "(string \<times> string) list"
  ans_reply :: reply

text \<open>
  The handlers of domain and HTTP errors sit inside the request middleware; the handler of every
  other exception answers outside of it, after the exception has passed through.
\<close>

definition handle_inside :: "(int \<times> reply) result \<Rightarrow> (int \<times> (string \<times> string) list \<times> reply) result" where
  "handle_inside r =
     (case r of
        Inr (status, x) \<Rightarrow> Inr (status, [], x)
      | Inl e \<Rightarrow> if internal e then Inl e
                else let resp = handle_exception e in Inr (resp_status resp, [], JsonReply (resp_body resp)))"

definition serve_http :: "app_deps \<Rightarrow> request_env \<Rightarrow> uuid \<Rightarrow> string option \<Rightarrow> request_log \<Rightarrow> endpoint
    \<Rightarrow> uow \<Rightarrow> answer \<times> uow" where
  "serve_http app e fresh header previous ep u =
     (case endpoint_run app e ep u of
        (r, u') \<Rightarrow>
          (case fst (dispatch fresh header (endpoint_method ep) (endpoint_path ep) (\<lambda>_. handle_inside r) previous) of
             Inr (status, headers, x) \<Rightarrow> (\<lparr>ans_status = status, ans_headers = headers, ans_reply = x\<rparr>, u')
           | Inl _ \<Rightarrow> (\<lparr>ans_status = resp_status unhandled_handler, ans_headers = [],
                       ans_reply = JsonReply (resp_body unhandled_handler)\<rparr>, u')))"

definition request_id :: "uuid \<Rightarrow> string option \<Rightarrow> string" where
  "request_id fresh header = (case header of None \<Rightarrow> uuid_str fresh | Some h \<Rightarrow> if h = [] then uuid_str fresh else h)"

section \<open>Every path leads to one handler\<close>

definition compatible :: "string list \<Rightarrow> string list \<Rightarrow> bool" where
  "compatible = list_all2 (\<lambda>a b. is_param a \<or> is_param b \<or> a = b)"

lemma both_match:
  "list_all2 seg_matches xs zs \<Longrightarrow> list_all2 seg_matches ys zs \<Longrightarrow> compatible xs ys"
proof (induction xs zs arbitrary: ys rule: list_all2_induct)
  case (Cons x xs z zs)
  then show ?case by (cases ys) (auto simp: compatible_def seg_matches_def split: if_splits)
qed (simp add: compatible_def)

fun apart :: "route list \<Rightarrow> bool" where
  "apart [] = True"
| "apart ((m, p, h) # rs) =
     (list_all (\<lambda>(m', p', h'). m = m' \<longrightarrow> \<not> compatible (py_split (CHR ''/'') p) (py_split (CHR ''/'') p')) rs \<and> apart rs)"

lemma apart_unique:
  "apart rs \<Longrightarrow> r \<in> set rs \<Longrightarrow> fits_route meth path r \<Longrightarrow> find (fits_route meth path) rs = Some r"
proof (induction rs rule: apart.induct)
  case (2 m p h rs)
  show ?case
  proof (cases "r = (m, p, h)")
    case False
    with 2 obtain m' p' h' where r: "r = (m', p', h')" "r \<in> set rs" by (cases r) auto
    have "\<not> fits_route meth path (m, p, h)"
      using 2 r both_match by (fastforce simp: fits_route_def path_matches_def list_all_iff)
    with 2 r show ?thesis by simp
  qed (use 2 in simp)
qed simp

lemma apart_card: "apart rs \<Longrightarrow> card {r \<in> set rs. fits_route meth path r} \<le> 1"
proof -
  assume a: "apart rs"
  have "r = s" if "r \<in> set rs" "fits_route meth path r" "s \<in> set rs" "fits_route meth path s" for r s
    using apart_unique [OF a that(1,2)] apart_unique [OF a that(3,4)] by simp
  then have "card {r \<in> set rs. fits_route meth path r} \<le> Suc 0"
    by (subst card_le_Suc0_iff_eq) auto
  then show ?thesis by simp
qed

lemma routes_apart: "apart registered_routes"
  by code_simp

lemma slash_free: "CHR ''/'' \<notin> set (uuid_str u)"
proof -
  have "is_hex c" if "c \<in> set (uuid_hex u)" for c
    using that hex_fixed_is_hex by (auto simp: uuid_hex_def list_all_iff)
  moreover have "\<not> is_hex (CHR ''/'')" by code_simp
  ultimately have "CHR ''/'' \<notin> set (uuid_hex u)" by blast
  then show ?thesis by (auto simp: uuid_str_def Let_def dest: in_set_takeD in_set_dropD)
qed

lemma split_plain: "c \<notin> set s \<Longrightarrow> py_split c s = [s]"
  by (induction s) auto

lemma split_uuid: "py_split (CHR ''/'') (uuid_str u) = [uuid_str u]"
  "py_split (CHR ''/'') (uuid_str u @ ''/suspend'') = [uuid_str u, ''suspend'']"
proof -
  show "py_split (CHR ''/'') (uuid_str u) = [uuid_str u]" by (rule split_plain [OF slash_free])
  have "c \<notin> set s \<Longrightarrow> py_split c (s @ c # t) = s # py_split c t" for c s and t :: string
    by (induction s) auto
  from this [OF slash_free, of u "''suspend''"]
  show "py_split (CHR ''/'') (uuid_str u @ ''/suspend'') = [uuid_str u, ''suspend'']" by simp
qed

lemma uuid_str_nonempty: "uuid_str u \<noteq> []"
  by (simp add: uuid_str_def Let_def)

lemma endpoint_registered:
  "\<exists>p. (endpoint_method ep, p, endpoint_name ep) \<in> set registered_routes \<and> path_matches p (endpoint_path ep)"
  by (cases ep)
    (simp_all add: registered_routes_def include_router_def health_router_def auth_router_def oauth_router_def
      billing_router_def models_router_def admin_router_def webhooks_router_def path_matches_def seg_matches_def
      is_param_def py_startswith_def split_uuid uuid_str_nonempty)

lemma endpoint_resolves: "resolve_route (endpoint_method ep) (endpoint_path ep) = Some (endpoint_name ep)"
proof -
  obtain p where p: "(endpoint_method ep, p, endpoint_name ep) \<in> set registered_routes" "path_matches p (endpoint_path ep)"
    using endpoint_registered by blast
  from apart_unique [OF routes_apart p(1), of "endpoint_method ep" "endpoint_path ep"] p(2)
  show ?thesis by (simp add: resolve_route_def fits_route_def)
qed

section \<open>What an answer says\<close>

lemma serve_http_ok:
  "endpoint_run app e ep u = (Inr (status, x), u') \<Longrightarrow> serve_http app e fresh header previous ep u
     = (\<lparr>ans_status = status, ans_headers = [(''x-request-id'', request_id fresh header)], ans_reply = x\<rparr>, u')"
  by (simp add: serve_http_def handle_inside_def dispatch_def request_id_def Let_def)

lemma serve_http_error:
  "endpoint_run app e ep u = (Inl err, u') \<Longrightarrow> serve_http app e fresh header previous ep u
     = (\<lparr>ans_status = resp_status (handle_exception err),
         ans_headers = (if internal err then [] else [(''x-request-id'', request_id fresh header)]),
         ans_reply = JsonReply (resp_body (handle_exception err))\<rparr>, u')"
  by (simp add: serve_http_def handle_inside_def dispatch_def request_id_def Let_def internal_response)

lemma internal_body_iff: "internal err \<longleftrightarrow> resp_body (handle_exception err) = resp_body unhandled_handler"
  by (cases err) (simp_all add: internal_def domain_handler_def http_handler_def unhandled_handler_def envelope_def)

section \<open>Who gets in\<close>

fun protected :: "endpoint \<Rightarrow> bool" where
  "protected (PostKeys ke b) = True"
| "protected GetKeys = True"
| "protected (DeleteKey t i) = True"
| "protected GetBalance = True"
| "protected (PostPurchase d) = True"
| "protected (GetUsage t a b) = True"
| "protected (PostSuspend clock i) = True"
| "protected ep = False"

lemma unauthenticated_run:
  assumes "protected ep" "fst (get_current_auth (re_crypto e) (re_now e) (re_authorization e) u) = Inl err"
  shows "\<exists>u'. endpoint_run app e ep u = (Inl err, u') \<and> committed u' = committed u"
proof -
  obtain u' where u': "get_current_auth (re_crypto e) (re_now e) (re_authorization e) u = (Inl err, u')"
    using assms(2) by (metis prod.collapse)
  have "committed u' = committed u" using get_current_auth_readonly [of "re_crypto e" "re_now e" "re_authorization e" u] u' by simp
  with u' assms(1) show ?thesis
    by (cases ep) (simp_all add: bind_def create_key_route_def list_keys_route_def revoke_key_route_def get_balance_route_def
        purchase_credits_route_def get_usage_route_def suspend_user_route_def)
qed

lemma missing_token: "extract_bearer h = Inl err \<Longrightarrow> fst (get_current_auth c now h u) = Inl err"
  by (simp add: get_current_auth_def bind_def)

end
