(* ===== verification/Workers.thy ===== *)
theory Workers
  imports Tasks Settings
begin

text \<open>
  What the settings give to the libraries a process starts: the tracer provider of
  \<^verbatim>\<open>app/shared/tracing.py\<close> and the Celery application of \<^verbatim>\<open>app/repository/celery_app.py\<close> with the tasks
  its modules register. A worker imports those modules and nothing that opens the database client.
\<close>

section \<open>Tracing\<close>

record tracer_provider =
  tp_resource :: "(string \<times> string) list"
  tp_ratio :: rat
  tp_endpoint :: string

text \<open>The provider that is installed, or none when no collector is configured.\<close>

definition init_tracing :: "settings \<Rightarrow> tracer_provider option" where
  "init_tracing s =
     (if otel_exporter_otlp_endpoint s = [] then None
      else Some \<lparr>tp_resource = [(''service.name'', otel_service_name s),
                                (''service.version'', service_version s),
                                (''deployment.environment'', environment s)],
                 tp_ratio = otel_traces_sampler_arg s,
                 tp_endpoint = otel_exporter_otlp_endpoint s\<rparr>)"

lemma tracing_off_iff: "init_tracing s = None \<longleftrightarrow> otel_exporter_otlp_endpoint s = ''''"
  by (simp add: init_tracing_def)

section \<open>The Celery application\<close>

record celery_config =
  cc_main :: string
  cc_broker :: string
  cc_backend :: string
  cc_include :: "string list"
  cc_task_serializer :: string
  cc_result_serializer :: string
  cc_accept_content :: "string list"
  cc_timezone :: string
  cc_enable_utc :: bool
  cc_task_track_started :: bool
  cc_task_acks_late :: bool
  cc_worker_prefetch_multiplier :: int
  cc_task_default_retry_delay :: int
  cc_task_max_retries :: int

definition celery_app :: "settings \<Rightarrow> celery_config" where
  "celery_app s =
     \<lparr>cc_main = ''openrouter'', cc_broker = redis_url s, cc_backend = redis_url s,
      cc_include = [''app.repository.tasks.video'', ''app.repository.tasks.webhooks'', ''app.repository.tasks.billing''],
      cc_task_serializer = ''json'', cc_result_serializer = ''json'', cc_accept_content = [''json''],
      cc_timezone = ''UTC'', cc_enable_utc = True, cc_task_track_started = True, cc_task_acks_late = True,
      cc_worker_prefetch_multiplier = 1, cc_task_default_retry_delay = 10, cc_task_max_retries = 3\<rparr>"

text \<open>The tasks of each module.\<close>

definition task_modules :: "(string \<times> task_options list) list" where
  "task_modules =
     [(''app.repository.tasks.video'', [submit_options, poll_options, finalize_options]),
      (''app.repository.tasks.webhooks'', [deliver_options]),
      (''app.repository.tasks.billing'', [aggregate_options, alert_options])]"

definition registered :: "celery_config \<Rightarrow> task_options list" where
  "registered cc = concat (map snd (filter (\<lambda>(m, ts). m \<in> set (cc_include cc)) task_modules))"

lemmas all_options_defs = submit_options_def poll_options_def finalize_options_def deliver_options_def
  aggregate_options_def alert_options_def

text \<open>Every task is registered, under a name of its own, and what it sends is what is accepted.\<close>

lemma every_task_registered: "set (registered (celery_app s)) = \<Union> (set ` set (map snd task_modules))"
  by (auto simp: registered_def celery_app_def task_modules_def)

lemma task_names_distinct: "distinct (map to_name (registered (celery_app s)))"
  by (simp add: registered_def celery_app_def task_modules_def all_options_defs)

lemma serializers_accepted:
  "{cc_task_serializer (celery_app s), cc_result_serializer (celery_app s)} \<subseteq> set (cc_accept_content (celery_app s))"
  by (simp add: celery_app_def)

section \<open>Aggregation in a worker\<close>

text \<open>Nothing a worker imports opens the database client, so every aggregation fails, and is not tried again.\<close>

definition worker_clients :: clients where
  "worker_clients = no_clients"

definition aggregate_body :: "datetime \<Rightarrow> string option \<Rightarrow> database \<Rightarrow> nat \<Rightarrow> task_error + nat" where
  "aggregate_body now day_iso db attempt =
     (case aggregate_daily_usage worker_clients now day_iso db of Inl e \<Rightarrow> Inl (TaskError e) | Inr n \<Rightarrow> Inr n)"

lemma aggregate_never_ok: "\<not> is_ok (aggregate_daily_usage worker_clients now day_iso db)"
  by (cases "target_day now day_iso")
    (simp_all add: aggregate_daily_usage_def worker_clients_def no_clients_def get_session_factory_def Let_def)

lemma worker_never_aggregates:
  assumes "celery_contract run"
  shows "\<exists>e. run aggregate_options (aggregate_body now day_iso db) = (Inl (TaskError e), 1)"
proof -
  obtain e where "aggregate_daily_usage worker_clients now day_iso db = Inl e"
    using aggregate_never_ok by (metis is_ok_iff sum.exhaust)
  moreover have "run aggregate_options (aggregate_body now day_iso db) = (aggregate_body now day_iso db 0, 1)"
    using assms by (rule never_retried) (simp add: aggregate_options_def)
  ultimately show ?thesis by (simp add: aggregate_body_def)
qed

end
