(* ===== verification/Ports.thy ===== *)
theory Ports
  imports CreditPort UnitOfWork
begin

text \<open>
  The repository ports as the use cases see them (\<^verbatim>\<open>app/service/domain/repositories.py\<close>): one record of
  operations for every abstract class, over an arbitrary state. A unit of work carries one of each
  (\<^verbatim>\<open>app/service/uow.py\<close>); the SQL unit of work fills them in when a block is entered, all on its session.
  Whatever a block calls through the ports, it leaves a well-formed database, and reaches the
  committed one only through \<^verbatim>\<open>commit\<close>.
\<close>

section \<open>The abstract classes\<close>

record 's APIKeyRepository =
  ak_find_by_lookup_hash :: "string \<Rightarrow> ('s, exn, api_key option) action"
  ak_get :: "uuid \<Rightarrow> ('s, exn, api_key option) action"
  ak_list_for_org :: "uuid \<Rightarrow> ('s, exn, api_key list) action"
  ak_add :: "api_key \<Rightarrow> ('s, exn, api_key) action"
  ak_revoke :: "uuid \<Rightarrow> string \<Rightarrow> ('s, exn, unit) action"

record 's UserRepository =
  us_get :: "uuid \<Rightarrow> ('s, exn, user option) action"
  us_find_by_email :: "string \<Rightarrow> ('s, exn, user option) action"
  us_add :: "user \<Rightarrow> ('s, exn, user) action"

record 's OrganizationRepository =
  og_get :: "uuid \<Rightarrow> ('s, exn, organization option) action"
  og_add :: "organization \<Rightarrow> ('s, exn, organization) action"

record 's CreditRepository =
  cr_get_for_update :: "uuid \<Rightarrow> ('s, exn, credit_balance) action"
  cr_update :: "credit_balance \<Rightarrow> ('s, exn, unit) action"
  cr_deduct_atomic :: "uuid \<Rightarrow> money \<Rightarrow> ('s, exn, bool) action"

record 's UsageRepository =
  ug_add :: "usage_record \<Rightarrow> ('s, exn, unit) action"
  ug_aggregate_for_period :: "uuid \<Rightarrow> string \<Rightarrow> string \<Rightarrow> ('s, exn, usage_totals) action"

record 's VideoJobRepository =
  vd_get :: "uuid \<Rightarrow> ('s, exn, video_job option) action"
  vd_add :: "video_job \<Rightarrow> ('s, exn, video_job) action"
  vd_update :: "video_job \<Rightarrow> ('s, exn, unit) action"

text \<open>The attributes of a \<^verbatim>\<open>UnitOfWork\<close>.\<close>

record 's repositories =
  at_api_keys :: "'s APIKeyRepository"
  at_users :: "'s UserRepository"
  at_organizations :: "'s OrganizationRepository"
  at_credits :: "'s CreditRepository"
  at_usage :: "'s UsageRepository"
  at_video_jobs :: "'s VideoJobRepository"

section \<open>The SQL repositories\<close>

text \<open>Their classes, over a database in reach; \<open>now\<close> is read by the revocation.\<close>

definition sql_repositories :: "db_env \<Rightarrow> datetime \<Rightarrow> database repositories" where
  "sql_repositories env now =
     \<lparr>at_api_keys = \<lparr>ak_find_by_lookup_hash = keys_find_by_lookup_hash, ak_get = keys_get,
        ak_list_for_org = keys_list_for_org, ak_add = keys_add env, ak_revoke = keys_revoke now\<rparr>,
      at_users = \<lparr>us_get = users_get, us_find_by_email = users_find_by_email, us_add = users_add env\<rparr>,
      at_organizations = \<lparr>og_get = organizations_get, og_add = organizations_add env\<rparr>,
      at_credits = \<lparr>cr_get_for_update = credits_get_for_update env, cr_update = credits_update env,
        cr_deduct_atomic = credits_deduct_atomic env\<rparr>,
      at_usage = \<lparr>ug_add = usage_add env, ug_aggregate_for_period = usage_aggregate_for_period env\<rparr>,
      at_video_jobs = \<lparr>vd_get = video_jobs_get, vd_add = video_jobs_add env, vd_update = video_jobs_update env\<rparr>\<rparr>"

text \<open>\<^verbatim>\<open>__aenter__\<close> gives every repository the session of the block.\<close>

definition wired_repositories :: "db_env \<Rightarrow> datetime \<Rightarrow> uow repositories" where
  "wired_repositories env now =
     \<lparr>at_api_keys = \<lparr>ak_find_by_lookup_hash = (\<lambda>h. in_session (keys_find_by_lookup_hash h)),
        ak_get = (\<lambda>i. in_session (keys_get i)), ak_list_for_org = (\<lambda>org. in_session (keys_list_for_org org)),
        ak_add = (\<lambda>k. in_session (keys_add env k)), ak_revoke = (\<lambda>i reason. in_session (keys_revoke now i reason))\<rparr>,
      at_users = \<lparr>us_get = (\<lambda>i. in_session (users_get i)), us_find_by_email = (\<lambda>e. in_session (users_find_by_email e)),
        us_add = (\<lambda>u. in_session (users_add env u))\<rparr>,
      at_organizations = \<lparr>og_get = (\<lambda>i. in_session (organizations_get i)),
        og_add = (\<lambda>g. in_session (organizations_add env g))\<rparr>,
      at_credits = \<lparr>cr_get_for_update = (\<lambda>org. in_session (credits_get_for_update env org)),
        cr_update = (\<lambda>b. in_session (credits_update env b)),
        cr_deduct_atomic = (\<lambda>org m. in_session (credits_deduct_atomic env org m))\<rparr>,
      at_usage = \<lparr>ug_add = (\<lambda>u. in_session (usage_add env u)),
        ug_aggregate_for_period = (\<lambda>org t0 t1. in_session (usage_aggregate_for_period env org t0 t1))\<rparr>,
      at_video_jobs = \<lparr>vd_get = (\<lambda>i. in_session (video_jobs_get i)), vd_add = (\<lambda>j. in_session (video_jobs_add env j)),
        vd_update = (\<lambda>j. in_session (video_jobs_update env j))\<rparr>\<rparr>"

section \<open>Blocks of calls\<close>

datatype port_call =
    FindKey string | GetKey uuid | ListKeys uuid | AddKey api_key | RevokeAKey uuid string
  | GetUser uuid | FindUser string | AddUser user
  | GetOrganization uuid | AddOrganization organization
  | GetBalanceForUpdate uuid | UpdateBalance credit_balance | Deduct uuid money
  | AddUsage usage_record | Aggregate uuid string string
  | GetJob uuid | AddJob video_job | UpdateJob video_job

definition discard :: "('s, exn, 'a) action \<Rightarrow> ('s, exn, unit) action" where
  "discard m = bind m (\<lambda>_. return ())"

fun perform :: "'s repositories \<Rightarrow> port_call \<Rightarrow> ('s, exn, unit) action" where
  "perform r (FindKey h) = discard (ak_find_by_lookup_hash (at_api_keys r) h)"
| "perform r (GetKey i) = discard (ak_get (at_api_keys r) i)"
| "perform r (ListKeys org) = discard (ak_list_for_org (at_api_keys r) org)"
| "perform r (AddKey k) = discard (ak_add (at_api_keys r) k)"
| "perform r (RevokeAKey i reason) = ak_revoke (at_api_keys r) i reason"
| "perform r (GetUser i) = discard (us_get (at_users r) i)"
| "perform r (FindUser e) = discard (us_find_by_email (at_users r) e)"
| "perform r (AddUser u) = discard (us_add (at_users r) u)"
| "perform r (GetOrganization i) = discard (og_get (at_organizations r) i)"
| "perform r (AddOrganization g) = discard (og_add (at_organizations r) g)"
| "perform r (GetBalanceForUpdate org) = discard (cr_get_for_update (at_credits r) org)"
| "perform r (UpdateBalance b) = cr_update (at_credits r) b"
| "perform r (Deduct org m) = discard (cr_deduct_atomic (at_credits r) org m)"
| "perform r (AddUsage u) = ug_add (at_usage r) u"
| "perform r (Aggregate org t0 t1) = discard (ug_aggregate_for_period (at_usage r) org t0 t1)"
| "perform r (GetJob i) = discard (vd_get (at_video_jobs r) i)"
| "perform r (AddJob j) = discard (vd_add (at_video_jobs r) j)"
| "perform r (UpdateJob j) = vd_update (at_video_jobs r) j"

fun perform_all :: "'s repositories \<Rightarrow> port_call list \<Rightarrow> ('s, exn, unit) action" where
  "perform_all r [] = return ()"
| "perform_all r (c # cs) = bind (perform r c) (\<lambda>_. perform_all r cs)"

text \<open>Money the value objects admit: what \<^verbatim>\<open>Money.__post_init__\<close> has not refused.\<close>

fun call_ok :: "port_call \<Rightarrow> bool" where
  "call_ok (Deduct org m) = money_ok m"
| "call_ok (AddUsage u) = money_ok (ur_cost u)"
| "call_ok (AddJob j) = money_ok (vj_cost j)"
| "call_ok (UpdateJob j) = money_ok (vj_cost j)"
| "call_ok c = True"

section \<open>What every block keeps\<close>

lemma keeps_discard [inv_intros]: "keeps P m \<Longrightarrow> keeps P (discard m)"
  unfolding discard_def by (intro inv_intros)

lemma perform_ok:
  assumes "numeric_column (db_numeric env)" "call_ok c"
  shows "keeps db_ok (perform (sql_repositories env now) c)"
  using assms(2) by (cases c) (auto simp: sql_repositories_def assms(1) intro!: inv_intros)

lemma perform_all_ok:
  assumes "numeric_column (db_numeric env)" "list_all call_ok cs"
  shows "keeps db_ok (perform_all (sql_repositories env now) cs)"
  using assms(2) by (induction cs) (auto intro!: inv_intros perform_ok assms(1))

text \<open>Through the wired repositories a block works on the session, as the plain ones on the database.\<close>

lemma in_session_return: "session u \<noteq> None \<Longrightarrow> in_session (return x) u = return x u"
  by (auto simp: in_session_def return_def)

lemma live_bind:
  "session u \<noteq> None \<Longrightarrow> in_session (bind m f) u = bind (in_session m) (\<lambda>x. in_session (f x)) u"
  by (auto simp: in_session_def bind_def split: option.split prod.split sum.split)

lemma in_session_live: "session u \<noteq> None \<Longrightarrow> session (snd (in_session m u)) \<noteq> None"
  by (auto simp: in_session_def split: option.split prod.split)

lemma in_session_discard: "session u \<noteq> None \<Longrightarrow> discard (in_session m) u = in_session (discard m) u"
  by (auto simp: discard_def in_session_def bind_def return_def split: option.split prod.split sum.split)

lemma perform_wired:
  "session u \<noteq> None \<Longrightarrow> perform (wired_repositories env now) c u = in_session (perform (sql_repositories env now) c) u"
  by (cases c) (simp_all add: wired_repositories_def sql_repositories_def in_session_discard)

lemma perform_all_wired:
  "session u \<noteq> None \<Longrightarrow>
    perform_all (wired_repositories env now) cs u = in_session (perform_all (sql_repositories env now) cs) u"
proof (induction cs arbitrary: u)
  case (Cons c cs)
  let ?m = "perform (sql_repositories env now) c"
  obtain r v where v: "in_session ?m u = (r, v)" by fastforce
  have live: "session v \<noteq> None" using in_session_live [OF Cons.prems, of ?m] by (simp add: v)
  have "in_session (bind ?m (\<lambda>_. perform_all (sql_repositories env now) cs)) u
      = (case r of Inl e \<Rightarrow> (Inl e, v) | Inr x \<Rightarrow> in_session (perform_all (sql_repositories env now) cs) v)"
    unfolding live_bind [OF Cons.prems] by (simp add: bind_def v split: sum.split)
  moreover have "perform_all (wired_repositories env now) (c # cs) u
      = (case r of Inl e \<Rightarrow> (Inl e, v) | Inr x \<Rightarrow> perform_all (wired_repositories env now) cs v)"
    by (simp add: bind_def perform_wired [OF Cons.prems] v split: sum.split)
  ultimately show ?case using Cons.IH [OF live] by (simp split: sum.split)
qed (simp add: in_session_return)

text \<open>A block that ends with \<^verbatim>\<open>commit\<close>: all its calls, or none.\<close>

theorem calls_commit:
  "with_uow (bind (perform_all (wired_repositories env now) cs) (\<lambda>_. uow_commit)) u =
     (case perform_all (sql_repositories env now) cs (committed u) of
        (Inr _, db) \<Rightarrow> (Inr (), \<lparr>committed = db, session = None\<rparr>)
      | (Inl e, db) \<Rightarrow> (Inl e, \<lparr>committed = committed u, session = None\<rparr>))"
  by (cases "perform_all (sql_repositories env now) cs (committed u)")
    (auto simp: with_uow_def uow_enter_def bind_def perform_all_wired in_session_def uow_commit_def uow_exit_def
      uow_rollback_def Let_def split: sum.split)

text \<open>A block that does not commit changes nothing.\<close>

theorem calls_without_commit:
  "committed (snd (with_uow (perform_all (wired_repositories env now) cs) u)) = committed u"
  by (cases "perform_all (sql_repositories env now) cs (committed u)")
    (auto simp: with_uow_def uow_enter_def perform_all_wired in_session_def uow_exit_def uow_rollback_def Let_def
      split: sum.split)

lemma block_keeps_ok:
  assumes "numeric_column (db_numeric env)" "list_all call_ok cs" "db_ok (committed u)"
  shows "db_ok (committed (snd (with_uow (bind (perform_all (wired_repositories env now) cs) (\<lambda>_. uow_commit)) u)))"
  using perform_all_ok [OF assms(1,2), of now] assms(3)
  by (auto simp: calls_commit keeps_def split: prod.split sum.split)

end
