(* ===== verification/SchemaFit.thy ===== *)
theory SchemaFit
  imports Ports Migrations StripeClient
begin

text \<open>
  The stored rows and the migrated tables. The record model of \<open>Schema\<close> keeps a database as lists of
  rows; here every value of a row has to fit the column of the migrated table it is stored in: text
  its length, an amount its precision and scale, a count its 32 bits, and no null where the column
  forbids it. Every repository call and every payment keeps that.
\<close>

section \<open>Rows that fit\<close>

definition row_fits :: "catalog \<Rightarrow> string \<Rightarrow> sql_value list \<Rightarrow> bool" where
  "row_fits c t vs = (case map_of (tables c) t of None \<Rightarrow> False | Some cols \<Rightarrow> list_all2 fits cols vs)"

definition rows_fit :: "catalog \<Rightarrow> database \<Rightarrow> bool" where
  "rows_fit c db \<longleftrightarrow>
     (\<forall>r \<in> set (organizations db). row_fits c ''organizations'' (organization_values r))
     \<and> (\<forall>r \<in> set (users db). row_fits c ''users'' (user_values r))
     \<and> (\<forall>r \<in> set (api_keys db). row_fits c ''api_keys'' (api_key_values r))
     \<and> (\<forall>r \<in> set (credit_balances db). row_fits c ''credit_balances'' (credit_values r))
     \<and> (\<forall>r \<in> set (usage_records db). row_fits c ''usage_records'' (usage_values r))
     \<and> (\<forall>r \<in> set (video_jobs db). row_fits c ''video_jobs'' (video_values r))
     \<and> (\<forall>r \<in> set (audit_logs db). row_fits c ''audit_logs'' (audit_values r))"

lemma table_lookup:
  "row_fits initial_catalog ''organizations'' = list_all2 fits organizations_table"
  "row_fits initial_catalog ''users'' = list_all2 fits users_table"
  "row_fits initial_catalog ''api_keys'' = list_all2 fits api_keys_table"
  "row_fits initial_catalog ''credit_balances'' = list_all2 fits credit_balances_table"
  "row_fits initial_catalog ''usage_records'' = list_all2 fits usage_records_table"
  "row_fits initial_catalog ''video_jobs'' = list_all2 fits video_jobs_table"
  "row_fits initial_catalog ''audit_logs'' = list_all2 fits audit_logs_table"
  by (simp_all add: fun_eq_iff row_fits_def initial_catalog_def)

abbreviation fitting :: "database \<Rightarrow> bool" where
  "fitting \<equiv> rows_fit initial_catalog"

lemmas fitting_def = rows_fit_def table_lookup schema_row_checks

lemma empty_fits: "fitting empty_db"
  by (simp add: rows_fit_def empty_db_def)

section \<open>Insertions\<close>

lemma insertions_fit [inv_intros]:
  "keeps fitting (insert_organization r1)" "keeps fitting (insert_user r2)" "keeps fitting (insert_api_key r3)"
  "keeps fitting (insert_audit_log r4)"
  by (rule keepsI, auto simp: insert_defs fitting_def)+

lemma amounts_fit [inv_intros]:
  "cents_ok (r_cost_usd r) \<Longrightarrow> keeps fitting (insert_usage r)"
  "cents_ok (v_cost_usd v) \<Longrightarrow> keeps fitting (insert_video_job v)"
  "cents_ok (c_available b) \<Longrightarrow> cents_ok (c_reserved b) \<Longrightarrow> pred_option cents_ok (c_monthly_cap b)
    \<Longrightarrow> pred_option cents_ok (c_daily_cap b) \<Longrightarrow> keeps fitting (insert_credit b)"
  by (rule keepsI, auto simp: insert_defs fitting_def)+

section \<open>Repository calls\<close>

lemma reads_fit [inv_intros]:
  "keeps fitting (keys_find_by_lookup_hash h)" "keeps fitting (keys_get i)" "keeps fitting (keys_list_for_org org)"
  "keeps fitting (users_get i)" "keeps fitting (users_find_by_email e)" "keeps fitting (organizations_get i)"
  "keeps fitting (usage_aggregate_for_period env org start stop)" "keeps fitting (video_jobs_get i)"
  by (simp_all add: keeps_def keys_find_by_lookup_hash_def keys_get_def keys_list_for_org_def
      users_get_def users_find_by_email_def organizations_get_def usage_aggregate_for_period_def
      video_jobs_get_def)

lemma writes_fit [inv_intros]:
  "keeps fitting (keys_add env k)" "keeps fitting (users_add env u)" "keeps fitting (organizations_add env g)"
  by (unfold keys_add_def users_add_def organizations_add_def) (intro inv_intros)+

lemma keys_revoke_fits [inv_intros]: "keeps fitting (keys_revoke now i reason)"
  by (rule keepsI) (auto simp: keys_revoke_def fitting_def ball_update_where)

lemma credits_get_for_update_fits [inv_intros]: "keeps fitting (credits_get_for_update env org)"
proof (rule keepsI)
  fix db assume "fitting db"
  moreover have "keeps fitting (bind (insert_credit (new_credit_row env org))
      (\<lambda>_. return (credit_of_row (new_credit_row env org))))"
    by (intro inv_intros) (simp_all add: new_credit_row_def)
  ultimately show "fitting (snd (credits_get_for_update env org db))"
    by (auto simp: credits_get_for_update_def keeps_def split: option.split)
qed

text \<open>Amounts are converted by the column before they are stored.\<close>

lemma num_option_fits:
  "numeric_column num \<Longrightarrow> num_option num d = Inr x \<Longrightarrow> pred_option cents_ok x"
  by (auto simp: num_option_def res_bind_Inr_iff numeric_column.num_range split: option.splits)

lemma credits_update_fits [inv_intros]:
  assumes num: "numeric_column (db_numeric env)"
  shows "keeps fitting (credits_update env b)"
proof (rule keepsI)
  fix db assume db: "fitting db"
  show "fitting (snd (credits_update env b db))"
  proof (cases "fst (credits_update env b db)")
    case (Inl e)
    then show ?thesis using db by (auto simp: credits_update_def split: sum.splits)
  next
    case (Inr u)
    then obtain av rv mc dc where n: "db_numeric env (available b) = Inr av" "db_numeric env (reserved b) = Inr rv"
      "num_option (db_numeric env) (monthly_cap b) = Inr mc" "num_option (db_numeric env) (daily_cap b) = Inr dc"
      and s: "snd (credits_update env b db) = db\<lparr>credit_balances :=
        update_where (\<lambda>r. c_org_id r = cb_org_id b)
          (\<lambda>r. r\<lparr>c_available := av, c_reserved := rv, c_monthly_cap := mc, c_daily_cap := dc,
                 c_hard_stop := hard_stop b, c_updated_at := db_now env\<rparr>) (credit_balances db)\<rparr>"
      by (auto simp: credits_update_def res_bind_Inr_iff split: sum.splits)
    have "cents_ok av" "cents_ok rv" "pred_option cents_ok mc" "pred_option cents_ok dc"
      using numeric_column.num_range [OF num] num_option_fits [OF num] n by blast+
    with db show ?thesis by (auto simp: s fitting_def ball_update_where)
  qed
qed

lemma deduct_fits [inv_intros]:
  assumes num: "numeric_column (db_numeric env)"
  shows "keeps fitting (credits_deduct_atomic env org m)"
proof (rule keepsI)
  fix db assume db: "fitting db"
  let ?f = "\<lambda>r. if deductible org (amount m) r then deduct_row env (amount m) r else Inr r"
  have row: "list_all2 fits credit_balances_table (credit_values r')"
    if "?f r = Inr r'" "list_all2 fits credit_balances_table (credit_values r)" for r r'
    using that numeric_column.num_range [OF num]
    by (auto simp: deduct_row_def res_bind_Inr_iff schema_row_checks split: if_splits)
  have rows: "map_result ?f rs = Inr rs' \<Longrightarrow> \<forall>r \<in> set rs. list_all2 fits credit_balances_table (credit_values r)
      \<Longrightarrow> \<forall>r \<in> set rs'. list_all2 fits credit_balances_table (credit_values r)" for rs rs'
  proof (induction rs arbitrary: rs')
    case (Cons r rs)
    then show ?case using row by (fastforce simp: res_bind_Inr_iff)
  qed simp
  show "fitting (snd (credits_deduct_atomic env org m db))"
  proof (cases "map_result ?f (credit_balances db)")
    case (Inr rs)
    with db rows [OF Inr] show ?thesis by (simp add: credits_deduct_atomic_def rows_fit_def table_lookup)
  qed (use db in \<open>simp add: credits_deduct_atomic_def\<close>)
qed

lemma usage_add_fits [inv_intros]:
  assumes "numeric_column (db_numeric env)"
  shows "keeps fitting (usage_add env u)"
proof (cases "db_numeric env (amount (ur_cost u))")
  case (Inr c)
  then have "cents_ok c" using numeric_column.num_range [OF assms] by blast
  then have "keeps fitting (insert_usage (usage_to_row (db_now env) c u))"
    by (intro inv_intros) (simp add: usage_to_row_def)
  with Inr show ?thesis by (simp add: usage_add_def keeps_def)
qed (simp add: usage_add_def keeps_def)

lemma video_jobs_add_fits [inv_intros]:
  assumes "numeric_column (db_numeric env)"
  shows "keeps fitting (video_jobs_add env j)"
proof (cases "db_numeric env (amount (vj_cost j))")
  case (Inr c)
  then have "cents_ok c" using numeric_column.num_range [OF assms] by blast
  then have "keeps fitting (bind (insert_video_job
             \<lparr>v_id = vj_id j, v_org_id = vj_org_id j, v_key_id = vj_key_id j, v_model = vj_model j,
              v_prompt = vj_prompt j, v_status = status_value (vj_status j),
              v_output_urls = vj_output_urls j, v_cost_usd = c, v_error = vj_error j,
              v_created_at = db_now env, v_completed_at = None\<rparr>) (\<lambda>_. return j))"
    by (intro inv_intros) simp
  with Inr show ?thesis by (simp add: video_jobs_add_def keeps_def)
qed (simp add: video_jobs_add_def keeps_def)

lemma status_short: "varchar 20 (status_value st)"
  by (cases st) (simp_all add: varchar_def)

lemma video_jobs_update_fits [inv_intros]:
  assumes "numeric_column (db_numeric env)"
  shows "keeps fitting (video_jobs_update env j)"
proof (rule keepsI)
  fix db assume db: "fitting db"
  show "fitting (snd (video_jobs_update env j db))"
  proof (cases "db_numeric env (amount (vj_cost j))")
    case (Inr c)
    then have "cents_ok c" using numeric_column.num_range [OF assms] by blast
    with db Inr show ?thesis
      by (auto simp: video_jobs_update_def fitting_def ball_update_where status_short)
  qed (use db in \<open>simp add: video_jobs_update_def\<close>)
qed

lemma perform_fits:
  "numeric_column (db_numeric env) \<Longrightarrow> keeps fitting (perform (sql_repositories env now) c)"
  by (cases c) (auto simp: sql_repositories_def intro!: inv_intros)

lemma perform_all_fits:
  "numeric_column (db_numeric env) \<Longrightarrow> keeps fitting (perform_all (sql_repositories env now) cs)"
  by (induction cs) (auto intro!: inv_intros perform_fits)

section \<open>Payments\<close>

lemma payment_fits:
  assumes num: "numeric_column (db_numeric env)"
  shows "keeps fitting (apply_credit env org x)"
proof (rule keepsI)
  fix db assume db: "fitting db"
  show "fitting (snd (apply_credit env org x db))"
  proof (cases "by_key c_org_id org (credit_balances db)")
    case None
    have "keeps fitting (bind (lift (db_numeric env x))
        (\<lambda>av. insert_credit ((new_credit_row env org)\<lparr>c_available := av\<rparr>)))"
    proof (cases "db_numeric env x")
      case (Inr av)
      then have "cents_ok av" using numeric_column.num_range [OF num] by blast
      then have "keeps fitting (insert_credit ((new_credit_row env org)\<lparr>c_available := av\<rparr>))"
        by (intro inv_intros) (simp_all add: new_credit_row_def)
      with Inr show ?thesis by (simp add: keeps_def)
    qed (simp add: keeps_def)
    with db None show ?thesis by (simp add: apply_credit_def keeps_def)
  next
    case (Some r)
    show ?thesis
    proof (cases "db_numeric env (dec_add (c_available r) x)")
      case (Inr av)
      then have "cents_ok av" using numeric_column.num_range [OF num] by blast
      with db Some Inr show ?thesis by (auto simp: apply_credit_def Let_def fitting_def ball_update_where)
    qed (use db Some in \<open>simp add: apply_credit_def Let_def\<close>)
  qed
qed

end
