(* ===== verification/SampleRequests.thy ===== *)
theory SampleRequests
  imports Samples Catalog MockProviders GrpcAuth Storage HttpApp Workers SchemaFit
begin

text \<open>
  More of the concrete world of \<open>Samples\<close>, for the properties of the providers, the mock server, the
  gateway's servicer, the HTTP application, the tasks and the settings. Nothing here models code.
\<close>

section \<open>A chat request and a price table\<close>

definition sample_chat :: unified_request where
  "sample_chat =
     \<lparr>uq_model = ''anthropic/claude-opus-4-20250514'',
      uq_messages = [JObj [(''role'', JStr ''system''), (''content'', JStr ''be brief'')],
        JObj [(''role'', JStr ''user''), (''content'', JStr ''hi'')]],
      uq_stream = False, uq_max_tokens = None, uq_temperature = Some 1, uq_top_p = None, uq_tools = None,
      uq_response_format = None, uq_reasoning_effort = None, uq_extras = None\<rparr>"

definition sample_answer :: anthropic_response where
  "sample_answer = \<lparr>an_id = ''msg_1'', an_model = ''claude-opus-4-20250514'', an_content = [TextBlock ''hello''],
     an_stop_reason = Some ''refusal'', an_input_tokens = 9, an_output_tokens = 2, an_cache_read = None, an_dump = JNull\<rparr>"

definition sample_prices :: pricing_state where
  "sample_prices = \<lparr>ps_redis = Map.empty, ps_table =
     [\<lparr>p_model_key = ''m'', p_provider = ''x'', p_input = Dec 30 (- 2), p_output = Dec 50 (- 2), p_cached = None,
       p_reasoning = None, p_context_window = None, p_modalities = [], p_active = True\<rparr>]\<rparr>"

section \<open>Rows in the migrated tables\<close>

lemma sample_fits: "rows_fit initial_catalog sample_db"
  by (simp add: fitting_def sample_defs varchar_def cents_ok_def on_grid_def dec_val_def power_int_def power_divide)

section \<open>A mock scenario and an overdrawn organization\<close>

definition sample_scenario :: scenario_request where
  "sample_scenario = \<lparr>rq_provider = ''openai'', rq_route = ''chat'', rq_latency_ms = None, rq_error_rate = Some 1,
     rq_rate_limit_rate = None, rq_stream_chunk_delay_ms = None, rq_force_status = None\<rparr>"

definition sample_mock :: mock_server where
  "sample_mock = snd (set_scenario sample_scenario \<lparr>sv_engine = fresh_engine, sv_snapshots = []\<rparr>)"

definition overdrawn_row :: credit_row where
  "overdrawn_row = sample_credit_row\<lparr>c_reserved := Dec 20000000 (- 6)\<rparr>"

definition overdrawn_uow :: uow where
  "overdrawn_uow = \<lparr>committed = sample_db\<lparr>credit_balances := [overdrawn_row]\<rparr>, session = None\<rparr>"

lemma overdrawn_ok: "db_ok (committed overdrawn_uow)"
  using sample_ok
  by (simp add: db_ok_def table_ok_defs overdrawn_uow_def overdrawn_row_def sample_defs cents_ok_def on_grid_def
      dec_val_def power_int_def power_divide)

lemma overdrawn_view: "sql_view (committed overdrawn_uow) = sql_view sample_db"
  by (simp add: fun_eq_iff sql_view_def sql_key_def overdrawn_uow_def sample_defs)

section \<open>A webhook and an environment\<close>

text \<open>A receiver that answers 503 twice and is back for the third attempt.\<close>

definition sample_receiver :: "nat \<Rightarrow> webhook_post \<Rightarrow> task_error + int" where
  "sample_receiver n post = Inr (if n < 2 then 503 else 204)"

definition sample_converters :: converters where
  "sample_converters = \<lparr>cv_int = (\<lambda>s. Some (int (digits_val s))), cv_float = (\<lambda>_. None), cv_list = (\<lambda>_. None)\<rparr>"

definition prod_only :: "string \<Rightarrow> string option" where
  "prod_only = [''environment'' \<mapsto> ''prod'']"

section \<open>A day of usage\<close>

lemma sample_day_orgs:
  "{org. \<exists>r \<in> set (usage_records sample_metered). r_org_id r = org \<and> r_created_at r div day_us + epoch_ordinal = 719163}
    = {1}"
  by (simp add: sample_metered_def usage_to_row_def meter_record_def sample_usage_def day_us_def second_us_def
      epoch_ordinal_def)

end
