(* ===== verification/Sessions.thy ===== *)
theory Sessions
  imports SystemRuns
begin

text \<open>
  Sessions that are open at the same time. The two transactions that change balances, metering
  (\<^verbatim>\<open>BillingService.meter\<close>) and crediting (\<^verbatim>\<open>StripeClient._credit_org\<close>), run here statement by
  statement, interleaved with each other and with every other request. The database is PostgreSQL
  at its default isolation level as documented: a statement sees what is committed and what its own
  transaction wrote, writing or selecting a row for update waits for the transaction that holds the
  row, inserting a key waits for a transaction that inserted it and has not ended. The theory shows that
  whatever sessions commit, some serial run of the backend commits, with the same ledger.
\<close>

section \<open>The state of a session\<close>

record meter_job =
  mj_time :: datetime
  mj_id :: uuid
  mj_created :: datetime
  mj_cmd :: meter_usage_command
  mj_cost :: money

record credit_job =
  cj_time :: datetime
  cj_event :: json
  cj_org :: uuid
  cj_amount :: decimal

text \<open>
  How far a session has come: \<open>Metering\<close> is inside \<^verbatim>\<open>async with self._uow\<close> before the first statement,
  \<open>Deducted\<close> after \<^verbatim>\<open>deduct_atomic\<close> (with the row it wrote, if the cost was positive), \<open>Recorded\<close>
  after \<^verbatim>\<open>usage.add\<close>. \<open>Crediting\<close> is inside \<^verbatim>\<open>session.begin()\<close>, \<open>Locked\<close> and \<open>Missing\<close> after the
  \<^verbatim>\<open>SELECT FOR UPDATE\<close>, \<open>Written\<close> and \<open>Inserted\<close> after the flush.
\<close>

datatype tx =
    Metering meter_job
  | Deducted meter_job "credit_row option"
  | Recorded meter_job "credit_row option" usage_row
  | Crediting credit_job
  | Locked credit_job credit_row
  | Missing credit_job
  | Written credit_job "credit_row option"
  | Inserted credit_job credit_row

type_synonym sessions = "nat \<Rightarrow> tx option"

abbreviation mj_org :: "meter_job \<Rightarrow> uuid" where
  "mj_org j \<equiv> mu_org_id (mj_cmd j)"

text \<open>The balance row, or the key of one, that a session holds until it ends.\<close>

fun lock_of :: "tx \<Rightarrow> uuid option" where
  "lock_of (Deducted j (Some r)) = Some (mj_org j)"
| "lock_of (Recorded j (Some r) u) = Some (mj_org j)"
| "lock_of (Locked j r) = Some (cj_org j)"
| "lock_of (Written j r) = Some (cj_org j)"
| "lock_of (Inserted j r) = Some (cj_org j)"
| "lock_of _ = None"

fun new_usage :: "tx \<Rightarrow> usage_row option" where
  "new_usage (Recorded j r u) = Some u"
| "new_usage _ = None"

definition busy :: "sessions \<Rightarrow> nat \<Rightarrow> uuid \<Rightarrow> bool" where
  "busy txs t org \<longleftrightarrow> (\<exists>t' tx. t' \<noteq> t \<and> txs t' = Some tx \<and> lock_of tx = Some org)"

definition taken :: "sessions \<Rightarrow> nat \<Rightarrow> uuid \<Rightarrow> bool" where
  "taken txs t i \<longleftrightarrow> (\<exists>t' tx u. t' \<noteq> t \<and> txs t' = Some tx \<and> new_usage tx = Some u \<and> r_id u = i)"

section \<open>Statements\<close>

definition set_balance :: "credit_row option \<Rightarrow> database \<Rightarrow> database" where
  "set_balance new db =
     (case new of
        None \<Rightarrow> db
      | Some r \<Rightarrow> db\<lparr>credit_balances := update_where (\<lambda>s. c_org_id s = c_org_id r) (\<lambda>_. r) (credit_balances db)\<rparr>)"

text \<open>What a session does next: wait for another one, fail, reach a new state, or commit.\<close>

datatype progress = Wait | Fail | Next tx | Publish ledger_event database

fun meter_advance :: "db_env \<Rightarrow> (uuid \<Rightarrow> bool) \<Rightarrow> (uuid \<Rightarrow> bool) \<Rightarrow> database \<Rightarrow> tx \<Rightarrow> progress" where
  "meter_advance env held inserted db (Metering j) =
     (if \<not> dec_zero < amount (mj_cost j) then Next (Deducted j None)
      else case credits_deduct_atomic (at_time env (mj_time j)) (mj_org j) (mj_cost j) db of
             (Inr True, db') \<Rightarrow>
               if held (mj_org j) then Wait else Next (Deducted j (by_key c_org_id (mj_org j) (credit_balances db')))
           | _ \<Rightarrow> Fail)"
| "meter_advance env held inserted db (Deducted j r) =
     (if inserted (mj_id j) then Wait
      else case usage_add (at_time env (mj_time j)) (meter_record (mj_id j) (mj_created j) (mj_cmd j) (mj_cost j)) db of
             (Inr _, db') \<Rightarrow> Next (Recorded j r (last (usage_records db')))
           | _ \<Rightarrow> Fail)"
| "meter_advance env held inserted db (Recorded j r u) =
     Publish (Charge (mj_org j)) (set_balance r (db\<lparr>usage_records := usage_records db @ [u]\<rparr>))"
| "meter_advance env held inserted db tx = Fail"

fun credit_advance :: "db_env \<Rightarrow> (uuid \<Rightarrow> bool) \<Rightarrow> database \<Rightarrow> tx \<Rightarrow> progress" where
  "credit_advance env held db (Crediting j) =
     (case by_key c_org_id (cj_org j) (credit_balances db) of
        None \<Rightarrow> Next (Missing j)
      | Some r \<Rightarrow> if held (cj_org j) then Wait else Next (Locked j r))"
| "credit_advance env held db (Locked j r) =
     (let new = dec_add (c_available r) (cj_amount j)
      in if dec_val new = dec_val (c_available r) then Next (Written j None)
         else case db_numeric env new of
                Inl _ \<Rightarrow> Fail
              | Inr av \<Rightarrow> Next (Written j (Some (r\<lparr>c_available := av, c_updated_at := cj_time j\<rparr>))))"
| "credit_advance env held db (Missing j) =
     (if held (cj_org j) then Wait
      else case db_numeric env (cj_amount j) of
             Inl _ \<Rightarrow> Fail
           | Inr av \<Rightarrow>
               let r = (new_credit_row (at_time env (cj_time j)) (cj_org j))\<lparr>c_available := av\<rparr>
               in if is_ok (fst (insert_credit r db)) then Next (Inserted j r) else Fail)"
| "credit_advance env held db (Written j r) = Publish (webhook_event (cj_event j) (Inr ())) (set_balance r db)"
| "credit_advance env held db (Inserted j r) =
     Publish (webhook_event (cj_event j) (Inr ())) (db\<lparr>credit_balances := credit_balances db @ [r]\<rparr>)"
| "credit_advance env held db tx = Fail"

fun is_metering :: "tx \<Rightarrow> bool" where
  "is_metering (Metering j) = True"
| "is_metering (Deducted j r) = True"
| "is_metering (Recorded j r u) = True"
| "is_metering _ = False"

definition advance :: "db_env \<Rightarrow> (uuid \<Rightarrow> bool) \<Rightarrow> (uuid \<Rightarrow> bool) \<Rightarrow> database \<Rightarrow> tx \<Rightarrow> progress" where
  "advance env held inserted db tx =
     (if is_metering tx then meter_advance env held inserted db tx else credit_advance env held db tx)"

lemma advance_metering [simp]:
  "advance env held inserted db (Metering j) = meter_advance env held inserted db (Metering j)"
  "advance env held inserted db (Deducted j r) = meter_advance env held inserted db (Deducted j r)"
  "advance env held inserted db (Recorded j r u) = meter_advance env held inserted db (Recorded j r u)"
  by (simp_all add: advance_def)

lemma advance_crediting [simp]:
  "advance env held inserted db (Crediting j) = credit_advance env held db (Crediting j)"
  "advance env held inserted db (Locked j b) = credit_advance env held db (Locked j b)"
  "advance env held inserted db (Missing j) = credit_advance env held db (Missing j)"
  "advance env held inserted db (Written j r) = credit_advance env held db (Written j r)"
  "advance env held inserted db (Inserted j b) = credit_advance env held db (Inserted j b)"
  by (simp_all add: advance_def)

lemmas advance_simps = advance_metering advance_crediting

text \<open>A session opens with the price of its request computed, or the event of its payment read.\<close>

fun credits :: "credit_job \<Rightarrow> bool" where
  "credits j \<longleftrightarrow> event_ok (cj_event j) \<and>
     (case event_credit (cj_event j) of
        Some (org, JInt n) \<Rightarrow> org = cj_org j \<and> dec_div (dec_of_int n) cents_per_dollar = Some (cj_amount j)
      | _ \<Rightarrow> False)"

fun opens :: "tx \<Rightarrow> bool" where
  "opens (Metering j) \<longleftrightarrow> meter_cost (mj_cmd j) = Inr (mj_cost j)"
| "opens (Crediting j) \<longleftrightarrow> credits j"
| "opens _ \<longleftrightarrow> False"

text \<open>
  Rows an open session has inserted keep the rows they refer to in place, and their keys reserved.
\<close>

fun insertable :: "database \<Rightarrow> tx \<Rightarrow> bool" where
  "insertable db (Recorded j r u) \<longleftrightarrow> is_ok (fst (insert_usage u db))"
| "insertable db (Inserted j r) \<longleftrightarrow> is_ok (fst (insert_credit r db))"
| "insertable db _ \<longleftrightarrow> True"

section \<open>Interleaved runs\<close>

text \<open>
  A session may be rolled back at any moment: because a statement failed, because the balance did not
  cover the cost, or because its connection was lost.
\<close>

inductive session_run :: "db_env \<Rightarrow> database \<Rightarrow> ledger_event list \<Rightarrow> database \<Rightarrow> sessions \<Rightarrow> bool" for env db0 where
  run_begin: "session_run env db0 [] db0 (\<lambda>_. None)"
| run_open: "session_run env db0 ls db txs \<Longrightarrow> txs t = None \<Longrightarrow> opens tx \<Longrightarrow>
    session_run env db0 ls db (txs(t \<mapsto> tx))"
| run_advance: "session_run env db0 ls db txs \<Longrightarrow> txs t = Some tx \<Longrightarrow>
    advance env (busy txs t) (taken txs t) db tx = Next tx' \<Longrightarrow> session_run env db0 ls db (txs(t \<mapsto> tx'))"
| run_commit: "session_run env db0 ls db txs \<Longrightarrow> txs t = Some tx \<Longrightarrow>
    advance env (busy txs t) (taken txs t) db tx = Publish l db' \<Longrightarrow>
    session_run env db0 (ls @ [l]) db' (txs(t := None))"
| run_rollback: "session_run env db0 ls db txs \<Longrightarrow> session_run env db0 ls db (txs(t := None))"
| run_other: "session_run env db0 ls db txs \<Longrightarrow> backend_step env db Quiet db' \<Longrightarrow>
    (\<And>t tx. txs t = Some tx \<Longrightarrow> insertable db' tx) \<Longrightarrow> session_run env db0 (ls @ [Quiet]) db' txs"

section \<open>What an open session relies on\<close>

definition deducted :: "db_env \<Rightarrow> database \<Rightarrow> meter_job \<Rightarrow> credit_row option \<Rightarrow> bool" where
  "deducted env db j new \<longleftrightarrow> opens (Metering j) \<and>
     (case new of
        None \<Rightarrow> \<not> dec_zero < amount (mj_cost j)
      | Some r' \<Rightarrow> dec_zero < amount (mj_cost j) \<and>
          (\<exists>r. by_key c_org_id (mj_org j) (credit_balances db) = Some r \<and> amount (mj_cost j) \<le> c_available r
             \<and> deduct_row (at_time env (mj_time j)) (amount (mj_cost j)) r = Inr r'))"

definition topped_up :: "db_env \<Rightarrow> database \<Rightarrow> credit_job \<Rightarrow> credit_row option \<Rightarrow> bool" where
  "topped_up env db j new \<longleftrightarrow> credits j \<and>
     (\<exists>r. by_key c_org_id (cj_org j) (credit_balances db) = Some r \<and>
        advance env (\<lambda>_. False) (\<lambda>_. False) db (Locked j r) = Next (Written j new))"

fun tx_ok :: "db_env \<Rightarrow> database \<Rightarrow> tx \<Rightarrow> bool" where
  "tx_ok env db (Metering j) \<longleftrightarrow> opens (Metering j)"
| "tx_ok env db (Deducted j r) \<longleftrightarrow> deducted env db j r"
| "tx_ok env db (Recorded j r u) \<longleftrightarrow> deducted env db j r
     \<and> (\<exists>cn. db_numeric env (amount (mj_cost j)) = Inr cn
        \<and> u = usage_to_row (mj_time j) cn (meter_record (mj_id j) (mj_created j) (mj_cmd j) (mj_cost j)))"
| "tx_ok env db (Crediting j) \<longleftrightarrow> credits j"
| "tx_ok env db (Missing j) \<longleftrightarrow> credits j"
| "tx_ok env db (Locked j r) \<longleftrightarrow> credits j \<and> by_key c_org_id (cj_org j) (credit_balances db) = Some r"
| "tx_ok env db (Written j r) \<longleftrightarrow> topped_up env db j r"
| "tx_ok env db (Inserted j r) \<longleftrightarrow> credits j
     \<and> (\<exists>av. db_numeric env (cj_amount j) = Inr av
        \<and> r = (new_credit_row (at_time env (cj_time j)) (cj_org j))\<lparr>c_available := av\<rparr>)"

definition apart :: "tx \<Rightarrow> tx \<Rightarrow> bool" where
  "apart tx tx' \<longleftrightarrow> (\<forall>org. lock_of tx = Some org \<longrightarrow> lock_of tx' \<noteq> Some org)
     \<and> (\<forall>u u'. new_usage tx = Some u \<longrightarrow> new_usage tx' = Some u' \<longrightarrow> r_id u \<noteq> r_id u')"

definition sessions_ok :: "db_env \<Rightarrow> database \<Rightarrow> sessions \<Rightarrow> bool" where
  "sessions_ok env db txs \<longleftrightarrow>
     (\<forall>t tx. txs t = Some tx \<longrightarrow> tx_ok env db tx \<and> insertable db tx)
     \<and> (\<forall>t t' tx tx'. t \<noteq> t' \<longrightarrow> txs t = Some tx \<longrightarrow> txs t' = Some tx' \<longrightarrow> apart tx tx')"

section \<open>The balance row\<close>

lemma deduct_row_org: "deduct_row env a r = Inr r' \<Longrightarrow> c_org_id r' = c_org_id r"
  by (auto simp: deduct_row_def res_bind_Inr_iff)

lemma set_balance_row:
  "c_org_id r = org \<Longrightarrow> by_key c_org_id o' (credit_balances (set_balance (Some r) db))
    = (if o' = org then map_option (\<lambda>_. r) (by_key c_org_id org (credit_balances db))
       else by_key c_org_id o' (credit_balances db))"
  by (simp add: set_balance_def by_key_set_row)

lemma set_balance_tables [simp]:
  "organizations (set_balance r db) = organizations db" "usage_records (set_balance r db) = usage_records db"
  "api_keys (set_balance r db) = api_keys db"
  by (simp_all add: set_balance_def split: option.split)

lemma set_balance_orgs [simp]: "c_org_id ` set (credit_balances (set_balance new db)) = c_org_id ` set (credit_balances db)"
proof (cases new)
  case (Some r)
  have "map c_org_id (update_where (\<lambda>s. c_org_id s = c_org_id r) (\<lambda>_. r) rs) = map c_org_id rs" for rs
    by (simp add: update_where_def)
  then have "set (map c_org_id (credit_balances (set_balance new db))) = set (map c_org_id (credit_balances db))"
    unfolding Some set_balance_def by simp
  then show ?thesis by simp
qed (simp add: set_balance_def)

text \<open>The rows a session has written are what its statements make of the row that is still there.\<close>

lemma deducted_atomic:
  assumes db: "db_ok db" and d: "deducted env db j new"
  shows "(if dec_zero < amount (mj_cost j)
      then credits_deduct_atomic (at_time env (mj_time j)) (mj_org j) (mj_cost j) db = (Inr True, set_balance new db)
      else set_balance new db = db)"
proof (cases new)
  case None
  with d show ?thesis by (simp add: deducted_def set_balance_def)
next
  case (Some r')
  then obtain r where r: "by_key c_org_id (mj_org j) (credit_balances db) = Some r" "amount (mj_cost j) \<le> c_available r"
    "deduct_row (at_time env (mj_time j)) (amount (mj_cost j)) r = Inr r'"
    using d by (auto simp: deducted_def)
  have "c_org_id r' = mj_org j" using by_key_SomeD [OF r(1)] deduct_row_org [OF r(3)] by simp
  with r Some d show ?thesis by (simp add: deduct_atomic_cases [OF db] set_balance_def deducted_def)
qed

lemma deducted_row:
  assumes db: "db_ok db" and c: "opens (Metering j)" "dec_zero < amount (mj_cost j)"
    and d: "credits_deduct_atomic (at_time env (mj_time j)) (mj_org j) (mj_cost j) db = (Inr True, db')"
  shows "deducted env db j (by_key c_org_id (mj_org j) (credit_balances db'))"
proof -
  obtain r r' where r: "by_key c_org_id (mj_org j) (credit_balances db) = Some r" "amount (mj_cost j) \<le> c_available r"
    "deduct_row (at_time env (mj_time j)) (amount (mj_cost j)) r = Inr r'"
    and db': "db' = db\<lparr>credit_balances := update_where (\<lambda>s. c_org_id s = mj_org j) (\<lambda>_. r') (credit_balances db)\<rparr>"
    using d by (auto simp: deduct_atomic_cases [OF db] split: option.splits sum.splits if_splits)
  have "c_org_id r' = mj_org j" using by_key_SomeD [OF r(1)] deduct_row_org [OF r(3)] by simp
  then have "by_key c_org_id (mj_org j) (credit_balances db') = Some r'"
    using r(1) by (simp add: db' by_key_set_row)
  with c r show ?thesis by (simp add: deducted_def)
qed

lemma topped_up_credit:
  assumes db: "db_ok db" and d: "topped_up env db j new"
  shows "apply_credit (at_time env (cj_time j)) (cj_org j) (cj_amount j) db = (Inr (), set_balance new db)"
proof -
  obtain r where r: "by_key c_org_id (cj_org j) (credit_balances db) = Some r"
    and n: "advance env (\<lambda>_. False) (\<lambda>_. False) db (Locked j r) = Next (Written j new)"
    using d by (auto simp: topped_up_def)
  let ?new = "dec_add (c_available r) (cj_amount j)"
  show ?thesis
  proof (cases "dec_val ?new = dec_val (c_available r)")
    case True
    with n r show ?thesis by (simp add: apply_credit_def set_balance_def)
  next
    case False
    with n obtain av where av: "db_numeric env ?new = Inr av"
      "new = Some (r\<lparr>c_available := av, c_updated_at := cj_time j\<rparr>)"
      by (auto simp: Let_def split: sum.splits)
    have o: "c_org_id r = cj_org j" "r \<in> set (credit_balances db)" using by_key_SomeD [OF r] by auto
    have "distinct (map c_org_id (credit_balances db))" using db by (simp add: db_ok_def credits_ok_def)
    then have "s = r" if "s \<in> set (credit_balances db)" "c_org_id s = cj_org j" for s
      using that r by_key_mem by fastforce
    then have "update_where (\<lambda>s. c_org_id s = cj_org j) (\<lambda>s. s\<lparr>c_available := av, c_updated_at := cj_time j\<rparr>) (credit_balances db)
        = update_where (\<lambda>s. c_org_id s = cj_org j) (\<lambda>_. r\<lparr>c_available := av, c_updated_at := cj_time j\<rparr>) (credit_balances db)"
      by (auto simp: update_where_def)
    with r False av o show ?thesis by (simp add: apply_credit_def set_balance_def Let_def)
  qed
qed

section \<open>Steps of one session\<close>

lemma usage_inserted_iff: "is_ok (fst (insert_usage u db)) \<longleftrightarrow> insert_usage u db = (Inr (), db\<lparr>usage_records := usage_records db @ [u]\<rparr>)"
  by (auto simp: insert_usage_def checked_insert_def)

lemma credit_inserted_iff:
  "is_ok (fst (insert_credit r db)) \<longleftrightarrow> insert_credit r db = (Inr (), db\<lparr>credit_balances := credit_balances db @ [r]\<rparr>)"
  by (auto simp: insert_credit_def checked_insert_def)

lemma usage_add_row:
  assumes "usage_add (at_time env ts) (meter_record i now cmd c) db = (Inr x, db')"
  shows "\<exists>cn. db_numeric env (amount c) = Inr cn
    \<and> last (usage_records db') = usage_to_row ts cn (meter_record i now cmd c)
    \<and> is_ok (fst (insert_usage (last (usage_records db')) db))"
  using assms by (auto simp: usage_add_def meter_record_def insert_usage_def checked_insert_def split: sum.splits if_splits)

lemma advance_next:
  assumes db: "db_ok db" and ok: "tx_ok env db tx" and a: "advance env h i db tx = Next tx'"
  shows "tx_ok env db tx' \<and> insertable db tx'"
proof (cases tx)
  case (Metering j)
  show ?thesis
  proof (cases "dec_zero < amount (mj_cost j)")
    case True
    with a Metering obtain db' where d:
      "credits_deduct_atomic (at_time env (mj_time j)) (mj_org j) (mj_cost j) db = (Inr True, db')"
      "tx' = Deducted j (by_key c_org_id (mj_org j) (credit_balances db'))"
      by (auto split: prod.splits sum.splits bool.splits if_splits)
    with deducted_row [OF db _ True d(1)] ok Metering show ?thesis by simp
  next
    case False
    with a ok Metering show ?thesis by (auto simp: deducted_def)
  qed
next
  case (Deducted j r)
  with a obtain x db' where u:
    "usage_add (at_time env (mj_time j)) (meter_record (mj_id j) (mj_created j) (mj_cmd j) (mj_cost j)) db = (Inr x, db')"
    "tx' = Recorded j r (last (usage_records db'))"
    by (auto split: prod.splits sum.splits if_splits)
  with usage_add_row [OF u(1)] ok Deducted show ?thesis by auto
next
  case (Crediting j)
  with a ok show ?thesis by (auto split: option.splits if_splits)
next
  case (Locked j r)
  then have "advance env (\<lambda>_. False) (\<lambda>_. False) db tx = Next tx'" using a by (simp add: Let_def)
  then obtain new where "tx' = Written j new" "advance env (\<lambda>_. False) (\<lambda>_. False) db tx = Next (Written j new)"
    using Locked by (auto simp: Let_def split: if_splits sum.splits)
  with ok Locked show ?thesis by (auto simp: topped_up_def simp del: advance_simps)
next
  case (Missing j)
  with a ok show ?thesis by (auto simp: Let_def split: if_splits sum.splits)
qed (use a in simp_all)

lemma lock_of_metering:
  "lock_of (Deducted j r) = map_option (\<lambda>_. mj_org j) r" "lock_of (Recorded j r u) = map_option (\<lambda>_. mj_org j) r"
  by (cases r; simp)+

text \<open>A step takes a lock only when nobody holds it, and inserts a key only when nobody else has.\<close>

lemma advance_locks:
  assumes "advance env h i db tx = Next tx'"
  shows "lock_of tx' = None \<or> lock_of tx' = lock_of tx \<or> (\<exists>org. lock_of tx' = Some org \<and> \<not> h org)"
  using assms
  by (cases tx) (auto simp: Let_def lock_of_metering split: if_splits prod.splits sum.splits bool.splits option.splits)

lemma advance_inserts:
  assumes "tx_ok env db tx'" "advance env h i db tx = Next tx'" "new_usage tx' = Some u"
  shows "\<not> i (r_id u)"
  using assms
  by (cases tx)
    (auto simp: Let_def usage_to_row_def meter_record_def split: if_splits prod.splits sum.splits bool.splits option.splits)

text \<open>What a session commits, the same request run on its own commits.\<close>

lemma recorded_meter:
  assumes db: "db_ok db" and ok: "tx_ok env db (Recorded j new u)" and ins: "insertable db (Recorded j new u)"
  shows "meter (at_time env (mj_time j)) (mj_id j) (mj_created j) (mj_cmd j) (fresh_uow db)
    = (Inr (meter_record (mj_id j) (mj_created j) (mj_cmd j) (mj_cost j)),
       fresh_uow (set_balance new (db\<lparr>usage_records := usage_records db @ [u]\<rparr>)))"
proof -
  let ?r = "meter_record (mj_id j) (mj_created j) (mj_cmd j) (mj_cost j)"
  obtain cn where cn: "db_numeric env (amount (mj_cost j)) = Inr cn" "u = usage_to_row (mj_time j) cn ?r"
    and d: "deducted env db j new" using ok by auto
  have "amount (ur_cost ?r) = amount (mj_cost j)" by (simp add: meter_record_def)
  moreover have "is_ok (fst (insert_usage u (set_balance new db)))"
    using ins by (simp add: insert_usage_def checked_insert_def split: if_splits)
  ultimately have u: "usage_add (at_time env (mj_time j)) ?r (set_balance new db)
      = (Inr (), set_balance new (db\<lparr>usage_records := usage_records db @ [u]\<rparr>))"
    using cn by (simp add: usage_add_def usage_inserted_iff) (simp add: set_balance_def split: option.split)
  have "meter_work (at_time env (mj_time j)) (mj_id j) (mj_created j) (mj_cmd j) (mj_cost j) db
      = (Inr ?r, set_balance new (db\<lparr>usage_records := usage_records db @ [u]\<rparr>))"
    using deducted_atomic [OF db d] u by (auto simp: meter_work_def bind_def split: if_splits)
  then show ?thesis using d by (simp add: meter_run deducted_def)
qed

lemma credit_webhook:
  assumes c: "credits j" and a: "apply_credit env (cj_org j) (cj_amount j) db = (Inr (), db')"
  shows "\<exists>res. stripe_webhook_route env (Inr (cj_event j)) db = (Inr res, db')"
proof -
  obtain n where n: "event_credit (cj_event j) = Some (cj_org j, JInt n)"
    "dec_div (dec_of_int n) cents_per_dollar = Some (cj_amount j)"
    using c by (auto split: option.splits json.splits prod.splits)
  then have "handle_webhook env (cj_event j) db = (Inr (), db')"
    using handle_webhook_cases [where event = "cj_event j" and env = env and db = db] a by simp
  then show ?thesis by (auto simp: stripe_webhook_route_def verify_webhook_def bind_def)
qed

lemma webhook_event_ok: "webhook_event e (Inr x) = webhook_event e (Inr ())"
  by (simp add: webhook_event_def split: option.split json.split)

lemma credit_step:
  assumes "credits j" "apply_credit (at_time env ts) (cj_org j) (cj_amount j) db = (Inr (), db')"
  shows "backend_step env db (webhook_event (cj_event j) (Inr ())) db'"
proof -
  obtain res where "stripe_webhook_route (at_time env ts) (Inr (cj_event j)) db = (Inr res, db')"
    using credit_webhook [OF assms] by blast
  moreover have "event_ok (cj_event j)" using assms(1) by simp
  ultimately show ?thesis using step_webhook webhook_event_ok by metis
qed

lemma commit_serial:
  assumes db: "db_ok db" and ok: "tx_ok env db tx" "insertable db tx" and a: "advance env h i db tx = Publish l db'"
  shows "backend_step env db l db'"
proof (cases tx)
  case (Recorded j r u)
  with a have "l = Charge (mj_org j)" "db' = set_balance r (db\<lparr>usage_records := usage_records db @ [u]\<rparr>)" by auto
  with Recorded step_meter [OF recorded_meter [OF db]] ok show ?thesis by (fastforce simp: meter_event_def)
next
  case (Written j r)
  with a ok topped_up_credit [OF db, of env j r] show ?thesis by (auto simp: topped_up_def intro!: credit_step)
next
  case (Inserted j r)
  with ok obtain av where c: "credits j" "db_numeric env (cj_amount j) = Inr av"
    "r = (new_credit_row (at_time env (cj_time j)) (cj_org j))\<lparr>c_available := av\<rparr>" by auto
  have i: "insert_credit r db = (Inr (), db\<lparr>credit_balances := credit_balances db @ [r]\<rparr>)"
    using ok(2) Inserted by (simp add: credit_inserted_iff)
  then have "by_key c_org_id (cj_org j) (credit_balances db) = None"
    using c(3) by (auto simp: insert_credit_def checked_insert_def new_credit_row_def by_key_None_iff split: if_splits)
  with c i have "apply_credit (at_time env (cj_time j)) (cj_org j) (cj_amount j) db
      = (Inr (), db\<lparr>credit_balances := credit_balances db @ [r]\<rparr>)"
    by (simp add: apply_credit_def)
  with a Inserted c(1) show ?thesis by (auto intro!: credit_step)
qed (use a in \<open>auto simp: Let_def split: if_splits prod.splits sum.splits bool.splits option.splits\<close>)

section \<open>Sessions do not disturb each other\<close>

lemma tx_ok_frame:
  assumes "tx_ok env db tx" "\<And>org. lock_of tx = Some org \<Longrightarrow>
      by_key c_org_id org (credit_balances db') = by_key c_org_id org (credit_balances db)"
  shows "tx_ok env db' tx"
proof -
  have "deducted env db' j r" if "deducted env db j r" "lock_of tx = map_option (\<lambda>_. mj_org j) r" for j r
    using that assms(2) by (cases r) (auto simp: deducted_def)
  moreover have "topped_up env db' j r" if "topped_up env db j r" "lock_of tx = Some (cj_org j)" for j r
    using that assms(2) by (auto simp: topped_up_def Let_def split: if_splits sum.splits)
  ultimately show ?thesis
    using assms by (cases tx) (auto simp: lock_of_metering)
qed

text \<open>A commit changes the row its session holds and adds the usage record it has inserted, nothing else.\<close>

lemma set_balance_other:
  "(\<And>r. new = Some r \<Longrightarrow> c_org_id r \<noteq> org)
    \<Longrightarrow> by_key c_org_id org (credit_balances (set_balance new db)) = by_key c_org_id org (credit_balances db)"
  by (cases new) (simp_all add: set_balance_row, simp add: set_balance_def)

lemma written_row_org:
  "deducted env db j (Some r) \<Longrightarrow> c_org_id r = mj_org j" "topped_up env db k (Some r) \<Longrightarrow> c_org_id r = cj_org k"
  by (auto simp: deducted_def topped_up_def Let_def dest!: by_key_SomeD deduct_row_org split: if_splits sum.splits)

definition publishes :: "tx \<Rightarrow> database \<Rightarrow> database \<Rightarrow> bool" where
  "publishes tx db db' \<longleftrightarrow> organizations db' = organizations db \<and> api_keys db' = api_keys db
     \<and> (\<forall>org. lock_of tx \<noteq> Some org \<longrightarrow>
          by_key c_org_id org (credit_balances db') = by_key c_org_id org (credit_balances db))
     \<and> (\<forall>org. lock_of tx \<noteq> Some org \<longrightarrow> org \<in> c_org_id ` set (credit_balances db') \<longrightarrow>
          org \<in> c_org_id ` set (credit_balances db))
     \<and> usage_records db' = usage_records db @ (case new_usage tx of None \<Rightarrow> [] | Some u \<Rightarrow> [u])"

lemma publish_changes:
  assumes ok: "tx_ok env db tx" and a: "advance env h i db tx = Publish l db'"
  shows "publishes tx db db'"
proof (cases tx)
  case (Recorded j r u)
  then have db': "db' = set_balance r (db\<lparr>usage_records := usage_records db @ [u]\<rparr>)" using a by simp
  have "by_key c_org_id org (credit_balances db') = by_key c_org_id org (credit_balances db)"
    if "lock_of tx \<noteq> Some org" for org
    unfolding db' using that ok Recorded by (subst set_balance_other) (auto simp: lock_of_metering written_row_org)
  then show ?thesis by (simp add: publishes_def Recorded db')
next
  case (Written j r)
  then have db': "db' = set_balance r db" using a by simp
  have "by_key c_org_id org (credit_balances db') = by_key c_org_id org (credit_balances db)"
    if "lock_of tx \<noteq> Some org" for org
    unfolding db' using that ok Written by (subst set_balance_other) (auto simp: written_row_org)
  then show ?thesis by (simp add: publishes_def Written db')
next
  case (Inserted j r)
  then show ?thesis using a ok by (auto simp: publishes_def by_key_append new_credit_row_def split: option.split)
qed (use a in \<open>auto simp: Let_def split: if_splits prod.splits sum.splits bool.splits option.splits\<close>)

lemma insertable_frame:
  assumes i: "insertable db tx'" and ok: "tx_ok env db tx'" and ap: "apart tx tx'"
    and d: "publishes tx db db'"
  shows "insertable db' tx'"
proof (cases tx')
  case (Recorded j r u)
  then have "r_id u \<notin> r_id ` set (case new_usage tx of None \<Rightarrow> [] | Some u \<Rightarrow> [u])"
    using ap by (cases "new_usage tx") (auto simp: apart_def)
  with i Recorded d show ?thesis
    by (auto simp: publishes_def insert_usage_def checked_insert_def split: if_splits)
next
  case (Inserted j r)
  then have o: "c_org_id r = cj_org j" using ok by (auto simp: new_credit_row_def)
  have "cj_org j \<notin> c_org_id ` set (credit_balances db)"
    using i Inserted o by (auto simp: insert_credit_def checked_insert_def split: if_splits)
  moreover have "lock_of tx \<noteq> Some (cj_org j)" using ap Inserted by (auto simp: apart_def)
  ultimately have "cj_org j \<notin> c_org_id ` set (credit_balances db')" using d by (auto simp: publishes_def)
  with i Inserted o d show ?thesis
    by (auto simp: publishes_def insert_credit_def checked_insert_def split: if_splits)
qed simp_all

section \<open>Every interleaving is serial\<close>

lemma sessions_okD:
  "sessions_ok env db txs \<Longrightarrow> txs t = Some tx \<Longrightarrow> tx_ok env db tx \<and> insertable db tx"
  "sessions_ok env db txs \<Longrightarrow> t \<noteq> t' \<Longrightarrow> txs t = Some tx \<Longrightarrow> txs t' = Some tx' \<Longrightarrow> apart tx tx'"
  unfolding sessions_ok_def by blast+

lemma sessions_ok_drop: "sessions_ok env db txs \<Longrightarrow> sessions_ok env db (txs(t := None))"
  unfolding sessions_ok_def by simp

lemma sessions_ok_put:
  assumes "sessions_ok env db txs" "tx_ok env db tx" "insertable db tx"
    and "\<And>t' tx'. t' \<noteq> t \<Longrightarrow> txs t' = Some tx' \<Longrightarrow> apart tx tx'"
  shows "sessions_ok env db (txs(t \<mapsto> tx))"
proof -
  have "apart tx tx' \<and> apart tx' tx" if "t' \<noteq> t" "txs t' = Some tx'" for t' tx'
    using assms(4) [OF that] by (auto simp: apart_def)
  then show ?thesis using assms(1-3) unfolding sessions_ok_def by simp metis
qed

lemma opens_apart: "opens tx \<Longrightarrow> apart tx tx' \<and> tx_ok env db tx \<and> insertable db tx"
  by (cases tx) (simp_all add: apart_def)

lemma advance_apart:
  assumes ok: "sessions_ok env db txs" and db: "db_ok db" and t: "txs t = Some tx"
    and a: "advance env (busy txs t) (taken txs t) db tx = Next tx'" and t': "t' \<noteq> t" "txs t' = Some tx2"
  shows "apart tx' tx2"
proof -
  have ap: "apart tx tx2" using sessions_okD(2) [OF ok _ t t'(2)] t'(1) by blast
  have "lock_of tx' = None \<or> lock_of tx' = lock_of tx \<or> (\<exists>org. lock_of tx' = Some org \<and> \<not> busy txs t org)"
    using a by (rule advance_locks)
  then have "lock_of tx2 \<noteq> Some org" if "lock_of tx' = Some org" for org
    using that ap t' by (auto simp: apart_def busy_def)
  moreover have "r_id u \<noteq> r_id u2" if u: "new_usage tx' = Some u" "new_usage tx2 = Some u2" for u u2
  proof -
    have "tx_ok env db tx'" using advance_next [OF db _ a] sessions_okD(1) [OF ok t] by blast
    then have "\<not> taken txs t (r_id u)" using a u(1) by (rule advance_inserts)
    with t' u(2) show ?thesis by (auto simp: taken_def)
  qed
  ultimately show ?thesis by (auto simp: apart_def)
qed

lemma webhook_quiet:
  assumes ev: "event_ok event" and run: "stripe_webhook_route env (Inr event) db = (res, db')"
    and q: "webhook_event event res = Quiet"
  shows "db' = db"
proof -
  obtain r where h: "handle_webhook env event db = (r, db')" and ok: "is_ok r = is_ok res"
    using run by (cases "handle_webhook env event db")
      (auto simp: stripe_webhook_route_def verify_webhook_def bind_def split: sum.splits)
  show ?thesis
  proof (cases "event_credit event")
    case None
    with handle_webhook_cases [where event = event and env = env and db = db] h show ?thesis by simp
  next
    case (Some p)
    then obtain org n where p: "p = (org, JInt n)" "0 \<le> n" "n < 10 ^ 8"
      using ev by (cases p) (auto simp: event_ok_def split: json.splits)
    then obtain x where "dec_div (dec_of_int n) cents_per_dollar = Some x" using cents_division [of n] by auto
    then have "apply_credit env org x db = (r, db')"
      using h handle_webhook_cases [where event = event and env = env and db = db] Some p(1) by simp
    moreover obtain e where "r = Inl e"
      using q Some p(1) ok by (cases r) (auto simp: webhook_event_def split: if_splits)
    ultimately show ?thesis using apply_credit_error by blast
  qed
qed

lemma route_benign: "evolves benign_uow m \<Longrightarrow> benign db (committed (snd (m (fresh_uow db))))"
  using evolvesD [of benign_uow m "fresh_uow db"] by (simp add: benign_uow_def)

lemma quiet_benign:
  assumes "backend_step env db Quiet db'"
  shows "benign db db'"
  using assms
proof cases
  case (step_meter ts i now cmd res u)
  then obtain e where "res = Inl e" by (cases res) (simp_all add: meter_event_def)
  with step_meter meter_failure_keeps_database [of "at_time env ts" i now cmd "fresh_uow db" e] show ?thesis by simp
next
  case (step_webhook event ts res)
  then have "db' = db" using webhook_quiet by metis
  then show ?thesis by simp
next
  case (step_bad_signature ts err)
  then show ?thesis by (simp add: bad_signature_silent)
qed (simp_all add: route_benign routes_benign)

lemma session_run_serial:
  assumes num: "numeric_column (db_numeric env)" and good: "good_db db0" and run: "session_run env db0 ls db txs"
  shows "backend_run env db0 ls db \<and> good_db db \<and> sessions_ok env db txs"
  using run
proof induction
  case run_begin
  show ?case using good run_start by (auto simp: sessions_ok_def)
next
  case (run_open ls db txs t tx)
  then show ?case using opens_apart by (blast intro: sessions_ok_put)
next
  case (run_advance ls db txs t tx tx')
  then have ok: "sessions_ok env db txs" and db: "db_ok db" by (simp_all add: good_db_def)
  have "tx_ok env db tx' \<and> insertable db tx'"
    using advance_next [OF db _ run_advance.hyps(3)] sessions_okD(1) [OF ok run_advance.hyps(2)] by blast
  with run_advance.IH advance_apart [OF ok db run_advance.hyps(2,3)] show ?case by (blast intro: sessions_ok_put)
next
  case (run_commit ls db txs t tx l db')
  then have ok: "sessions_ok env db txs" and db: "db_ok db" by (simp_all add: good_db_def)
  note tx = sessions_okD(1) [OF ok run_commit.hyps(2)]
  have step: "backend_step env db l db'"
    using commit_serial [OF db _ _ run_commit.hyps(3)] tx by blast
  then have good': "good_db db'" using backend_ledger_step [OF num _ step] run_commit.IH by (simp add: ledger_step_def)
  have pub: "publishes tx db db'" using publish_changes [OF _ run_commit.hyps(3)] tx by blast
  have "tx_ok env db' tx2 \<and> insertable db' tx2" if t2: "t2 \<noteq> t" "txs t2 = Some tx2" for t2 tx2
  proof -
    have ap: "apart tx tx2" using sessions_okD(2) [OF ok _ run_commit.hyps(2) t2(2)] t2(1) by blast
    note tx2 = sessions_okD(1) [OF ok t2(2)]
    have "tx_ok env db' tx2"
      by (rule tx_ok_frame [of env db]) (use tx2 ap pub in \<open>auto simp: apart_def publishes_def\<close>)
    moreover have "insertable db' tx2" using insertable_frame [OF _ _ ap pub] tx2 by blast
    ultimately show ?thesis ..
  qed
  then have "sessions_ok env db' (txs(t := None))"
    using ok by (auto simp: sessions_ok_def)
  moreover have "backend_run env db0 (ls @ [l]) db'" using run_commit.IH step by (blast intro: run_step)
  ultimately show ?case using good' by blast
next
  case (run_rollback ls db txs t)
  then show ?case by (blast intro: sessions_ok_drop)
next
  case (run_other ls db txs db')
  then have ok: "sessions_ok env db txs" and db: "db_ok db" by (simp_all add: good_db_def)
  have "credit_balances db' = credit_balances db" using quiet_benign [OF run_other.hyps(2)] db by (simp add: benign_def)
  then have "tx_ok env db' tx" if "txs t = Some tx" for t tx
    using sessions_okD(1) [OF ok that] by (auto intro: tx_ok_frame)
  then have "sessions_ok env db' txs" using ok run_other.hyps(3) by (auto simp: sessions_ok_def)
  moreover have "good_db db'"
    using backend_ledger_step [OF num _ run_other.hyps(2)] run_other.IH by (simp add: ledger_step_def)
  ultimately show ?case using run_other.IH run_other.hyps(2) by (blast intro: run_step)
qed

lemma sessions_covered:
  assumes "numeric_column (db_numeric env)" "good_db db0" "session_run env db0 ls db txs"
  shows "10 ^ 6 * (spent org db - spent org db0 - (balance_of org db0 + credited org ls)) \<le> charges org ls"
  using run_covered [OF assms(1,2)] session_run_serial [OF assms] by blast

end
