(* ===== verification/SampleSessions.thy ===== *)
theory SampleSessions
  imports Samples Sessions
begin

text \<open>
  A sample interleaving: a metered request and a payment of the same organization are open at the
  same time, and the payment has to wait for the row. Nothing here models code.
\<close>

definition sample_meter_job :: meter_job where
  "sample_meter_job =
     \<lparr>mj_time = 100, mj_id = 9, mj_created = 100, mj_cmd = sample_usage, mj_cost = \<lparr>amount = Dec 75 (- 4)\<rparr>\<rparr>"

definition sample_event :: json where
  "sample_event = succeeded_event (create_payment_intent (Dec 5 0) 1 2)"

definition sample_credit_job :: "decimal \<Rightarrow> credit_job" where
  "sample_credit_job x = \<lparr>cj_time = 100, cj_event = sample_event, cj_org = 1, cj_amount = x\<rparr>"

definition sample_row :: credit_row where
  "sample_row = sample_credit_row\<lparr>c_available := Dec 9992500 (- 6), c_updated_at := 100\<rparr>"

definition sample_usage_row :: usage_row where
  "sample_usage_row = usage_to_row 100 (Dec 7500 (- 6)) (meter_record 9 100 sample_usage \<lparr>amount = Dec 75 (- 4)\<rparr>)"

lemma sample_meter_opens: "opens (Metering sample_meter_job)"
  by (simp add: sample_meter_job_def sample_cost)

lemma sample_meter_deducts:
  "\<not> held 1 \<Longrightarrow> advance sample_env held ins sample_db (Metering sample_meter_job)
    = Next (Deducted sample_meter_job (Some sample_row))"
proof -
  assume h: "\<not> held 1"
  have "dec_zero < Dec 75 (- 4)" by (simp add: dec_order dec_val_def dec_zero_def)
  moreover have "mu_org_id sample_usage = 1" by (simp add: sample_usage_def)
  ultimately show ?thesis
    using h sample_deduct
    by (simp add: sample_meter_job_def sample_env_time sample_row_def by_key_def sample_credit_row_def)
qed

lemma sample_meter_records:
  "\<not> ins 9 \<Longrightarrow> advance sample_env held ins sample_db (Deducted sample_meter_job r)
    = Next (Recorded sample_meter_job r sample_usage_row)"
proof -
  assume i: "\<not> ins 9"
  have "usage_add sample_env (meter_record 9 100 sample_usage \<lparr>amount = Dec 75 (- 4)\<rparr>) sample_db
      = (Inr (), sample_db\<lparr>usage_records := [sample_usage_row]\<rparr>)"
    by (simp add: usage_add_def bind_def sample_env_def pg_numeric_def usage_to_row_def meter_record_def sample_usage_def
        sample_tokens_def insert_usage_def checked_insert_def sample_defs sample_usage_row_def varchar_def int4_def)
  with i show ?thesis by (simp add: sample_meter_job_def sample_env_time)
qed

lemma sample_meter_commits:
  "advance sample_env held ins sample_db (Recorded sample_meter_job (Some sample_row) sample_usage_row)
    = Publish (Charge 1) sample_metered"
  by (simp add: sample_meter_job_def sample_usage_def set_balance_def sample_metered_def sample_row_def sample_usage_row_def
      update_where_def sample_defs)

lemma sample_event_credit: "event_credit sample_event = Some (1, JInt 500)"
  by (simp add: sample_event_def purchase_event_credit sample_amount)

lemma sample_session_run: "\<exists>db. session_run sample_env sample_db [Charge 1, Credit 1 5] db (\<lambda>_. None)"
proof -
  obtain x where x: "dec_div (dec_of_int 500) cents_per_dollar = Some x" "dec_val x = 5"
    using cents_division [of 500] by auto
  let ?m = "sample_meter_job" and ?c = "sample_credit_job x"
  have open_c: "opens (Crediting ?c)"
    by (simp add: sample_credit_job_def sample_event_credit event_ok_def x(1))
  have row: "by_key c_org_id 1 (credit_balances sample_metered) = Some sample_row"
    by (simp add: sample_metered_def sample_row_def by_key_def sample_credit_row_def)
  have c: "cents_ok (Dec 9992500 (- 6))"
    by (simp add: cents_ok_def on_grid_def dec_val_def power_int_def power_divide)
  have v: "dec_val (Dec 9992500 (- 6)) = 9992500 / 10 ^ 6"
    by (simp add: dec_val_def power_int_def power_divide)
  have s: "dec_val (dec_add (Dec 9992500 (- 6)) x) = 9992500 / 10 ^ 6 + 5"
  proof -
    have g: "on_grid 6 (dec_val (Dec 9992500 (- 6)) + dec_val x)"
      using c cents_grid [of 500] x(2) by (intro on_grid_add) (simp_all add: cents_ok_def)
    have "dec_val (dec_add (Dec 9992500 (- 6)) x) = dec_val (Dec 9992500 (- 6)) + dec_val x"
      by (intro dec_add_exact grid6_repr g) (simp add: v x(2))
    then show ?thesis by (simp only: v x(2))
  qed
  have "cents_ok (dec_add (Dec 9992500 (- 6)) x)"
    using on_grid_add [of 6 "dec_val (Dec 9992500 (- 6))" "dec_val x"] c cents_grid [of 500] x(2)
    unfolding cents_ok_def s v by simp
  then obtain av where av: "db_numeric sample_env (dec_add (Dec 9992500 (- 6)) x) = Inr av"
    using numeric_column.num_exact [OF sample_numeric] by blast
  let ?new = "sample_row\<lparr>c_available := av, c_updated_at := 100\<rparr>"
  let ?S = "session_run sample_env sample_db"
  have "?S [] sample_db ((\<lambda>_. None)(0 \<mapsto> Metering ?m))"
    by (rule run_open [OF run_begin _ sample_meter_opens]) simp
  then have "?S [] sample_db ((\<lambda>_. None)(0 \<mapsto> Metering ?m, 0 \<mapsto> Deducted ?m (Some sample_row)))"
    by (rule run_advance [where t = 0 and tx = "Metering ?m"]) (simp_all add: sample_meter_deducts busy_def del: advance_simps)
  then have "?S [] sample_db ((\<lambda>_. None)(0 \<mapsto> Metering ?m, 0 \<mapsto> Deducted ?m (Some sample_row), 1 \<mapsto> Crediting ?c))"
    by (rule run_open) (simp, rule open_c)
  then have "?S [] sample_db ((\<lambda>_. None)(0 \<mapsto> Metering ?m, 0 \<mapsto> Deducted ?m (Some sample_row), 1 \<mapsto> Crediting ?c,
      0 \<mapsto> Recorded ?m (Some sample_row) sample_usage_row))"
    by (rule run_advance [where t = 0 and tx = "Deducted ?m (Some sample_row)"])
      (simp_all add: sample_meter_records taken_def del: advance_simps)
  then have "?S ([] @ [Charge 1]) sample_metered ((\<lambda>_. None)(0 \<mapsto> Metering ?m, 0 \<mapsto> Deducted ?m (Some sample_row), 1 \<mapsto> Crediting ?c,
      0 \<mapsto> Recorded ?m (Some sample_row) sample_usage_row, 0 := None))"
    by (rule run_commit) (simp, rule sample_meter_commits)
  then have "?S [Charge 1] sample_metered ((\<lambda>_. None)(1 \<mapsto> Crediting ?c))"
    by (simp add: fun_upd_twist)
  then have "?S [Charge 1] sample_metered ((\<lambda>_. None)(1 \<mapsto> Crediting ?c, 1 \<mapsto> Locked ?c sample_row))"
    by (rule run_advance [where t = 1 and tx = "Crediting ?c"]) (simp_all add: row sample_credit_job_def busy_def)
  then have "?S [Charge 1] sample_metered ((\<lambda>_. None)(1 \<mapsto> Crediting ?c, 1 \<mapsto> Locked ?c sample_row, 1 \<mapsto> Written ?c (Some ?new)))"
    by (rule run_advance [where t = 1 and tx = "Locked ?c sample_row"])
      (simp_all add: sample_row_def sample_credit_job_def av s v)
  then have "?S ([Charge 1] @ [Credit 1 5]) (set_balance (Some ?new) sample_metered)
      ((\<lambda>_. None)(1 \<mapsto> Crediting ?c, 1 \<mapsto> Locked ?c sample_row, 1 \<mapsto> Written ?c (Some ?new), 1 := None))"
    by (rule run_commit [where t = 1 and tx = "Written ?c (Some ?new)"])
      (simp_all add: sample_credit_job_def webhook_event_def sample_event_credit)
  moreover have "(\<lambda>_. None)(1 := None) = (\<lambda>_. None)" by auto
  ultimately have "?S [Charge 1, Credit 1 5] (set_balance (Some ?new) sample_metered) (\<lambda>_. None)" by simp
  then show ?thesis ..
qed

end
