(* ===== verification/GrpcServer.thy ===== *)
theory GrpcServer
  imports GrpcAuth Routing Lifecycle
begin

text \<open>
  The gRPC server: the service classes in \<^verbatim>\<open>app/repository/grpc/gen\<close> (client stubs, servicer base
  classes, registration), the server of \<^verbatim>\<open>app/repository/grpc/server.py\<close>, and its two servicers. The
  serialized message descriptors stay outside: a handler takes the fields of its request and answers
  with its response. The verdict of the library on its own version is a parameter.
\<close>

section \<open>Handlers\<close>

datatype grpc_code = OK | UNIMPLEMENTED

text \<open>What a handler works on: the clients of the process, the database, the configuration cache, the context.\<close>

record rpc_world =
  rw_clients :: clients
  rw_uow :: uow
  rw_cache :: "routing_config option"
  rw_code :: grpc_code
  rw_details :: string

type_synonym 'a rpc = "(rpc_world, exn, 'a) action"

text \<open>A method together with the messages it is registered with.\<close>

datatype rpc_handler =
    ValidateKeyHandler "string \<Rightarrow> validate_key_response rpc"
  | RevokeKeyHandler "string \<Rightarrow> string \<Rightarrow> bool rpc"
  | ResolveModelHandler "request_hints option \<Rightarrow> resolve_response rpc"
  | ProviderScoresHandler "string list \<Rightarrow> provider_score list rpc"

record auth_servicer =
  m_ValidateKey :: "string \<Rightarrow> validate_key_response rpc"
  m_RevokeKey :: "string \<Rightarrow> string \<Rightarrow> bool rpc"

record routing_servicer =
  m_ResolveModel :: "request_hints option \<Rightarrow> resolve_response rpc"
  m_ProviderScores :: "string list \<Rightarrow> provider_score list rpc"

text \<open>A method nobody overrides. \<^verbatim>\<open>NotImplementedError\<close> is a \<^verbatim>\<open>RuntimeError\<close>.\<close>

definition unimplemented :: "'a rpc" where
  "unimplemented w =
     (Inl (RuntimeError ''Method not implemented!''),
      w\<lparr>rw_code := UNIMPLEMENTED, rw_details := ''Method not implemented!''\<rparr>)"

definition AuthServiceServicer :: auth_servicer where
  "AuthServiceServicer = \<lparr>m_ValidateKey = \<lambda>request. unimplemented, m_RevokeKey = \<lambda>key_id reason. unimplemented\<rparr>"

definition RoutingServiceServicer :: routing_servicer where
  "RoutingServiceServicer =
     \<lparr>m_ResolveModel = \<lambda>request. unimplemented, m_ProviderScores = \<lambda>request. unimplemented\<rparr>"

section \<open>Servicers\<close>

text \<open>\<^verbatim>\<open>SqlUnitOfWork(get_session_factory())\<close>, and a block on it.\<close>

definition on_uow :: "'a uow_action \<Rightarrow> 'a rpc" where
  "on_uow m w =
     (case fst (get_session_factory (rw_clients w)) of
        Inl e \<Rightarrow> (Inl e, w)
      | Inr _ \<Rightarrow> (case m (rw_uow w) of (r, u) \<Rightarrow> (r, w\<lparr>rw_uow := u\<rparr>)))"

definition on_config :: "'a config_action \<Rightarrow> 'a rpc" where
  "on_config m w = (case m (rw_cache w) of (r, c) \<Rightarrow> (r, w\<lparr>rw_cache := c\<rparr>))"

definition AuthServicer :: "db_env \<Rightarrow> datetime \<Rightarrow> auth_servicer" where
  "AuthServicer env now =
     AuthServiceServicer\<lparr>m_ValidateKey := \<lambda>key_hash. on_uow (ValidateKey env now key_hash),
       m_RevokeKey := \<lambda>key_id reason. on_uow (RevokeKey now key_id reason)\<rparr>"

definition RoutingServicer :: "strategy_registry \<Rightarrow> json result \<Rightarrow> routing_servicer" where
  "RoutingServicer strategies file =
     RoutingServiceServicer\<lparr>m_ResolveModel := \<lambda>hints. on_config (ResolveModel strategies file hints),
       m_ProviderScores := \<lambda>models. on_config (ProviderScores file models)\<rparr>"

section \<open>Registration\<close>

record grpc_server =
  gs_options :: "(string \<times> int) list"
  gs_insecure_ports :: "string list"
  gs_generic_handlers :: "(string \<times> (string \<times> rpc_handler) list) list"
  gs_registered_handlers :: "(string \<times> (string \<times> rpc_handler) list) list"

definition add_handlers :: "string \<Rightarrow> (string \<times> rpc_handler) list \<Rightarrow> grpc_server \<Rightarrow> grpc_server" where
  "add_handlers service handlers server =
     server\<lparr>gs_generic_handlers := gs_generic_handlers server @ [(service, handlers)],
       gs_registered_handlers := gs_registered_handlers server @ [(service, handlers)]\<rparr>"

definition add_AuthServiceServicer_to_server :: "auth_servicer \<Rightarrow> grpc_server \<Rightarrow> grpc_server" where
  "add_AuthServiceServicer_to_server servicer =
     add_handlers ''openrouter.auth.v1.AuthService''
       [(''ValidateKey'', ValidateKeyHandler (m_ValidateKey servicer)),
        (''RevokeKey'', RevokeKeyHandler (m_RevokeKey servicer))]"

definition add_RoutingServiceServicer_to_server :: "routing_servicer \<Rightarrow> grpc_server \<Rightarrow> grpc_server" where
  "add_RoutingServiceServicer_to_server servicer =
     add_handlers ''openrouter.routing.v1.RoutingService''
       [(''ResolveModel'', ResolveModelHandler (m_ResolveModel servicer)),
        (''ProviderScores'', ProviderScoresHandler (m_ProviderScores servicer))]"

text \<open>The attributes of a client stub, and of the one-off call class, with the path each one calls.\<close>

definition AuthServiceStub :: "(string \<times> string) list" where
  "AuthServiceStub =
     [(''ValidateKey'', ''/openrouter.auth.v1.AuthService/ValidateKey''),
      (''RevokeKey'', ''/openrouter.auth.v1.AuthService/RevokeKey'')]"

definition AuthService_calls :: "(string \<times> string) list" where
  "AuthService_calls =
     [(''ValidateKey'', ''/openrouter.auth.v1.AuthService/ValidateKey''),
      (''RevokeKey'', ''/openrouter.auth.v1.AuthService/RevokeKey'')]"

definition RoutingServiceStub :: "(string \<times> string) list" where
  "RoutingServiceStub =
     [(''ResolveModel'', ''/openrouter.routing.v1.RoutingService/ResolveModel''),
      (''ProviderScores'', ''/openrouter.routing.v1.RoutingService/ProviderScores'')]"

definition RoutingService_calls :: "(string \<times> string) list" where
  "RoutingService_calls =
     [(''ResolveModel'', ''/openrouter.routing.v1.RoutingService/ResolveModel''),
      (''ProviderScores'', ''/openrouter.routing.v1.RoutingService/ProviderScores'')]"

section \<open>Building the server\<close>

text \<open>
  The stubs of a service are missing before code generation has run, and raise when they are imported
  under a library older than their own version; \<open>gl_is_lower\<close> is what \<^verbatim>\<open>first_version_is_lower\<close> answers,
  \<^verbatim>\<open>None\<close> when the library does not have it.
\<close>

record grpc_library =
  gl_version :: string
  gl_is_lower :: "bool option"

definition grpc_generated_version :: string where
  "grpc_generated_version = ''1.80.0''"

definition version_guard :: "string \<Rightarrow> grpc_library \<Rightarrow> unit result" where
  "version_guard stub lib =
     (let version_not_supported = (case gl_is_lower lib of None \<Rightarrow> True | Some b \<Rightarrow> b)
      in if version_not_supported
         then Inl (RuntimeError (''The grpc package installed is at version '' @ gl_version lib @ '',''
           @ '' but the generated code in '' @ stub @ '' depends on''
           @ '' grpcio>='' @ grpc_generated_version @ ''.''
           @ '' Please upgrade your grpc module to grpcio>='' @ grpc_generated_version
           @ '' or downgrade your generated code using grpcio-tools<='' @ gl_version lib @ ''.''))
         else Inr ())"

definition register_stub ::
    "bool \<Rightarrow> string \<Rightarrow> grpc_library \<Rightarrow> (grpc_server \<Rightarrow> grpc_server) \<Rightarrow> grpc_server \<Rightarrow> grpc_server result" where
  "register_stub generated stub lib add server =
     (if \<not> generated then Inr server else res_bind (version_guard stub lib) (\<lambda>_. Inr (add server)))"

definition register_servicers ::
    "bool \<Rightarrow> bool \<Rightarrow> grpc_library \<Rightarrow> auth_servicer \<Rightarrow> routing_servicer \<Rightarrow> grpc_server \<Rightarrow> grpc_server result" where
  "register_servicers auth_stubs routing_stubs lib auth routing server =
     res_bind (register_stub auth_stubs ''auth/v1/auth_pb2_grpc.py'' lib (add_AuthServiceServicer_to_server auth) server)
       (register_stub routing_stubs ''routing/v1/routing_pb2_grpc.py'' lib (add_RoutingServiceServicer_to_server routing))"

definition max_message_bytes :: int where
  "max_message_bytes = 16 * 1024 * 1024"

definition create_server ::
    "int \<Rightarrow> bool \<Rightarrow> bool \<Rightarrow> grpc_library \<Rightarrow> auth_servicer \<Rightarrow> routing_servicer \<Rightarrow> grpc_server result" where
  "create_server port auth_stubs routing_stubs lib auth routing =
     res_bind
       (register_servicers auth_stubs routing_stubs lib auth routing
          \<lparr>gs_options = [(''grpc.max_send_message_length'', max_message_bytes),
                         (''grpc.max_receive_message_length'', max_message_bytes)],
           gs_insecure_ports = [], gs_generic_handlers = [], gs_registered_handlers = []\<rparr>)
       (\<lambda>server. Inr (server\<lparr>gs_insecure_ports := gs_insecure_ports server @ [''[::]:'' @ show_int port]\<rparr>))"

text \<open>The handler of a path, which is the service and the method: the first one registered.\<close>

definition handler_for :: "(string \<times> (string \<times> rpc_handler) list) list \<Rightarrow> string \<Rightarrow> rpc_handler option" where
  "handler_for services path =
     map_of (concat (map (\<lambda>(service, hs). map (\<lambda>(m, h). (''/'' @ service @ ''/'' @ m, h)) hs) services)) path"

section \<open>What the server answers\<close>

lemma create_server_ok_iff:
  "is_ok (create_server port auth_stubs routing_stubs lib auth routing)
    \<longleftrightarrow> \<not> auth_stubs \<and> \<not> routing_stubs \<or> gl_is_lower lib = Some False"
  by (auto simp: create_server_def register_servicers_def register_stub_def version_guard_def Let_def
      split: option.splits)

lemmas registration_defs = create_server_def register_servicers_def register_stub_def version_guard_def Let_def
  add_AuthServiceServicer_to_server_def add_RoutingServiceServicer_to_server_def add_handlers_def

lemma server_handlers:
  assumes "create_server port auth_stubs routing_stubs lib auth routing = Inr server"
  shows "gs_generic_handlers server =
      (if auth_stubs then [(''openrouter.auth.v1.AuthService'',
         [(''ValidateKey'', ValidateKeyHandler (m_ValidateKey auth)), (''RevokeKey'', RevokeKeyHandler (m_RevokeKey auth))])]
       else [])
    @ (if routing_stubs then [(''openrouter.routing.v1.RoutingService'',
         [(''ResolveModel'', ResolveModelHandler (m_ResolveModel routing)),
          (''ProviderScores'', ProviderScoresHandler (m_ProviderScores routing))])]
       else [])"
    "gs_registered_handlers server = gs_generic_handlers server"
  using assms by (auto simp: registration_defs split: if_splits option.splits)

text \<open>Every path a stub calls leads to the method of that name.\<close>

lemma stub_paths_handled:
  assumes "create_server port True True lib auth routing = Inr server"
  shows "map (\<lambda>(m, path). handler_for (gs_generic_handlers server) path) (AuthServiceStub @ RoutingServiceStub)
    = [Some (ValidateKeyHandler (m_ValidateKey auth)), Some (RevokeKeyHandler (m_RevokeKey auth)),
       Some (ResolveModelHandler (m_ResolveModel routing)), Some (ProviderScoresHandler (m_ProviderScores routing))]"
  by (simp add: server_handlers [OF assms] handler_for_def AuthServiceStub_def RoutingServiceStub_def)

lemma calls_agree: "AuthService_calls = AuthServiceStub" "RoutingService_calls = RoutingServiceStub"
  by (simp_all add: AuthService_calls_def AuthServiceStub_def RoutingService_calls_def RoutingServiceStub_def)

lemma unregistered_path:
  assumes "create_server port auth_stubs routing_stubs lib auth routing = Inr server"
    "path \<notin> snd ` set (AuthServiceStub @ RoutingServiceStub)"
  shows "handler_for (gs_generic_handlers server) path = None"
  using assms(2)
  by (auto simp: server_handlers [OF assms(1)] handler_for_def AuthServiceStub_def RoutingServiceStub_def)

lemma answered_paths:
  assumes "create_server port auth_stubs routing_stubs lib auth routing = Inr server"
  shows "{path. handler_for (gs_generic_handlers server) path \<noteq> None} \<subseteq> snd ` set (AuthServiceStub @ RoutingServiceStub)"
proof (rule subsetI, rule ccontr)
  fix path assume p: "path \<in> {path. handler_for (gs_generic_handlers server) path \<noteq> None}"
    and "path \<notin> snd ` set (AuthServiceStub @ RoutingServiceStub)"
  from CollectD [OF p] unregistered_path [OF assms this(2)] show False by (rule notE)
qed

text \<open>The methods of the two servicers, all of them overridden.\<close>

lemma servicer_methods:
  "m_ValidateKey (AuthServicer env now) = (\<lambda>h. on_uow (ValidateKey env now h))"
  "m_RevokeKey (AuthServicer env now) = (\<lambda>i reason. on_uow (RevokeKey now i reason))"
  "m_ResolveModel (RoutingServicer strategies file) = (\<lambda>hints. on_config (ResolveModel strategies file hints))"
  "m_ProviderScores (RoutingServicer strategies file) = (\<lambda>models. on_config (ProviderScores file models))"
  by (simp_all add: AuthServicer_def RoutingServicer_def)

text \<open>A process without its database client answers no key request; a routing request does not need it.\<close>

lemma on_uow_without_client:
  "cl_db (rw_clients w) = None \<Longrightarrow> on_uow m w = (Inl (RuntimeError ''DB not initialized''), w)"
  by (simp add: on_uow_def get_session_factory_def)

lemma on_uow_live: "cl_db (rw_clients w) = Some c \<Longrightarrow> on_uow m w = (fst (m (rw_uow w)), w\<lparr>rw_uow := snd (m (rw_uow w))\<rparr>)"
  by (simp add: on_uow_def get_session_factory_def split: prod.split)

end
