(* ===== verification/Wiring.thy ===== *)
theory Wiring
  imports Workers HttpApp
begin

text \<open>
  How the parts are put together: the application object of \<^verbatim>\<open>app/main.py\<close>, the dependency factories of \<^verbatim>\<open>app/api/dependencies.py\<close>, the clients
  the provider adapters build from the settings, their health probes, and the other half of the JWT
  in \<^verbatim>\<open>app/shared/security.py\<close>.
\<close>

section \<open>Dependencies of a request\<close>

text \<open>\<^verbatim>\<open>get_uow\<close>: a fresh unit of work on the session factory, for every request its own.\<close>

definition get_uow :: "clients \<Rightarrow> database \<Rightarrow> uow result" where
  "get_uow c db = res_bind (fst (get_session_factory c)) (\<lambda>_. Inr \<lparr>committed = db, session = None\<rparr>)"

definition get_current_user :: "auth_context \<Rightarrow> user" where
  "get_current_user auth = auth_user auth"

definition get_org_id :: "auth_context \<Rightarrow> uuid" where
  "get_org_id auth = user_org_id (auth_user auth)"

definition http_401 :: "string \<Rightarrow> exn" where
  "http_401 detail = HttpError 401 detail"

text \<open>A request whose unit of work cannot be made is answered like any internal error.\<close>

definition serve_on :: "clients \<Rightarrow> database \<Rightarrow> (uow \<Rightarrow> 'a \<times> uow) \<Rightarrow> (exn \<Rightarrow> 'a) \<Rightarrow> 'a \<times> database" where
  "serve_on c db run refuse =
     (case get_uow c db of Inl e \<Rightarrow> (refuse e, db) | Inr u \<Rightarrow> (case run u of (a, u') \<Rightarrow> (a, committed u')))"

lemma no_client_no_change:
  "cl_db c = None \<Longrightarrow> serve_on c db run refuse = (refuse (RuntimeError ''DB not initialized''), db)"
  by (simp add: serve_on_def get_uow_def get_session_factory_def)

lemma internal_without_client: "internal (RuntimeError m)"
  by (simp add: internal_def)

section \<open>The application object\<close>

record cors_options =
  co_allow_origins :: "string list"
  co_allow_credentials :: bool
  co_allow_methods :: "string list"
  co_allow_headers :: "string list"

datatype middleware = CORSMiddleware cors_options | RequestContextMiddleware

text \<open>Middleware outermost first, exception handlers by class, routes, and applications mounted on a path.\<close>

record http_app =
  ha_title :: string
  ha_version :: string
  ha_docs_url :: "string option"
  ha_redoc_url :: "string option"
  ha_middleware :: "middleware list"
  ha_handlers :: "string list"
  ha_routes :: "route list"
  ha_mounts :: "string list"

definition add_middleware :: "middleware \<Rightarrow> http_app \<Rightarrow> http_app" where
  "add_middleware m a = a\<lparr>ha_middleware := m # ha_middleware a\<rparr>"

definition register_middleware :: "http_app \<Rightarrow> http_app" where
  "register_middleware = add_middleware RequestContextMiddleware"

definition register_exception_handlers :: "http_app \<Rightarrow> http_app" where
  "register_exception_handlers a =
     a\<lparr>ha_handlers := ha_handlers a @ [''DomainError'', ''RequestValidationError'', ''StarletteHTTPException'', ''Exception'']\<rparr>"

definition register_routes :: "http_app \<Rightarrow> http_app" where
  "register_routes a = a\<lparr>ha_routes := ha_routes a @ registered_routes\<rparr>"

definition create_app :: "string \<Rightarrow> settings \<Rightarrow> http_app" where
  "create_app version s =
     (let a = \<lparr>ha_title = ''OpenRouter Backend'', ha_version = version,
                ha_docs_url = fst (docs_urls (environment s)), ha_redoc_url = snd (docs_urls (environment s)),
                ha_middleware = [], ha_handlers = [], ha_routes = [], ha_mounts = []\<rparr>;
          a = add_middleware (CORSMiddleware \<lparr>co_allow_origins = cors_origins s, co_allow_credentials = True,
                co_allow_methods = [''*''], co_allow_headers = [''*'']\<rparr>) a;
          a = register_routes (register_exception_handlers (register_middleware a))
      in a\<lparr>ha_mounts := ha_mounts a @ [''/metrics'']\<rparr>)"

lemmas create_app_defs = create_app_def add_middleware_def register_middleware_def register_exception_handlers_def
  register_routes_def

text \<open>The request context is bound before CORS runs, though it is added after it; production shows no documentation.\<close>

lemma request_context_outermost: "hd (ha_middleware (create_app v s)) = RequestContextMiddleware"
  by (simp add: create_app_defs)

lemma docs_hidden_iff:
  "ha_docs_url (create_app v s) = None \<longleftrightarrow> environment s = ''prod''"
  "ha_redoc_url (create_app v s) = None \<longleftrightarrow> environment s = ''prod''"
  by (simp_all add: create_app_defs docs_urls_def)

text \<open>Where the reload handler is installed: in the event loop, or with \<^verbatim>\<open>signal\<close> when the loop refuses.\<close>

datatype sighup_slot = LoopHandler | SignalHandler

definition install_sighup_handler :: "bool \<Rightarrow> bool \<Rightarrow> sighup_slot option \<times> bool" where
  "install_sighup_handler has_sighup loop_implements =
     (if \<not> has_sighup then (None, False)
      else (Some (if loop_implements then LoopHandler else SignalHandler), True))"

lemma install_sighup_honest: "snd (install_sighup_handler h l) \<longleftrightarrow> fst (install_sighup_handler h l) \<noteq> None"
  by (simp add: install_sighup_handler_def)

section \<open>Provider clients\<close>

fun adapter_key :: "adapter \<Rightarrow> settings \<Rightarrow> string" where
  "adapter_key OpenAIAdapter s = get_secret_value (openai_api_key s)"
| "adapter_key AnthropicAdapter s = get_secret_value (anthropic_api_key s)"
| "adapter_key GemmaAdapter s = get_secret_value (fireworks_api_key s)"
| "adapter_key QwenAdapter s = get_secret_value (together_api_key s)"

fun adapter_base_url :: "adapter \<Rightarrow> string option" where
  "adapter_base_url GemmaAdapter = Some ''https://api.fireworks.ai/inference/v1''"
| "adapter_base_url QwenAdapter = Some ''https://api.together.xyz/v1''"
| "adapter_base_url _ = None"

definition openai_client_kwargs :: "settings \<Rightarrow> adapter \<Rightarrow> (string \<times> string) list" where
  "openai_client_kwargs s a =
     (let key = adapter_key a s
      in (''api_key'', if key \<noteq> [] then key else ''unset'')
         # (case adapter_base_url a of None \<Rightarrow> [] | Some url \<Rightarrow> [(''base_url'', url)]))"

definition anthropic_client_kwargs :: "settings \<Rightarrow> (string \<times> string) list" where
  "anthropic_client_kwargs s = [(''api_key'', adapter_key AnthropicAdapter s)]"

definition adapter_client_kwargs :: "settings \<Rightarrow> adapter \<Rightarrow> (string \<times> string) list" where
  "adapter_client_kwargs s a = (if a = AnthropicAdapter then anthropic_client_kwargs s else openai_client_kwargs s a)"

text \<open>Rotating one provider's key.\<close>

fun rotate_key :: "adapter \<Rightarrow> string \<Rightarrow> settings \<Rightarrow> settings" where
  "rotate_key OpenAIAdapter k s = s\<lparr>openai_api_key := SecretStr k\<rparr>"
| "rotate_key AnthropicAdapter k s = s\<lparr>anthropic_api_key := SecretStr k\<rparr>"
| "rotate_key GemmaAdapter k s = s\<lparr>fireworks_api_key := SecretStr k\<rparr>"
| "rotate_key QwenAdapter k s = s\<lparr>together_api_key := SecretStr k\<rparr>"

lemma adapter_key_rotated: "adapter_key a (rotate_key b k s) = (if a = b then k else adapter_key a s)"
  by (cases a; cases b) simp_all

text \<open>No provider is ever sent another provider's key.\<close>

lemma keys_stay_home:
  "a \<noteq> b \<Longrightarrow> adapter_client_kwargs (rotate_key b k s) a = adapter_client_kwargs s a"
  "k \<noteq> [] \<Longrightarrow> map_of (adapter_client_kwargs (rotate_key a k s) a) ''api_key'' = Some k"
  by (auto simp: adapter_client_kwargs_def anthropic_client_kwargs_def openai_client_kwargs_def adapter_key_rotated
    simp del: adapter_key.simps rotate_key.simps)

text \<open>The one-token completion that probes Anthropic.\<close>

definition anthropic_probe :: kwargs where
  "anthropic_probe =
     [(''model'', JStr ''claude-haiku-4-20250514''),
      (''messages'', JList [JObj [(''role'', JStr ''user''), (''content'', JStr ''ok'')]]),
      (''max_tokens'', JInt 1)]"

definition anthropic_health_check :: "(kwargs \<Rightarrow> 'a result) \<Rightarrow> (exn \<Rightarrow> string) \<Rightarrow> int \<Rightarrow> health_status" where
  "anthropic_health_check create show_exn elapsed =
     (case create anthropic_probe of
        Inr _ \<Rightarrow> \<lparr>hs_healthy = True, hs_latency_ms = elapsed, hs_last_error = None\<rparr>
      | Inl e \<Rightarrow> \<lparr>hs_healthy = False, hs_latency_ms = elapsed, hs_last_error = Some (show_exn e)\<rparr>)"

lemma anthropic_health_is_health_check:
  "anthropic_health_check create show_exn elapsed = health_check (create anthropic_probe) show_exn elapsed"
  by (simp add: anthropic_health_check_def health_check_def)

section \<open>Password hasher and JWT\<close>

record hasher_options =
  ho_time_cost :: int
  ho_memory_cost :: int
  ho_parallelism :: int
  ho_hash_len :: int
  ho_salt_len :: int

definition hasher :: "settings \<Rightarrow> hasher_options" where
  "hasher s = \<lparr>ho_time_cost = argon2_time_cost s, ho_memory_cost = argon2_memory_cost_kb s,
     ho_parallelism = argon2_parallelism s, ho_hash_len = 32, ho_salt_len = 16\<rparr>"

text \<open>Signing and checking are the library's; the settings give both the same key and algorithm.\<close>

definition jwt_sign :: "settings \<Rightarrow> ((string \<times> claim) list \<Rightarrow> string \<Rightarrow> string \<Rightarrow> string) \<Rightarrow> (string \<times> claim) list \<Rightarrow> string" where
  "jwt_sign s encode payload = encode payload (get_secret_value (secret_key s)) ''HS256''"

definition decode_jwt :: "settings \<Rightarrow> (string \<Rightarrow> string \<Rightarrow> string list \<Rightarrow> (string \<times> claim) list result) \<Rightarrow> string
    \<Rightarrow> (string \<times> claim) list result" where
  "decode_jwt s decode token = decode token (get_secret_value (secret_key s)) [''HS256'']"

lemma jwt_round_trip:
  assumes "\<And>payload key. decode (encode payload key ''HS256'') key [''HS256''] = Inr payload"
  shows "decode_jwt s decode (encode_jwt (jwt_sign s encode) now1 now2 claims expires_in)
    = Inr (jwt_payload now1 now2 claims expires_in)"
  using assms by (simp add: decode_jwt_def encode_jwt_def jwt_sign_def)

text \<open>
  No route takes such a token: as a bearer token it is looked up like an API key, and refused unless
  some key happens to be stored under its hash.
\<close>

lemma jwt_is_no_bearer:
  assumes "db_ok (committed u)" "extract_bearer h = Inr token"
    and "\<And>i k. sql_view (committed u) i = Some k \<Longrightarrow> key_lookup k \<noteq> sha256_lookup c token"
  shows "fst (get_current_auth c now h u) = Inl (Domain InvalidApiKey ''Unknown API key'')"
proof -
  have "keys_find_by_lookup_hash (sha256_lookup c token) (committed u) = (Inr None, committed u)"
    using sql_keys.find_None_iff [OF assms(1)] assms(3) by blast
  then show ?thesis by (simp add: get_current_auth_def assms(2) with_reading bind_def)
qed

end
