(* ===== verification/MockApp.thy ===== *)
theory MockApp
  imports MockProviders HttpApp
begin

text \<open>
  The mock server as an application (\<^verbatim>\<open>tools/mock-providers/src/main.py\<close>): the routers of the three
  providers under the paths their SDKs call, and the control routes. A parameter of a path may be
  followed by literal text in the same segment, as in Google's \<^verbatim>\<open>{model}:generateContent\<close>.
\<close>

section \<open>Routes\<close>

definition openai_mock_router :: "route list" where
  "openai_mock_router =
     [(''POST'', ''/chat/completions'', ''chat_completions''), (''POST'', ''/embeddings'', ''embeddings''),
      (''POST'', ''/images/generations'', ''images_generations'')]"

definition anthropic_mock_router :: "route list" where
  "anthropic_mock_router = [(''POST'', ''/messages'', ''messages'')]"

definition google_mock_router :: "route list" where
  "google_mock_router =
     [(''POST'', ''/models/{model}:generateContent'', ''generate_content''),
      (''POST'', ''/models/{model}:streamGenerateContent'', ''stream_generate_content'')]"

definition control_router :: "route list" where
  "control_router =
     [(''POST'', ''/scenario'', ''set_scenario''), (''POST'', ''/reset'', ''reset''), (''GET'', ''/stats'', ''get_stats''),
      (''POST'', ''/snapshots'', ''add_snapshot''), (''GET'', ''/snapshots/{key}'', ''get_snapshot'')]"

definition mock_routes :: "route list" where
  "mock_routes =
     include_router ''/v1'' openai_mock_router @ include_router ''/v1'' anthropic_mock_router
     @ include_router ''/v1beta'' google_mock_router @ include_router ''/control'' control_router
     @ [(''GET'', ''/health'', ''health'')]"

text \<open>A segment of a template: a literal, or a parameter with the literal that follows it.\<close>

definition segment_fits :: "string \<Rightarrow> string \<Rightarrow> bool" where
  "segment_fits seg s =
     (if is_param seg
      then let suffix = drop 1 (dropWhile (\<lambda>c. c \<noteq> CHR ''}'') seg)
           in length suffix < length s \<and> drop (length s - length suffix) s = suffix
      else s = seg)"

definition template_fits :: "string \<Rightarrow> string \<Rightarrow> bool" where
  "template_fits template path = list_all2 segment_fits (py_split (CHR ''/'') template) (py_split (CHR ''/'') path)"

definition resolve_mock :: "string \<Rightarrow> string \<Rightarrow> string option" where
  "resolve_mock meth path =
     map_option (\<lambda>(m, p, h). h) (find (\<lambda>(m, p, h). m = meth \<and> template_fits p path) mock_routes)"

section \<open>Paths reach their handlers\<close>

lemmas mock_routes_defs = mock_routes_def include_router_def openai_mock_router_def anthropic_mock_router_def
  google_mock_router_def control_router_def

text \<open>The fixed paths.\<close>

lemma fixed_paths:
  "resolve_mock ''POST'' ''/v1/chat/completions'' = Some ''chat_completions''"
  "resolve_mock ''POST'' ''/v1/embeddings'' = Some ''embeddings''"
  "resolve_mock ''POST'' ''/v1/images/generations'' = Some ''images_generations''"
  "resolve_mock ''POST'' ''/v1/messages'' = Some ''messages''"
  "resolve_mock ''POST'' ''/control/scenario'' = Some ''set_scenario''"
  "resolve_mock ''POST'' ''/control/reset'' = Some ''reset''"
  "resolve_mock ''GET'' ''/control/stats'' = Some ''get_stats''"
  "resolve_mock ''GET'' ''/health'' = Some ''health''"
  by code_simp+

lemma split_segment: "CHR ''/'' \<notin> set s \<Longrightarrow> py_split (CHR ''/'') (pre @ CHR ''/'' # s) = py_split (CHR ''/'') pre @ [s]"
proof (induction pre)
  case Nil
  then show ?case by (simp add: split_plain)
next
  case (Cons c pre)
  then show ?case by (cases "py_split (CHR ''/'') pre") auto
qed

text \<open>Whatever the model is called, as long as its name is one segment.\<close>

lemma split_google:
  "CHR ''/'' \<notin> set s \<Longrightarrow> py_split (CHR ''/'') (''/v1beta/models/'' @ s) = ['''', ''v1beta'', ''models'', s]"
  using split_segment [of s "''/v1beta/models''"] by simp

lemma google_paths:
  assumes "model \<noteq> []" "CHR ''/'' \<notin> set model"
  shows "resolve_mock ''POST'' (''/v1beta/models/'' @ model @ '':generateContent'') = Some ''generate_content''"
    "resolve_mock ''POST'' (''/v1beta/models/'' @ model @ '':streamGenerateContent'') = Some ''stream_generate_content''"
proof -
  have "py_split (CHR ''/'') (''/v1beta/models/'' @ model @ '':generateContent'')
      = ['''', ''v1beta'', ''models'', model @ '':generateContent'']"
    by (rule split_google) (use assms(2) in simp)
  then show "resolve_mock ''POST'' (''/v1beta/models/'' @ model @ '':generateContent'') = Some ''generate_content''"
    unfolding resolve_mock_def template_fits_def
    by (simp only: mock_routes_defs) (simp add: segment_fits_def is_param_def py_startswith_def assms(1))
next
  have "py_split (CHR ''/'') (''/v1beta/models/'' @ model @ '':streamGenerateContent'')
      = ['''', ''v1beta'', ''models'', model @ '':streamGenerateContent'']"
    by (rule split_google) (use assms(2) in simp)
  then show "resolve_mock ''POST'' (''/v1beta/models/'' @ model @ '':streamGenerateContent'')
      = Some ''stream_generate_content''"
    unfolding resolve_mock_def template_fits_def
    by (simp only: mock_routes_defs) (simp add: segment_fits_def is_param_def py_startswith_def assms(1))
qed

end
