(* ===== verification/Spec2Isabelle.thy ===== *)
theory Spec2Isabelle
  imports ApiRoutes Routing Guardrails Mcp GrpcAuth Migrations Providers PricingCache SystemRuns MockProviders
    Storage Tasks Lifecycle Catalog HttpApp Settings Workers CreditPort SampleRequests
    SampleSessions GrpcServer Wiring MockApp Ports SchemaFit
begin

text \<open>
  Verification library for the Python backend of the gateway (\<^verbatim>\<open>src/backend-python/app\<close>).

  The backend is layered. HTTP routes (\<^verbatim>\<open>app/api\<close>) and gRPC servicers (\<^verbatim>\<open>app/repository/grpc\<close>) call use
  cases (\<^verbatim>\<open>app/service\<close>), which work on entities and value objects (\<^verbatim>\<open>app/service/domain\<close>) through a unit
  of work whose repositories (\<^verbatim>\<open>app/repository\<close>) read and write PostgreSQL tables. Stripe, the OAuth
  providers, argon2, SHA-256, the JWT signer, the clock and every source of randomness are
  parameters of the model; so are the conversions the database applies to a value it stores.

  Common ground.
  \<^item> \<open>Prelude\<close>: results (\<open>'e + 'a\<close>), state actions with \<open>bind\<close>, preservation of an invariant by an
    action (\<open>keeps\<close>, with the introduction rules \<open>inv_intros\<close>), tables as lists of rows.
  \<^item> \<open>PyDecimal\<close>, \<open>DecimalText\<close>, \<open>PyFloat\<close>, \<open>PyText\<close>, \<open>PyUuid\<close>, \<open>PyRepr\<close>, \<open>PyDatetime\<close>, \<open>Json\<close>, \<open>Regex\<close>: the parts of
    Python's library the code relies on: \<^verbatim>\<open>decimal\<close> with its 28-digit context and text form, conversion
    to \<^verbatim>\<open>float\<close> (53 bits), string methods, \<^verbatim>\<open>uuid\<close>, \<^verbatim>\<open>json.dumps\<close>, \<^verbatim>\<open>isoformat\<close>, decoded JSON and the
    subset of \<^verbatim>\<open>re\<close> in use.

  Components.
  \<^item> \<open>DomainErrors\<close>, \<open>ValueObjects\<close>, \<open>Entities\<close>: \<^verbatim>\<open>service/domain\<close>.
  \<^item> \<open>Schema\<close>, \<open>Repositories\<close>, \<open>CreditPort\<close>, \<open>UnitOfWork\<close>: the tables with their constraints (\<^verbatim>\<open>orm_models.py\<close>), the
    repositories (\<^verbatim>\<open>api_keys.py\<close>, \<^verbatim>\<open>credits.py\<close>, \<^verbatim>\<open>usage.py\<close>, \<open>\<dots>\<close>) as actions on the database, and the unit of work of
    \<^verbatim>\<open>uow.py\<close>: a session works on a copy that \<^verbatim>\<open>commit\<close> publishes. \<open>db_ok\<close> is the invariant of every
    committed database. The locale \<open>numeric_column\<close> (in \<open>Schema\<close>) states what a \<open>NUMERIC(14, 6)\<close>
    column promises, with \<open>pg_numeric\<close> as its instance; the locale \<open>api_key_repository\<close> (in
    \<open>Repositories\<close>) states the port of the API key repository, interpreted by the SQL one. \<open>credit_ledger\<close>
    (in \<open>CreditPort\<close>) is the port of the credit repository, which \<open>sql_credits\<close> makes a \<open>sublocale\<close> of it;
    \<open>unit_of_work\<close> (in \<open>UnitOfWork\<close>) is the transactional port the use cases are written against. \<open>Ports\<close>
    has the abstract repositories as records of operations, which the SQL unit of work fills in.
  \<^item> \<open>Migrations\<close>: both Alembic revisions as DDL statements run on a catalog, the seed of the price
    table, and the two-way comparison of the migrated tables with the declarative models; \<open>SchemaFit\<close>:
    the rows every operation stores fit the migrated tables.
  \<^item> \<open>Security\<close>, \<open>AuthService\<close>, \<open>BillingService\<close>, \<open>StripeClient\<close>, \<open>OAuthService\<close>: the use cases.
  \<^item> \<open>GrpcAuth\<close>, \<open>GrpcServer\<close>: the servicer the Go gateway asks about keys; the generated stubs, and the
    server that registers both servicers under the paths the stubs call.
  \<^item> \<open>Routing\<close>: strategies, configured pool, reload and servicer of semantic routing; the locale
    \<open>candidate_ranking\<close> is what every strategy promises.
  \<^item> \<open>Guardrails\<close>, \<open>Mcp\<close>: the guard chain with its three guards; the tool server and registry.
  \<^item> \<open>Providers\<close>, \<open>PricingCache\<close>, \<open>Catalog\<close>: the provider adapters with their price tables and the catalog
    route; the cache in front of the price table over a clock; and how adapters, seed and cache agree.
  \<^item> \<open>ApiErrors\<close>, \<open>ApiAuth\<close>, \<open>ApiRoutes\<close>, \<open>HttpApp\<close>: error envelope, authentication, permission and audit
    decorators, the routes, and the assembled application: from a method and path to a handler, and
    from a result or an exception, through the request middleware, to an answer.
  \<^item> \<open>SystemRuns\<close>: runs of the backend, any sequence of requests, metering calls and payment webhooks,
    refined to a ledger of charges and credits.
  \<^item> \<open>Sessions\<close>: the transactions that change balances, metering and crediting, interleaved statement by
    statement under the row locks PostgreSQL takes, and serialised into a run of \<open>SystemRuns\<close>.
  \<^item> \<open>Wiring\<close>: the application object, the request dependencies, the clients of the provider adapters,
    and the other half of the JWT.
  \<^item> \<open>Tasks\<close>, \<open>Workers\<close>, \<open>Storage\<close>, \<open>Lifecycle\<close>, \<open>Settings\<close>: Celery task bodies with the retry options of
    their decorators, the Celery application and the tracer provider, the upload reader and S3
    client, start and stop of the processes with the request middleware and log scrubbing, and the
    settings.
  \<^item> \<open>MockEngine\<close>, \<open>MockProviders\<close>, \<open>MockApp\<close>: the scenario engine, the three provider mocks and the routes of
    \<^verbatim>\<open>tools/mock-providers\<close>. The locale \<open>mock_route\<close> is what every handler promises, interpreted by
    the five handlers; \<open>mock_reachable\<close> are the states calls can lead to.
  \<^item> \<open>Samples\<close>, \<open>SampleRequests\<close>, \<open>SampleSessions\<close>: a concrete world for the witnesses.

  Lemmas. Every database action and route has a lemma that it keeps \<open>db_ok\<close> (collection
  \<open>inv_intros\<close>) and, where it does not bill, one that it is benign to the books (collection
  \<open>evolves_intros\<close> in \<open>SystemRuns\<close>); \<open>\<dots>_result\<close> and \<open>\<dots>_cases\<close> lemmas give the outcome of an operation on
  every branch. The properties below are their consequences.

  Bounds. Strings are lists of 8-bit characters, so text outside Latin-1 is not represented. A
  datetime of the database is its microseconds since the epoch; offsets are whole minutes. Balances are
  the rows concurrent requests compete for, so the transactions that write them are interleaved
  statement by statement (\<open>Sessions\<close>); every other request is one step of a run. The regular expression substitution
  runs on fuel equal to the length of the text, which is enough because every match consumes a character.
  Every other loop is structural recursion or has a termination proof. Draws of a random source and
  readings of a clock are arguments, one for each time the code takes one. The retry of a task is
  Celery's: its documented rule is the hypothesis \<open>celery_contract\<close>, with the length of its pauses
  \<open>timed_contract\<close>; \<open>run_attempts\<close> and \<open>run_pausing\<close> satisfy them.

  Not modelled: what CORS and the metrics application do is their libraries' (the
  application object of \<open>Wiring\<close> has their options and place); the serialized message descriptors (\<^verbatim>\<open>*_pb2.py\<close>) come from \<^verbatim>\<open>protoc\<close>, so a handler takes the fields of its
  message; validation of request bodies is pydantic's, of which the
  constraints are kept as \<open>valid_\<dots>\<close> predicates; the seed scripts only call what is modelled; and
  everything not written in Python.
\<close>

section \<open>Runs of the whole backend\<close>

text \<open>
  C1. Whatever requests, metering calls and payment webhooks are served, in whatever order, from
  a well-formed solvent database: the committed database stays well formed and solvent, and for
  every organization balance plus recorded spend follows the abstract ledger, the sum of its
  credited payments, up to a millionth of a dollar per charge.
\<close>

theorem runs_follow_ledger:
  assumes "numeric_column (db_numeric env)" "good_db db0" "backend_run env db0 ls db"
  shows "db_ok db \<and> solvent db
    \<and> (\<forall>org. 10 ^ 6 * \<bar>balance_of org db + spent org db - (balance_of org db0 + spent org db0) - credited org ls\<bar>
         \<le> charges org ls)"
  using run_invariant [OF assms] by (simp add: good_db_def worth_def)

lemma runs_follow_ledger_witness:
  "\<exists>db. backend_run sample_env sample_db [Charge 1, Credit 1 5] db \<and> db_ok db \<and> solvent db
    \<and> 10 ^ 6 * \<bar>balance_of 1 db + spent 1 db - 15\<bar> \<le> 1"
proof -
  obtain db where db: "backend_run sample_env sample_db [Charge 1, Credit 1 5] db" using sample_run by blast
  have "10 ^ 6 * \<bar>balance_of 1 db + spent 1 db - (balance_of 1 sample_db + spent 1 sample_db)
      - credited 1 [Charge 1, Credit 1 5]\<bar> \<le> charges 1 [Charge 1, Credit 1 5]" "db_ok db" "solvent db"
    using runs_follow_ledger [OF _ _ db] by (simp_all add: good_db_def)
  then have "10 ^ 6 * \<bar>balance_of 1 db + spent 1 db - 15\<bar> \<le> 1" "db_ok db" "solvent db"
    by (simp_all add: credited_def charges_def entry_amount_def entry_charges_def balance_of_def algebra_simps)
  with db show ?thesis by blast
qed

text \<open>
  C2. Sessions that are open at the same time cannot be told from a serial run. Metering and
  payment transactions execute statement by statement, interleaved in any order with each other
  and with every other request, waiting for row locks and rolled back at any moment; whatever
  they have committed, some run of the backend that serves one request after the other commits
  the same database with the same ledger, in order of commit, and it is well formed and solvent.
\<close>

theorem sessions_serialise:
  assumes "numeric_column (db_numeric env)" "good_db db0" "session_run env db0 ls db txs"
  shows "backend_run env db0 ls db \<and> db_ok db \<and> solvent db"
  using session_run_serial [OF assms] by (simp add: good_db_def)

lemma sessions_serialise_witness:
  "\<exists>db. session_run sample_env sample_db [Charge 1, Credit 1 5] db (\<lambda>_. None)
    \<and> backend_run sample_env sample_db [Charge 1, Credit 1 5] db \<and> db_ok db \<and> solvent db"
proof -
  obtain db where "session_run sample_env sample_db [Charge 1, Credit 1 5] db (\<lambda>_. None)"
    using sample_session_run by blast
  moreover from sessions_serialise [OF _ _ this] have
    "backend_run sample_env sample_db [Charge 1, Credit 1 5] db \<and> db_ok db \<and> solvent db"
    by (simp add: good_db_def)
  ultimately show ?thesis by blast
qed

text \<open>
  C3. With any interleaving of open sessions, what an organization's committed usage records
  grow by is at most the balance it started with plus what webhooks have credited to it since,
  up to a millionth of a dollar per charge: no race between requests spends more than was
  credited. Each delivery of a payment event counts as a credit of its own, also a redelivery of
  the same one (replayed_webhook_credits_again), so this bounds spending by credits, not by
  payments.
\<close>

theorem spend_within_credits:
  assumes "numeric_column (db_numeric env)" "good_db db0" "session_run env db0 ls db txs"
  shows "10 ^ 6 * (spent org db - spent org db0 - (balance_of org db0 + credited org ls)) \<le> charges org ls"
  using assms by (rule sessions_covered)

lemma spend_within_credits_witness:
  "\<exists>db. session_run sample_env sample_db [Charge 1, Credit 1 5] db (\<lambda>_. None)
    \<and> balance_of 1 sample_db = 10 \<and> spent 1 sample_db = 0 \<and> 10 ^ 6 * (spent 1 db - 15) \<le> 1"
proof -
  obtain db where run: "session_run sample_env sample_db [Charge 1, Credit 1 5] db (\<lambda>_. None)"
    using sample_session_run by blast
  have "10 ^ 6 * (spent 1 db - spent 1 sample_db - (balance_of 1 sample_db + credited 1 [Charge 1, Credit 1 5]))
      \<le> charges 1 [Charge 1, Credit 1 5]"
    using spend_within_credits [OF _ _ run] by (simp add: good_db_def)
  moreover have "balance_of 1 sample_db = 10" "spent 1 sample_db = 0" by (simp_all add: balance_of_def)
  ultimately show ?thesis
    using run by (auto simp: credited_def charges_def entry_amount_def entry_charges_def algebra_simps)
qed

text \<open>
  C4. After a successful revoke_key, validating that key's plaintext raises InvalidApiKey at any
  later time, for any model and after any further run of the backend: no sequence of key
  creations, revocations, suspensions, sign-ins, payments or metering brings a revoked key back
  to life.
\<close>

theorem revoked_key_rejected:
  assumes "numeric_column (db_numeric env)" "good_db (committed u)" "revoke_key t i reason u = (Inr (), u1)"
    and "sql_view (committed u) i = Some k" "key_lookup k = sha256_lookup c p"
    and "is_ok (verify_api_key c p (key_hash k))" "backend_run env (committed u1) ls db"
  shows "\<exists>msg. fst (validate_for_request c now p model (fresh_uow db)) = Inl (Domain InvalidApiKey msg)"
  using assms by (rule revoked_for_good)

lemma revoked_key_rejected_witness:
  "\<exists>u1 db msg. revoke_key 200 3 ''leak'' sample_uow = (Inr (), u1) \<and> backend_run sample_env (committed u1) [Quiet] db
    \<and> fst (validate_for_request plain_crypto 201 ''sk-alpha'' ''gpt-4o'' (fresh_uow db)) = Inl (Domain InvalidApiKey msg)"
proof -
  obtain u1 where u1: "revoke_key 200 3 ''leak'' sample_uow = (Inr (), u1)" using sample_revoke by blast
  obtain db where db: "backend_run sample_env (committed u1) [Quiet] db" using sample_quiet_run by blast
  have "\<exists>msg. fst (validate_for_request plain_crypto 201 ''sk-alpha'' ''gpt-4o'' (fresh_uow db))
      = Inl (Domain InvalidApiKey msg)"
    by (rule revoked_key_rejected [OF _ _ u1 _ _ _ db, of sample_key])
      (simp_all add: sample_view sample_lookup good_db_def)
  with u1 db show ?thesis by blast
qed

section \<open>Billing\<close>

text \<open>
  C5. When a metering call returns a record, the organization's usage records and its balance
  move by the same amount: what it has spent grows by exactly the charged cost, its available
  balance falls by exactly that cost (whenever the cost fits the six decimals of the column),
  and no other organization's books change.
\<close>

theorem metering_balances_books:
  assumes "numeric_column (db_numeric env)" "db_ok (committed u)"
    and "meter env i now cmd u = (Inr r, u')" "cents_ok (amount (ur_cost r))"
  shows "spent org (committed u') = spent org (committed u)
      + (if org = mu_org_id cmd then dec_val (amount (ur_cost r)) else 0)
    \<and> avail org (committed u') = map_option (\<lambda>v. v
      - (if org = mu_org_id cmd then dec_val (amount (ur_cost r)) else 0)) (avail org (committed u))"
  using meter_books_balance [OF assms] by simp

lemma metering_balances_books_witness:
  "spent 1 sample_metered = 75 / 10 ^ 4 \<and> avail 1 sample_metered = Some (10 - 75 / 10 ^ 4)"
proof -
  let ?r = "meter_record 9 100 sample_usage \<lparr>amount = Dec 75 (- 4)\<rparr>"
  have v: "dec_val (Dec 75 (- 4)) = 75 / 10 ^ 4" by (simp add: dec_val_def)
  have "cents_ok (amount (ur_cost ?r))"
    by (simp add: meter_record_def cents_ok_def on_grid_def v)
  from metering_balances_books [OF _ _ sample_meter this, of 1] show ?thesis
    by (simp add: meter_record_def sample_usage_def v)
qed

text \<open>
  C6. Whatever sequence of repository calls a use case makes in a unit of work, with amounts the
  Money type admits, a block that ends with commit publishes the effect of all of them or, when
  one raises, of none, with the exception of the first that raised; a block without commit
  publishes nothing; the committed database stays well formed and the session is closed.
\<close>

theorem blocks_all_or_nothing:
  assumes "numeric_column (db_numeric env)" "list_all call_ok cs" "db_ok (committed u)"
  shows "(case with_uow (bind (perform_all (wired_repositories env now) cs) (\<lambda>_. uow_commit)) u of
      (r, u') \<Rightarrow> db_ok (committed u') \<and> session u' = None
        \<and> r = fst (perform_all (sql_repositories env now) cs (committed u))
        \<and> committed u' = (if is_ok r then snd (perform_all (sql_repositories env now) cs (committed u)) else committed u))
    \<and> committed (snd (with_uow (perform_all (wired_repositories env now) cs) u)) = committed u"
  using block_keeps_ok [OF assms, of now]
  by (simp add: calls_commit calls_without_commit split: prod.splits sum.splits)

lemma blocks_all_or_nothing_witness:
  "db_ok (committed (snd (with_uow (bind (perform_all (wired_repositories sample_env 100)
      [RevokeAKey 3 ''leak'', Deduct 1 \<lparr>amount = Dec 1 0\<rparr>]) (\<lambda>_. uow_commit)) sample_uow)))"
proof -
  have good: "db_ok (committed sample_uow)" by (simp add: sample_uow_def)
  have kept: "db_ok (committed (snd (with_uow (bind (perform_all (wired_repositories sample_env 100) cs) (\<lambda>_. uow_commit)) sample_uow)))"
    if "list_all call_ok cs" for cs
    using blocks_all_or_nothing [OF sample_numeric that, of sample_uow 100, unfolded case_prod_beta] good by blast
  show ?thesis by (rule kept) (simp add: money_ok_def dec_order dec_val_def dec_zero_def)
qed

text \<open>
  C7. A metering call that raises (negative price, insufficient credits, a value that does not
  fit, an unknown key) leaves the committed database exactly as it was: a balance is never
  deducted without its usage record.
\<close>

theorem metering_is_atomic:
  "fst (meter env i now cmd u) = Inl e \<Longrightarrow> committed (snd (meter env i now cmd u)) = committed u"
  by (rule meter_failure_keeps_database)

lemma metering_is_atomic_witness:
  "\<exists>e. fst (meter sample_env 9 100 (sample_usage\<lparr>mu_org_id := 7\<rparr>) sample_uow) = Inl e
    \<and> committed (snd (meter sample_env 9 100 (sample_usage\<lparr>mu_org_id := 7\<rparr>) sample_uow)) = sample_db"
proof -
  have "\<exists>e. fst (meter sample_env 9 100 (sample_usage\<lparr>mu_org_id := 7\<rparr>) sample_uow) = Inl e"
    using meter_insufficient [OF _ sample_stranger(1), of sample_uow sample_env 9 100] sample_stranger by auto
  with metering_is_atomic [of sample_env 9 100 "sample_usage\<lparr>mu_org_id := 7\<rparr>" sample_uow] show ?thesis by auto
qed

text \<open>
  C8. A positive cost that the available balance does not cover (or an organization with no
  balance row) makes the call raise InsufficientCredits and commit nothing.
\<close>

theorem metering_refuses_overdraft:
  assumes "db_ok (committed u)" "meter_cost cmd = Inr c" "dec_zero < amount c"
    and "\<not> covers (mu_org_id cmd) c (committed u)"
  shows "\<exists>msg. meter env i now cmd u = (Inl (Domain InsufficientCredits msg), u\<lparr>session := None\<rparr>)"
  using assms by (rule meter_insufficient)

lemma metering_refuses_overdraft_witness:
  "\<exists>msg. fst (meter sample_env 9 100 (sample_usage\<lparr>mu_org_id := 7\<rparr>) sample_uow) = Inl (Domain InsufficientCredits msg)"
  using metering_refuses_overdraft [OF _ sample_stranger(1), of sample_uow sample_env 9 100] sample_stranger by auto

text \<open>
  C9. For prices with at most six decimals below 10^8 and counts below 10^12, the 28-digit
  decimal arithmetic of ModelPricing.cost never rounds: it returns the exact rational price of
  the four token classes, which is not negative.
\<close>

theorem cost_is_exact:
  assumes "pricing_ok p" "counts_ok t"
  shows "\<exists>m. cost p t = Inr m \<and> dec_val (amount m) = exact_cost p t \<and> 0 \<le> exact_cost p t"
  using cost_exact_val [OF assms] by (auto simp: charge_ok_def)

lemma cost_is_exact_witness:
  "\<exists>m. cost sample_pricing sample_tokens = Inr m \<and> dec_val (amount m) = 75 / 10 ^ 4"
proof -
  have "pricing_ok sample_pricing" "counts_ok sample_tokens"
    by (simp_all add: pricing_ok_def counts_ok_def count_ok_def price_ok_def sample_pricing_def sample_tokens_def
        dec_order dec_val_def dec_zero_def on_grid_def)
  from cost_is_exact [OF this] show ?thesis
    by (simp add: exact_cost_def sample_pricing_def sample_tokens_def opt_price_def dec_val_def)
qed

section \<open>API keys\<close>

text \<open>
  C10. Revoking one key leaves every other key that validates validating with the same result.
\<close>

theorem revocation_is_selective:
  assumes "db_ok (committed u)" "revoke_key t i reason u = (Inr (), u1)"
    and "fst (validate_for_request c now p model u) = Inr k" "key_id k \<noteq> i"
  shows "fst (validate_for_request c now p model u1) = Inr k"
  using assms by (rule revoke_other_keys)

lemma revocation_is_selective_witness:
  "\<exists>ck u1 u2. create_key sample_env plain_crypto ''sk-'' sample_entropy sample_new_key sample_uow = (Inr ck, u1)
    \<and> revoke_key 200 3 ''leak'' u1 = (Inr (), u2)
    \<and> fst (validate_for_request plain_crypto 500 (created_plaintext ck) ''o3'' u2)
        = Inr (sql_stored sample_env (created_key ck))"
proof -
  obtain ck u1 where ck: "create_key sample_env plain_crypto ''sk-'' sample_entropy sample_new_key sample_uow = (Inr ck, u1)"
    and i: "key_id (created_key ck) = 4"
    and r: "\<exists>u2. revoke_key 200 3 ''leak'' u1 = (Inr (), u2)" using sample_create by blast
  from r obtain u2 where u2: "revoke_key 200 3 ''leak'' u1 = (Inr (), u2)" by blast
  have db: "db_ok (committed u1)" using create_key_ok [of sample_uow sample_env plain_crypto "''sk-''" sample_entropy sample_new_key] ck by simp
  have "validate_for_request plain_crypto 500 (created_plaintext ck) ''o3'' u1
      = (Inr (sql_stored sample_env (created_key ck)), u1\<lparr>session := None\<rparr>)"
    by (rule create_then_validate [OF _ plain_crypto_ok ck]) (simp_all add: sample_new_key_def)
  then have "fst (validate_for_request plain_crypto 500 (created_plaintext ck) ''o3'' u2)
      = Inr (sql_stored sample_env (created_key ck))"
    by (intro revocation_is_selective [OF db u2]) (simp_all add: sql_stored_def i)
  with ck u2 show ?thesis by blast
qed

text \<open>
  C11. validate_for_request returns a key exactly when a stored key with that lookup hash
  verifies against the plaintext, is neither expired nor revoked, and permits the model.
\<close>

theorem validation_characterised:
  assumes "db_ok (committed u)"
  shows "fst (validate_for_request c now p model u) = Inr k \<longleftrightarrow>
    (\<exists>i. sql_view (committed u) i = Some k) \<and> key_lookup k = sha256_lookup c p
    \<and> verify_api_key c p (key_hash k) = Inr True \<and> usable_at now k \<and> permits k model"
  using assms by (rule validate_iff)

lemma validation_characterised_witness:
  "fst (validate_for_request plain_crypto 100 ''sk-alpha'' ''gpt-4o'' sample_uow) = Inr sample_key"
  using validation_characterised [of sample_uow plain_crypto 100 "''sk-alpha''" "''gpt-4o''" sample_key]
  by (simp add: sample_view sample_lookup) (auto simp: sample_key_def usable_at_def permits_def)

text \<open>
  C12. The HTTP dependency authenticates a bearer token exactly as the key that is stored under
  its lookup hash, verifies, is usable now and belongs to an existing user; nothing else yields
  a caller.
\<close>

theorem authentication_characterised:
  assumes "db_ok (committed u)" "extract_bearer h = Inr p"
  shows "fst (get_current_auth c now h u) = Inr a \<longleftrightarrow>
    (\<exists>i. sql_view (committed u) i = Some (auth_api_key a))
    \<and> key_lookup (auth_api_key a) = sha256_lookup c p
    \<and> verify_api_key c p (key_hash (auth_api_key a)) = Inr True
    \<and> usable_at now (auth_api_key a)
    \<and> fst (users_get (key_user_id (auth_api_key a)) (committed u)) = Inr (Some (auth_user a))"
  using assms by (rule get_current_auth_iff)

lemma authentication_characterised_witness:
  "fst (get_current_auth plain_crypto 100 (Some ''Bearer sk-alpha'') sample_uow)
     = Inr \<lparr>auth_user = sample_user, auth_api_key = sample_key\<rparr>"
  using authentication_characterised [of sample_uow "Some ''Bearer sk-alpha''" "''sk-alpha''" plain_crypto 100
      "\<lparr>auth_user = sample_user, auth_api_key = sample_key\<rparr>"]
  by (simp add: sample_view sample_lookup sample_bearer) (simp add: sample_key_def usable_at_def sample_users_get)

text \<open>
  C13. End to end over HTTP: the plaintext in a successful POST /keys response, sent back as a
  bearer token before it expires, authenticates as the user who created it, with the new key's
  id.
\<close>

theorem created_key_opens_api:
  assumes "db_ok (committed u)" "hasher_ok (re_crypto e)"
    and "fst (get_current_auth (re_crypto e) (re_now e) (re_authorization e) u) = Inr a"
    and "create_key_route e pre ke body u = (Inr v, u1)"
    and "\<forall>ch \<in> set (kv_plaintext v). \<not> is_space ch"
    and "\<forall>t. kb_expires_at body = Some t \<longrightarrow> now \<le> t"
  shows "\<exists>a'. fst (get_current_auth (re_crypto e) now (Some (''Bearer '' @ kv_plaintext v)) u1) = Inr a'
    \<and> auth_user a' = auth_user a \<and> key_id (auth_api_key a') = kv_id v"
  using assms by (rule created_key_authenticates)

lemma created_key_opens_api_witness:
  "\<exists>v u1 a'. create_key_route sample_request ''sk-'' sample_entropy sample_body sample_uow = (Inr v, u1)
    \<and> fst (get_current_auth plain_crypto 500 (Some (''Bearer '' @ kv_plaintext v)) u1) = Inr a'
    \<and> auth_user a' = sample_user \<and> key_id (auth_api_key a') = 4"
proof -
  obtain v u1 where v: "create_key_route sample_request ''sk-'' sample_entropy sample_body sample_uow = (Inr v, u1)"
    "kv_plaintext v = ''sk-beta''" "kv_id v = 4" using sample_create_route by blast
  note beta = sample_beta
  have "\<exists>a'. fst (get_current_auth (re_crypto sample_request) 500 (Some (''Bearer '' @ kv_plaintext v)) u1) = Inr a'
    \<and> auth_user a' = auth_user \<lparr>auth_user = sample_user, auth_api_key = sample_key\<rparr> \<and> key_id (auth_api_key a') = kv_id v"
    by (rule created_key_opens_api [OF _ _ _ v(1)])
      (use beta in \<open>simp_all add: v sample_request_def plain_crypto_ok sample_auth sample_body_def\<close>)
  with v show ?thesis by (auto simp: sample_request_def)
qed

text \<open>
  C14. Suspending a user leaves none of that user's keys in the organization usable, keeps every
  other stored key (and every key already revoked) as it was, and keeps the database well
  formed.
\<close>

theorem suspension_revokes_own_keys:
  assumes "db_ok db" "suspend_user clock org i db = (Inr (), db')"
  shows "db_ok db' \<and> (\<forall>j k. sql_view db' j = Some k \<and> key_user_id k = i \<and> key_org_id k = org \<longrightarrow> revoked_at k \<noteq> None)
    \<and> (\<forall>j k. sql_view db j = Some k \<and> (key_user_id k \<noteq> i \<or> key_org_id k \<noteq> org \<or> revoked_at k \<noteq> None) \<longrightarrow>
      sql_view db' j = Some k)"
  using suspend_user_view [OF assms] by blast

lemma suspension_revokes_own_keys_witness:
  "\<exists>db'. suspend_user (\<lambda>n. 300 + int n) 1 2 sample_db = (Inr (), db')
    \<and> (\<forall>k. sql_view db' 3 = Some k \<longrightarrow> key_user_id k = 2 \<longrightarrow> key_org_id k = 1 \<longrightarrow> revoked_at k \<noteq> None)"
proof -
  obtain db' where "suspend_user (\<lambda>n. 300 + int n) 1 2 sample_db = (Inr (), db')" using sample_suspend by blast
  with suspension_revokes_own_keys [OF sample_ok this] show ?thesis by blast
qed

text \<open>
  C15. DELETE /keys/{id} has no ownership check: any caller whose role grants keys:write revokes
  any stored key, whichever organization it belongs to.
\<close>

theorem revocation_ignores_owner:
  assumes "db_ok (committed u)"
    and "fst (get_current_auth (re_crypto e) (re_now e) (re_authorization e) u) = Inr a"
    and "''keys:write'' \<in> set (role_permissions (user_role (auth_user a)))"
    and "sql_view (committed u) i = Some k"
  shows "fst (revoke_key_route e t i u) = Inr ()
    \<and> sql_view (committed (snd (revoke_key_route e t i u))) i = Some (k\<lparr>revoked_at := Some t\<rparr>)"
  using revoke_key_route_any_owner [OF assms] by blast

lemma revocation_ignores_owner_witness:
  "key_org_id sample_foreign_key \<noteq> user_org_id sample_user
    \<and> fst (revoke_key_route sample_request 200 6 sample_shared) = Inr ()
    \<and> sql_view (committed (snd (revoke_key_route sample_request 200 6 sample_shared))) 6
      = Some (sample_foreign_key\<lparr>revoked_at := Some 200\<rparr>)"
proof -
  have "fst (revoke_key_route sample_request 200 6 sample_shared) = Inr ()
    \<and> sql_view (committed (snd (revoke_key_route sample_request 200 6 sample_shared))) 6
      = Some (sample_foreign_key\<lparr>revoked_at := Some 200\<rparr>)"
    by (rule revocation_ignores_owner [of sample_shared sample_request "\<lparr>auth_user = sample_user, auth_api_key = sample_key\<rparr>"])
      (simp_all add: sample_request_def sample_shared_auth sample_shared_ok sample_shared_view sample_user_def)
  then show ?thesis by (simp add: sample_foreign_key_def sample_user_def)
qed

text \<open>
  C16. A caller whose role does not grant the permission is refused with Forbidden by every
  route that writes, and the request leaves the database untouched, the audit log included:
  members and billing users cannot create or revoke keys or suspend a user, members and admins
  cannot buy credits.
\<close>

theorem writes_need_permission:
  assumes "fst (get_current_auth (re_crypto e) (re_now e) (re_authorization e) u) = Inr a"
  shows "(user_role (auth_user a) \<in> {MEMBER, BILLING} \<longrightarrow>
      forbidden (create_key_route e pre ke body) u \<and> forbidden (revoke_key_route e t i) u
      \<and> forbidden (suspend_user_route e clock i) u)
    \<and> (user_role (auth_user a) \<in> {MEMBER, ADMIN} \<longrightarrow> forbidden (purchase_credits_route e stripe amount_usd) u)"
  using forbidden_routes [OF assms] by auto

lemma writes_need_permission_witness:
  "forbidden (create_key_route sample_request ''sk-'' sample_entropy sample_body) sample_member
    \<and> forbidden (purchase_credits_route sample_request (\<lambda>_. Inr (''pi_1'', ''sec'')) (Dec 5 0)) sample_member"
  using writes_need_permission [OF sample_member_auth] by (simp add: sample_member_user_def)

section \<open>The HTTP application\<close>

text \<open>
  C17. Whatever route a request takes, a value it returns is answered with the route's status
  and the request id; an exception is answered with the status and envelope of that exception
  alone, and with the request id exactly when it is a domain or HTTP error: the answer to an
  internal error is the same for all of them and carries no request id, although the middleware
  promises to stamp every request. Serving adds nothing to what the route did to the database.
\<close>

theorem errors_reach_the_client:
  "snd (serve_http app e fresh header previous ep u) = snd (endpoint_run app e ep u)
    \<and> (case fst (endpoint_run app e ep u) of
         Inr (status, x) \<Rightarrow> fst (serve_http app e fresh header previous ep u)
           = \<lparr>ans_status = status, ans_headers = [(''x-request-id'', request_id fresh header)], ans_reply = x\<rparr>
       | Inl err \<Rightarrow> fst (serve_http app e fresh header previous ep u)
           = \<lparr>ans_status = resp_status (handle_exception err),
              ans_headers = (if internal err then [] else [(''x-request-id'', request_id fresh header)]),
              ans_reply = JsonReply (resp_body (handle_exception err))\<rparr>
             \<and> (internal err \<longleftrightarrow> resp_body (handle_exception err) = resp_body unhandled_handler))"
proof (cases "endpoint_run app e ep u")
  case (Pair r u')
  show ?thesis
  proof (cases r)
    case (Inl err)
    with Pair serve_http_error [of app e ep u err u' fresh header previous] show ?thesis
      by (simp add: internal_body_iff)
  next
    case (Inr sx)
    with Pair serve_http_ok [of app e ep u "fst sx" "snd sx" u' fresh header previous] show ?thesis
      by (simp add: case_prod_beta)
  qed
qed

text \<open>
  C18. On every endpoint that manages keys, users or billing, a request whose authentication
  fails is answered with that failure and changes nothing in the database; without a bearer
  token the answer is 401 with the code of an invalid key.
\<close>

theorem unauthenticated_requests_refused:
  assumes "protected ep" "fst (get_current_auth (re_crypto e) (re_now e) (re_authorization e) u) = Inl err"
  shows "committed (snd (serve_http app e fresh header previous ep u)) = committed u
    \<and> ans_status (fst (serve_http app e fresh header previous ep u)) = resp_status (handle_exception err)
    \<and> ans_reply (fst (serve_http app e fresh header previous ep u)) = JsonReply (resp_body (handle_exception err))
    \<and> (re_authorization e = None \<longrightarrow> ans_status (fst (serve_http app e fresh header previous ep u)) = 401
        \<and> error_field (handle_exception err) ''code'' = Some (JStr (error_code InvalidApiKey)))"
proof -
  obtain u' where u': "endpoint_run app e ep u = (Inl err, u')" "committed u' = committed u"
    using unauthenticated_run [OF assms] by blast
  have "re_authorization e = None \<Longrightarrow> err = Domain InvalidApiKey ''Missing bearer token''"
    using assms(2) missing_token [of None] by (auto simp: extract_bearer_def)
  with u' serve_http_error [OF u'(1), of fresh header previous] show ?thesis
    by (auto simp: domain_handler_def error_field_envelope)
qed

lemma unauthenticated_requests_refused_witness:
  "\<forall>app. ans_status (fst (serve_http app (sample_request\<lparr>re_authorization := None\<rparr>) 1 None undefined GetKeys sample_uow)) = 401"
proof
  fix app
  let ?e = "sample_request\<lparr>re_authorization := None\<rparr>"
  have "fst (get_current_auth (re_crypto ?e) (re_now ?e) (re_authorization ?e) sample_uow)
      = Inl (Domain InvalidApiKey ''Missing bearer token'')"
    by (rule missing_token) (simp add: extract_bearer_def)
  from unauthenticated_requests_refused [OF _ this, of GetKeys app 1 None undefined]
  show "ans_status (fst (serve_http app ?e 1 None undefined GetKeys sample_uow)) = 401" by simp
qed

text \<open>
  C19. The method and path of every endpoint, whatever ids are in it, lead to its own handler,
  and no request fits two of the registered routes, so the order in which the routers are
  included does not matter.
\<close>

theorem requests_find_their_handler:
  "resolve_route (endpoint_method ep) (endpoint_path ep) = Some (endpoint_name ep)
    \<and> card {r \<in> set registered_routes. fits_route meth path r} \<le> 1"
proof
  show "card {r \<in> set registered_routes. fits_route meth path r} \<le> 1"
    by (rule apart_card [OF routes_apart])
qed (rule endpoint_resolves)

section \<open>Payments and sign-in\<close>

text \<open>
  C20. Handling the payment_intent.succeeded event of a purchase adds exactly the charged cents
  to the organization named in the metadata create_payment_intent sent, and changes no other
  balance.
\<close>

theorem purchase_credits_once:
  assumes "numeric_column (db_numeric env)" "db_ok db" "org \<in> o_id ` set (organizations db)"
    and "0 \<le> amount_cents d" "balance_of org db + of_int (amount_cents d) / 100 < 10 ^ 8" "0 \<le> balance_of org db"
  shows "\<exists>db'. handle_webhook env (succeeded_event (create_payment_intent d org user)) db = (Inr (), db')
    \<and> balance_of o' db' = balance_of o' db + (if o' = org then of_int (amount_cents d) / 100 else 0)"
  using handle_purchase_spec [OF assms, of user o'] by blast

lemma purchase_credits_once_witness:
  "\<exists>db'. handle_webhook sample_env (succeeded_event (create_payment_intent (Dec 5 0) 1 2)) sample_db = (Inr (), db')
    \<and> balance_of 1 db' = 15"
  using purchase_credits_once [of sample_env sample_db 1 "Dec 5 0" 2 1]
  by (simp add: sample_amount balance_of_def) (simp add: sample_defs)

text \<open>
  C21. handle_webhook is not idempotent: delivering the same payment_intent.succeeded event
  twice credits the organization twice.
\<close>

theorem replayed_webhook_credits_again:
  assumes "numeric_column (db_numeric env)" "db_ok db" "org \<in> o_id ` set (organizations db)"
    and "0 \<le> amount_cents d" "balance_of org db + 2 * (of_int (amount_cents d) / 100) < 10 ^ 8" "0 \<le> balance_of org db"
  shows "\<exists>db'. bind (handle_webhook env (succeeded_event (create_payment_intent d org user)))
      (\<lambda>_. handle_webhook env (succeeded_event (create_payment_intent d org user))) db = (Inr (), db')
    \<and> balance_of org db' = balance_of org db + 2 * (of_int (amount_cents d) / 100)"
  using assms by (rule handle_purchase_twice)

lemma replayed_webhook_credits_again_witness:
  "\<exists>db'. bind (handle_webhook sample_env (succeeded_event (create_payment_intent (Dec 5 0) 1 2)))
      (\<lambda>_. handle_webhook sample_env (succeeded_event (create_payment_intent (Dec 5 0) 1 2))) sample_db = (Inr (), db')
    \<and> balance_of 1 db' = 20"
  using replayed_webhook_credits_again [of sample_env sample_db 1 "Dec 5 0" 2]
  by (simp add: sample_amount balance_of_def) (simp add: sample_defs)

text \<open>
  C22. Exchanging the same provider token again, with fresh randomness and clock, writes nothing
  and yields the same user, organization and role: a person is provisioned at most once per
  e-mail address.
\<close>

theorem sign_in_is_idempotent:
  assumes "db_ok (committed u)" "exchange env http sign e cmd u = (Inr j, u1)"
  shows "\<exists>j'. exchange env' http sign' e' cmd u1 = (Inr j', u1)
    \<and> bj_user_id j' = bj_user_id j \<and> bj_org_id j' = bj_org_id j \<and> bj_role j' = bj_role j"
  using assms by (rule exchange_idempotent)

lemma sign_in_is_idempotent_witness:
  "\<exists>j u1 j'. exchange sample_env sample_http sample_sign sample_oauth sample_exchange sample_uow = (Inr j, u1)
    \<and> exchange sample_env sample_http sample_sign sample_oauth2 sample_exchange u1 = (Inr j', u1)
    \<and> bj_user_id j' = bj_user_id j"
proof -
  obtain j u1 where x: "exchange sample_env sample_http sample_sign sample_oauth sample_exchange sample_uow = (Inr j, u1)"
    using sample_sign_in by blast
  with sign_in_is_idempotent [OF _ x, of sample_env sample_sign sample_oauth2] show ?thesis by auto
qed

section \<open>Routing\<close>

text \<open>
  C23. When some pool entry meets the hints, ResolveModel answers with an admissible entry that
  minimises the configured strategy's key over all admissible ones, a fallback chain of
  admissible entries cut to fallback_max, and the strategy's name.
\<close>

theorem routing_picks_best:
  assumes "\<forall>e \<in> set (rc_pool cfg). named e"
    and "registry_get reg (rc_default_strategy cfg) = Inr st"
    and "\<exists>e \<in> set (rc_pool cfg). admissible cfg h e"
  shows "\<exists>r e. ResolveModel reg file (Some h) (Some cfg) = (Inr r, Some cfg)
    \<and> e \<in> set (rc_pool cfg) \<and> admissible cfg h e
    \<and> target_of e (rr_primary_model r, rr_primary_provider r)
    \<and> (\<forall>e' \<in> set (rc_pool cfg). admissible cfg h e' \<longrightarrow>
         strategy_key st (to_candidate e) \<le> strategy_key st (to_candidate e'))
    \<and> (\<forall>t \<in> set (rr_fallback_chain r). \<exists>e' \<in> set (rc_pool cfg). admissible cfg h e' \<and> target_of e' t)
    \<and> length (rr_fallback_chain r) = length (py_take (rc_fallback_max cfg)
         (tl (filter (admissible cfg h) (rc_pool cfg))))
    \<and> rr_strategy_used r = strategy_name st"
  using assms by (rule resolve_model_spec)

lemma routing_picks_best_witness:
  "\<exists>r. ResolveModel default_registry (Inl IndexError) (Some sample_hints) (Some sample_routing) = (Inr r, Some sample_routing)
    \<and> rr_strategy_used r = ''cost'' \<and> length (rr_fallback_chain r) = 1"
proof -
  have n: "\<forall>e \<in> set (rc_pool sample_routing). named e"
    by (simp add: sample_routing_def sample_pool_def named_def)
  have st: "registry_get default_registry (rc_default_strategy sample_routing) = Inr CostStrategy"
    using default_registry_get [of CostStrategy] by (simp add: sample_routing_def)
  have f: "filter (admissible sample_routing sample_hints) (rc_pool sample_routing) = rc_pool sample_routing"
    by (simp add: sample_routing_def sample_pool_def admissible_def sample_hints_def no_hints_def)
  have "\<exists>e \<in> set (rc_pool sample_routing). admissible sample_routing sample_hints e"
    by (simp add: sample_routing_def sample_pool_def admissible_def sample_hints_def no_hints_def)
  from routing_picks_best [OF n st this, of "Inl IndexError"] show ?thesis
    by (auto simp only: f) (auto simp: sample_routing_def sample_pool_def py_take_def)
qed

text \<open>
  C24. A reload whose validating read is rejected keeps the configuration being served; but the
  file is read again after the cache is cleared, and when that second read is rejected the
  reload fails with the cache left empty, so the old configuration is no longer served.
\<close>

theorem reload_can_lose_config:
  "(\<forall>err. res_bind file1 parse_config = Inl err \<longrightarrow> reload_routing_config file1 file2 cache = (Inl err, cache))
    \<and> (\<forall>cfg err. res_bind file1 parse_config = Inr cfg \<and> res_bind file2 parse_config = Inl err \<longrightarrow>
        reload_routing_config file1 file2 cache = (Inl err, None))"
  using reload_rejected reload_second_read by blast

lemma reload_can_lose_config_witness:
  "reload_routing_config (Inl IndexError) (Inl IndexError) (Some sample_routing) = (Inl IndexError, Some sample_routing)
    \<and> reload_routing_config (Inr (JObj [])) (Inl IndexError) (Some sample_routing) = (Inl IndexError, None)"
proof -
  obtain cfg where "parse_config (JObj []) = Inr cfg" using sample_empty_config by (auto simp: is_ok_def split: sum.splits)
  with reload_can_lose_config [of "Inl IndexError" "Inl IndexError" "Some sample_routing"]
    reload_can_lose_config [of "Inr (JObj [])" "Inl IndexError" "Some sample_routing"]
  show ?thesis by simp
qed

section \<open>Providers and prices\<close>

text \<open>
  C25. For messages that are objects, the Anthropic adapter sends the non-system messages in
  order, the system texts joined by a blank line in a field of their own exactly when there is
  one, the model without its provider prefix, 4096 tokens when none (or zero) are asked for, and
  temperature and tools only when given.
\<close>

theorem anthropic_request_shape:
  assumes "list_all is_message (uq_messages req)"
  shows "anthropic_complete_kwargs req = Inr
    ([(''model'', JStr (strip_prefix (uq_model req))),
      (''messages'', JList (filter (\<lambda>m. message_role m \<noteq> JStr ''system'') (uq_messages req))),
      (''max_tokens'', JInt (if uq_max_tokens req \<in> {None, Some 0} then 4096 else the (uq_max_tokens req)))]
     @ (let parts = map content_text (filter (\<lambda>m. message_role m = JStr ''system'') (uq_messages req));
            system = py_join [char_of (10 :: nat), char_of (10 :: nat)] parts
        in if parts = [] \<or> system = [] then [] else [(''system'', JStr system)])
     @ when_given ''temperature'' JFloat (uq_temperature req)
     @ when_truthy ''tools'' JList (uq_tools req))"
  using anthropic_kwargs_result [OF assms]
  by (simp add: is_system_def [abs_def] system_prompt_def when_truthy_def Let_def)

lemma anthropic_request_shape_witness:
  "anthropic_complete_kwargs sample_chat = Inr
    [(''model'', JStr ''claude-opus-4-20250514''),
     (''messages'', JList [JObj [(''role'', JStr ''user''), (''content'', JStr ''hi'')]]),
     (''max_tokens'', JInt 4096), (''system'', JStr ''be brief''), (''temperature'', JFloat 1)]"
proof -
  have m: "list_all is_message (uq_messages sample_chat)" by code_simp
  have "strip_prefix (uq_model sample_chat) = ''claude-opus-4-20250514''" by code_simp
  moreover have "filter (\<lambda>m. message_role m \<noteq> JStr ''system'') (uq_messages sample_chat)
      = [JObj [(''role'', JStr ''user''), (''content'', JStr ''hi'')]]"
    "map content_text (filter (\<lambda>m. message_role m = JStr ''system'') (uq_messages sample_chat)) = [''be brief'']"
    by (simp_all add: sample_chat_def message_role_def content_text_def)
  ultimately show ?thesis
    using anthropic_request_shape [OF m] by (simp add: sample_chat_def when_given_def when_truthy_def)
qed

text \<open>
  C26. After the migrations of an empty database, the cached price lookup answers for every
  Gemma and Qwen model with the input and output price of the adapter's own table.
\<close>

theorem seeded_prices_agree:
  assumes "numeric_column num"
    and "run_migration num (initial_upgrade @ pricing_upgrade) empty_catalog = (Inr (), c)"
    and "a = GemmaAdapter \<or> a = QwenAdapter" "adapter_pricing a m = Inr t"
  shows "\<exists>p. fst (pricing_get now m \<lparr>ps_redis = Map.empty, ps_table = pricing_rows c\<rparr>) = Inr (Some p)
    \<and> dec_val (input_per_million p) = dec_val (pt_input t) \<and> dec_val (output_per_million p) = dec_val (pt_output t)
    \<and> cached_input_per_million p = None \<and> reasoning_per_million p = None"
  using seeded_lookup [OF assms] unfolding tier_close_def by blast

lemma seeded_prices_agree_witness:
  "\<exists>c p. run_migration pg_numeric (initial_upgrade @ pricing_upgrade) empty_catalog = (Inr (), c)
    \<and> fst (pricing_get 0 ''qwen/qwen3.6-27b'' \<lparr>ps_redis = Map.empty, ps_table = pricing_rows c\<rparr>) = Inr (Some p)
    \<and> dec_val (output_per_million p) = 6 / 10"
proof -
  obtain c where c: "run_migration pg_numeric (initial_upgrade @ pricing_upgrade) empty_catalog = (Inr (), c)"
    using migrate_empty [OF pg.numeric_column_axioms] by blast
  have q: "adapter_pricing QwenAdapter ''qwen/qwen3.6-27b'' = Inr (tier 20 60)" by code_simp
  have "dec_val (pt_output (tier 20 60)) = 6 / 10" by (simp add: tier_def dec_val_def power_int_def power_divide)
  with seeded_prices_agree [OF pg.numeric_column_axioms c _ q] c show ?thesis by metis
qed

text \<open>
  C27. A price that was cached at time t0 is answered until sixty seconds later, whatever
  happens to the table in between, and from then on the answer is the table's current price; an
  invalidation makes the very next answer current.
\<close>

theorem prices_at_most_a_minute_stale:
  assumes "pricing_ok_state s" "redis_get t0 (cache_ns @ m) s = None"
    and "pricing_get t0 m s = (Inr (Some p), s1)"
    and "ps_redis s2 (cache_ns @ m) = ps_redis s1 (cache_ns @ m)" "pricing_ok_state s2"
  shows "fst (pricing_get t m s2) = Inr (if t < t0 + 60 * 1000000 then Some p else table_price m s2)
    \<and> fst (bind (invalidate m) (\<lambda>_. pricing_get t m) s2) = Inr (table_price m s2)"
  using pricing_staleness [OF assms] invalidate_then_get [OF assms(5)] by (simp add: cache_ttl_def)

lemma prices_at_most_a_minute_stale_witness:
  "\<exists>s1 p. pricing_get 0 ''m'' sample_prices = (Inr (Some p), s1)
    \<and> fst (pricing_get 59999999 ''m'' (s1\<lparr>ps_table := []\<rparr>)) = Inr (Some p)
    \<and> fst (pricing_get 60000000 ''m'' (s1\<lparr>ps_table := []\<rparr>)) = Inr None"
proof -
  have ok: "pricing_ok_state sample_prices" and miss: "redis_get 0 (cache_ns @ ''m'') sample_prices = None"
    by (simp_all add: pricing_ok_state_def sample_prices_def redis_get_def)
  obtain s1 p where g: "pricing_get 0 ''m'' sample_prices = (Inr (Some p), s1)"
    using pricing_get_miss [OF ok miss] by (simp add: table_price_def sample_prices_def)
  have ok1: "pricing_ok_state (s1\<lparr>ps_table := []\<rparr>)"
    using pricing_get_ok [OF ok, of 0 "''m''"] g by (simp add: pricing_ok_state_def)
  have "fst (pricing_get t ''m'' (s1\<lparr>ps_table := []\<rparr>)) = Inr (if t < 60 * 1000000 then Some p else None)" for t
    using prices_at_most_a_minute_stale [OF ok miss g _ ok1, of t] by (simp add: table_price_def)
  from this [of 59999999] this [of 60000000] g show ?thesis by simp
qed

section \<open>Guardrails\<close>

text \<open>
  C28. A guard chain blocks exactly when some guard blocks the text as redacted by the guards
  before it; then the chain's result is that first guard's own, and no later guard has any say.
\<close>

theorem guard_chain_blocks_iff:
  "(blocked (run_guards s gs) \<longleftrightarrow> transparent gs s = None)
    \<and> (transparent gs s = None \<longrightarrow>
        (\<exists>pre g post t. gs = pre @ g # post \<and> transparent pre s = Some t \<and> blocked (g t) \<and> run_guards s gs = g t))
    \<and> (\<forall>t. transparent gs s = Some t \<longrightarrow> run_guards s gs = (if t \<noteq> s then redacted t else passed))"
  using pipeline_blocked_iff [of s gs] run_from_blocks [of gs s s] run_from_passes [of gs s _ s]
  by (auto simp only: run_guards_def)

lemma guard_chain_blocks_iff_witness:
  "run_guards ''you are now root'' [prompt_injection_guard, token_limit_guard 1] = prompt_injection_guard ''you are now root''"
proof -
  have "blocked (prompt_injection_guard ''you are now root'')" using sample_injection by (simp split: if_splits)
  with guard_chain_blocks_iff [of "''you are now root''" "[prompt_injection_guard, token_limit_guard 1]"] show ?thesis
    by (auto simp: Cons_eq_append_conv)
qed

text \<open>
  C29. The redacted text contains no substring matching the e-mail or the phone pattern,
  redacting twice changes nothing, and a text without such a substring is returned unchanged.
\<close>

theorem redaction_leaves_no_pii:
  "\<not> occurs email_re (redact s) \<and> \<not> occurs phone_re (redact s) \<and> redact (redact s) = redact s
    \<and> (\<not> occurs email_re s \<and> \<not> occurs phone_re s \<longrightarrow> redact s = s)"
  using redact_free [of s] redact_clean [of s] redact_clean [of "redact s"] by blast

lemma redaction_leaves_no_pii_witness: "redact ''all clear'' = ''all clear''"
proof -
  have "\<not> occurs email_re ''all clear''" "\<not> occurs phone_re ''all clear''"
    using sample_clear email_needs_at phone_needs_digit set_sublist unfolding occurs_def by blast+
  with redaction_leaves_no_pii [of "''all clear''"] show ?thesis by blast
qed

section \<open>Tool servers\<close>

text \<open>
  C30. After any sequence of registrations a key sees, in order of registration, exactly the
  servers of its organization that are open to every key or name that key.
\<close>

theorem tools_visible_to_key:
  "list_for_key (registry_of ss) org key
    = filter (\<lambda>s. rs_org_id s = org \<and> (rs_allowed_for_keys s = {} \<or> key \<in> rs_allowed_for_keys s)) ss"
  by (rule list_for_key_spec)

section \<open>Migrations\<close>

text \<open>
  C31. On an empty database both revisions go through, whatever numeric conversion exact on
  cents the server uses: the catalog is well formed and holds exactly the seeded models, running
  the seed again changes nothing, its downgrade gives back the initial schema, and both
  downgrades leave nothing but the two extensions.
\<close>

theorem migrations_round_trip:
  assumes "numeric_column num"
  shows "\<exists>c. run_migration num (initial_upgrade @ pricing_upgrade) empty_catalog = (Inr (), c) \<and> catalog_ok c
    \<and> map p_model_key (pricing_rows c) = map s_model_key seed_rows
    \<and> run_migration num pricing_upgrade c = (Inr (), c)
    \<and> (\<exists>c'. run_migration num pricing_downgrade c = (Inr (), c')
        \<and> run_migration num initial_upgrade empty_catalog = (Inr (), c'))
    \<and> run_migration num (pricing_downgrade @ initial_downgrade) c
        = (Inr (), empty_catalog\<lparr>extensions := [''vector'', ''uuid-ossp'']\<rparr>)"
proof -
  obtain rs where m: "run_migration num (initial_upgrade @ pricing_upgrade) empty_catalog
      = (Inr (), initial_catalog\<lparr>pricing_rows := rs\<rparr>)" "map p_model_key rs = map s_model_key seed_rows"
    using migrate_empty [OF assms] by blast
  have "run_migration num initial_upgrade empty_catalog = (Inr (), initial_catalog)"
    by (simp add: run_migration_def initial_upgrade_result)
  with m migrated_steps [OF assms m(2)] run_migration_ok [OF assms empty_catalog_ok, of "initial_upgrade @ pricing_upgrade"]
  show ?thesis by (intro exI [of _ "initial_catalog\<lparr>pricing_rows := rs\<rparr>"]) simp
qed

lemma migrations_round_trip_witness:
  "\<exists>c. run_migration pg_numeric (initial_upgrade @ pricing_upgrade) empty_catalog = (Inr (), c)
    \<and> map p_model_key (pricing_rows c) = map s_model_key seed_rows"
  using migrations_round_trip [OF pg.numeric_column_axioms] by blast

text \<open>
  C32. The rows the code stores fit the tables the migration makes: starting from rows that do,
  whatever repository calls and payments follow, every stored value has its column's type,
  length, precision and 32-bit range, and no null stands where the column forbids it. The
  declarative models are compared with those tables both ways, by column type, nullability,
  keys, uniqueness, server default and index (the names of constraints apart): known_mismatches
  lists every disagreement (JSON for JSONB, server defaults the models lack, three columns that
  may be null in the database only, two unique indexes that are a constraint and a plain index
  there), and the migration alone has the price table and three indexes.
\<close>

theorem stored_rows_fit_migration:
  assumes "numeric_column (db_numeric env)" "rows_fit initial_catalog db"
  shows "exec_all num initial_upgrade empty_catalog = (Inr (), initial_catalog)
    \<and> rows_fit initial_catalog (snd (perform_all (sql_repositories env now) cs db))
    \<and> rows_fit initial_catalog (snd (apply_credit env org x db))
    \<and> model_mismatches initial_catalog orm_models = known_mismatches
    \<and> only_migrated initial_catalog orm_models =
        [Table ''model_pricing'', Index ''ix_api_keys_org_id'', Index ''ix_model_pricing_provider'',
         Index ''ix_model_pricing_active'']"
  using keepsD [OF perform_all_fits [OF assms(1)] assms(2)] keepsD [OF payment_fits [OF assms(1)] assms(2)]
    initial_upgrade_result orm_mismatches orm_unmodelled by blast

lemma stored_rows_fit_migration_witness:
  "rows_fit initial_catalog sample_db
    \<and> rows_fit initial_catalog (snd (perform_all (sql_repositories sample_env 100)
        [RevokeAKey 3 ''leak'', Deduct 1 \<lparr>amount = Dec 1 0\<rparr>] sample_db))"
  using stored_rows_fit_migration [OF sample_numeric sample_fits] sample_fits by blast

section \<open>Mock provider server\<close>

text \<open>
  C33. A forced status makes exactly one chat completion fail: 429 or a server error is returned
  and counted as a rate limit or as an error, after which the provider is as if healed and only
  the configured error rates decide; any other forced status, a 404 say, is used up without
  being returned.
\<close>

theorem forced_status_once:
  fixes en status
  defines "broken \<equiv> break_provider ''openai'' ''chat'' status en"
  shows "if status = 429 \<or> 500 \<le> status
    then \<exists>body' headers en'. chat_completions cfg d now c m body broken = (Inl (HTTPException status body' headers), en')
      \<and> en' = record_call 0 (status \<noteq> 429) (status = 429) (heal_provider ''openai'' ''chat'' en)
      \<and> maybe_inject_error cfg d' ''openai'' ''chat'' en' = inject_random cfg d' ''openai'' ''chat'' en'
    else chat_completions cfg d now c m body broken
      = chat_completions cfg d now c m body (heal_provider ''openai'' ''chat'' en)"
proof (cases "status = 429 \<or> 500 \<le> status")
  case True
  with chat.forced [of status cfg d now c m body en] inject_after_heal [of cfg d' "''openai''" "''chat''"] show ?thesis
    by (simp add: broken_def openai_provider_def make_openai_error_def)
next
  case False
  with inject_after_break [of cfg d "''openai''" "''chat''" status en] inject_after_plain_heal [of cfg d "''openai''" "''chat''" en]
  show ?thesis by (auto intro!: chat.same_injection simp: broken_def openai_provider_def)
qed

text \<open>
  C34. Whatever provider and control calls reach a freshly started mock server, in any order,
  its counters never show more injected errors and rate limits than requests, the latency total
  is not negative, and every stored override has rates between 0 and 1 and delays that are not
  negative.
\<close>

theorem mock_counters:
  assumes "mock_reachable cfg sv"
  shows "st_errors_injected (en_stats (sv_engine sv)) + st_rate_limits_injected (en_stats (sv_engine sv))
      \<le> st_requests (en_stats (sv_engine sv))
    \<and> 0 \<le> st_latency_total_ms (en_stats (sv_engine sv))
    \<and> scenario_ok (scenario_at p r (sv_engine sv))"
  using mock_reachable_ok [OF assms] by (auto simp: engine_ok_def intro: scenario_at_ok [OF mock_reachable_ok [OF assms]])

lemma mock_counters_witness:
  "\<forall>cfg. mock_reachable cfg sample_mock \<and> scenario_ok (scenario_at ''openai'' ''chat'' (sv_engine sample_mock))
    \<and> sc_error_rate (scenario_at ''openai'' ''chat'' (sv_engine sample_mock)) = Some 1"
proof
  fix cfg
  have r: "mock_reachable cfg sample_mock" unfolding sample_mock_def by (rule mock_more [OF mock_start step_scenario])
  have "sc_error_rate (scenario_at ''openai'' ''chat'' (sv_engine sample_mock)) = Some 1" by code_simp
  with r mock_counters [OF r, of "''openai''" "''chat''"]
  show "mock_reachable cfg sample_mock \<and> scenario_ok (scenario_at ''openai'' ''chat'' (sv_engine sample_mock))
    \<and> sc_error_rate (scenario_at ''openai'' ''chat'' (sv_engine sample_mock)) = Some 1" by blast
qed

section \<open>Gateway and storage\<close>

text \<open>
  C35. For a usable key of an organization that has a balance row, the gateway's ValidateKey
  answers with the key and the unreserved balance exactly when the reservation does not exceed
  the balance, and fails with a ValueError otherwise; RevokeKey reports success for a key that
  does not exist, given a reason that fits its column (500 characters; a longer one is a
  database error even then), and changes no key.
\<close>

theorem gateway_sees_key:
  assumes "db_ok (committed u)" "sql_view (committed u) i = Some k" "usable_at now k"
    and "by_key c_org_id (key_org_id k) (credit_balances (committed u)) = Some r"
    and "sql_view (committed u) j = None" "length reason \<le> 500"
  shows "(if dec_val (c_reserved r) \<le> dec_val (c_available r)
      then \<exists>v p. fst (ValidateKey env now (key_lookup k) u) = Inr v \<and> vk_valid v \<and> vk_key_id v = uuid_str (key_id k)
        \<and> vk_budget v = Some p
        \<and> bp_remaining_credits p = py_float (dec_val (c_available r) - dec_val (c_reserved r))
      else \<exists>m. fst (ValidateKey env now (key_lookup k) u) = Inl (ValueError m))
    \<and> (\<exists>u'. RevokeKey now (uuid_str j) reason u = (Inr True, u') \<and> sql_view (committed u') = sql_view (committed u))"
  using ValidateKey_outcome [OF assms(1,2) refl assms(3,4)] RevokeKey_unknown [OF assms(1,5,6)] by blast

lemma gateway_sees_key_witness:
  "\<exists>m. fst (ValidateKey sample_env 100 ''sk-alpha'' overdrawn_uow) = Inl (ValueError m)"
proof -
  have k: "db_ok (committed overdrawn_uow)" "sql_view (committed overdrawn_uow) 3 = Some sample_key"
    "usable_at 100 sample_key" "sql_view (committed overdrawn_uow) 9 = None"
    by (simp_all add: overdrawn_view overdrawn_ok sample_view usable_at_def sample_key_def)
  have r: "by_key c_org_id (key_org_id sample_key) (credit_balances (committed overdrawn_uow)) = Some overdrawn_row"
    by (simp add: overdrawn_uow_def overdrawn_row_def sample_key_def sample_credit_row_def by_key_def)
  have "\<not> dec_val (c_reserved overdrawn_row) \<le> dec_val (c_available overdrawn_row)"
    by (simp add: overdrawn_row_def sample_credit_row_def dec_val_def power_int_def power_divide)
  with gateway_sees_key [OF k(1-3) r k(4), of "[]" sample_env] show ?thesis by (simp add: sample_key_def)
qed

text \<open>
  C36. The stream adapter behaves, for every sequence of read sizes, like a plain byte sequence
  with a read position; so a client that asks for blocks of any positive size until it gets an
  empty one stops, and has read exactly the chunks of the source in order.
\<close>

theorem upload_reads_everything:
  "reader_reads ns (AsyncIterReader source) = plain_reads ns (concat source)
    \<and> read_all (Suc n) (AsyncIterReader source) = concat source"
  by (simp_all add: reads_refine read_all_contents AsyncIterReader_def contents_def)

text \<open>
  C37. When the server is built at all, every path a generated client stub calls is answered by
  the servicer's method of that name, on the unit of work or the routing configuration of the
  process, and no other path is answered.
\<close>

theorem gateway_calls_reach_servicers:
  assumes "create_server port True True lib (AuthServicer env now) (RoutingServicer strategies file) = Inr server"
  shows "map (\<lambda>(m, path). handler_for (gs_generic_handlers server) path) (AuthServiceStub @ RoutingServiceStub)
      = [Some (ValidateKeyHandler (\<lambda>h. on_uow (ValidateKey env now h))),
         Some (RevokeKeyHandler (\<lambda>i reason. on_uow (RevokeKey now i reason))),
         Some (ResolveModelHandler (\<lambda>hints. on_config (ResolveModel strategies file hints))),
         Some (ProviderScoresHandler (\<lambda>models. on_config (ProviderScores file models)))]
    \<and> {path. handler_for (gs_generic_handlers server) path \<noteq> None} \<subseteq> snd ` set (AuthServiceStub @ RoutingServiceStub)"
  by (rule conjI [OF stub_paths_handled [OF assms, unfolded servicer_methods] answered_paths [OF assms]])

lemma gateway_calls_reach_servicers_witness:
  "\<exists>server. create_server 50051 True True \<lparr>gl_version = ''1.80.0'', gl_is_lower = Some False\<rparr>
      (AuthServicer sample_env 100) (RoutingServicer default_registry (Inl (RuntimeError ''no file''))) = Inr server
    \<and> handler_for (gs_generic_handlers server) ''/openrouter.auth.v1.AuthService/ValidateKey''
      = Some (ValidateKeyHandler (\<lambda>h. on_uow (ValidateKey sample_env 100 h)))"
proof -
  let ?lib = "\<lparr>gl_version = ''1.80.0'', gl_is_lower = Some False\<rparr>"
  let ?r = "create_server 50051 True True ?lib (AuthServicer sample_env 100)
      (RoutingServicer default_registry (Inl (RuntimeError ''no file'')))"
  have "is_ok ?r" by (simp add: create_server_ok_iff)
  then obtain server where s: "?r = Inr server" by (cases ?r) auto
  from conjunct1 [OF gateway_calls_reach_servicers [OF s]] s show ?thesis by (auto simp only: AuthServiceStub_def list.map append.simps list.inject prod.case)
qed

section \<open>Background tasks\<close>

text \<open>
  C38. Asked for a day of the calendar by its ISO text, the daily aggregation counts exactly the
  organizations with a usage record created on that UTC day, once the process has opened a
  database client that the task can use; in a process that has not, such as a Celery worker, it
  raises RuntimeError. The last day of the calendar, 9999-12-31, raises OverflowError in either:
  its end cannot be computed.
\<close>

theorem daily_aggregation:
  assumes "1 \<le> n" "n \<le> max_ordinal"
  shows "aggregate_daily_usage c now (Some (date_isoformat n)) db =
    (if n = max_ordinal then Inl (OverflowError ''date value out of range'')
     else case cl_db c of
       None \<Rightarrow> Inl (RuntimeError ''DB not initialized'')
     | Some _ \<Rightarrow> Inr (card {org. \<exists>r \<in> set (usage_records db). r_org_id r = org
           \<and> r_created_at r div day_us + epoch_ordinal = n}))"
  using assms aggregate_of_day [OF target_day_text [OF assms]] target_day_text [OF assms]
  by (simp add: aggregate_daily_usage_def)

lemma daily_aggregation_witness:
  "aggregate_daily_usage (no_clients\<lparr>cl_db := Some Live\<rparr>) 0 (Some (date_isoformat 719163)) sample_metered = Inr 1
    \<and> aggregate_daily_usage worker_clients 0 (Some (date_isoformat 719163)) sample_metered
      = Inl (RuntimeError ''DB not initialized'')
    \<and> aggregate_daily_usage worker_clients 0 (Some (date_isoformat max_ordinal)) sample_metered
      = Inl (OverflowError ''date value out of range'')"
  using daily_aggregation [of 719163 "no_clients\<lparr>cl_db := Some Live\<rparr>" 0 sample_metered]
    daily_aggregation [of 719163 worker_clients 0 sample_metered]
    daily_aggregation [of max_ordinal worker_clients 0 sample_metered] sample_day_orgs
  by (simp add: max_ordinal_def worker_clients_def no_clients_def)

text \<open>
  C39. Under Celery's documented retry rule an outbound webhook is delivered at the first of its
  eleven attempts that the receiver answers with a 2xx status, provided the earlier ones met
  HTTP errors or other statuses; every attempt carries a signature of exactly the bytes it
  sends.
\<close>

theorem webhook_survives_outage:
  assumes "celery_contract run" "n \<le> 10"
    and "post n (webhook_request hmac sk (now n) url ev payload secret) = Inr status" "200 \<le> status" "status < 300"
    and "\<forall>m < n. case post m (webhook_request hmac sk (now m) url ev payload secret) of
      Inl e \<Rightarrow> is_httpx e | Inr s \<Rightarrow> s < 200 \<or> 300 \<le> s"
  shows "run deliver_options (\<lambda>m. deliver_webhook hmac sk (post m) (now m) url ev payload secret) = (Inr status, n + 1)
    \<and> map_of (wp_headers (webhook_request hmac sk (now m) url ev payload secret)) ''x-or-signature''
      = Some (hmac (case secret of None \<Rightarrow> sk | Some s \<Rightarrow> if s = [] then sk else s)
          (wp_content (webhook_request hmac sk (now m) url ev payload secret)))"
  using webhook_delivered [OF assms(1,2), of post hmac sk now url ev payload secret status, OF assms(3-6)] webhook_signed
  by blast

lemma webhook_survives_outage_witness:
  "run_attempts deliver_options
      (\<lambda>m. deliver_webhook (\<lambda>k b. ''sig'') ''key'' (sample_receiver m) (int m) ''https://r'' ''key.revoked'' [] None)
    = (Inr 204, 3)"
  using webhook_survives_outage [OF run_attempts_contract, of 2 sample_receiver "\<lambda>k b. ''sig''" "''key''" int "''https://r''"
      "''key.revoked''" "[]" None 204]
  by (simp add: sample_receiver_def)

text \<open>
  C40. What Celery's documented retry rule makes of the tasks as they are written. However the
  receiver, the clock and the jitter behave, a webhook delivery pauses at most ten times and
  1023 seconds in all, seventeen minutes and not the ten hours its documentation names, and it
  gives up on an HTTP error only after the tenth retry; a receiver that stays down is waited for
  exactly that long when every pause is as long as it may be. Polling a video never retries
  although 120 retries are allowed, since the body never raises, and the aggregation never
  retries although it sets three, since it names no exception to retry on.
\<close>

theorem retry_windows:
  assumes "timed_contract deliver_run" "timed_contract poll_run" "timed_contract aggregate_run"
  shows "(case deliver_run deliver_options (\<lambda>n. deliver_webhook hmac sk (post n) (now n) url ev payload secret) of
      (outcome, pauses) \<Rightarrow> length pauses \<le> 10 \<and> sum_list pauses \<le> 1023
        \<and> (\<forall>m. outcome = Inl (HttpxError m) \<longrightarrow> length pauses = 10))
    \<and> sum_list (snd (run_pausing (backoff_ceiling deliver_options) deliver_options
        (\<lambda>n. deliver_webhook hmac sk (\<lambda>_. Inl (HttpxError m)) (now n) url ev payload secret))) = 1023
    \<and> poll_run poll_options (\<lambda>n. Inr (poll_video_status job provider_job)) = (Inr (poll_video_status job provider_job), [])
    \<and> aggregate_run aggregate_options (\<lambda>n. task_result (aggregate_daily_usage (c n) (clock n) day (db n)))
      = (task_result (aggregate_daily_usage (c 0) (clock 0) day (db 0)), [])"
  by (intro conjI delivery_window [OF assms(1)] outage_waits polling_runs_once [OF assms(2)]
      aggregation_runs_once [OF assms(3)])

lemma retry_windows_witness:
  "run_pausing (\<lambda>k. k) deliver_options
      (\<lambda>m. deliver_webhook (\<lambda>k b. ''sig'') ''key'' (sample_receiver m) (int m) ''https://r'' ''key.revoked'' [] None)
      = (Inr 204, [0, 1])
    \<and> run_pausing (\<lambda>k. k) aggregate_options (\<lambda>n. task_result (aggregate_daily_usage worker_clients 0 None sample_metered))
      = (task_result (aggregate_daily_usage worker_clients 0 None sample_metered), [])"
proof
  have "run_attempts deliver_options
      (\<lambda>m. deliver_webhook (\<lambda>k b. ''sig'') ''key'' (sample_receiver m) (int m) ''https://r'' ''key.revoked'' [] None)
    = (Inr 204, 3)"
    using webhook_delivered [OF run_attempts_contract, of 2 sample_receiver "\<lambda>k b. ''sig''" "''key''" int "''https://r''"
      "''key.revoked''" "[]" None 204]
    by (simp add: sample_receiver_def)
  then show "run_pausing (\<lambda>k. k) deliver_options
      (\<lambda>m. deliver_webhook (\<lambda>k b. ''sig'') ''key'' (sample_receiver m) (int m) ''https://r'' ''key.revoked'' [] None)
      = (Inr 204, [0, 1])"
    by (simp add: run_pausing_def backoff_ceiling_def deliver_options_def upt_rec)
  show "run_pausing (\<lambda>k. k) aggregate_options (\<lambda>n. task_result (aggregate_daily_usage worker_clients 0 None sample_metered))
      = (task_result (aggregate_daily_usage worker_clients 0 None sample_metered), [])"
    using retry_windows [OF run_pausing_contract run_pausing_contract run_pausing_contract [of "\<lambda>k. k"],
        where c = "\<lambda>_. worker_clients" and clock = "\<lambda>_. 0" and day = None and db = "\<lambda>_. sample_metered"]
    by blast
qed

end
